(* ===== verification/Prelude.thy ===== *)
theory Prelude
  imports Main "HOL-Library.Word"
begin

section \<open>Shared types, automation and generic lemmas\<close>

text \<open>
  The conventions every component uses: byte strings, 64-bit integers with their
  wrap-around, Go's two abnormal outcomes (an error value and a panic), and the lemma
  collections that the component theories extend.

  A Go \<open>*T\<close> is a \<open>T option\<close> (\<open>nil\<close> is \<open>None\<close>), a Go \<open>string\<close> is a HOL
  \<open>string\<close> (both are sequences of bytes), a \<open>[]byte\<close> is a \<open>bytes\<close> value and an
  \<open>int64\<close> (or \<open>int\<close>, 64 bits on the supported platforms) is a HOL \<open>int\<close>, wrapped by
  \<open>wrap64\<close> where a sum or difference can leave the range.
\<close>

type_synonym bytes = "8 word list"
type_synonym error = string

text \<open>Lemmas about what a component's operations leave untouched.\<close>
named_theorems frame_simps

text \<open>Preservation lemmas of the store invariants.\<close>
named_theorems inv_intros

text \<open>Definitions that evaluate a concrete run.\<close>
named_theorems run_simps

subsection \<open>Outcomes\<close>

text \<open>
  A call that returns, or a run-time panic (nil dereference, index out of range, a
  panicking library call) that unwinds to the HTTP server's recovery.
\<close>

datatype 'a outcome = Return 'a | Panic

subsection \<open>Sixty-four bit integers\<close>

definition wrap64 :: "int \<Rightarrow> int" where
  "wrap64 x = (x + 2 ^ 63) mod 2 ^ 64 - 2 ^ 63"

definition in_int64 :: "int \<Rightarrow> bool" where
  "in_int64 x \<longleftrightarrow> - (2 ^ 63) \<le> x \<and> x < 2 ^ 63"

lemma wrap64_id: "in_int64 x \<Longrightarrow> wrap64 x = x"
  by (simp add: wrap64_def in_int64_def)

lemma in_int64_wrap64 [simp]: "in_int64 (wrap64 x)"
  by (simp add: wrap64_def in_int64_def)

text \<open>Difference of two values in range: exact, or off by one whole turn.\<close>

lemma wrap64_cases:
  assumes "- (2 ^ 64) \<le> x" and "x < 2 ^ 64"
  shows "wrap64 x = x \<or> wrap64 x = x - 2 ^ 64 \<or> wrap64 x = x + 2 ^ 64"
proof -
  consider "x < - (2 ^ 63)" | "- (2 ^ 63) \<le> x \<and> x < 2 ^ 63" | "2 ^ 63 \<le> x" by linarith
  then show ?thesis
  proof cases
    case 1
    have "(x + 2 ^ 63) mod 2 ^ 64 = (x + 2 ^ 63 + 2 ^ 64) mod 2 ^ 64"
      by (simp only: mod_add_self2)
    also have "\<dots> = x + 2 ^ 63 + 2 ^ 64" using 1 assms by (intro mod_pos_pos_trivial) auto
    finally show ?thesis by (simp add: wrap64_def)
  next
    case 2
    then show ?thesis by (simp add: wrap64_def)
  next
    case 3
    have "(x + 2 ^ 63) mod 2 ^ 64 = (x + 2 ^ 63 - 2 ^ 64) mod 2 ^ 64"
      by (metis minus_mod_self2)
    also have "\<dots> = x + 2 ^ 63 - 2 ^ 64" using 3 assms by (intro mod_pos_pos_trivial) auto
    finally show ?thesis by (simp add: wrap64_def)
  qed
qed

subsection \<open>Lists\<close>

text \<open>Keys of a table given by a key function are unique.\<close>

definition unique_on :: "('a \<Rightarrow> 'k) \<Rightarrow> 'a list \<Rightarrow> bool" where
  "unique_on k xs \<longleftrightarrow> distinct (map k xs)"

lemma unique_on_Nil [simp]: "unique_on k []"
  by (simp add: unique_on_def)

lemma unique_on_snoc [simp]:
  "unique_on k (xs @ [x]) \<longleftrightarrow> unique_on k xs \<and> k x \<notin> k ` set xs"
  by (auto simp: unique_on_def)

lemma unique_on_filter [intro]: "unique_on k xs \<Longrightarrow> unique_on k (filter P xs)"
  by (simp add: unique_on_def distinct_map_filter)

lemma unique_on_map:
  "(\<And>x. x \<in> set xs \<Longrightarrow> k (f x) = k x) \<Longrightarrow> unique_on k xs \<Longrightarrow> unique_on k (map f xs)"
  by (simp add: unique_on_def comp_def cong: map_cong)

lemma unique_onD:
  "unique_on k xs \<Longrightarrow> x \<in> set xs \<Longrightarrow> y \<in> set xs \<Longrightarrow> k x = k y \<Longrightarrow> x = y"
  by (auto simp: unique_on_def distinct_map inj_on_def)

lemma find_Some_set: "find P xs = Some x \<Longrightarrow> x \<in> set xs \<and> P x"
  by (auto simp: find_Some_iff)

lemma find_unique_on:
  assumes "unique_on k xs" and "x \<in> set xs"
  shows "find (\<lambda>y. k y = k x) xs = Some x"
proof (cases "find (\<lambda>y. k y = k x) xs")
  case None
  with assms show ?thesis by (auto simp: find_None_iff)
next
  case (Some y)
  with assms show ?thesis using unique_onD [of k xs y x] find_Some_set [OF Some] by auto
qed

lemma sorted_map_take: "sorted (map f xs) \<Longrightarrow> sorted (map f (take n xs))"
  by (simp flip: take_map add: sorted_wrt_take)

lemma foldl_frame:
  "(\<And>s x. P (f s x) = P s) \<Longrightarrow> P (foldl f s xs) = P s"
  by (induction xs arbitrary: s) auto

text \<open>Cutting a sorted list at a value: what follows the cut is what exceeds it.\<close>

lemma filter_greater_sorted:
  fixes f :: "'a \<Rightarrow> int"
  assumes "sorted (map f xs)" and "distinct (map f xs)" and "0 < n" and "n \<le> length xs"
  shows "filter (\<lambda>x. f (xs ! (n - 1)) < f x) xs = drop n xs"
proof -
  let ?k = "f (xs ! (n - 1))"
  have split: "xs = take n xs @ drop n xs" by simp
  have le: "f x \<le> ?k" if "x \<in> set (take n xs)" for x
  proof -
    from that obtain i where i: "i < n" "i < length xs" "x = xs ! i"
      by (auto simp: in_set_conv_nth)
    then show ?thesis
      using assms sorted_nth_mono [of "map f xs" i "n - 1"] by simp
  qed
  have gt: "?k < f x" if x: "x \<in> set (drop n xs)" for x
  proof -
    from x obtain j where "j < length (drop n xs)" "x = drop n xs ! j"
      by (auto simp only: in_set_conv_nth)
    then have j: "n + j < length xs" "x = xs ! (n + j)" using assms by auto
    then have "?k \<le> f x"
      using assms sorted_nth_mono [of "map f xs" "n - 1" "n + j"] by simp
    moreover have "?k \<noteq> f x"
      using j assms nth_eq_iff_index_eq [of "map f xs" "n - 1" "n + j"] by auto
    ultimately show ?thesis by simp
  qed
  have "filter (\<lambda>x. ?k < f x) xs
      = filter (\<lambda>x. ?k < f x) (take n xs) @ filter (\<lambda>x. ?k < f x) (drop n xs)"
    by (metis split filter_append)
  also have "filter (\<lambda>x. ?k < f x) (take n xs) = []"
    using le by (auto simp: filter_empty_conv not_less)
  also have "filter (\<lambda>x. ?k < f x) (drop n xs) = drop n xs"
    using gt by (simp add: filter_id_conv)
  finally show ?thesis by simp
qed

end
