(* ===== verification/Go_Std.thy ===== *)
theory Go_Std
  imports Prelude
begin

section \<open>The Go standard library functions the server relies on\<close>

text \<open>
  Definitions of the parts of \<open>strings\<close> and \<open>strconv\<close> that the source calls: splitting,
  trimming, lower-casing and searching of strings, decimal formatting and parsing of
  64-bit integers. Lower-casing and trimming are those of ASCII text (client IDs are
  hexadecimal, and the driver's messages are ASCII). The main fact is that parsing undoes
  formatting (\<open>parse_int_itoa\<close>).
\<close>

subsection \<open>Package strings\<close>

definition lower_char :: "char \<Rightarrow> char" where
  "lower_char c = (if 65 \<le> (of_char c :: nat) \<and> (of_char c :: nat) \<le> 90
     then char_of (of_char c + 32 :: nat) else c)"

definition to_lower :: "string \<Rightarrow> string" where
  "to_lower s = map lower_char s"

definition is_space :: "char \<Rightarrow> bool" where
  "is_space c \<longleftrightarrow> (of_char c :: nat) \<in> {9, 10, 11, 12, 13, 32}"

definition trim_space :: "string \<Rightarrow> string" where
  "trim_space s = rev (dropWhile is_space (rev (dropWhile is_space s)))"

fun split_on :: "char \<Rightarrow> string \<Rightarrow> string list" where
  "split_on c [] = [[]]"
| "split_on c (x # xs) =
     (if x = c then [] # split_on c xs
      else case split_on c xs of [] \<Rightarrow> [[x]] | y # ys \<Rightarrow> (x # y) # ys)"

definition has_prefix :: "string \<Rightarrow> string \<Rightarrow> bool" where
  "has_prefix p s \<longleftrightarrow> take (length p) s = p"

definition trim_prefix :: "string \<Rightarrow> string \<Rightarrow> string" where
  "trim_prefix p s = (if has_prefix p s then drop (length p) s else s)"

fun contains :: "string \<Rightarrow> string \<Rightarrow> bool" where
  "contains sub [] \<longleftrightarrow> sub = []"
| "contains sub (x # xs) \<longleftrightarrow> has_prefix sub (x # xs) \<or> contains sub xs"

lemma split_on_not_Nil [simp]: "split_on c s \<noteq> []"
  by (cases s) (auto split: list.splits)

lemma split_on_no_sep: "x \<in> set (split_on c s) \<Longrightarrow> c \<notin> set x"
proof (induction s arbitrary: x)
  case Nil
  then show ?case by simp
next
  case (Cons y ys)
  show ?case
  proof (cases "split_on c ys")
    case Nil
    then show ?thesis by (simp del: split_on.simps)
  next
    case (Cons z zs)
    with Cons.IH Cons.prems show ?thesis by (auto split: if_splits)
  qed
qed

lemma split_on_id: "c \<notin> set s \<Longrightarrow> split_on c s = [s]"
  by (induction s) auto

lemma split_on_append: "c \<notin> set s \<Longrightarrow> split_on c (s @ c # t) = s # split_on c t"
  by (induction s) auto

lemma to_lower_idem_char: "lower_char (lower_char c) = lower_char c"
proof (cases "65 \<le> (of_char c :: nat) \<and> (of_char c :: nat) \<le> 90")
  case True
  then have "(of_char (char_of (of_char c + 32 :: nat)) :: nat) = of_char c + 32" by simp
  with True show ?thesis by (simp add: lower_char_def)
next
  case False
  then show ?thesis by (auto simp: lower_char_def)
qed

lemma to_lower_idem [simp]: "to_lower (to_lower s) = to_lower s"
  by (simp add: to_lower_def to_lower_idem_char)

subsection \<open>Package strconv\<close>

definition digit_char :: "nat \<Rightarrow> char" where
  "digit_char d = char_of (48 + d)"

definition digit_val :: "char \<Rightarrow> nat option" where
  "digit_val c = (let n = (of_char c :: nat) in if 48 \<le> n \<and> n \<le> 57 then Some (n - 48) else None)"

fun nat_digits :: "nat \<Rightarrow> string" where
  "nat_digits n = (if n < 10 then [digit_char n] else nat_digits (n div 10) @ [digit_char (n mod 10)])"

declare nat_digits.simps [simp del]

text \<open>\<open>strconv.Itoa\<close> and \<open>strconv.FormatInt(_, 10)\<close>.\<close>

definition itoa :: "int \<Rightarrow> string" where
  "itoa x = (if x < 0 then CHR ''-'' # nat_digits (nat (- x)) else nat_digits (nat x))"

definition num_error :: "string \<Rightarrow> string \<Rightarrow> string \<Rightarrow> error" where
  "num_error fname num kind =
     ''strconv.'' @ fname @ '': parsing '' @ [CHR 0x22] @ num @ [CHR 0x22] @ '': '' @ kind"

text \<open>The digit loop of \<open>strconv.ParseUint(_, 10, 64)\<close>.\<close>

fun parse_digits :: "nat \<Rightarrow> string \<Rightarrow> string + nat" where
  "parse_digits n [] = Inr n"
| "parse_digits n (c # cs) =
     (case digit_val c of
        None \<Rightarrow> Inl ''invalid syntax''
      | Some d \<Rightarrow> (if 10 * n + d < 2 ^ 64 then parse_digits (10 * n + d) cs
                   else Inl ''value out of range''))"

text \<open>\<open>strconv.ParseInt(s, 10, 64)\<close>; \<open>strconv.Atoi\<close> is the same under another name.\<close>

definition parse_int :: "string \<Rightarrow> string \<Rightarrow> error + int" where
  "parse_int fname s =
     (let neg = (s \<noteq> [] \<and> hd s = CHR ''-'');
          ds = (if s \<noteq> [] \<and> (hd s = CHR ''-'' \<or> hd s = CHR ''+'') then tl s else s)
      in if ds = [] then Inl (num_error fname s ''invalid syntax'')
         else case parse_digits 0 ds of
           Inl k \<Rightarrow> Inl (num_error fname s k)
         | Inr n \<Rightarrow>
             (if \<not> neg \<and> 2 ^ 63 \<le> n then Inl (num_error fname s ''value out of range'')
              else if neg \<and> 2 ^ 63 < n then Inl (num_error fname s ''value out of range'')
              else Inr (if neg then - int n else int n)))"

definition atoi :: "string \<Rightarrow> error + int" where
  "atoi s = parse_int ''Atoi'' s"

lemma digit_val_char [simp]: "d < 10 \<Longrightarrow> digit_val (digit_char d) = Some d"
  by (simp add: digit_val_def digit_char_def Let_def)

lemma nat_digits_not_Nil [simp]: "nat_digits n \<noteq> []"
  by (subst nat_digits.simps) simp

lemma nat_digits_digits: "c \<in> set (nat_digits n) \<Longrightarrow> \<exists>d < 10. c = digit_char d"
proof (induction n rule: nat_digits.induct)
  case (1 n)
  show ?case
  proof (cases "n < 10")
    case True
    with "1.prems" show ?thesis by (auto simp: nat_digits.simps [of n])
  next
    case False
    with "1.prems" have "c \<in> set (nat_digits (n div 10)) \<or> c = digit_char (n mod 10)"
      by (auto simp: nat_digits.simps [of n])
    then show ?thesis
    proof
      assume "c \<in> set (nat_digits (n div 10))"
      with "1.IH" False show ?thesis by blast
    next
      assume "c = digit_char (n mod 10)"
      then show ?thesis by (intro exI [of _ "n mod 10"]) simp
    qed
  qed
qed

lemma digit_char_not_sign: "d < 10 \<Longrightarrow> digit_char d \<noteq> CHR ''-'' \<and> digit_char d \<noteq> CHR ''+''"
proof -
  assume d: "d < 10"
  then have "digit_val (digit_char d) = Some d" by simp
  moreover have "digit_val (CHR ''-'') = None" "digit_val (CHR ''+'') = None"
    by (simp_all add: digit_val_def)
  ultimately show ?thesis by (metis option.distinct(1))
qed

lemma parse_digits_append:
  "parse_digits n (s @ t) =
     (case parse_digits n s of Inl k \<Rightarrow> Inl k | Inr m \<Rightarrow> parse_digits m t)"
  by (induction n s rule: parse_digits.induct) (auto split: option.splits)

lemma parse_digits_nat_digits: "n < 2 ^ 64 \<Longrightarrow> parse_digits 0 (nat_digits n) = Inr n"
proof (induction n rule: nat_digits.induct)
  case (1 n)
  show ?case
  proof (cases "n < 10")
    case True
    then show ?thesis by (simp add: nat_digits.simps [of n])
  next
    case False
    with 1 have "parse_digits 0 (nat_digits (n div 10)) = Inr (n div 10)" by simp
    moreover have "10 * (n div 10) + n mod 10 = n" by presburger
    ultimately show ?thesis
      using False "1.prems" by (simp add: nat_digits.simps [of n] parse_digits_append)
  qed
qed

lemma hd_nat_digits: "hd (nat_digits n) \<noteq> CHR ''-'' \<and> hd (nat_digits n) \<noteq> CHR ''+''"
proof -
  have "hd (nat_digits n) \<in> set (nat_digits n)" by simp
  then obtain d where "d < 10" and "hd (nat_digits n) = digit_char d"
    using nat_digits_digits by blast
  then show ?thesis using digit_char_not_sign by simp
qed

theorem parse_int_itoa: "in_int64 x \<Longrightarrow> parse_int f (itoa x) = Inr x"
proof (cases "x < 0")
  case True
  assume "in_int64 x"
  with True have "nat (- x) \<le> 2 ^ 63" by (simp add: in_int64_def nat_le_iff)
  with True show ?thesis
    by (simp add: parse_int_def itoa_def parse_digits_nat_digits Let_def)
next
  case False
  assume "in_int64 x"
  with False have "nat x < 2 ^ 63" by (simp add: in_int64_def nat_less_iff)
  with False show ?thesis
    using hd_nat_digits [of "nat x"]
    by (simp add: parse_int_def itoa_def parse_digits_nat_digits Let_def)
qed

lemma itoa_not_Nil [simp]: "itoa x \<noteq> []"
  by (simp add: itoa_def)

lemma itoa_inj: "in_int64 x \<Longrightarrow> in_int64 y \<Longrightarrow> itoa x = itoa y \<longleftrightarrow> x = y"
  by (metis parse_int_itoa sum.inject(2))

lemma atoi_itoa: "in_int64 x \<Longrightarrow> atoi (itoa x) = Inr x"
  by (simp add: atoi_def parse_int_itoa)

end
