(* ===== verification/Varint.thy ===== *)
theory Varint
  imports Prelude
begin

section \<open>Variable-length integers: the progress token's wire form\<close>

text \<open>
  \<open>encoding/binary\<close>'s \<open>PutVarint\<close> and \<open>Varint\<close>, which \<open>command.go\<close> uses to keep a
  modification time in the opaque token of a progress marker. The server always writes
  into a zeroed buffer of \<open>MaxVarintLen64\<close> bytes (\<open>put_token\<close>), so what it sends has
  trailing zeros after the encoded value. Words keep Go's widths: \<open>uint64\<close> is
  \<open>64 word\<close>, a byte is \<open>8 word\<close>.
\<close>

unbundle bit_operations_syntax

definition MaxVarintLen64 :: nat where
  "MaxVarintLen64 = 10"

function put_uvarint :: "64 word \<Rightarrow> bytes" where
  "put_uvarint x =
     (if x < 0x80 then [ucast x] else (ucast x OR 0x80) # put_uvarint (drop_bit 7 x))"
  by pat_completeness auto
termination
proof (relation "measure unat")
  show "wf (measure unat)" by simp
next
  fix x :: "64 word"
  assume "\<not> x < 0x80"
  then have "128 \<le> unat x" by (simp add: word_less_nat_alt not_less)
  then have "drop_bit 7 (unat x) < unat x" by (simp add: drop_bit_eq_div)
  then show "(drop_bit 7 x, x) \<in> measure unat" by (simp only: in_measure unat_drop_bit_eq)
qed

declare put_uvarint.simps [simp del]

definition put_varint :: "int \<Rightarrow> bytes" where
  "put_varint x =
     (let ux = push_bit 1 (word_of_int x :: 64 word)
      in put_uvarint (if x < 0 then NOT ux else ux))"

text \<open>\<open>make([]byte, MaxVarintLen64)\<close> followed by \<open>PutVarint\<close> into it.\<close>

definition put_token :: "int \<Rightarrow> bytes" where
  "put_token x =
     put_varint x @ replicate (MaxVarintLen64 - length (put_varint x)) 0"

fun uvarint_loop :: "nat \<Rightarrow> 64 word \<Rightarrow> nat \<Rightarrow> bytes \<Rightarrow> 64 word \<times> int" where
  "uvarint_loop i x s [] = (0, 0)"
| "uvarint_loop i x s (b # bs) =
     (if i = MaxVarintLen64 then (0, - (int i + 1))
      else if b < 0x80 then
        (if i = MaxVarintLen64 - 1 \<and> b > 1 then (0, - (int i + 1))
         else (x OR push_bit s (ucast b), int i + 1))
      else uvarint_loop (Suc i) (x OR push_bit s (ucast (b AND 0x7f))) (s + 7) bs)"

definition uvarint :: "bytes \<Rightarrow> 64 word \<times> int" where
  "uvarint buf = uvarint_loop 0 0 0 buf"

text \<open>
  The decoded value and the number of bytes read, which is 0 for an empty or unfinished
  buffer and negative on overflow.
\<close>

definition varint :: "bytes \<Rightarrow> int \<times> int" where
  "varint buf =
     (let (ux, n) = uvarint buf;
          x = drop_bit 1 ux
      in (sint (if ux AND 1 \<noteq> 0 then NOT x else x), n))"

subsection \<open>Decoding undoes encoding\<close>

text \<open>
  The bit facts behind the seven-bit groups; the shift of the zigzag step is kept
  general (\<open>k\<close>) so that the simplifier does not turn it into a multiplication.
\<close>

lemma low_or_high: "take_bit 7 v OR push_bit 7 (drop_bit 7 v) = (v :: 64 word)"
proof (rule bit_word_eqI)
  fix n :: nat
  assume n: "n < LENGTH(64)"
  have "7 + (n - 7) = n" if "\<not> n < 7" using that by simp
  with n show "bit (take_bit 7 v OR push_bit 7 (drop_bit 7 v)) n = bit v n"
    by (cases "n < 7") (simp_all add: bit_simps)
qed

lemma low_bits_or_high_bits:
  "push_bit s (v AND 0x7f) OR push_bit (s + 7) (drop_bit 7 v) = push_bit s (v :: 64 word)"
proof -
  have m: "v AND 0x7f = take_bit 7 v"
    by (simp add: take_bit_eq_mask mask_eq_exp_minus_1)
  have "push_bit s (take_bit 7 v OR push_bit 7 (drop_bit 7 v)) = push_bit s v"
    by (simp only: low_or_high)
  then show ?thesis by (simp only: m push_bit_or push_bit_push_bit add.commute)
qed

lemma ucast_small: "(v :: 64 word) < 0x80 \<Longrightarrow> ucast (ucast v :: 8 word) = v"
proof -
  assume "v < 0x80"
  then have "unat v < 128" by (simp add: word_less_nat_alt)
  then have "take_bit 8 (unat v) = unat v" by (intro take_bit_nat_eq_self) simp
  then have "unat (ucast v :: 8 word) = unat v"
    by (simp add: unsigned_ucast_eq flip: unsigned_take_bit_eq)
  then show ?thesis by (simp add: word_unat_eq_iff unsigned_ucast_eq unsigned_take_bit_eq)
qed

lemma bit_0x80: "bit (0x80 :: 8 word) n \<longleftrightarrow> n = 7"
proof -
  have "(0x80 :: 8 word) = push_bit 7 1" by simp
  then show ?thesis by (simp only: bit_push_bit_iff bit_1_iff) auto
qed

lemma ucast_low:
  "ucast ((ucast (v :: 64 word) OR 0x80 :: 8 word) AND 0x7f) = (v AND 0x7f :: 64 word)"
proof (rule bit_word_eqI)
  fix n
  assume "n < LENGTH(64)"
  have m8: "(0x7f :: 8 word) = mask 7" and m64: "(0x7f :: 64 word) = mask 7"
    by (simp_all add: mask_eq_exp_minus_1)
  have "\<not> bit (128 :: 8 word) n" if "n < 7" using that bit_0x80 [of n] by simp
  then show "bit (ucast ((ucast v OR 0x80 :: 8 word) AND 0x7f) :: 64 word) n = bit (v AND 0x7f) n"
    unfolding m8 m64 by (auto simp: bit_simps)
qed

lemma high_bit_set: "\<not> (w OR 0x80 :: 8 word) < 0x80"
proof -
  have "(0x80 :: 8 word) \<le> 0x80 OR w" by (rule le_word_or2 [of "0x80" w, THEN order.trans]) simp
  then show ?thesis by (simp add: or.commute not_less)
qed

lemma unat_drop_7: "unat (drop_bit 7 (x :: 64 word)) = unat x div 2 ^ 7"
  unfolding unat_drop_bit_eq by (simp only: drop_bit_eq_div)

lemma length_put_uvarint:
  "unat x < 2 ^ (7 * Suc k) \<Longrightarrow> length (put_uvarint x) \<le> Suc k"
proof (induction k arbitrary: x)
  case 0
  then have "x < 0x80" by (simp add: word_less_nat_alt)
  then show ?case by (simp add: put_uvarint.simps [of x])
next
  case (Suc k)
  have "(2::nat) ^ (7 * Suc (Suc k)) = 2 ^ (7 * Suc k) * 2 ^ 7"
    by (simp only: power_add [symmetric]) simp
  with Suc.prems have "unat x < 2 ^ (7 * Suc k) * 2 ^ 7" by simp
  then have "unat (drop_bit 7 x) < 2 ^ (7 * Suc k)"
    by (simp only: unat_drop_7 less_mult_imp_div_less)
  then show ?case using Suc.IH by (subst put_uvarint.simps) simp
qed

lemma put_uvarint_le_10: "length (put_uvarint x) \<le> MaxVarintLen64"
proof -
  have "unat x < 2 ^ 64" using unsigned_less [of x] by simp
  also have "(2::nat) ^ 64 \<le> 2 ^ (7 * Suc 9)" by simp
  finally show ?thesis using length_put_uvarint [of x 9] by (simp add: MaxVarintLen64_def)
qed

lemma uvarint_loop_put:
  assumes "unat v < 2 ^ (64 - 7 * i)" and "i < MaxVarintLen64" and "s = 7 * i"
  shows "uvarint_loop i x s (put_uvarint v @ rest)
       = (x OR push_bit s v, int (i + length (put_uvarint v)))"
  using assms
proof (induction v arbitrary: i s x rule: put_uvarint.induct)
  case (1 v)
  have i: "i \<noteq> MaxVarintLen64" using "1.prems" by simp
  show ?case
  proof (cases "v < 0x80")
    case True
    have u: "unat v < 128" using True by (simp add: word_less_nat_alt)
    then have uc: "unat (ucast v :: 8 word) = unat v"
      by (simp add: unsigned_ucast_eq take_bit_nat_eq_self)
    have "\<not> (i = MaxVarintLen64 - 1 \<and> (ucast v :: 8 word) > 1)"
      using "1.prems"(1) by (auto simp: MaxVarintLen64_def word_less_nat_alt uc)
    moreover have "(ucast v :: 8 word) < 0x80" using u by (simp add: word_less_nat_alt uc)
    ultimately show ?thesis
      using i by (simp add: put_uvarint.simps [of v] True ucast_small)
  next
    case False
    let ?v = "drop_bit 7 v"
    have big: "128 \<le> unat v" using False by (simp add: word_less_nat_alt not_less)
    have "i < 9"
    proof (rule ccontr)
      assume "\<not> i < 9"
      then have "i = 9" using "1.prems"(2) by (simp add: MaxVarintLen64_def)
      then show False using "1.prems"(1) big by simp
    qed
    have "64 - 7 * i = 7 + (64 - 7 * Suc i)" using \<open>i < 9\<close> by simp
    with "1.prems"(1) have "unat v < 2 ^ (64 - 7 * Suc i) * 2 ^ 7"
      by (simp only: power_add mult.commute)
    then have "unat ?v < 2 ^ (64 - 7 * Suc i)"
      by (simp only: unat_drop_7 less_mult_imp_div_less)
    then have "uvarint_loop (Suc i) (x OR push_bit s (v AND 0x7f)) (s + 7) (put_uvarint ?v @ rest)
       = ((x OR push_bit s (v AND 0x7f)) OR push_bit (s + 7) ?v, int (Suc i + length (put_uvarint ?v)))"
      using False \<open>i < 9\<close> "1.prems"(3) by (intro "1.IH") (auto simp: MaxVarintLen64_def)
    then show ?thesis
      using i False low_bits_or_high_bits [of s v]
      by (simp add: put_uvarint.simps [of v] high_bit_set ucast_low or.assoc)
  qed
qed

lemma uvarint_put: "uvarint (put_uvarint v @ rest) = (v, int (length (put_uvarint v)))"
proof -
  have "unat v < 2 ^ 64" using unsigned_less [of v] by simp
  then show ?thesis
    by (simp add: uvarint_def uvarint_loop_put MaxVarintLen64_def)
qed

lemma zigzag_drop: "k < 64 \<Longrightarrow> drop_bit k (push_bit k w) = take_bit (64 - k) (w :: 64 word)"
  by (rule bit_word_eqI) (auto simp: bit_simps)

lemma zigzag_drop_not:
  "k < 64 \<Longrightarrow> drop_bit k (NOT (push_bit k w)) = take_bit (64 - k) (NOT (w :: 64 word))"
  by (rule bit_word_eqI) (auto simp: bit_simps)

lemma zigzag_even: "0 < k \<Longrightarrow> push_bit k w AND 1 = (0 :: 64 word)"
  by (rule bit_word_eqI) (auto simp: bit_simps)

lemma zigzag_odd: "0 < k \<Longrightarrow> NOT (push_bit k w) AND 1 = (1 :: 64 word)"
  by (rule bit_word_eqI) (auto simp: bit_simps)

lemma sint_word_of_int: "in_int64 x \<Longrightarrow> sint (word_of_int x :: 64 word) = x"
  by (simp add: in_int64_def signed_of_int signed_take_bit_int_eq_self_iff)

lemma sint_not: "sint (NOT y) = - sint (y :: 64 word) - 1"
proof -
  have "sint (NOT y) = NOT (sint y)" by (rule bit_eqI) (auto simp: bit_simps min_def)
  then show ?thesis by (simp add: not_int_def)
qed

lemma sint_take_63:
  assumes "0 \<le> x" and "in_int64 x"
  shows "sint (take_bit 63 (word_of_int x :: 64 word)) = x"
proof -
  have "take_bit 63 x = x" using assms by (simp add: take_bit_int_eq_self in_int64_def)
  then have "take_bit 63 (word_of_int x :: 64 word) = word_of_int x" by (metis take_bit_of_int)
  then show ?thesis using assms(2) by (simp only: sint_word_of_int)
qed

lemma varint_put_varint:
  assumes "in_int64 x"
  shows "varint (put_varint x @ rest) = (x, int (length (put_varint x)))"
proof (cases "x < 0")
  case False
  have "sint (drop_bit 1 (push_bit 1 (word_of_int x :: 64 word))) = x"
    using sint_take_63 [of x] assms False zigzag_drop [of 1 "word_of_int x"] by simp
  moreover have "push_bit 1 (word_of_int x :: 64 word) AND 1 = 0" by (rule zigzag_even) simp
  ultimately show ?thesis
    using False by (simp only: varint_def put_varint_def uvarint_put Let_def prod.case) simp
next
  case True
  let ?ux = "NOT (push_bit 1 (word_of_int x :: 64 word))"
  have w: "NOT (word_of_int x :: 64 word) = word_of_int (- x - 1)" by (simp add: not_eq_complement)
  have "sint (drop_bit 1 ?ux) = - x - 1"
    using sint_take_63 [of "- x - 1"] assms True zigzag_drop_not [of 1 "word_of_int x"]
    by (simp add: w in_int64_def)
  then have "sint (NOT (drop_bit 1 ?ux)) = x" by (simp only: sint_not)
  moreover have "?ux AND 1 = 1" by (rule zigzag_odd) simp
  ultimately show ?thesis
    using True by (simp only: varint_def put_varint_def uvarint_put Let_def prod.case) simp
qed

lemma length_put_varint: "length (put_varint x) \<le> MaxVarintLen64" "0 < length (put_varint x)"
proof -
  show "length (put_varint x) \<le> MaxVarintLen64"
    by (simp add: put_varint_def put_uvarint_le_10 Let_def)
  show "0 < length (put_varint x)"
    by (simp add: put_varint_def Let_def put_uvarint.simps)
qed

text \<open>
  The two facts the command handlers use: a token the server wrote is \<open>MaxVarintLen64\<close>
  bytes long and is read back as the value that was stored, with a positive byte count.
\<close>

lemma length_put_token [simp]: "length (put_token x) = MaxVarintLen64"
  using length_put_varint [of x] by (simp add: put_token_def)

lemma varint_put_token [simp]:
  "in_int64 x \<Longrightarrow> varint (put_token x) = (x, int (length (put_varint x)))"
  by (simp add: put_token_def varint_put_varint)

end
