(* ===== verification/Sync_Proto.thy ===== *)
theory Sync_Proto
  imports Go_Std Varint
begin

section \<open>The sync protocol's messages\<close>

text \<open>
  The generated Go types of package \<open>sync_pb\<close> that the server reads or writes: the two
  enumerations it answers with, the request and response messages, the sync entity and
  the oneof of its specifics. Every optional field is an \<open>option\<close>; a repeated field whose
  \<open>nil\<close>-ness the code tests is an optional list. Field names keep a prefix for their
  message, because Go scopes field names by struct and HOL does not. A sub-message the
  server never looks into (debug information, caller information, the payload of the
  specifics) is kept as an opaque byte string.
\<close>

type_synonym opaque = bytes

subsection \<open>Enumerations\<close>

datatype SyncEnums_ErrorType =
    SyncEnums_SUCCESS | SyncEnums_NOT_MY_BIRTHDAY | SyncEnums_THROTTLED
  | SyncEnums_TRANSIENT_ERROR | SyncEnums_MIGRATION_DONE | SyncEnums_DISABLED_BY_ADMIN
  | SyncEnums_PARTIAL_FAILURE | SyncEnums_CLIENT_DATA_OBSOLETE
  | SyncEnums_ENCRYPTION_OBSOLETE | SyncEnums_UNKNOWN

datatype SyncEnums_GetUpdatesOrigin =
    SyncEnums_UNKNOWN_ORIGIN | SyncEnums_PERIODIC | SyncEnums_NEWLY_SUPPORTED_DATATYPE
  | SyncEnums_MIGRATION | SyncEnums_NEW_CLIENT | SyncEnums_RECONFIGURATION
  | SyncEnums_GU_TRIGGER | SyncEnums_RETRY | SyncEnums_PROGRAMMATIC

datatype ClientToServerMessage_Contents =
    COMMIT | GET_UPDATES | DEPRECATED_3 | DEPRECATED_4 | CLEAR_SERVER_DATA

datatype CommitResponse_ResponseType =
    CommitResponse_SUCCESS | CommitResponse_CONFLICT | CommitResponse_RETRY
  | CommitResponse_INVALID_MESSAGE | CommitResponse_OVER_QUOTA
  | CommitResponse_TRANSIENT_ERROR

subsection \<open>The specifics of an entity\<close>

text \<open>
  \<open>isEntitySpecifics_SpecificsVariant\<close>: the wrapper types of the oneof, one per data
  type, and the \<open>protobuf\<close> struct tag of the single field each wrapper has. The data
  type of an entity is read off that tag by reflection.
\<close>

datatype (plugins only: code) specifics_variant =
    V_Autofill | V_Bookmark | V_Preference | V_TypedUrl | V_Theme | V_Password | V_Nigori
  | V_Extension | V_App | V_Session | V_AutofillProfile | V_SearchEngine
  | V_ExtensionSetting | V_AppSetting | V_HistoryDeleteDirective | V_DeviceInfo
  | V_PriorityPreference | V_Dictionary | V_ManagedUserSetting | V_AppList
  | V_AutofillWallet | V_WalletMetadata | V_ArcPackage | V_Printer | V_ReadingList
  | V_UserEvent | V_UserConsent | V_SendTabToSelf | V_SecurityEvent | V_WebApk | V_WebApp
  | V_WifiConfiguration | V_OsPreference | V_OsPriorityPreference | V_SharingMessage
  | V_AutofillOffer | V_WorkspaceDesk | V_WebauthnCredential | V_History
  | V_PrintersAuthorizationServer | V_SavedTabGroup | V_AutofillWalletUsage | V_ContactInfo
  | V_Segmentation | V_PowerBookmark | V_IncomingPasswordSharingInvitation
  | V_OutgoingPasswordSharingInvitation | V_AutofillWalletCredential | V_SharedTabGroupData
  | V_CollaborationGroup | V_Compare | V_PlusAddress | V_AppNotification
  | V_SyncedNotification | V_SyncedNotificationAppInfo | V_Experiments | V_FaviconTracking
  | V_FaviconImage | V_ManagedUser | V_ManagedUserSharedSetting | V_ManagedUserAllowlist

primrec variant_struct_tag :: "specifics_variant \<Rightarrow> string" where
  "variant_struct_tag V_Autofill = ''bytes,31729,opt,name=autofill,oneof''"
| "variant_struct_tag V_Bookmark = ''bytes,32904,opt,name=bookmark,oneof''"
| "variant_struct_tag V_Preference = ''bytes,37702,opt,name=preference,oneof''"
| "variant_struct_tag V_TypedUrl = ''bytes,40781,opt,name=typed_url,json=typedUrl,oneof''"
| "variant_struct_tag V_Theme = ''bytes,41210,opt,name=theme,oneof''"
| "variant_struct_tag V_Password = ''bytes,45873,opt,name=password,oneof''"
| "variant_struct_tag V_Nigori = ''bytes,47745,opt,name=nigori,oneof''"
| "variant_struct_tag V_Extension = ''bytes,48119,opt,name=extension,oneof''"
| "variant_struct_tag V_App = ''bytes,48364,opt,name=app,oneof''"
| "variant_struct_tag V_Session = ''bytes,50119,opt,name=session,oneof''"
| "variant_struct_tag V_AutofillProfile =
     ''bytes,63951,opt,name=autofill_profile,json=autofillProfile,oneof''"
| "variant_struct_tag V_SearchEngine =
     ''bytes,88610,opt,name=search_engine,json=searchEngine,oneof''"
| "variant_struct_tag V_ExtensionSetting =
     ''bytes,96159,opt,name=extension_setting,json=extensionSetting,oneof''"
| "variant_struct_tag V_AppSetting = ''bytes,103656,opt,name=app_setting,json=appSetting,oneof''"
| "variant_struct_tag V_HistoryDeleteDirective =
     ''bytes,150251,opt,name=history_delete_directive,json=historyDeleteDirective,oneof''"
| "variant_struct_tag V_DeviceInfo = ''bytes,154522,opt,name=device_info,json=deviceInfo,oneof''"
| "variant_struct_tag V_PriorityPreference =
     ''bytes,163425,opt,name=priority_preference,json=priorityPreference,oneof''"
| "variant_struct_tag V_Dictionary = ''bytes,170540,opt,name=dictionary,oneof''"
| "variant_struct_tag V_ManagedUserSetting =
     ''bytes,186662,opt,name=managed_user_setting,json=managedUserSetting,oneof''"
| "variant_struct_tag V_AppList = ''bytes,229170,opt,name=app_list,json=appList,oneof''"
| "variant_struct_tag V_AutofillWallet =
     ''bytes,306270,opt,name=autofill_wallet,json=autofillWallet,oneof''"
| "variant_struct_tag V_WalletMetadata =
     ''bytes,330441,opt,name=wallet_metadata,json=walletMetadata,oneof''"
| "variant_struct_tag V_ArcPackage = ''bytes,340906,opt,name=arc_package,json=arcPackage,oneof''"
| "variant_struct_tag V_Printer = ''bytes,410745,opt,name=printer,oneof''"
| "variant_struct_tag V_ReadingList =
     ''bytes,411028,opt,name=reading_list,json=readingList,oneof''"
| "variant_struct_tag V_UserEvent = ''bytes,455206,opt,name=user_event,json=userEvent,oneof''"
| "variant_struct_tag V_UserConsent =
     ''bytes,556014,opt,name=user_consent,json=userConsent,oneof''"
| "variant_struct_tag V_SendTabToSelf =
     ''bytes,601980,opt,name=send_tab_to_self,json=sendTabToSelf,oneof''"
| "variant_struct_tag V_SecurityEvent =
     ''bytes,600372,opt,name=security_event,json=securityEvent,oneof''"
| "variant_struct_tag V_WebApk = ''bytes,1117170,opt,name=web_apk,json=webApk,oneof''"
| "variant_struct_tag V_WebApp = ''bytes,673225,opt,name=web_app,json=webApp,oneof''"
| "variant_struct_tag V_WifiConfiguration =
     ''bytes,662827,opt,name=wifi_configuration,json=wifiConfiguration,oneof''"
| "variant_struct_tag V_OsPreference =
     ''bytes,702141,opt,name=os_preference,json=osPreference,oneof''"
| "variant_struct_tag V_OsPriorityPreference =
     ''bytes,703915,opt,name=os_priority_preference,json=osPriorityPreference,oneof''"
| "variant_struct_tag V_SharingMessage =
     ''bytes,728866,opt,name=sharing_message,json=sharingMessage,oneof''"
| "variant_struct_tag V_AutofillOffer =
     ''bytes,774329,opt,name=autofill_offer,json=autofillOffer,oneof''"
| "variant_struct_tag V_WorkspaceDesk =
     ''bytes,874841,opt,name=workspace_desk,json=workspaceDesk,oneof''"
| "variant_struct_tag V_WebauthnCredential =
     ''bytes,895275,opt,name=webauthn_credential,json=webauthnCredential,oneof''"
| "variant_struct_tag V_History = ''bytes,963985,opt,name=history,oneof''"
| "variant_struct_tag V_PrintersAuthorizationServer =
     ''bytes,974304,opt,name=printers_authorization_server,json=printersAuthorizationServer,oneof''"
| "variant_struct_tag V_SavedTabGroup =
     ''bytes,1004874,opt,name=saved_tab_group,json=savedTabGroup,oneof''"
| "variant_struct_tag V_AutofillWalletUsage =
     ''bytes,1033580,opt,name=autofill_wallet_usage,json=autofillWalletUsage,oneof''"
| "variant_struct_tag V_ContactInfo =
     ''bytes,1034378,opt,name=contact_info,json=contactInfo,oneof''"
| "variant_struct_tag V_Segmentation = ''bytes,1026052,opt,name=segmentation,oneof''"
| "variant_struct_tag V_PowerBookmark =
     ''bytes,1073150,opt,name=power_bookmark,json=powerBookmark,oneof''"
| "variant_struct_tag V_IncomingPasswordSharingInvitation =
     ''bytes,1141935,opt,name=incoming_password_sharing_invitation,json=incomingPasswordSharingInvitation,oneof''"
| "variant_struct_tag V_OutgoingPasswordSharingInvitation =
     ''bytes,1142081,opt,name=outgoing_password_sharing_invitation,json=outgoingPasswordSharingInvitation,oneof''"
| "variant_struct_tag V_AutofillWalletCredential =
     ''bytes,1164238,opt,name=autofill_wallet_credential,json=autofillWalletCredential,oneof''"
| "variant_struct_tag V_SharedTabGroupData =
     ''bytes,1239418,opt,name=shared_tab_group_data,json=sharedTabGroupData,oneof''"
| "variant_struct_tag V_CollaborationGroup =
     ''bytes,1259076,opt,name=collaboration_group,json=collaborationGroup,oneof''"
| "variant_struct_tag V_Compare = ''bytes,1329438,opt,name=compare,oneof''"
| "variant_struct_tag V_PlusAddress =
     ''bytes,1267844,opt,name=plus_address,json=plusAddress,oneof''"
| "variant_struct_tag V_AppNotification =
     ''bytes,45184,opt,name=app_notification,json=appNotification,oneof''"
| "variant_struct_tag V_SyncedNotification =
     ''bytes,153108,opt,name=synced_notification,json=syncedNotification,oneof''"
| "variant_struct_tag V_SyncedNotificationAppInfo =
     ''bytes,235816,opt,name=synced_notification_app_info,json=syncedNotificationAppInfo,oneof''"
| "variant_struct_tag V_Experiments = ''bytes,161496,opt,name=experiments,oneof''"
| "variant_struct_tag V_FaviconTracking =
     ''bytes,181534,opt,name=favicon_tracking,json=faviconTracking,oneof''"
| "variant_struct_tag V_FaviconImage =
     ''bytes,182019,opt,name=favicon_image,json=faviconImage,oneof''"
| "variant_struct_tag V_ManagedUser =
     ''bytes,194582,opt,name=managed_user,json=managedUser,oneof''"
| "variant_struct_tag V_ManagedUserSharedSetting =
     ''bytes,202026,opt,name=managed_user_shared_setting,json=managedUserSharedSetting,oneof''"
| "variant_struct_tag V_ManagedUserAllowlist =
     ''bytes,306060,opt,name=managed_user_allowlist,json=managedUserAllowlist,oneof''"

record EntitySpecifics =
  Encrypted :: "opaque option"
  SpecificsVariant :: "(specifics_variant \<times> opaque) option"

record UniquePosition =
  up_Value :: "bytes option"
  up_CompressedValue :: "bytes option"
  up_UncompressedLength :: "64 word option"
  up_CustomCompressedV1 :: "bytes option"

record PbSyncEntity =
  pb_IdString :: "string option"
  pb_ParentIdString :: "string option"
  pb_Version :: "int option"
  pb_Mtime :: "int option"
  pb_Ctime :: "int option"
  pb_Name :: "string option"
  pb_NonUniqueName :: "string option"
  pb_ServerDefinedUniqueTag :: "string option"
  pb_PositionInParent :: "int option"
  pb_InsertAfterItemId :: "string option"
  pb_Deleted :: "bool option"
  pb_OriginatorCacheGuid :: "string option"
  pb_OriginatorClientItemId :: "string option"
  pb_Specifics :: "EntitySpecifics option"
  pb_Folder :: "bool option"
  pb_ClientTagHash :: "string option"
  pb_UniquePosition :: "UniquePosition option"
  pb_Collaboration :: "opaque option"

text \<open>A message with no field set, \<open>&sync_pb.SyncEntity{}\<close>.\<close>

definition empty_PbSyncEntity :: PbSyncEntity where
  "empty_PbSyncEntity =
     \<lparr> pb_IdString = None, pb_ParentIdString = None, pb_Version = None, pb_Mtime = None,
       pb_Ctime = None, pb_Name = None, pb_NonUniqueName = None,
       pb_ServerDefinedUniqueTag = None, pb_PositionInParent = None,
       pb_InsertAfterItemId = None, pb_Deleted = None, pb_OriginatorCacheGuid = None,
       pb_OriginatorClientItemId = None, pb_Specifics = None, pb_Folder = None,
       pb_ClientTagHash = None, pb_UniquePosition = None, pb_Collaboration = None \<rparr>"

subsection \<open>Requests\<close>

record DataTypeProgressMarker =
  DataTypeId :: "int option"
  Token :: "bytes option"
  GetUpdateTriggers :: "opaque option"
  GcDirective :: "opaque option"

record GetUpdatesMessage =
  CallerInfo :: "opaque option"
  FetchFolders :: "bool option"
  FromProgressMarker :: "DataTypeProgressMarker list option"
  Streaming :: "bool option"
  NeedEncryptionKey :: "bool option"
  GetUpdatesOrigin :: "SyncEnums_GetUpdatesOrigin option"
  IsRetry :: "bool option"
  gum_ClientContexts :: "opaque list"

record CommitMessage =
  cm_Entries :: "PbSyncEntity option list option"
  CacheGuid :: "string option"
  ExtensionsActivity :: "opaque list"
  ConfigParams :: "opaque option"
  cm_ClientContexts :: "opaque list"
  Padding :: "string option"

record ClientToServerMessage =
  Share :: "string option"
  ProtocolVersion :: "int option"
  MessageContents :: "ClientToServerMessage_Contents option"
  csm_Commit :: "CommitMessage option"
  csm_GetUpdates :: "GetUpdatesMessage option"
  csm_StoreBirthday :: "string option"
  DebugInfo :: "opaque option"
  BagOfChips :: "opaque option"
  ApiKey :: "string option"
  csm_ClientStatus :: "opaque option"
  InvalidatorClientId :: "string option"
  csm_ClearServerData :: "opaque option"

subsection \<open>Responses\<close>

record EntryResponse =
  ResponseType :: "CommitResponse_ResponseType option"
  er_IdString :: "string option"
  er_Version :: "int option"
  er_ErrorMessage :: "string option"
  er_Mtime :: "int option"

definition empty_EntryResponse :: EntryResponse where
  "empty_EntryResponse =
     \<lparr> ResponseType = None, er_IdString = None, er_Version = None, er_ErrorMessage = None,
       er_Mtime = None \<rparr>"

text \<open>An element of \<open>Entryresponse\<close> is \<open>nil\<close> until the loop has reached its entry.\<close>

record CommitResponse =
  Entryresponse :: "EntryResponse option list"

record GetUpdatesResponse =
  gur_Entries :: "PbSyncEntity list"
  ChangesRemaining :: "int option"
  NewProgressMarker :: "DataTypeProgressMarker option list"
  EncryptionKeys :: "bytes list"
  ContextMutations :: "opaque list"

definition empty_GetUpdatesResponse :: GetUpdatesResponse where
  "empty_GetUpdatesResponse =
     \<lparr> gur_Entries = [], ChangesRemaining = None, NewProgressMarker = [], EncryptionKeys = [],
       ContextMutations = [] \<rparr>"

record ClientCommand =
  SetSyncPollInterval :: "int option"
  MaxCommitBatchSize :: "int option"

record ClientToServerResponse =
  csr_Commit :: "CommitResponse option"
  csr_GetUpdates :: "GetUpdatesResponse option"
  ErrorCode :: "SyncEnums_ErrorType option"
  csr_ErrorMessage :: "string option"
  csr_StoreBirthday :: "string option"
  csr_ClientCommand :: "ClientCommand option"
  csr_ClearServerData :: "unit option"

definition empty_ClientToServerResponse :: ClientToServerResponse where
  "empty_ClientToServerResponse =
     \<lparr> csr_Commit = None, csr_GetUpdates = None, ErrorCode = None, csr_ErrorMessage = None,
       csr_StoreBirthday = None, csr_ClientCommand = None, csr_ClearServerData = None \<rparr>"

end
