(* ===== verification/Environment.thy ===== *)
theory Environment
  imports Sync_Proto
begin

section \<open>The server's surroundings\<close>

text \<open>
  Everything the code takes from outside: the package variables (quotas, batch size, the
  client IDs with a higher device limit), the clock, the UUID generator, the SQL driver's
  failures, the protobuf codec, and the order in which Go's randomised map iteration
  visits keys. The clock, the UUIDs and the failures are functions of a step number that
  every operation advances each time it consults one of them, so nothing relates two
  readings and a theorem about an arbitrary \<open>env\<close> covers every behaviour they can show.
\<close>

record env =
  maxGUBatchSize :: int
  maxClientObjectQuota :: int
  maxClientHistoryObjectQuota :: int
  highDeviceLimitClientIDs :: "string list"
  now_ns :: "nat \<Rightarrow> int"
  new_uuid :: "nat \<Rightarrow> string"
  db_fault :: "nat \<Rightarrow> error option"
  constraint_msg :: error
  marshal_specifics :: "EntitySpecifics \<Rightarrow> error + bytes"
  unmarshal_specifics :: "bytes \<Rightarrow> error + EntitySpecifics"
  marshal_position :: "UniquePosition \<Rightarrow> error + bytes"
  unmarshal_position :: "bytes \<Rightarrow> error + UniquePosition"
  order_types :: "int list \<Rightarrow> int list"
  order_names :: "string list \<Rightarrow> string list"

text \<open>\<open>time.Now().UnixMilli()\<close> and \<open>time.Now().Unix()\<close> of the reading at step \<open>n\<close>.\<close>

definition unix_milli :: "env \<Rightarrow> nat \<Rightarrow> int" where
  "unix_milli E n = now_ns E n div 1000000"

definition unix_secs :: "env \<Rightarrow> nat \<Rightarrow> int" where
  "unix_secs E n = now_ns E n div 1000000000"

text \<open>What the code relies on: decoding undoes encoding.\<close>

definition codec_ok :: "env \<Rightarrow> bool" where
  "codec_ok E \<longleftrightarrow>
     (\<forall>x b. marshal_specifics E x = Inr b \<longrightarrow> unmarshal_specifics E b = Inr x) \<and>
     (\<forall>x b. marshal_position E x = Inr b \<longrightarrow> unmarshal_position E b = Inr x)"

text \<open>Map iteration visits every key once, in some order.\<close>

definition map_order_ok :: "env \<Rightarrow> bool" where
  "map_order_ok E \<longleftrightarrow>
     (\<forall>ks. distinct ks \<longrightarrow> distinct (order_types E ks) \<and> set (order_types E ks) = set ks) \<and>
     (\<forall>ks. distinct ks \<longrightarrow> distinct (order_names E ks) \<and> set (order_names E ks) = set ks)"

text \<open>Clock readings are past the epoch and representable.\<close>

definition clock_ok :: "env \<Rightarrow> bool" where
  "clock_ok E \<longleftrightarrow> (\<forall>n. 1000000 \<le> now_ns E n \<and> now_ns E n < 2 ^ 63)"

lemma clock_ok_milli:
  assumes "clock_ok E"
  shows "0 < unix_milli E n" and "in_int64 (unix_milli E n)"
proof -
  have b: "1000000 \<le> now_ns E n" "now_ns E n < 2 ^ 63"
    using assms by (auto simp: clock_ok_def)
  then have "0 < now_ns E n div 1000000" by (simp add: pos_imp_zdiv_pos_iff)
  moreover have "now_ns E n div 1000000 \<le> now_ns E n div 1" using b by (intro zdiv_mono2) auto
  ultimately show "0 < unix_milli E n" and "in_int64 (unix_milli E n)"
    using b by (simp_all add: unix_milli_def in_int64_def)
qed

subsection \<open>The state of a running server\<close>

text \<open>
  The handle of the data store, the handle of the cache, and the step number. A data
  store operation maps the store and the step number to a result, the store and the step
  number; \<open>on_db\<close> and \<open>on_kv\<close> run one on the whole state.
\<close>

type_synonym ('s, 'r) op = "'s \<Rightarrow> nat \<Rightarrow> 'r \<times> 's \<times> nat"

text \<open>What a request handler returns besides its response: the error code and the error.\<close>

type_synonym reply = "SyncEnums_ErrorType option \<times> error option"

record ('d, 'c) sys =
  db :: 'd
  kv :: 'c
  seq :: nat

definition on_db :: "('d, 'r) op \<Rightarrow> ('d, 'c) sys \<Rightarrow> 'r \<times> ('d, 'c) sys" where
  "on_db f s = (case f (db s) (seq s) of (r, d, n) \<Rightarrow> (r, s\<lparr>db := d, seq := n\<rparr>))"

definition on_kv :: "('c, 'r) op \<Rightarrow> ('d, 'c) sys \<Rightarrow> 'r \<times> ('d, 'c) sys" where
  "on_kv f s = (case f (kv s) (seq s) of (r, c, n) \<Rightarrow> (r, s\<lparr>kv := c, seq := n\<rparr>))"

lemma on_kv_db: "on_kv f s = (r, s') \<Longrightarrow> db s' = db s"
  by (auto simp: on_kv_def split: prod.splits)

lemma on_db_kv: "on_db f s = (r, s') \<Longrightarrow> kv s' = kv s"
  by (auto simp: on_db_def split: prod.splits)

lemma on_db_db: "on_db f s = (r, s') \<Longrightarrow> \<exists>n. f (db s) (seq s) = (r, db s', n)"
  by (auto simp: on_db_def split: prod.splits)

end
