(* ===== verification/Redis_Client.thy ===== *)
theory Redis_Client
  imports Environment
begin

section \<open>The RedisClient interface (cache/redis.go)\<close>

text \<open>
  A Go interface value is a table of methods: \<open>redis_client\<close> is the table, over the type
  of the implementation's state. The locale \<open>redis\_contract\<close> states what a client of the
  interface relies on, over a view \<open>live\<close> of the stored values: \<open>live c t k\<close> is the value
  of key \<open>k\<close> at time \<open>t\<close> (in nanoseconds), if it has one that has not expired by then.
\<close>

record 'c redis_client =
  rc_Set :: "env \<Rightarrow> string \<Rightarrow> string \<Rightarrow> int \<Rightarrow> ('c, error option) op"
  rc_Incr :: "env \<Rightarrow> string \<Rightarrow> bool \<Rightarrow> ('c, error + int) op"
  rc_Get :: "env \<Rightarrow> string \<Rightarrow> bool \<Rightarrow> ('c, error + string) op"
  rc_Del :: "env \<Rightarrow> string list \<Rightarrow> ('c, error option) op"
  rc_FlushAll :: "env \<Rightarrow> ('c, error option) op"

text \<open>What \<open>Incr\<close> answers for a key's current value.\<close>

definition incr_value :: "string option \<Rightarrow> bool \<Rightarrow> error + int" where
  "incr_value v subtract =
     (case (case v of None \<Rightarrow> Inr 0 | Some s \<Rightarrow> atoi s) of
        Inl err \<Rightarrow> Inl err
      | Inr current \<Rightarrow> Inr (wrap64 (if subtract then current - 1 else current + 1)))"

locale redis_contract =
  fixes rc :: "'c redis_client"
    and live :: "'c \<Rightarrow> int \<Rightarrow> string \<Rightarrow> string option"
  assumes get_value: "rc_Get rc E k del c n = (r, c', n') \<Longrightarrow>
      r = Inr (case live c (now_ns E n) k of None \<Rightarrow> '''' | Some v \<Rightarrow> v)"
    and get_live: "rc_Get rc E k del c n = (r, c', n') \<Longrightarrow> now_ns E n \<le> t \<Longrightarrow>
      live c' t j = (if del \<and> j = k then None else live c t j)"
    and set_ok: "rc_Set rc E k v ttl c n = (res, c', n') \<Longrightarrow> res = None"
    and set_live: "rc_Set rc E k v ttl c n = (res, c', n') \<Longrightarrow>
      live c' t j = (if j = k then (if ttl \<le> 0 \<or> t \<le> now_ns E n + ttl then Some v else None)
                     else live c t j)"
    and incr_result: "rc_Incr rc E k subtract c n = (count, c', n') \<Longrightarrow>
      count = incr_value (live c (now_ns E n) k) subtract"
    and incr_other: "rc_Incr rc E k subtract c n = (count, c', n') \<Longrightarrow> j \<noteq> k \<Longrightarrow> now_ns E n \<le> t \<Longrightarrow>
      live c' t j = live c t j"
    and incr_live: "rc_Incr rc E k subtract c n = (Inr x, c', n') \<Longrightarrow>
      \<forall>t \<ge> now_ns E n. live c t k = live c (now_ns E n) k \<Longrightarrow> now_ns E n \<le> t \<Longrightarrow>
      live c' t k = Some (itoa x)"
    and get_seq: "rc_Get rc E k del c n = (r, c', n') \<Longrightarrow> n \<le> n'"
    and set_seq: "rc_Set rc E k v ttl c n = (res, c', n') \<Longrightarrow> n \<le> n'"
    and incr_seq: "rc_Incr rc E k subtract c n = (count, c', n') \<Longrightarrow> n \<le> n'"
    and del_seq: "rc_Del rc E ks c n = (res, c', n') \<Longrightarrow> n \<le> n'"
    and del_live: "rc_Del rc E ks c n = (res, c', n') \<Longrightarrow>
      live c' t j = (if j \<in> set ks then None else live c t j)"

end
