(* ===== verification/Memory_Cache.thy ===== *)
theory Memory_Cache
  imports Redis_Client
begin

section \<open>The in-memory cache (sync-lite/memory\_cache.go)\<close>

text \<open>
  sync-lite's stand-in for Redis: a map of values with an optional expiry time. Each
  operation runs under the mutex, so it is one atomic step on the map. The theory ends
  with the interpretation of the \<open>RedisClient\<close> contract.
\<close>

record memoryValue =
  mv_value :: string
  expiresAt :: int
  hasExpiry :: bool

record MemoryRedis =
  mr_kv :: "string \<rightharpoonup> memoryValue"

definition NewMemoryRedis :: MemoryRedis where
  "NewMemoryRedis = \<lparr>mr_kv = Map.empty\<rparr>"

definition mem_Set :: "env \<Rightarrow> string \<Rightarrow> string \<Rightarrow> int \<Rightarrow> (MemoryRedis, error option) op" where
  "mem_Set E key val ttl m n =
     (if 0 < ttl
      then (None, m\<lparr>mr_kv := (mr_kv m)(key \<mapsto>
              \<lparr>mv_value = val, expiresAt = now_ns E n + ttl, hasExpiry = True\<rparr>)\<rparr>, Suc n)
      else (None, m\<lparr>mr_kv := (mr_kv m)(key \<mapsto>
              \<lparr>mv_value = val, expiresAt = 0, hasExpiry = False\<rparr>)\<rparr>, n))"

text \<open>The clock is read only for an entry that can expire.\<close>

definition dropIfExpiredLocked :: "env \<Rightarrow> string \<Rightarrow> MemoryRedis \<Rightarrow> nat \<Rightarrow> MemoryRedis \<times> nat" where
  "dropIfExpiredLocked E key m n =
     (case mr_kv m key of
        None \<Rightarrow> (m, n)
      | Some v \<Rightarrow>
          if \<not> hasExpiry v then (m, n)
          else if expiresAt v < now_ns E n then (m\<lparr>mr_kv := (mr_kv m)(key := None)\<rparr>, Suc n)
          else (m, Suc n))"

definition mem_Incr :: "env \<Rightarrow> string \<Rightarrow> bool \<Rightarrow> (MemoryRedis, error + int) op" where
  "mem_Incr E key subtract m n =
     (case dropIfExpiredLocked E key m n of (m, n) \<Rightarrow>
      (case (case mr_kv m key of None \<Rightarrow> Inr 0 | Some v \<Rightarrow> atoi (mv_value v)) of
         Inl err \<Rightarrow> (Inl err, m, n)
       | Inr current \<Rightarrow>
           (let current = wrap64 (if subtract then current - 1 else current + 1)
            in (Inr current,
                m\<lparr>mr_kv := (mr_kv m)(key \<mapsto>
                  \<lparr>mv_value = itoa current, expiresAt = 0, hasExpiry = False\<rparr>)\<rparr>, n))))"

definition mem_Get :: "env \<Rightarrow> string \<Rightarrow> bool \<Rightarrow> (MemoryRedis, error + string) op" where
  "mem_Get E key deleteAfterGet m n =
     (case dropIfExpiredLocked E key m n of (m, n) \<Rightarrow>
      (case mr_kv m key of
         None \<Rightarrow> (Inr '''', m, n)
       | Some v \<Rightarrow>
           (Inr (mv_value v),
            (if deleteAfterGet then m\<lparr>mr_kv := (mr_kv m)(key := None)\<rparr> else m), n)))"

definition mem_Del :: "env \<Rightarrow> string list \<Rightarrow> (MemoryRedis, error option) op" where
  "mem_Del E keys m n =
     (None, foldl (\<lambda>m key. m\<lparr>mr_kv := (mr_kv m)(key := None)\<rparr>) m keys, n)"

definition mem_FlushAll :: "env \<Rightarrow> (MemoryRedis, error option) op" where
  "mem_FlushAll E m n = (None, m\<lparr>mr_kv := Map.empty\<rparr>, n)"

definition memory_redis :: "MemoryRedis redis_client" where
  "memory_redis =
     \<lparr> rc_Set = mem_Set, rc_Incr = mem_Incr, rc_Get = mem_Get, rc_Del = mem_Del,
       rc_FlushAll = mem_FlushAll \<rparr>"

lemma memory_redis_simps [simp, run_simps]:
  "rc_Set memory_redis = mem_Set" "rc_Incr memory_redis = mem_Incr"
  "rc_Get memory_redis = mem_Get" "rc_Del memory_redis = mem_Del"
  "rc_FlushAll memory_redis = mem_FlushAll"
  by (simp_all add: memory_redis_def)

subsection \<open>The contract holds\<close>

definition mem_live :: "MemoryRedis \<Rightarrow> int \<Rightarrow> string \<Rightarrow> string option" where
  "mem_live m t k =
     (case mr_kv m k of
        None \<Rightarrow> None
      | Some v \<Rightarrow> if hasExpiry v \<and> expiresAt v < t then None else Some (mv_value v))"

lemma drop_live:
  assumes "dropIfExpiredLocked E k m n = (m', n')"
  shows "now_ns E n \<le> t \<Longrightarrow> mem_live m' t j = mem_live m t j"
    and "(case mr_kv m' k of None \<Rightarrow> None | Some v \<Rightarrow> Some (mv_value v)) = mem_live m (now_ns E n) k"
    and "j \<noteq> k \<Longrightarrow> mr_kv m' j = mr_kv m j"
  using assms
  by (auto simp: dropIfExpiredLocked_def mem_live_def split: option.splits if_splits)

lemma drop_seq: "dropIfExpiredLocked E k m n = (m', n') \<Longrightarrow> n \<le> n'"
  by (auto simp: dropIfExpiredLocked_def split: option.splits if_splits)

lemma del_fold: "mr_kv (foldl (\<lambda>m key. m\<lparr>mr_kv := (mr_kv m)(key := None)\<rparr>) m keys) j
    = (if j \<in> set keys then None else mr_kv m j)"
  by (induction keys arbitrary: m) auto

lemma mem_live_upd [simp]:
  "mem_live (m\<lparr>mr_kv := (mr_kv m)(k \<mapsto> v)\<rparr>) t j =
     (if j = k then (if hasExpiry v \<and> expiresAt v < t then None else Some (mv_value v))
      else mem_live m t j)"
  "mem_live (m\<lparr>mr_kv := (mr_kv m)(k := None)\<rparr>) t j = (if j = k then None else mem_live m t j)"
  by (simp_all add: mem_live_def)

lemma mem_Get_spec:
  assumes "mem_Get E k del m n = (r, m', n')"
  shows "r = Inr (case mem_live m (now_ns E n) k of None \<Rightarrow> '''' | Some v \<Rightarrow> v)"
    and "now_ns E n \<le> t \<Longrightarrow> mem_live m' t j = (if del \<and> j = k then None else mem_live m t j)"
proof -
  obtain m1 n1 where d: "dropIfExpiredLocked E k m n = (m1, n1)" by fastforce
  note l = drop_live [OF d]
  show "r = Inr (case mem_live m (now_ns E n) k of None \<Rightarrow> '''' | Some v \<Rightarrow> v)"
    using assms d l(2) by (auto simp: mem_Get_def split: option.splits)
  show "mem_live m' t j = (if del \<and> j = k then None else mem_live m t j)" if t: "now_ns E n \<le> t"
  proof (cases "mr_kv m1 k")
    case None
    with assms d have "m' = m1" by (simp add: mem_Get_def)
    moreover have "mem_live m1 t k = None" using None by (simp add: mem_live_def)
    ultimately show ?thesis using l(1) [OF t] by auto
  next
    case (Some v)
    with assms d l(1) [OF t] show ?thesis by (auto simp: mem_Get_def split: if_splits)
  qed
qed

lemma mem_Incr_spec:
  assumes "mem_Incr E k subtract m n = (r, m', n')"
  shows "r = incr_value (mem_live m (now_ns E n) k) subtract"
    and "j \<noteq> k \<Longrightarrow> now_ns E n \<le> t \<Longrightarrow> mem_live m' t j = mem_live m t j"
    and "r = Inr x \<Longrightarrow> mem_live m' t k = Some (itoa x)"
proof -
  obtain m1 n1 where d: "dropIfExpiredLocked E k m n = (m1, n1)" by fastforce
  note l = drop_live [OF d]
  have e: "(case mr_kv m1 k of None \<Rightarrow> Inr 0 | Some v \<Rightarrow> atoi (mv_value v))
      = (case mem_live m (now_ns E n) k of None \<Rightarrow> Inr 0 | Some s \<Rightarrow> atoi s)"
    by (simp flip: l(2) split: option.splits)
  show "r = incr_value (mem_live m (now_ns E n) k) subtract"
    using assms d e by (auto simp: mem_Incr_def incr_value_def Let_def split: sum.splits)
  show "mem_live m' t j = mem_live m t j" if "j \<noteq> k" "now_ns E n \<le> t"
    using assms d that l(1) [OF that(2)]
    by (auto simp: mem_Incr_def Let_def split: sum.splits option.splits)
  show "mem_live m' t k = Some (itoa x)" if "r = Inr x"
    using assms d that
    by (auto simp: mem_Incr_def Let_def split: sum.splits option.splits)
qed

interpretation memory: redis_contract memory_redis mem_live
proof unfold_locales
  fix E k del c n r c' n' t j
  assume "rc_Get memory_redis E k del c n = (r, c', n')"
  then have g: "mem_Get E k del c n = (r, c', n')" by simp
  show "r = Inr (case mem_live c (now_ns E n) k of None \<Rightarrow> '''' | Some v \<Rightarrow> v)"
    by (rule mem_Get_spec(1) [OF g])
  show "now_ns E n \<le> t \<Longrightarrow> mem_live c' t j = (if del \<and> j = k then None else mem_live c t j)"
    by (rule mem_Get_spec(2) [OF g])
next
  fix E k subtract c n r c' n' t j
  assume "rc_Incr memory_redis E k subtract c n = (r, c', n')"
  then have i: "mem_Incr E k subtract c n = (r, c', n')" by simp
  show "r = incr_value (mem_live c (now_ns E n) k) subtract"
    by (rule mem_Incr_spec(1) [OF i])
  show "j \<noteq> k \<Longrightarrow> now_ns E n \<le> t \<Longrightarrow> mem_live c' t j = mem_live c t j"
    by (rule mem_Incr_spec(2) [OF i])
next
  fix E k subtract c n x c' n' t
  assume "rc_Incr memory_redis E k subtract c n = (Inr x, c', n')"
  then have i: "mem_Incr E k subtract c n = (Inr x, c', n')" by simp
  show "mem_live c' t k = Some (itoa x)" by (rule mem_Incr_spec(3) [OF i]) simp
next
  fix E k del c n r c' n'
  assume "rc_Get memory_redis E k del c n = (r, c', n')"
  then show "n \<le> n'" using drop_seq by (auto simp: mem_Get_def split: prod.splits option.splits)
next
  fix E k subtract c n r c' n'
  assume "rc_Incr memory_redis E k subtract c n = (r, c', n')"
  then show "n \<le> n'" using drop_seq
    by (auto simp: mem_Incr_def Let_def split: prod.splits option.splits sum.splits)
qed (auto simp: mem_Set_def mem_Del_def mem_live_def del_fold split: if_splits)

end
