(* ===== verification/Type_Cache.thy ===== *)
theory Type_Cache
  imports Redis_Client Memory_Cache
begin

section \<open>The cache wrapper (cache/cache.go)\<close>

text \<open>
  \<open>Cache\<close> wraps a \<open>RedisClient\<close>: last-seen modification times per client and data type,
  which let a polling request skip the data store, and the interim item counts. The
  lemmas are proved once from the contract of \<open>RedisClient\<close> and used through its
  interpretation on the in-memory cache.
\<close>

text \<open>\<open>600 * time.Second\<close>, in nanoseconds.\<close>

definition cache_ttl :: int where
  "cache_ttl = 600 * 1000000000"

definition GetTypeMtimeKey :: "string \<Rightarrow> int \<Rightarrow> string" where
  "GetTypeMtimeKey clientID dataType = clientID @ ''#'' @ itoa dataType"

definition GetInterimCountKey :: "string \<Rightarrow> string \<Rightarrow> string" where
  "GetInterimCountKey clientID countType = clientID @ ''#interim_'' @ countType"

definition GetInterimCount ::
  "'c redis_client \<Rightarrow> env \<Rightarrow> string \<Rightarrow> string \<Rightarrow> bool \<Rightarrow> ('c, error + int) op" where
  "GetInterimCount rc E clientID countType clearCache c n =
     (case rc_Get rc E (GetInterimCountKey clientID countType) clearCache c n of
        (Inl err, c, n) \<Rightarrow> (Inl err, c, n)
      | (Inr countStr, c, n) \<Rightarrow>
          if countStr = '''' then (Inr 0, c, n)
          else (case atoi countStr of
                  Inl err \<Rightarrow> (Inl err, c, n)
                | Inr count \<Rightarrow> (Inr count, c, n)))"

definition IncrementInterimCount ::
  "'c redis_client \<Rightarrow> env \<Rightarrow> string \<Rightarrow> string \<Rightarrow> bool \<Rightarrow> ('c, error + int) op" where
  "IncrementInterimCount rc E clientID countType subtract c n =
     rc_Incr rc E (GetInterimCountKey clientID countType) subtract c n"

text \<open>A failing \<open>Set\<close> is logged and otherwise ignored.\<close>

definition SetTypeMtime ::
  "'c redis_client \<Rightarrow> env \<Rightarrow> string \<Rightarrow> int \<Rightarrow> int \<Rightarrow> ('c, unit) op" where
  "SetTypeMtime rc E clientID dataType mtime c n =
     (case rc_Set rc E (GetTypeMtimeKey clientID dataType) (itoa mtime) cache_ttl c n of
        (_, c, n) \<Rightarrow> ((), c, n))"

definition IsTypeMtimeUpdated ::
  "'c redis_client \<Rightarrow> env \<Rightarrow> string \<Rightarrow> int \<Rightarrow> int \<Rightarrow> ('c, bool) op" where
  "IsTypeMtimeUpdated rc E clientID dataType token c n =
     (case rc_Get rc E (GetTypeMtimeKey clientID dataType) False c n of
        (Inl _, c, n) \<Rightarrow> (True, c, n)
      | (Inr cachedTokenStr, c, n) \<Rightarrow>
          if cachedTokenStr = '''' then (True, c, n)
          else (case parse_int ''ParseInt'' cachedTokenStr of
                  Inl _ \<Rightarrow> (True, c, n)
                | Inr cachedToken \<Rightarrow> (token < cachedToken, c, n)))"

subsection \<open>Keys do not collide\<close>

text \<open>
  Client IDs are hexadecimal, so they contain no \<open>#\<close>; then the keys of different clients,
  data types and counters are different.
\<close>

lemma key_split:
  assumes "CHR ''#'' \<notin> set c" and "CHR ''#'' \<notin> set c'"
    and "c @ CHR ''#'' # s = c' @ CHR ''#'' # s'"
  shows "c = c' \<and> s = s'"
  using assms by (induction c arbitrary: c') (auto simp: Cons_eq_append_conv)

lemma type_key_inj:
  assumes "CHR ''#'' \<notin> set c" and "CHR ''#'' \<notin> set c'" and "in_int64 d" and "in_int64 d'"
  shows "GetTypeMtimeKey c d = GetTypeMtimeKey c' d' \<longleftrightarrow> c = c' \<and> d = d'"
  using assms key_split [of c c' "itoa d" "itoa d'"]
  by (auto simp: GetTypeMtimeKey_def itoa_inj)

lemma interim_key_inj:
  assumes "CHR ''#'' \<notin> set c" and "CHR ''#'' \<notin> set c'"
  shows "GetInterimCountKey c ty = GetInterimCountKey c' ty' \<longleftrightarrow> c = c' \<and> ty = ty'"
  using assms key_split [of c c' "''interim_'' @ ty" "''interim_'' @ ty'"]
  by (auto simp: GetInterimCountKey_def)

lemma itoa_hd_not_letter: "hd (itoa x) \<noteq> CHR ''i''"
proof (cases "x < 0")
  case True
  then show ?thesis by (simp add: itoa_def)
next
  case False
  have "hd (nat_digits (nat x)) \<in> set (nat_digits (nat x))" by simp
  then obtain d where d: "d < 10" "hd (nat_digits (nat x)) = digit_char d"
    using nat_digits_digits by blast
  then have "digit_val (hd (nat_digits (nat x))) = Some d" by simp
  moreover have "digit_val (CHR ''i'') = None" by (simp add: digit_val_def)
  ultimately show ?thesis using False by (auto simp: itoa_def)
qed

lemma type_key_not_interim:
  assumes "CHR ''#'' \<notin> set c" and "CHR ''#'' \<notin> set c'"
  shows "GetTypeMtimeKey c d \<noteq> GetInterimCountKey c' ty"
proof
  assume "GetTypeMtimeKey c d = GetInterimCountKey c' ty"
  then have "itoa d = ''interim_'' @ ty"
    using key_split [OF assms, of "itoa d" "''interim_'' @ ty"]
    by (simp add: GetTypeMtimeKey_def GetInterimCountKey_def)
  then show False using itoa_hd_not_letter [of d] by simp
qed

subsection \<open>What the wrapper promises, from the client's contract\<close>

text \<open>A sequence of increments (\<open>False\<close>) and decrements (\<open>True\<close>) of one interim count.\<close>

fun run_interim ::
  "'c redis_client \<Rightarrow> env \<Rightarrow> string \<Rightarrow> string \<Rightarrow> bool list \<Rightarrow> 'c \<Rightarrow> nat \<Rightarrow> 'c \<times> nat" where
  "run_interim rc E clientID ty [] c n = (c, n)"
| "run_interim rc E clientID ty (b # bs) c n =
     (case IncrementInterimCount rc E clientID ty b c n of
        (_, c, n) \<Rightarrow> run_interim rc E clientID ty bs c n)"

definition interim_sum :: "bool list \<Rightarrow> int" where
  "interim_sum bs = (\<Sum>b\<leftarrow>bs. if b then -1 else 1)"

lemma interim_sum_bound: "\<bar>interim_sum bs\<bar> \<le> int (length bs)"
  by (induction bs) (auto simp: interim_sum_def)

context redis_contract
begin

lemma is_updated_value:
  assumes "IsTypeMtimeUpdated rc E cl d token c n = (b, c', n')"
  shows "b = (case live c (now_ns E n) (GetTypeMtimeKey cl d) of
       None \<Rightarrow> True
     | Some v \<Rightarrow> v = '''' \<or>
         (case parse_int ''ParseInt'' v of Inl _ \<Rightarrow> True | Inr m \<Rightarrow> token < m))"
proof -
  obtain r c1 n1 where g: "rc_Get rc E (GetTypeMtimeKey cl d) False c n = (r, c1, n1)"
    by (metis prod_cases3)
  show ?thesis
    using assms get_value [OF g] g
    by (auto simp: IsTypeMtimeUpdated_def split: option.splits sum.splits if_splits)
qed

lemma is_updated_live:
  assumes "IsTypeMtimeUpdated rc E cl d token c n = (b, c', n')" and "now_ns E n \<le> t"
  shows "live c' t = live c t"
proof -
  obtain r c1 n1 where g: "rc_Get rc E (GetTypeMtimeKey cl d) False c n = (r, c1, n1)"
    by (metis prod_cases3)
  with assms(1) have "c' = c1"
    by (auto simp: IsTypeMtimeUpdated_def split: sum.splits if_splits)
  then show ?thesis using get_live [OF g assms(2)] by auto
qed

lemma set_type_live:
  assumes "SetTypeMtime rc E cl d m c n = (u, c', n')"
  shows "live c' t k =
     (if k = GetTypeMtimeKey cl d
      then (if t \<le> now_ns E n + cache_ttl then Some (itoa m) else None) else live c t k)"
proof -
  obtain r c1 n1 where g: "rc_Set rc E (GetTypeMtimeKey cl d) (itoa m) cache_ttl c n = (r, c1, n1)"
    by (metis prod_cases3)
  with assms have "c' = c1" by (simp add: SetTypeMtime_def)
  then show ?thesis using set_live [OF g] by (simp add: cache_ttl_def)
qed

lemma set_then_check:
  assumes "SetTypeMtime rc E cl d m c n = (u, c1, n1)"
    and "IsTypeMtimeUpdated rc E cl d token c1 n2 = (b, c2, n3)" and "in_int64 m"
  shows "b \<longleftrightarrow> now_ns E n + cache_ttl < now_ns E n2 \<or> token < m"
  using is_updated_value [OF assms(2)] set_type_live [OF assms(1)] assms(3)
  by (auto simp: parse_int_itoa)

text \<open>The value of an interim count that no expiry touches.\<close>

definition interim_is :: "env \<Rightarrow> string \<Rightarrow> 'c \<Rightarrow> nat \<Rightarrow> int \<Rightarrow> bool" where
  "interim_is E k c n x \<longleftrightarrow>
     (\<forall>t \<ge> now_ns E n. live c t k = Some (itoa x)) \<or>
     (x = 0 \<and> (\<forall>t \<ge> now_ns E n. live c t k = None))"

lemma interim_step:
  assumes "interim_is E k c n x" and "rc_Incr rc E k b c n = (r, c', n')"
    and "in_int64 x" and "in_int64 (x + (if b then -1 else 1))" and "mono (now_ns E)"
  shows "r = Inr (x + (if b then -1 else 1))"
    and "interim_is E k c' n' (x + (if b then -1 else 1))"
proof -
  have "now_ns E n \<le> now_ns E n" by simp
  with assms(1) have v: "live c (now_ns E n) k = Some (itoa x) \<or> x = 0 \<and> live c (now_ns E n) k = None"
    by (auto simp: interim_is_def)
  then have iv: "incr_value (live c (now_ns E n) k) b = Inr (x + (if b then -1 else 1))"
    using assms(3,4) by (cases b) (auto simp: incr_value_def atoi_itoa wrap64_id)
  with incr_result [OF assms(2)] show r: "r = Inr (x + (if b then -1 else 1))" by simp
  have steady: "\<forall>t \<ge> now_ns E n. live c t k = live c (now_ns E n) k"
    using assms(1) by (auto simp: interim_is_def)
  have "now_ns E n \<le> now_ns E n'"
    using incr_seq [OF assms(2)] assms(5) by (simp add: monoD)
  then have "\<forall>t \<ge> now_ns E n'. live c' t k = Some (itoa (x + (if b then -1 else 1)))"
    using incr_live [OF _ steady] assms(2) r by auto
  then show "interim_is E k c' n' (x + (if b then -1 else 1))"
    unfolding interim_is_def by (rule disjI1)
qed

lemma run_interim_is:
  assumes "interim_is E (GetInterimCountKey cl ty) c n x" and "mono (now_ns E)"
    and "\<bar>x\<bar> + int (length bs) < 2 ^ 62"
  shows "case run_interim rc E cl ty bs c n of
    (c', n') \<Rightarrow> interim_is E (GetInterimCountKey cl ty) c' n' (x + interim_sum bs)"
  using assms
proof (induction bs arbitrary: c n x)
  case Nil
  then show ?case by (simp add: interim_sum_def)
next
  case (Cons b bs)
  obtain r c1 n1 where i: "rc_Incr rc E (GetInterimCountKey cl ty) b c n = (r, c1, n1)"
    by (metis prod_cases3)
  let ?x = "x + (if b then -1 else 1)"
  have b: "in_int64 x" "in_int64 ?x" "\<bar>?x\<bar> + int (length bs) < 2 ^ 62"
    using Cons.prems(3) by (auto simp: in_int64_def)
  have "case run_interim rc E cl ty bs c1 n1 of
      (c', n') \<Rightarrow> interim_is E (GetInterimCountKey cl ty) c' n' (?x + interim_sum bs)"
    by (rule Cons.IH [OF interim_step(2) [OF Cons.prems(1) i b(1,2) Cons.prems(2)] Cons.prems(2) b(3)])
  moreover have "?x + interim_sum bs = x + interim_sum (b # bs)" by (simp add: interim_sum_def)
  ultimately show ?case by (simp add: IncrementInterimCount_def i)
qed

lemma get_interim:
  assumes "interim_is E (GetInterimCountKey cl ty) c n x" and "in_int64 x"
    and "GetInterimCount rc E cl ty clear c n = (r, c', n')" and "mono (now_ns E)"
  shows "r = Inr x" and "interim_is E (GetInterimCountKey cl ty) c' n' (if clear then 0 else x)"
proof -
  let ?k = "GetInterimCountKey cl ty"
  obtain s c1 n1 where g: "rc_Get rc E ?k clear c n = (s, c1, n1)" by (metis prod_cases3)
  have s: "s = Inr (case live c (now_ns E n) ?k of None \<Rightarrow> '''' | Some v \<Rightarrow> v)"
    by (rule get_value [OF g])
  have "now_ns E n \<le> now_ns E n" by simp
  with assms(1) have v: "live c (now_ns E n) ?k = Some (itoa x) \<or> x = 0 \<and> live c (now_ns E n) ?k = None"
    by (auto simp: interim_is_def)
  then show "r = Inr x"
    using assms(2,3) g s
    by (auto simp: GetInterimCount_def atoi_itoa split: if_splits sum.splits)
  have c: "c' = c1" "n' = n1"
    using assms(3) g s by (auto simp: GetInterimCount_def split: if_splits sum.splits)
  have le: "now_ns E n \<le> now_ns E n'"
    using get_seq [OF g] assms(4) c by (simp add: monoD)
  show "interim_is E ?k c' n' (if clear then 0 else x)"
  proof (cases clear)
    case True
    then have "\<forall>t \<ge> now_ns E n'. live c' t ?k = None"
      using get_live [OF g] c le by auto
    with True show ?thesis by (simp add: interim_is_def)
  next
    case False
    then have "\<forall>t \<ge> now_ns E n'. live c' t ?k = live c t ?k"
      using get_live [OF g] c le by auto
    with False assms(1) le show ?thesis by (auto simp: interim_is_def)
  qed
qed

end

end
