(* ===== verification/Entity.thy ===== *)
theory Entity
  imports Environment
begin

section \<open>Sync entities (datastore/sync\_entity.go)\<close>

text \<open>
  The entity as the data store keeps it, the check and conversion of what a client commits
  (\<open>validatePBEntity\<close>, \<open>CreateDBSyncEntity\<close>) and the conversion back
  (\<open>CreatePBSyncEntity\<close>). The lemmas say when the conversion succeeds, fails or panics,
  what the stored entity is, and that converting back gives the client's entity with the
  fields the server assigns.
\<close>

definition HistoryTypeID :: int where "HistoryTypeID = 963985"
definition HistoryDeleteDirectiveTypeID :: int where "HistoryDeleteDirectiveTypeID = 150251"
definition HistoryExpirationIntervalSecs :: int where
  "HistoryExpirationIntervalSecs = 14 * 24 * 60 * 60"
definition clientTagItemPrefix :: string where "clientTagItemPrefix = ''Client#''"
definition serverTagItemPrefix :: string where "serverTagItemPrefix = ''Server#''"
definition disabledChainID :: string where "disabledChainID = ''disabled_chain''"
definition reasonDeleted :: string where "reasonDeleted = ''deleted''"

record SyncEntity =
  ClientID :: string
  ID :: string
  ParentID :: "string option"
  Version :: "int option"
  Mtime :: "int option"
  Ctime :: "int option"
  Name :: "string option"
  NonUniqueName :: "string option"
  ServerDefinedUniqueTag :: "string option"
  Deleted :: "bool option"
  OriginatorCacheGUID :: "string option"
  OriginatorClientItemID :: "string option"
  Specifics :: "bytes option"
  DataType :: "int option"
  Folder :: "bool option"
  ClientDefinedUniqueTag :: "string option"
  entity_UniquePosition :: "bytes option"
  DataTypeMtime :: "string option"
  ExpirationTime :: "int option"

text \<open>
  The data type of a specifics variant, read by reflection: the second comma-separated
  part of the wrapper field's struct tag, as a number (0 if it is none).
\<close>

definition data_type_id :: "specifics_variant \<Rightarrow> int" where
  "data_type_id v =
     (case atoi (split_on (CHR '','') (variant_struct_tag v) ! 1) of
        Inl _ \<Rightarrow> 0
      | Inr n \<Rightarrow> n)"

definition validatePBEntity :: "PbSyncEntity option \<Rightarrow> error option" where
  "validatePBEntity entity =
     (case entity of
        None \<Rightarrow> Some ''validate SyncEntity error: empty SyncEntity''
      | Some e \<Rightarrow>
          if pb_IdString e = None then Some ''validate SyncEntity error: empty IdString''
          else if pb_Version e = None then Some ''validate SyncEntity error: empty Version''
          else if pb_Specifics e = None then Some ''validate SyncEntity error: nil Specifics''
          else None)"

text \<open>
  The entity built at the end of the conversion, from the values computed before:
  \<open>now_ms\<close> and \<open>now_s\<close> are the one clock reading in milliseconds and in seconds.
\<close>

definition build_SyncEntity ::
  "PbSyncEntity \<Rightarrow> string option \<Rightarrow> string \<Rightarrow> string \<Rightarrow> int \<Rightarrow> bytes \<Rightarrow> bytes option \<Rightarrow> int \<Rightarrow> int \<Rightarrow> int
     \<Rightarrow> SyncEntity" where
  "build_SyncEntity e cacheGUID clientID entity_id version specifics position dataType now_ms now_s =
     \<lparr> ClientID = clientID,
       ID = entity_id,
       ParentID = pb_ParentIdString e,
       Version = Some version,
       Mtime = Some now_ms,
       Ctime = (case pb_Ctime e of Some t \<Rightarrow> Some t | None \<Rightarrow> Some now_ms),
       Name = pb_Name e,
       NonUniqueName = pb_NonUniqueName e,
       ServerDefinedUniqueTag = pb_ServerDefinedUniqueTag e,
       Deleted = (if version = 0 \<and> pb_Deleted e = None then Some False else pb_Deleted e),
       OriginatorCacheGUID = cacheGUID,
       OriginatorClientItemID = (if cacheGUID = None then None else pb_IdString e),
       Specifics = Some specifics,
       DataType = Some dataType,
       Folder = (if version = 0 \<and> pb_Folder e = None then Some False else pb_Folder e),
       ClientDefinedUniqueTag = pb_ClientTagHash e,
       entity_UniquePosition = position,
       DataTypeMtime = Some (itoa dataType @ ''#'' @ itoa now_ms),
       ExpirationTime =
         (if dataType = HistoryTypeID \<or> dataType = HistoryDeleteDirectiveTypeID
          then Some (now_s + HistoryExpirationIntervalSecs) else None) \<rparr>"

text \<open>The ID of the stored entity: the client's, a fresh one, or the history tag.\<close>

definition choose_id ::
  "env \<Rightarrow> string option \<Rightarrow> string \<Rightarrow> int \<Rightarrow> nat \<Rightarrow> string \<times> nat" where
  "choose_id E cacheGUID idString version n =
     (if cacheGUID \<noteq> None \<and> version = 0 then (new_uuid E n, Suc n) else (idString, n))"

definition marshal_optional_position ::
  "env \<Rightarrow> UniquePosition option \<Rightarrow> error + bytes option" where
  "marshal_optional_position E p =
     (case p of
        None \<Rightarrow> Inr None
      | Some u \<Rightarrow> (case marshal_position E u of
           Inl err \<Rightarrow> Inl (''error marshalling unique position to create DB sync entity: '' @ err)
         | Inr b \<Rightarrow> Inr (Some b)))"

text \<open>
  \<open>CreateDBSyncEntity\<close>. It panics where the code dereferences a nil pointer or reflects
  on a nil oneof; the branches that validation rules out are panics too, as they are in
  the code.
\<close>

definition CreateDBSyncEntity ::
  "env \<Rightarrow> PbSyncEntity option \<Rightarrow> string option \<Rightarrow> string \<Rightarrow> nat
     \<Rightarrow> (error + SyncEntity) outcome \<times> nat" where
  "CreateDBSyncEntity E entity cacheGUID clientID n =
     (case validatePBEntity entity of
        Some err \<Rightarrow>
          (Return (Inl (''error validating protobuf sync entity to create DB sync entity: '' @ err)), n)
      | None \<Rightarrow>
          (case entity of None \<Rightarrow> (Panic, n) | Some e \<Rightarrow>
          (case (pb_IdString e, pb_Version e, pb_Specifics e) of
             (Some idString, Some version, Some sp) \<Rightarrow>
               (case marshal_specifics E sp of
                  Inl err \<Rightarrow>
                    (Return (Inl (''error marshalling specifics to create DB sync entity: '' @ err)), n)
                | Inr specifics \<Rightarrow>
                    (case SpecificsVariant sp of
                       None \<Rightarrow> (Panic, n)
                     | Some (v, _) \<Rightarrow>
                         (case marshal_optional_position E (pb_UniquePosition e) of
                            Inl err \<Rightarrow> (Return (Inl err), n)
                          | Inr position \<Rightarrow>
                              (let dataType = data_type_id v;
                                   (new_id, m) = choose_id E cacheGUID idString version n;
                                   stored = (\<lambda>id'. Return (Inr (build_SyncEntity e cacheGUID clientID
                                       id' version specifics position dataType
                                       (unix_milli E m) (unix_secs E m))))
                               in if dataType = HistoryTypeID
                                  then (case pb_ClientTagHash e of
                                          None \<Rightarrow> (Panic, m)
                                        | Some tag \<Rightarrow> (stored tag, Suc m))
                                  else (stored new_id, Suc m)))))
           | _ \<Rightarrow> (Panic, n))))"

definition CreatePBSyncEntity :: "env \<Rightarrow> SyncEntity \<Rightarrow> error + PbSyncEntity" where
  "CreatePBSyncEntity E entity =
     (let pb = empty_PbSyncEntity
        \<lparr> pb_IdString := Some (ID entity),
          pb_ParentIdString := ParentID entity,
          pb_Version := Version entity,
          pb_Mtime := Mtime entity,
          pb_Ctime := Ctime entity,
          pb_Name := Name entity,
          pb_NonUniqueName := NonUniqueName entity,
          pb_ServerDefinedUniqueTag := ServerDefinedUniqueTag entity,
          pb_ClientTagHash := ClientDefinedUniqueTag entity,
          pb_OriginatorCacheGuid := OriginatorCacheGUID entity,
          pb_OriginatorClientItemId := OriginatorClientItemID entity,
          pb_Deleted := Deleted entity,
          pb_Folder := Folder entity \<rparr>
      in case (case Specifics entity of
                 None \<Rightarrow> Inr pb
               | Some b \<Rightarrow> (case unmarshal_specifics E b of
                    Inl err \<Rightarrow> Inl (''error unmarshalling specifics to create protobuf sync entity: '' @ err)
                  | Inr sp \<Rightarrow> Inr (pb\<lparr>pb_Specifics := Some sp\<rparr>))) of
           Inl err \<Rightarrow> Inl err
         | Inr pb' \<Rightarrow>
             (case entity_UniquePosition entity of
                None \<Rightarrow> Inr pb'
              | Some b \<Rightarrow> (case unmarshal_position E b of
                   Inl err \<Rightarrow> Inl (''error unmarshalling unique position to create protobuf sync entity: '' @ err)
                 | Inr u \<Rightarrow> Inr (pb'\<lparr>pb_UniquePosition := Some u\<rparr>))))"

text \<open>\<open>SyncEntityByMtime\<close>'s \<open>Less\<close>; a nil \<open>Mtime\<close> would be a panic in the code.\<close>

definition less_by_mtime :: "SyncEntity \<Rightarrow> SyncEntity \<Rightarrow> bool outcome" where
  "less_by_mtime a b =
     (case (Mtime a, Mtime b) of (Some s, Some t) \<Rightarrow> Return (s < t) | _ \<Rightarrow> Panic)"

subsection \<open>Data type identifiers\<close>

text \<open>
  Evaluating the reflection for every wrapper: the identifier is the field number of the
  oneof's field. The facts are proved in groups to keep each proof small.
\<close>

lemmas data_type_id_eval = data_type_id_def atoi_def parse_int_def digit_val_def

lemma data_type_id_simps1:
  "data_type_id V_Autofill = 31729"
  "data_type_id V_Bookmark = 32904"
  "data_type_id V_Preference = 37702"
  "data_type_id V_TypedUrl = 40781"
  "data_type_id V_Theme = 41210"
  "data_type_id V_Password = 45873"
  "data_type_id V_Nigori = 47745"
  "data_type_id V_Extension = 48119"
  by (simp_all add: data_type_id_eval)

lemma data_type_id_simps2:
  "data_type_id V_App = 48364"
  "data_type_id V_Session = 50119"
  "data_type_id V_AutofillProfile = 63951"
  "data_type_id V_SearchEngine = 88610"
  "data_type_id V_ExtensionSetting = 96159"
  "data_type_id V_AppSetting = 103656"
  "data_type_id V_HistoryDeleteDirective = 150251"
  "data_type_id V_DeviceInfo = 154522"
  by (simp_all add: data_type_id_eval)

lemma data_type_id_simps3:
  "data_type_id V_PriorityPreference = 163425"
  "data_type_id V_Dictionary = 170540"
  "data_type_id V_ManagedUserSetting = 186662"
  "data_type_id V_AppList = 229170"
  "data_type_id V_AutofillWallet = 306270"
  "data_type_id V_WalletMetadata = 330441"
  "data_type_id V_ArcPackage = 340906"
  "data_type_id V_Printer = 410745"
  by (simp_all add: data_type_id_eval)

lemma data_type_id_simps4:
  "data_type_id V_ReadingList = 411028"
  "data_type_id V_UserEvent = 455206"
  "data_type_id V_UserConsent = 556014"
  "data_type_id V_SendTabToSelf = 601980"
  "data_type_id V_SecurityEvent = 600372"
  "data_type_id V_WebApk = 1117170"
  "data_type_id V_WebApp = 673225"
  "data_type_id V_WifiConfiguration = 662827"
  by (simp_all add: data_type_id_eval)

lemma data_type_id_simps5:
  "data_type_id V_OsPreference = 702141"
  "data_type_id V_OsPriorityPreference = 703915"
  "data_type_id V_SharingMessage = 728866"
  "data_type_id V_AutofillOffer = 774329"
  "data_type_id V_WorkspaceDesk = 874841"
  "data_type_id V_WebauthnCredential = 895275"
  "data_type_id V_History = 963985"
  "data_type_id V_PrintersAuthorizationServer = 974304"
  by (simp_all add: data_type_id_eval)

lemma data_type_id_simps6:
  "data_type_id V_SavedTabGroup = 1004874"
  "data_type_id V_AutofillWalletUsage = 1033580"
  "data_type_id V_ContactInfo = 1034378"
  "data_type_id V_Segmentation = 1026052"
  "data_type_id V_PowerBookmark = 1073150"
  "data_type_id V_IncomingPasswordSharingInvitation = 1141935"
  "data_type_id V_OutgoingPasswordSharingInvitation = 1142081"
  "data_type_id V_AutofillWalletCredential = 1164238"
  by (simp_all add: data_type_id_eval)

lemma data_type_id_simps7:
  "data_type_id V_SharedTabGroupData = 1239418"
  "data_type_id V_CollaborationGroup = 1259076"
  "data_type_id V_Compare = 1329438"
  "data_type_id V_PlusAddress = 1267844"
  "data_type_id V_AppNotification = 45184"
  "data_type_id V_SyncedNotification = 153108"
  "data_type_id V_SyncedNotificationAppInfo = 235816"
  "data_type_id V_Experiments = 161496"
  by (simp_all add: data_type_id_eval)

lemma data_type_id_simps8:
  "data_type_id V_FaviconTracking = 181534"
  "data_type_id V_FaviconImage = 182019"
  "data_type_id V_ManagedUser = 194582"
  "data_type_id V_ManagedUserSharedSetting = 202026"
  "data_type_id V_ManagedUserAllowlist = 306060"
  by (simp_all add: data_type_id_eval)

lemmas data_type_id_simps [simp] =
  data_type_id_simps1 data_type_id_simps2 data_type_id_simps3 data_type_id_simps4
  data_type_id_simps5 data_type_id_simps6 data_type_id_simps7 data_type_id_simps8

lemma data_type_id_pos: "0 < data_type_id v"
  by (cases v) simp_all

lemma data_type_id_history: "data_type_id v = HistoryTypeID \<longleftrightarrow> v = V_History"
  by (cases v) (simp_all add: HistoryTypeID_def)

text \<open>The identifier table read backwards shows that no two data types share an identifier.\<close>

definition variant_of_id :: "int \<Rightarrow> specifics_variant option" where
  "variant_of_id = map_of
     [(31729, V_Autofill), (32904, V_Bookmark), (37702, V_Preference), (40781, V_TypedUrl),
      (41210, V_Theme), (45873, V_Password), (47745, V_Nigori), (48119, V_Extension), (48364,
      V_App), (50119, V_Session), (63951, V_AutofillProfile), (88610, V_SearchEngine), (96159,
      V_ExtensionSetting), (103656, V_AppSetting), (150251, V_HistoryDeleteDirective),
      (154522, V_DeviceInfo), (163425, V_PriorityPreference), (170540, V_Dictionary), (186662,
      V_ManagedUserSetting), (229170, V_AppList), (306270, V_AutofillWallet), (330441,
      V_WalletMetadata), (340906, V_ArcPackage), (410745, V_Printer), (411028, V_ReadingList),
      (455206, V_UserEvent), (556014, V_UserConsent), (601980, V_SendTabToSelf), (600372,
      V_SecurityEvent), (1117170, V_WebApk), (673225, V_WebApp), (662827,
      V_WifiConfiguration), (702141, V_OsPreference), (703915, V_OsPriorityPreference),
      (728866, V_SharingMessage), (774329, V_AutofillOffer), (874841, V_WorkspaceDesk),
      (895275, V_WebauthnCredential), (963985, V_History), (974304,
      V_PrintersAuthorizationServer), (1004874, V_SavedTabGroup), (1033580,
      V_AutofillWalletUsage), (1034378, V_ContactInfo), (1026052, V_Segmentation), (1073150,
      V_PowerBookmark), (1141935, V_IncomingPasswordSharingInvitation), (1142081,
      V_OutgoingPasswordSharingInvitation), (1164238, V_AutofillWalletCredential), (1239418,
      V_SharedTabGroupData), (1259076, V_CollaborationGroup), (1329438, V_Compare), (1267844,
      V_PlusAddress), (45184, V_AppNotification), (153108, V_SyncedNotification), (235816,
      V_SyncedNotificationAppInfo), (161496, V_Experiments), (181534, V_FaviconTracking),
      (182019, V_FaviconImage), (194582, V_ManagedUser), (202026, V_ManagedUserSharedSetting),
      (306060, V_ManagedUserAllowlist)]"

lemma variant_of_id_left: "variant_of_id (data_type_id v) = Some v"
  by (cases v) (simp_all add: variant_of_id_def)

lemma data_type_id_inj: "data_type_id v = data_type_id w \<longleftrightarrow> v = w"
  by (metis variant_of_id_left option.inject)

subsection \<open>Converting a committed entity\<close>

lemma validatePBEntity_None:
  "validatePBEntity entity = None \<longleftrightarrow>
     (\<exists>e. entity = Some e \<and> pb_IdString e \<noteq> None \<and> pb_Version e \<noteq> None \<and> pb_Specifics e \<noteq> None)"
  by (auto simp: validatePBEntity_def split: option.splits if_splits)

lemma build_SyncEntity_simps [simp]:
  "ClientID (build_SyncEntity e g c i ver sp pos dt ms s) = c"
  "ID (build_SyncEntity e g c i ver sp pos dt ms s) = i"
  "Version (build_SyncEntity e g c i ver sp pos dt ms s) = Some ver"
  "Mtime (build_SyncEntity e g c i ver sp pos dt ms s) = Some ms"
  "Specifics (build_SyncEntity e g c i ver sp pos dt ms s) = Some sp"
  "DataType (build_SyncEntity e g c i ver sp pos dt ms s) = Some dt"
  "ClientDefinedUniqueTag (build_SyncEntity e g c i ver sp pos dt ms s) = pb_ClientTagHash e"
  "ParentID (build_SyncEntity e g c i ver sp pos dt ms s) = pb_ParentIdString e"
  by (simp_all add: build_SyncEntity_def)

lemma build_SyncEntity_defaults:
  "\<exists>b. Deleted (build_SyncEntity e g c i 0 sp pos dt ms s) = Some b"
  "\<exists>b. Folder (build_SyncEntity e g c i 0 sp pos dt ms s) = Some b"
  by (auto simp: build_SyncEntity_def)

text \<open>A successful conversion, taken apart.\<close>

lemma CreateDB_InrE:
  assumes "CreateDBSyncEntity E entity guid cid n = (Return (Inr d), n')"
  obtains e idString version sp specifics v payload position i m where
    "entity = Some e" "pb_IdString e = Some idString" "pb_Version e = Some version"
    "pb_Specifics e = Some sp" "SpecificsVariant sp = Some (v, payload)"
    "marshal_specifics E sp = Inr specifics"
    "marshal_optional_position E (pb_UniquePosition e) = Inr position"
    "v = V_History \<longrightarrow> pb_ClientTagHash e = Some i"
    "v \<noteq> V_History \<longrightarrow> (i, m) = choose_id E guid idString version n"
    "n' = Suc m" "n \<le> m"
    "d = build_SyncEntity e guid cid i version specifics position (data_type_id v)
           (unix_milli E m) (unix_secs E m)"
  using assms
  by (fastforce simp: CreateDBSyncEntity_def Let_def data_type_id_history choose_id_def
      split: option.splits sum.splits prod.splits if_splits)

text \<open>What is in the binary fields was marshalled.\<close>

definition encoded :: "env \<Rightarrow> SyncEntity \<Rightarrow> bool" where
  "encoded E e \<longleftrightarrow> (\<forall>b. Specifics e = Some b \<longrightarrow> (\<exists>x. marshal_specifics E x = Inr b)) \<and>
     (\<forall>b. entity_UniquePosition e = Some b \<longrightarrow> (\<exists>x. marshal_position E x = Inr b))"

lemma CreateDB_encoded:
  assumes "CreateDBSyncEntity E entity guid cid n = (Return (Inr d), n')"
  shows "encoded E d"
  using assms
  by (rule CreateDB_InrE)
    (auto simp: encoded_def build_SyncEntity_def marshal_optional_position_def split: option.splits sum.splits)

lemma CreateDB_fields:
  assumes "CreateDBSyncEntity E entity guid cid n = (Return (Inr d), n')"
  shows "ClientID d = cid" and "Mtime d = Some (unix_milli E (n' - 1))"
    and "\<exists>v. DataType d = Some (data_type_id v)" and "\<exists>ver. Version d = Some ver"
    and "Version d = Some 0 \<Longrightarrow> (\<exists>b. Deleted d = Some b) \<and> (\<exists>b. Folder d = Some b)"
    and "\<exists>b. Specifics d = Some b"
proof -
  obtain e i version specifics position v m where
    d: "d = build_SyncEntity e guid cid i version specifics position (data_type_id v)
           (unix_milli E m) (unix_secs E m)" and n: "n' = Suc m"
    by (rule CreateDB_InrE [OF assms])
  show "ClientID d = cid" "Mtime d = Some (unix_milli E (n' - 1))"
    "\<exists>ver. Version d = Some ver" "\<exists>b. Specifics d = Some b"
    by (simp_all add: d n)
  show "\<exists>v. DataType d = Some (data_type_id v)"
    by (intro exI [of _ v]) (simp add: d)
  show "(\<exists>b. Deleted d = Some b) \<and> (\<exists>b. Folder d = Some b)" if "Version d = Some 0"
    using that build_SyncEntity_defaults by (simp add: d)
qed

lemma CreateDB_seq: "CreateDBSyncEntity E entity guid cid n = (r, n') \<Longrightarrow> n \<le> n'"
  by (auto simp: CreateDBSyncEntity_def Let_def choose_id_def
      split: option.splits sum.splits prod.splits if_splits)

text \<open>The values the entity's conversion panics on.\<close>

definition conversion_panics :: "env \<Rightarrow> PbSyncEntity option \<Rightarrow> bool" where
  "conversion_panics E entity \<longleftrightarrow>
     (\<exists>e sp b. entity = Some e \<and> pb_IdString e \<noteq> None \<and> pb_Version e \<noteq> None \<and>
        pb_Specifics e = Some sp \<and> marshal_specifics E sp = Inr b \<and>
        (SpecificsVariant sp = None \<or>
         (\<exists>p u. SpecificsVariant sp = Some (V_History, p) \<and> pb_ClientTagHash e = None \<and>
            marshal_optional_position E (pb_UniquePosition e) = Inr u)))"

lemma CreateDB_Panic_iff:
  "fst (CreateDBSyncEntity E entity guid cid n) = Panic \<longleftrightarrow> conversion_panics E entity"
proof (cases "validatePBEntity entity")
  case (Some err)
  then have "\<not> conversion_panics E entity"
    by (auto simp: conversion_panics_def validatePBEntity_def)
  with Some show ?thesis by (simp add: CreateDBSyncEntity_def)
next
  case None
  then obtain e idS ver sp where e: "entity = Some e" "pb_IdString e = Some idS"
      "pb_Version e = Some ver" "pb_Specifics e = Some sp"
    by (auto simp: validatePBEntity_None)
  show ?thesis
  proof (cases "marshal_specifics E sp")
    case (Inl err)
    with None e show ?thesis by (simp add: CreateDBSyncEntity_def conversion_panics_def)
  next
    case sp: (Inr b)
    show ?thesis
    proof (cases "SpecificsVariant sp")
      case None
      with \<open>validatePBEntity entity = None\<close> e sp show ?thesis
        by (simp add: CreateDBSyncEntity_def conversion_panics_def)
    next
      case (Some vp)
      with None e sp show ?thesis
        by (cases vp; cases "marshal_optional_position E (pb_UniquePosition e)";
            cases "pb_ClientTagHash e"; cases "choose_id E guid idS ver n")
          (simp_all add: CreateDBSyncEntity_def conversion_panics_def Let_def data_type_id_history)
    qed
  qed
qed

subsection \<open>Converting back\<close>

text \<open>
  What the round trip yields: the client's entity with the identifier, the times, the
  defaults and the originator fields the server assigns, and without the fields the data
  store has no column for.
\<close>

definition served_entity ::
  "PbSyncEntity \<Rightarrow> SyncEntity \<Rightarrow> PbSyncEntity" where
  "served_entity e d =
     e\<lparr> pb_IdString := Some (ID d), pb_Mtime := Mtime d, pb_Ctime := Ctime d,
        pb_Deleted := Deleted d, pb_Folder := Folder d,
        pb_OriginatorCacheGuid := OriginatorCacheGUID d,
        pb_OriginatorClientItemId := OriginatorClientItemID d,
        pb_PositionInParent := None, pb_InsertAfterItemId := None, pb_Collaboration := None \<rparr>"

lemma CreatePB_CreateDB:
  assumes "codec_ok E" and "CreateDBSyncEntity E (Some e) guid cid n = (Return (Inr d), n')"
  shows "CreatePBSyncEntity E d = Inr (served_entity e d)"
proof (rule CreateDB_InrE [OF assms(2)])
  fix e' idString version sp specifics v payload position i m
  assume a: "Some e = Some e'" "pb_IdString e' = Some idString" "pb_Version e' = Some version"
    "pb_Specifics e' = Some sp" "marshal_specifics E sp = Inr specifics"
    "marshal_optional_position E (pb_UniquePosition e') = Inr position"
    "d = build_SyncEntity e' guid cid i version specifics position (data_type_id v)
           (unix_milli E m) (unix_secs E m)"
  have sp: "unmarshal_specifics E specifics = Inr sp"
    using assms(1) a by (simp add: codec_ok_def)
  show ?thesis
  proof (cases "pb_UniquePosition e'")
    case None
    with a sp show ?thesis
      by (simp add: CreatePBSyncEntity_def build_SyncEntity_def served_entity_def
          empty_PbSyncEntity_def marshal_optional_position_def)
  next
    case (Some u)
    with a obtain b where b: "position = Some b" "marshal_position E u = Inr b"
      by (auto simp: marshal_optional_position_def split: sum.splits)
    then have "unmarshal_position E b = Inr u" using assms(1) by (simp add: codec_ok_def)
    with a sp b Some show ?thesis
      by (simp add: CreatePBSyncEntity_def build_SyncEntity_def served_entity_def
          empty_PbSyncEntity_def)
  qed
qed

end
