(* ===== verification/Item_Count.thy ===== *)
theory Item_Count
  imports Entity
begin

section \<open>Item counts and their periods (datastore/item\_count.go)\<close>

text \<open>
  The per-client counters behind the quotas. History items expire after fourteen days;
  their counts are kept in four periods of three and a half days that are rolled forward
  when a request finds the current period over. The lemmas give the rolled counters in
  closed form and show that rolling late, at one request, and rolling at every request in
  between give the same counters.
\<close>

record ClientItemCounts =
  cnt_ClientID :: string
  cnt_ID :: string
  ItemCount :: int
  HistoryItemCountPeriod1 :: int
  HistoryItemCountPeriod2 :: int
  HistoryItemCountPeriod3 :: int
  HistoryItemCountPeriod4 :: int
  LastPeriodChangeTime :: int
  cnt_Version :: int

definition periodDurationSecs :: int where
  "periodDurationSecs = HistoryExpirationIntervalSecs div 4"

definition CurrentCountVersion :: int where
  "CurrentCountVersion = 2"

definition SumHistoryCounts :: "ClientItemCounts \<Rightarrow> int" where
  "SumHistoryCounts counts =
     HistoryItemCountPeriod1 counts + HistoryItemCountPeriod2 counts
     + HistoryItemCountPeriod3 counts + HistoryItemCountPeriod4 counts"

text \<open>One turn of the roll-over loop, and the loop.\<close>

definition shift_period :: "ClientItemCounts \<Rightarrow> ClientItemCounts" where
  "shift_period counts = counts
     \<lparr> HistoryItemCountPeriod1 := HistoryItemCountPeriod2 counts,
       HistoryItemCountPeriod2 := HistoryItemCountPeriod3 counts,
       HistoryItemCountPeriod3 := HistoryItemCountPeriod4 counts,
       HistoryItemCountPeriod4 := 0 \<rparr>"

primrec shift_periods :: "nat \<Rightarrow> ClientItemCounts \<Rightarrow> ClientItemCounts" where
  "shift_periods 0 counts = counts"
| "shift_periods (Suc k) counts = shift_periods k (shift_period counts)"

text \<open>
  The branch of \<open>initRealCountsAndUpdateHistoryCounts\<close> for up-to-date counters, shared
  by the DynamoDB and the SQLite store. Go's division truncates, but the guard keeps the
  dividend positive.
\<close>

definition roll_periods :: "int \<Rightarrow> ClientItemCounts \<Rightarrow> ClientItemCounts" where
  "roll_periods now counts =
     (let timeSinceLastChange = now - LastPeriodChangeTime counts in
      if periodDurationSecs \<le> timeSinceLastChange then
        let changeCount = timeSinceLastChange div periodDurationSecs;
            counts' = shift_periods (nat changeCount) counts
        in counts'\<lparr>LastPeriodChangeTime :=
             LastPeriodChangeTime counts' + periodDurationSecs * changeCount\<rparr>
      else counts)"

text \<open>What \<open>UpdateClientItemCount\<close> adds before it writes the row.\<close>

definition add_counts :: "ClientItemCounts \<Rightarrow> int \<Rightarrow> int \<Rightarrow> ClientItemCounts" where
  "add_counts counts newNormalItemCount newHistoryItemCount = counts
     \<lparr> HistoryItemCountPeriod4 := wrap64 (HistoryItemCountPeriod4 counts + newHistoryItemCount),
       ItemCount := wrap64 (ItemCount counts + newNormalItemCount) \<rparr>"

subsection \<open>Closed form of the roll-over\<close>

lemma period_val: "periodDurationSecs = 302400"
  by (simp add: periodDurationSecs_def HistoryExpirationIntervalSecs_def)

lemma shift_period_simps [simp]:
  "LastPeriodChangeTime (shift_period c) = LastPeriodChangeTime c"
  "ItemCount (shift_period c) = ItemCount c"
  "cnt_Version (shift_period c) = cnt_Version c"
  "cnt_ClientID (shift_period c) = cnt_ClientID c"
  by (simp_all add: shift_period_def)

lemma shift_periods_simps [simp]:
  "LastPeriodChangeTime (shift_periods k c) = LastPeriodChangeTime c"
  "ItemCount (shift_periods k c) = ItemCount c"
  "cnt_Version (shift_periods k c) = cnt_Version c"
  "cnt_ClientID (shift_periods k c) = cnt_ClientID c"
  by (induction k arbitrary: c) simp_all

lemma shift_periods_add: "shift_periods (a + b) c = shift_periods b (shift_periods a c)"
  by (induction a arbitrary: c) simp_all

lemma shift_period_last:
  "shift_period (c\<lparr>LastPeriodChangeTime := t\<rparr>) = (shift_period c)\<lparr>LastPeriodChangeTime := t\<rparr>"
  by (simp add: shift_period_def)

lemma shift_periods_last:
  "shift_periods k (c\<lparr>LastPeriodChangeTime := t\<rparr>) = (shift_periods k c)\<lparr>LastPeriodChangeTime := t\<rparr>"
  by (induction k arbitrary: c) (simp_all add: shift_period_last)

lemma roll_periods_eq:
  assumes "LastPeriodChangeTime c \<le> now"
  shows "roll_periods now c =
    (shift_periods (nat ((now - LastPeriodChangeTime c) div periodDurationSecs)) c)
      \<lparr>LastPeriodChangeTime := LastPeriodChangeTime c
         + periodDurationSecs * ((now - LastPeriodChangeTime c) div periodDurationSecs)\<rparr>"
proof (cases "periodDurationSecs \<le> now - LastPeriodChangeTime c")
  case True
  then show ?thesis by (simp add: roll_periods_def Let_def)
next
  case False
  with assms have "(now - LastPeriodChangeTime c) div periodDurationSecs = 0"
    by (intro div_pos_pos_trivial) auto
  with False show ?thesis by (simp add: roll_periods_def Let_def)
qed

lemma roll_periods_last:
  assumes "LastPeriodChangeTime c \<le> now"
  shows "LastPeriodChangeTime (roll_periods now c) \<le> now"
    and "now < LastPeriodChangeTime (roll_periods now c) + periodDurationSecs"
proof -
  let ?d = "now - LastPeriodChangeTime c"
  have "periodDurationSecs * (?d div periodDurationSecs) \<le> ?d"
    and "?d < periodDurationSecs * (?d div periodDurationSecs) + periodDurationSecs"
    using mult_div_mod_eq [of periodDurationSecs ?d]
      pos_mod_sign [of periodDurationSecs ?d] pos_mod_bound [of periodDurationSecs ?d]
    by (simp_all add: period_val)
  then show "LastPeriodChangeTime (roll_periods now c) \<le> now"
    and "now < LastPeriodChangeTime (roll_periods now c) + periodDurationSecs"
    using assms by (simp_all add: roll_periods_eq)
qed

text \<open>Rolling to \<open>t1\<close> and then to \<open>t2\<close> is rolling to \<open>t2\<close>.\<close>

lemma roll_periods_compose:
  assumes "LastPeriodChangeTime c \<le> t1" and "t1 \<le> t2"
  shows "roll_periods t2 (roll_periods t1 c) = roll_periods t2 c"
proof -
  let ?p = periodDurationSecs
  let ?l = "LastPeriodChangeTime c"
  let ?a = "(t1 - ?l) div ?p"
  let ?b = "(t2 - ?l) div ?p"
  have p: "0 < ?p" by (simp add: period_val)
  have a: "0 \<le> ?a" using assms p by (simp add: pos_imp_zdiv_nonneg_iff)
  have ab: "?a \<le> ?b" using assms p by (intro zdiv_mono1) auto
  have l1: "LastPeriodChangeTime (roll_periods t1 c) = ?l + ?p * ?a"
    using assms by (simp add: roll_periods_eq)
  have l1le: "LastPeriodChangeTime (roll_periods t1 c) \<le> t2"
    using roll_periods_last(1) [of c t1] assms by simp
  have "(t2 - (?l + ?p * ?a)) div ?p = (- ?a * ?p + (t2 - ?l)) div ?p"
    by (simp add: algebra_simps)
  also have "\<dots> = - ?a + ?b" using p by (subst div_mult_self3) simp_all
  finally have q: "(t2 - (?l + ?p * ?a)) div ?p = ?b - ?a" by simp
  have "nat ?b = nat ?a + nat (?b - ?a)" using a ab by simp
  then have s: "shift_periods (nat (?b - ?a)) (shift_periods (nat ?a) c) = shift_periods (nat ?b) c"
    by (simp add: shift_periods_add)
  show ?thesis
    unfolding roll_periods_eq [OF l1le] l1 q
    using assms by (simp add: roll_periods_eq shift_periods_last s algebra_simps)
qed

text \<open>What is left of the four periods after some turns: the later ones.\<close>

lemma shift_periods_sum:
  "SumHistoryCounts (shift_periods k c) = sum_list (drop k
     [HistoryItemCountPeriod1 c, HistoryItemCountPeriod2 c, HistoryItemCountPeriod3 c, HistoryItemCountPeriod4 c])"
proof (induction k arbitrary: c)
  case 0
  then show ?case by (simp add: SumHistoryCounts_def)
next
  case (Suc k)
  have "sum_list (drop k [x, y, z, 0]) = sum_list (drop k [x, y, z])" for x y z :: int
    by (cases "k \<le> 3") (auto simp: le_Suc_eq numeral_3_eq_3)
  with Suc.IH [of "shift_period c"] show ?case by (simp add: shift_period_def)
qed

end
