(* ===== verification/Sample_Env.thy ===== *)
theory Sample_Env
  imports Entity
begin

section \<open>A concrete environment\<close>

text \<open>
  The surroundings in which the witnesses run: a clock that advances by a millisecond a
  step, numbered UUIDs, a driver that does not fail, a codec that writes the data type
  identifier in three bytes before the payload, and map iteration in insertion order.
\<close>

definition sample_marshal :: "EntitySpecifics \<Rightarrow> error + bytes" where
  "sample_marshal sp =
     (case (Encrypted sp, SpecificsVariant sp) of
        (None, None) \<Rightarrow> Inr []
      | (None, Some (v, p)) \<Rightarrow>
          Inr (word_of_int (data_type_id v div 65536) # word_of_int (data_type_id v div 256) #
               word_of_int (data_type_id v) # p)
      | _ \<Rightarrow> Inl ''unsupported'')"

fun sample_unmarshal :: "bytes \<Rightarrow> error + EntitySpecifics" where
  "sample_unmarshal [] = Inr \<lparr>Encrypted = None, SpecificsVariant = None\<rparr>"
| "sample_unmarshal (a # b # c # p) =
     (case variant_of_id (uint a * 65536 + uint b * 256 + uint c) of
        None \<Rightarrow> Inl ''unknown variant''
      | Some v \<Rightarrow> Inr \<lparr>Encrypted = None, SpecificsVariant = Some (v, p)\<rparr>)"
| "sample_unmarshal _ = Inl ''truncated''"

definition sample_env :: env where
  "sample_env =
     \<lparr> maxGUBatchSize = 500, maxClientObjectQuota = 50000, maxClientHistoryObjectQuota = 30000,
       highDeviceLimitClientIDs = [],
       now_ns = (\<lambda>n. 1700000000000000000 + int n * 1000000),
       new_uuid = (\<lambda>n. ''uuid-'' @ itoa (int n)),
       db_fault = (\<lambda>_. None), constraint_msg = ''UNIQUE constraint failed'',
       marshal_specifics = sample_marshal, unmarshal_specifics = sample_unmarshal,
       marshal_position = (\<lambda>_. Inl ''unsupported''), unmarshal_position = (\<lambda>_. Inl ''unsupported''),
       order_types = (\<lambda>ks. ks), order_names = (\<lambda>ks. ks) \<rparr>"

lemma sample_env_simps [simp]:
  "maxGUBatchSize sample_env = 500" "maxClientObjectQuota sample_env = 50000"
  "maxClientHistoryObjectQuota sample_env = 30000" "highDeviceLimitClientIDs sample_env = []"
  "now_ns sample_env n = 1700000000000000000 + int n * 1000000"
  "new_uuid sample_env n = ''uuid-'' @ itoa (int n)"
  "db_fault sample_env n = None" "constraint_msg sample_env = ''UNIQUE constraint failed''"
  "marshal_specifics sample_env = sample_marshal" "unmarshal_specifics sample_env = sample_unmarshal"
  "order_types sample_env ks = ks" "order_names sample_env ns = ns"
  "unix_milli sample_env n = 1700000000000 + int n"
  by (simp_all add: sample_env_def unix_milli_def)

lemma three_bytes:
  fixes k :: int
  assumes "0 < k" and "k < 16777216"
  shows "uint (word_of_int (k div 65536) :: 8 word) * 65536 +
     uint (word_of_int (k div 256) :: 8 word) * 256 + uint (word_of_int k :: 8 word) = k"
proof -
  have u: "uint (word_of_int x :: 8 word) = x mod 256" for x by (simp add: uint_word_of_int)
  have "k div 65536 = k div 256 div 256" using zdiv_zmult2_eq [of 256 k 256] by simp
  moreover have "k div 256 div 256 mod 256 = k div 256 div 256"
    using assms by (intro mod_pos_pos_trivial) auto
  ultimately have "uint (word_of_int (k div 65536) :: 8 word) = k div 256 div 256" by (simp add: u)
  moreover have "k div 256 div 256 * 256 + k div 256 mod 256 = k div 256" by simp
  moreover have "k div 256 * 256 + k mod 256 = k" by simp
  ultimately show ?thesis unfolding u by linarith
qed

lemma sample_unmarshal_marshal:
  assumes "sample_marshal x = Inr b" shows "sample_unmarshal b = Inr x"
proof (cases x)
  case (fields enc var)
  show ?thesis
  proof (cases var)
    case None
    with assms fields show ?thesis by (simp add: sample_marshal_def split: option.splits)
  next
    case (Some vp)
    obtain v p where v: "vp = (v, p)" by fastforce
    have "data_type_id v < 16777216" by (cases v) simp_all
    note k = three_bytes [OF data_type_id_pos this]
    have "enc = None" using assms fields Some v by (simp add: sample_marshal_def split: option.splits)
    then have "sample_unmarshal b = (case variant_of_id (data_type_id v) of None \<Rightarrow> Inl ''unknown variant''
        | Some v \<Rightarrow> Inr \<lparr>Encrypted = None, SpecificsVariant = Some (v, p)\<rparr>)"
      using assms fields Some v by (auto simp: sample_marshal_def k)
    then show ?thesis using fields Some v \<open>enc = None\<close> by (simp add: variant_of_id_left)
  qed
qed

lemma sample_env_ok: "codec_ok sample_env" "map_order_ok sample_env"
proof -
  show "codec_ok sample_env"
    unfolding codec_ok_def using sample_unmarshal_marshal by (simp add: sample_env_def)
  show "map_order_ok sample_env" by (simp add: map_order_ok_def)
qed

text \<open>A bookmark as a client commits it, and as the store keeps it.\<close>

definition sample_bookmark :: PbSyncEntity where
  "sample_bookmark = empty_PbSyncEntity
     \<lparr> pb_IdString := Some ''item-1'', pb_Version := Some 0, pb_Name := Some ''page'',
       pb_Specifics := Some \<lparr>Encrypted = None, SpecificsVariant = Some (V_Bookmark, [7, 8])\<rparr> \<rparr>"

definition sample_row :: "string \<Rightarrow> int \<Rightarrow> int \<Rightarrow> SyncEntity" where
  "sample_row i v m =
     \<lparr> ClientID = ''chain'', ID = i, ParentID = None, Version = Some v, Mtime = Some m,
       Ctime = Some m, Name = Some ''page'', NonUniqueName = None, ServerDefinedUniqueTag = None,
       Deleted = Some False, OriginatorCacheGUID = None, OriginatorClientItemID = None,
       Specifics = Some [], DataType = Some 32904, Folder = Some False,
       ClientDefinedUniqueTag = None, entity_UniquePosition = None, DataTypeMtime = None,
       ExpirationTime = None \<rparr>"

lemma sample_row_simps [simp]:
  "ClientID (sample_row i v m) = ''chain''" "ID (sample_row i v m) = i"
  "Version (sample_row i v m) = Some v" "Mtime (sample_row i v m) = Some m"
  "DataType (sample_row i v m) = Some 32904" "Deleted (sample_row i v m) = Some False"
  "Folder (sample_row i v m) = Some False" "ClientDefinedUniqueTag (sample_row i v m) = None"
  "ExpirationTime (sample_row i v m) = None"
  by (simp_all add: sample_row_def)

end
