(* ===== verification/Core_Props.thy ===== *)
theory Core_Props
  imports Type_Cache Item_Count Sample_Env
begin

section \<open>Properties of tokens, conversion, cache and counters\<close>

text \<open>
  The promises of the lower layers, each an instance of the lemmas of its component: the
  progress token codec, the data type identifiers, the conversion of committed entities,
  the cache on the in-memory client, and the roll-over of the history counters.
\<close>

subsection \<open>Tokens and data types\<close>

text \<open>
  The progress token of a response is always ten bytes long and decodes to the very
  modification time that was encoded, for every 64-bit integer.
\<close>

theorem token_round_trip:
  "in_int64 x \<Longrightarrow> length (put_token x) = 10 \<and> fst (varint (put_token x)) = x \<and> 0 < snd (varint (put_token x))"
  using length_put_varint(2) [of x] by (simp add: MaxVarintLen64_def)

lemma token_round_trip_witness: "fst (varint (put_token (- 77))) = - 77"
  using token_round_trip [of "- 77"] by (simp add: in_int64_def)

text \<open>
  The data type read by reflection from a struct tag identifies the kind of specifics:
  it is positive for each of the 61 kinds, no two kinds share it, and only history entities
  have the identifier on which the code's history branches test.
\<close>

theorem data_types_distinct:
  "0 < data_type_id v \<and> (data_type_id v = data_type_id w \<longleftrightarrow> v = w) \<and>
   (data_type_id v = HistoryTypeID \<longleftrightarrow> v = V_History)"
  by (simp add: data_type_id_pos data_type_id_inj data_type_id_history)

subsection \<open>Converting entities\<close>

text \<open>
  \<open>CreateDBSyncEntity\<close> panics exactly on entities that pass validation and marshal but
  have specifics of no kind, or are history entities without a client tag.
\<close>

theorem conversion_panic_iff:
  "fst (CreateDBSyncEntity E entity guid cid n) = Panic \<longleftrightarrow> conversion_panics E entity"
  by (rule CreateDB_Panic_iff)

text \<open>
  C37: Converting a committed entity to the data store's form and back, with a codec whose
  decoding undoes its encoding, gives the client's entity again, up to the fields the
  server assigns and three fields the data store does not keep.
\<close>

theorem conversion_round_trip:
  assumes "codec_ok E" and "CreateDBSyncEntity E (Some e) guid cid n = (Return (Inr d), n')"
  shows "CreatePBSyncEntity E d = Inr (served_entity e d)"
  by (rule CreatePB_CreateDB [OF assms])

lemma conversion_round_trip_witness:
  "\<exists>d n'. CreateDBSyncEntity sample_env (Some sample_bookmark) None ''chain'' 0 = (Return (Inr d), n') \<and>
     CreatePBSyncEntity sample_env d = Inr (served_entity sample_bookmark d)"
proof -
  obtain d n' where run: "CreateDBSyncEntity sample_env (Some sample_bookmark) None ''chain'' 0 = (Return (Inr d), n')"
    by (simp add: CreateDBSyncEntity_def validatePBEntity_def sample_bookmark_def empty_PbSyncEntity_def
        sample_marshal_def marshal_optional_position_def choose_id_def HistoryTypeID_def Let_def)
  show ?thesis using conversion_round_trip [OF sample_env_ok(1) run] run by blast
qed

text \<open>
  What a successful conversion yields: an entity of the requesting client with a
  modification time of the conversion's clock reading; a new entity (version 0) that names
  a cache GUID gets a fresh identifier, a history entity gets its client tag as identifier,
  every other keeps the client's; and a new entity always has a deleted and a folder flag.
\<close>

theorem conversion_result:
  assumes "CreateDBSyncEntity E (Some e) guid cid n = (Return (Inr d), n')"
  shows "ClientID d = cid \<and>
    Mtime d = Some (unix_milli E (n' - 1)) \<and>
    (DataType d = Some HistoryTypeID \<longrightarrow> Some (ID d) = pb_ClientTagHash e) \<and>
    (DataType d \<noteq> Some HistoryTypeID \<longrightarrow> guid \<noteq> None \<and> pb_Version e = Some 0 \<longrightarrow> ID d = new_uuid E n) \<and>
    (DataType d \<noteq> Some HistoryTypeID \<longrightarrow> \<not> (guid \<noteq> None \<and> pb_Version e = Some 0) \<longrightarrow> Some (ID d) = pb_IdString e) \<and>
    (pb_Version e = Some 0 \<longrightarrow> Deleted d \<noteq> None \<and> Folder d \<noteq> None)"
proof -
  have "ClientID d = cid"
    and "Mtime d = Some (unix_milli E (n' - 1))"
    and "DataType d = Some HistoryTypeID \<Longrightarrow> Some (ID d) = pb_ClientTagHash e"
    and "DataType d \<noteq> Some HistoryTypeID \<Longrightarrow> guid \<noteq> None \<and> pb_Version e = Some 0 \<Longrightarrow> ID d = new_uuid E n"
    and "DataType d \<noteq> Some HistoryTypeID \<Longrightarrow> \<not> (guid \<noteq> None \<and> pb_Version e = Some 0) \<Longrightarrow> Some (ID d) = pb_IdString e"
    and "pb_Version e = Some 0 \<Longrightarrow> Deleted d \<noteq> None \<and> Folder d \<noteq> None"
  proof -
    show "ClientID d = cid" "Mtime d = Some (unix_milli E (n' - 1))" by (rule CreateDB_fields [OF assms])+
    obtain e' idString version sp specifics v payload position i m where
      e': "Some e = Some e'" "pb_IdString e' = Some idString" "pb_Version e' = Some version"
        "pb_Specifics e' = Some sp" "SpecificsVariant sp = Some (v, payload)"
        "marshal_specifics E sp = Inr specifics"
        "marshal_optional_position E (pb_UniquePosition e') = Inr position"
      and hist: "v = V_History \<longrightarrow> pb_ClientTagHash e' = Some i"
      and other: "v \<noteq> V_History \<longrightarrow> (i, m) = choose_id E guid idString version n"
      and "n' = Suc m" "n \<le> m" and d: "d = build_SyncEntity e' guid cid i version specifics position
             (data_type_id v) (unix_milli E m) (unix_secs E m)"
      by (rule CreateDB_InrE [OF assms])
    note e = e'(2,3)
    have same: "e' = e" using e'(1) by simp
    have t: "DataType d = Some HistoryTypeID \<longleftrightarrow> v = V_History" and i: "ID d = i" and ver: "Version d = Some version"
      by (simp_all add: d data_type_id_history)
    show "Some (ID d) = pb_ClientTagHash e" if "DataType d = Some HistoryTypeID"
      using that hist by (simp add: t i same)
    show "ID d = new_uuid E n" if "DataType d \<noteq> Some HistoryTypeID" "guid \<noteq> None \<and> pb_Version e = Some 0"
      using that other e by (simp add: t i choose_id_def same)
    show "Some (ID d) = pb_IdString e"
      if "DataType d \<noteq> Some HistoryTypeID" "\<not> (guid \<noteq> None \<and> pb_Version e = Some 0)"
      using that other e by (auto simp: t i choose_id_def same)
    show "Deleted d \<noteq> None \<and> Folder d \<noteq> None" if "pb_Version e = Some 0"
      using CreateDB_fields(5) [OF assms] that e(2) ver by (simp add: same)
  qed
  then show ?thesis by blast
qed

lemma conversion_result_witness:
  "\<exists>d n'. CreateDBSyncEntity sample_env (Some sample_bookmark) (Some ''guid'') ''chain'' 0 = (Return (Inr d), n') \<and>
     ID d = new_uuid sample_env 0"
proof -
  obtain d n' where run: "CreateDBSyncEntity sample_env (Some sample_bookmark) (Some ''guid'') ''chain'' 0
      = (Return (Inr d), n')" and t: "DataType d = Some 32904"
    by (simp add: CreateDBSyncEntity_def validatePBEntity_def sample_bookmark_def empty_PbSyncEntity_def
        sample_marshal_def marshal_optional_position_def choose_id_def HistoryTypeID_def Let_def)
  have "ID d = new_uuid sample_env 0"
    by (rule conversion_result [OF run, THEN conjunct2, THEN conjunct2, THEN conjunct2, THEN conjunct1, THEN mp, THEN mp]) (simp_all add: t HistoryTypeID_def sample_bookmark_def)
  with run show ?thesis by blast
qed

subsection \<open>The cache\<close>

text \<open>
  The cache keys of different clients, data types and counters differ, for client IDs
  without a number sign (they are hexadecimal).
\<close>

theorem cache_keys_distinct:
  assumes "CHR ''#'' \<notin> set c" and "CHR ''#'' \<notin> set c'" and "in_int64 d" and "in_int64 d'"
  shows "(GetTypeMtimeKey c d = GetTypeMtimeKey c' d' \<longleftrightarrow> c = c' \<and> d = d') \<and>
    (GetInterimCountKey c ty = GetInterimCountKey c' ty' \<longleftrightarrow> c = c' \<and> ty = ty') \<and>
    GetTypeMtimeKey c d \<noteq> GetInterimCountKey c' ty"
  using type_key_inj [OF assms] interim_key_inj [OF assms(1,2)] type_key_not_interim [OF assms(1,2)] by simp

lemma cache_keys_distinct_witness: "GetTypeMtimeKey ''ab'' 5 \<noteq> GetTypeMtimeKey ''ab'' 6"
  using cache_keys_distinct [of "''ab''" "''ab''" 5 6] by (simp add: in_int64_def)

text \<open>
  A poll is answered from the cache exactly when it may be: after the server has noted
  modification time \<open>m\<close> for a type, a poll with a given token is told that there is
  nothing new only while the note has not expired (600 seconds) and the token is not older
  than \<open>m\<close>.
\<close>

theorem poll_cache_exact:
  assumes "SetTypeMtime memory_redis E c t m k n = (u, k1, n1)"
    and "IsTypeMtimeUpdated memory_redis E c t token k1 n2 = (updated, k2, n3)" and "in_int64 m"
  shows "\<not> updated \<longleftrightarrow> now_ns E n2 \<le> now_ns E n + 600 * 1000000000 \<and> m \<le> token"
  using memory.set_then_check [OF assms] by (auto simp: cache_ttl_def)

lemma poll_cache_exact_witness:
  "\<exists>k1 n1 k2 n3. SetTypeMtime memory_redis sample_env ''chain'' 32904 9 NewMemoryRedis 0 = ((), k1, n1) \<and>
     IsTypeMtimeUpdated memory_redis sample_env ''chain'' 32904 9 k1 1 = (False, k2, n3)"
proof -
  obtain k1 n1 where s: "SetTypeMtime memory_redis sample_env ''chain'' 32904 9 NewMemoryRedis 0 = ((), k1, n1)"
    by (metis prod_cases3 unit.exhaust)
  obtain b k2 n3 where q: "IsTypeMtimeUpdated memory_redis sample_env ''chain'' 32904 9 k1 1 = (b, k2, n3)"
    by (metis prod_cases3)
  have "\<not> b" using poll_cache_exact [OF s q] by (simp add: in_int64_def)
  with s q show ?thesis by auto
qed

text \<open>
  The interim counter of a client, starting without a value, holds the number of
  creations minus the number of deletions counted since; reading it with the clear flag
  returns that number and starts again from 0.
\<close>

theorem interim_count_sum:
  assumes "mono (now_ns E)" and "int (length bs) < 2 ^ 62" and "mr_kv k (GetInterimCountKey c ty) = None"
    and "run_interim memory_redis E c ty bs k n = (k1, n1)"
    and "GetInterimCount memory_redis E c ty True k1 n1 = (r, k2, n2)"
    and "GetInterimCount memory_redis E c ty clear k2 n2 = (r', k3, n3)"
  shows "r = Inr (interim_sum bs) \<and>
    r' = Inr 0"
proof -
  have "r = Inr (interim_sum bs)"
    and "r' = Inr 0"
  proof -
    have start: "memory.interim_is E (GetInterimCountKey c ty) k n 0"
      using assms(3) by (simp add: memory.interim_is_def mem_live_def)
    have run: "memory.interim_is E (GetInterimCountKey c ty) k1 n1 (interim_sum bs)"
      using memory.run_interim_is [OF start assms(1), of bs] assms(2,4) by simp
    have "in_int64 (interim_sum bs)"
      using interim_sum_bound [of bs] assms(2) by (auto simp: in_int64_def)
    note g = memory.get_interim [OF run this assms(5,1)]
    show "r = Inr (interim_sum bs)" by (rule g(1))
    have "memory.interim_is E (GetInterimCountKey c ty) k2 n2 0" using g(2) by simp
    from memory.get_interim(1) [OF this _ assms(6,1)] show "r' = Inr 0" by (simp add: in_int64_def)
  qed
  then show ?thesis by blast
qed

lemma interim_count_sum_witness:
  "\<exists>k1 n1 k2 n2. run_interim memory_redis sample_env ''c'' ''normal'' [False, False, True] NewMemoryRedis 0 = (k1, n1) \<and>
     GetInterimCount memory_redis sample_env ''c'' ''normal'' True k1 n1 = (Inr 1, k2, n2)"
proof -
  obtain k1 n1 where run: "run_interim memory_redis sample_env ''c'' ''normal'' [False, False, True] NewMemoryRedis 0 = (k1, n1)"
    by fastforce
  obtain r k2 n2 where g: "GetInterimCount memory_redis sample_env ''c'' ''normal'' True k1 n1 = (r, k2, n2)"
    by (metis prod_cases3)
  obtain r' k3 n3 where g': "GetInterimCount memory_redis sample_env ''c'' ''normal'' True k2 n2 = (r', k3, n3)"
    by (metis prod_cases3)
  have "mono (now_ns sample_env)" by (simp add: mono_def)
  from interim_count_sum [OF this _ _ run g g'] have "r = Inr 1"
    by (simp add: NewMemoryRedis_def interim_sum_def)
  with run g show ?thesis by blast
qed

subsection \<open>History counters\<close>

text \<open>
  C40: Rolling the history periods forward, when the clock has not gone back behind the last
  change: the current period contains the present afterwards; how often the counters are
  rolled in between does not matter; and what remains is the sum of those of the four
  periods (of three and a half days) that have not expired, the earliest ones having been
  dropped one for each period that has passed; after fourteen days nothing remains.
\<close>

theorem roll_periods_correct:
  assumes "LastPeriodChangeTime c \<le> t1" and "t1 \<le> t2"
  shows "roll_periods t2 (roll_periods t1 c) = roll_periods t2 c \<and>
    (LastPeriodChangeTime (roll_periods t2 c) \<le> t2 \<and> t2 < LastPeriodChangeTime (roll_periods t2 c) + periodDurationSecs) \<and>
    SumHistoryCounts (roll_periods t2 c) =
      sum_list (drop (nat ((t2 - LastPeriodChangeTime c) div 302400))
        [HistoryItemCountPeriod1 c, HistoryItemCountPeriod2 c, HistoryItemCountPeriod3 c, HistoryItemCountPeriod4 c]) \<and>
    (LastPeriodChangeTime c + 14 * 24 * 3600 \<le> t2 \<longrightarrow> SumHistoryCounts (roll_periods t2 c) = 0)"
proof -
  have le: "LastPeriodChangeTime c \<le> t2" using assms by simp
  let ?k = "(t2 - LastPeriodChangeTime c) div 302400"
  have sum: "SumHistoryCounts (roll_periods t2 c) = sum_list (drop (nat ?k)
      [HistoryItemCountPeriod1 c, HistoryItemCountPeriod2 c, HistoryItemCountPeriod3 c, HistoryItemCountPeriod4 c])"
    using shift_periods_sum [of "nat ?k" c]
    by (simp add: roll_periods_eq [OF le] period_val SumHistoryCounts_def)
  have "4 \<le> nat ?k" if "LastPeriodChangeTime c + 14 * 24 * 3600 \<le> t2"
    using that zdiv_mono1 [of "4 * 302400" "t2 - LastPeriodChangeTime c" 302400] by simp
  then have "SumHistoryCounts (roll_periods t2 c) = 0" if "LastPeriodChangeTime c + 14 * 24 * 3600 \<le> t2"
    using that sum by (simp add: drop_all)
  with sum roll_periods_compose [OF assms] roll_periods_last [OF le] show ?thesis by blast
qed

text \<open>Counters with a deleted item of an earlier period: one and a half weeks later.\<close>

lemma roll_periods_correct_witness:
  "SumHistoryCounts (roll_periods 1000000 \<lparr>cnt_ClientID = ''c'', cnt_ID = ''c'', ItemCount = 1,
     HistoryItemCountPeriod1 = 1, HistoryItemCountPeriod2 = 2, HistoryItemCountPeriod3 = 3,
     HistoryItemCountPeriod4 = - 1, LastPeriodChangeTime = 5, cnt_Version = 2\<rparr>) = - 1"
  by (subst roll_periods_correct [where ?t1.0 = 6, THEN conjunct2, THEN conjunct2, THEN conjunct1])
    (simp_all add: numeral_3_eq_3)

end
