(* ===== verification/Device_Limit.thy ===== *)
theory Device_Limit
  imports Sample_Env
begin

section \<open>The device limit (command/device\_limit.go)\<close>

text \<open>
  How many active devices a chain may have: \<open>maxActiveDevices\<close>, or
  \<open>highMaxActiveDevices\<close> for the client IDs listed in an environment variable. The set of
  those IDs is a list, of which the code only asks membership.
\<close>

definition maxActiveDevices :: int where "maxActiveDevices = 50"
definition highMaxActiveDevices :: int where "highMaxActiveDevices = 100"

definition LoadHighDeviceLimitClientIDs :: "string \<Rightarrow> string list" where
  "LoadHighDeviceLimitClientIDs clientIDList =
     (if clientIDList \<noteq> ''''
      then map (\<lambda>i. to_lower (trim_space i)) (split_on (CHR '','') clientIDList)
      else [])"

definition hasReachedDeviceLimit :: "env \<Rightarrow> int \<Rightarrow> string \<Rightarrow> bool" where
  "hasReachedDeviceLimit E activeDevices clientID =
     (let limit = (if to_lower clientID \<in> set (highDeviceLimitClientIDs E)
                   then highMaxActiveDevices else maxActiveDevices)
      in limit \<le> activeDevices)"

lemma limit_mono:
  "hasReachedDeviceLimit E a c \<Longrightarrow> a \<le> b \<Longrightarrow> hasReachedDeviceLimit E b c"
  by (auto simp: hasReachedDeviceLimit_def Let_def split: if_splits)

lemma not_limit_zero: "\<not> hasReachedDeviceLimit E 0 c"
  by (simp add: hasReachedDeviceLimit_def maxActiveDevices_def highMaxActiveDevices_def Let_def)

text \<open>
  With the limits loaded from the list of client IDs, a chain is refused its next
  device at 100 active devices if its ID is in the list (ignoring case and the spaces
  around it), and at 50 if it is not.
\<close>

theorem device_limit_value:
  assumes "highDeviceLimitClientIDs E = LoadHighDeviceLimitClientIDs ids"
  shows "hasReachedDeviceLimit E k c \<longleftrightarrow>
    (if ids \<noteq> '''' \<and> (\<exists>i \<in> set (split_on (CHR '','') ids). to_lower (trim_space i) = to_lower c)
     then 100 \<le> k else 50 \<le> k)"
proof -
  have "to_lower c \<in> set (highDeviceLimitClientIDs E) \<longleftrightarrow>
      ids \<noteq> '''' \<and> (\<exists>i \<in> set (split_on (CHR '','') ids). to_lower (trim_space i) = to_lower c)"
    by (force simp: assms LoadHighDeviceLimitClientIDs_def)
  then show ?thesis
    unfolding hasReachedDeviceLimit_def maxActiveDevices_def highMaxActiveDevices_def Let_def by presburger
qed

lemma device_limit_value_witness:
  "\<not> hasReachedDeviceLimit
       (sample_env\<lparr>highDeviceLimitClientIDs := LoadHighDeviceLimitClientIDs ''Ab, cd''\<rparr>) 60 ''CD'' \<and>
   hasReachedDeviceLimit
       (sample_env\<lparr>highDeviceLimitClientIDs := LoadHighDeviceLimitClientIDs ''Ab, cd''\<rparr>) 60 ''ef''"
proof -
  let ?E = "sample_env\<lparr>highDeviceLimitClientIDs := LoadHighDeviceLimitClientIDs ''Ab, cd''\<rparr>"
  have eq: "highDeviceLimitClientIDs ?E = LoadHighDeviceLimitClientIDs ''Ab, cd''" by simp
  show ?thesis
    unfolding device_limit_value [OF eq]
    by code_simp
qed

end
