(* ===== verification/Datastore.thy ===== *)
theory Datastore
  imports Item_Count
begin

section \<open>The Datastore interface (datastore/datastore.go)\<close>

text \<open>
  The method table of the \<open>Datastore\<close> interface, over the type of the store's state. The
  command handlers take the table as a parameter, as the code takes an interface value.
  A result pair keeps Go's several return values where callers look at more than one of
  them in the error case; otherwise an error is the left summand.
\<close>

record 'd datastore =
  ds_InsertSyncEntity :: "env \<Rightarrow> SyncEntity \<Rightarrow> ('d, bool \<times> error option) op"
  ds_InsertSyncEntitiesWithServerTags :: "env \<Rightarrow> SyncEntity list \<Rightarrow> ('d, error option) op"
  ds_UpdateSyncEntity :: "env \<Rightarrow> SyncEntity \<Rightarrow> int \<Rightarrow> ('d, bool \<times> bool \<times> error option) op"
  ds_GetUpdatesForType :: "env \<Rightarrow> int \<Rightarrow> int \<Rightarrow> bool \<Rightarrow> string \<Rightarrow> int
     \<Rightarrow> ('d, error + bool \<times> SyncEntity list) op"
  ds_HasServerDefinedUniqueTag :: "env \<Rightarrow> string \<Rightarrow> string \<Rightarrow> ('d, error + bool) op"
  ds_GetClientItemCount :: "env \<Rightarrow> string \<Rightarrow> ('d, error + ClientItemCounts) op"
  ds_UpdateClientItemCount :: "env \<Rightarrow> ClientItemCounts \<Rightarrow> int \<Rightarrow> int \<Rightarrow> ('d, error option) op"
  ds_ClearServerData :: "env \<Rightarrow> string \<Rightarrow> ('d, error + SyncEntity list) op"
  ds_DisableSyncChain :: "env \<Rightarrow> string \<Rightarrow> ('d, error option) op"
  ds_IsSyncChainDisabled :: "env \<Rightarrow> string \<Rightarrow> ('d, error + bool) op"
  ds_HasItem :: "env \<Rightarrow> string \<Rightarrow> string \<Rightarrow> ('d, error + bool) op"

subsection \<open>The contract\<close>

text \<open>
  What the handlers may rely on, over an invariant \<open>inv\<close> of the store and the data
  \<open>view d c\<close> of one client: every operation keeps the invariant and touches the data of
  its own client only, the reads change nothing, and a batch of updates is what the
  interface says: entities of that client and type, modified after the token, in the order
  of their modification times, at most \<open>maxSize\<close> of them. The entities that the handlers
  write are \<open>storable\<close> and \<open>encoded\<close>: the conversion from protobuf sets these fields. The
  contract is for operations in one environment.
\<close>

definition storable :: "SyncEntity \<Rightarrow> bool" where
  "storable e \<longleftrightarrow> (\<exists>m. Mtime e = Some m) \<and> (\<exists>v. Version e = Some v) \<and>
     (\<exists>t. DataType e = Some t \<and> (t \<noteq> HistoryTypeID \<longrightarrow> (\<exists>b. Deleted e = Some b)))"

text \<open>An update may leave the deleted flag alone.\<close>

definition updatable :: "SyncEntity \<Rightarrow> bool" where
  "updatable e \<longleftrightarrow> (\<exists>m. Mtime e = Some m) \<and> (\<exists>v. Version e = Some v) \<and> (\<exists>t. DataType e = Some t)"

locale datastore_frame =
  fixes ds :: "'d datastore"
    and E :: env
    and inv :: "'d \<Rightarrow> bool"
    and view :: "'d \<Rightarrow> string \<Rightarrow> 'v"
  assumes insert_inv: "ds_InsertSyncEntity ds E e d n = (ires, d', n') \<Longrightarrow> storable e \<Longrightarrow> encoded E e \<Longrightarrow>
      inv d \<Longrightarrow> inv d'"
    and insert_frame: "ds_InsertSyncEntity ds E e d n = (ires, d', n') \<Longrightarrow> c \<noteq> ClientID e \<Longrightarrow>
      view d' c = view d c"
    and insert_tags_inv: "ds_InsertSyncEntitiesWithServerTags ds E es d n = (eres, d', n') \<Longrightarrow>
      \<forall>e \<in> set es. storable e \<and> encoded E e \<Longrightarrow> inv d \<Longrightarrow> inv d'"
    and insert_tags_frame: "ds_InsertSyncEntitiesWithServerTags ds E es d n = (eres, d', n') \<Longrightarrow>
      \<forall>e \<in> set es. ClientID e \<noteq> c \<Longrightarrow> view d' c = view d c"
    and update_inv: "ds_UpdateSyncEntity ds E e v d n = (ures, d', n') \<Longrightarrow> updatable e \<Longrightarrow> encoded E e \<Longrightarrow>
      inv d \<Longrightarrow> inv d'"
    and update_frame: "ds_UpdateSyncEntity ds E e v d n = (ures, d', n') \<Longrightarrow> c \<noteq> ClientID e \<Longrightarrow>
      view d' c = view d c"
    and counts_inv: "ds_UpdateClientItemCount ds E k a b d n = (eres, d', n') \<Longrightarrow> inv d \<Longrightarrow> inv d'"
    and counts_frame: "ds_UpdateClientItemCount ds E k a b d n = (eres, d', n') \<Longrightarrow>
      c \<noteq> cnt_ClientID k \<Longrightarrow> view d' c = view d c"
    and clear_inv: "ds_ClearServerData ds E cl d n = (cres, d', n') \<Longrightarrow> inv d \<Longrightarrow> inv d'"
    and clear_frame: "ds_ClearServerData ds E cl d n = (cres, d', n') \<Longrightarrow> c \<noteq> cl \<Longrightarrow> view d' c = view d c"
    and disable_inv: "ds_DisableSyncChain ds E cl d n = (eres, d', n') \<Longrightarrow> inv d \<Longrightarrow> inv d'"
    and disable_frame: "ds_DisableSyncChain ds E cl d n = (eres, d', n') \<Longrightarrow> c \<noteq> cl \<Longrightarrow> view d' c = view d c"
    and get_updates_reads: "ds_GetUpdatesForType ds E t tok ff cl m d n = (gres, d', n') \<Longrightarrow> d' = d"
    and has_tag_reads: "ds_HasServerDefinedUniqueTag ds E cl tag d n = (bres, d', n') \<Longrightarrow> d' = d"
    and get_counts_reads: "ds_GetClientItemCount ds E cl d n = (kres, d', n') \<Longrightarrow> d' = d"
    and get_counts_client: "ds_GetClientItemCount ds E cl d n = (Inr k, d', n') \<Longrightarrow> cnt_ClientID k = cl"
    and is_disabled_reads: "ds_IsSyncChainDisabled ds E cl d n = (bres, d', n') \<Longrightarrow> d' = d"
    and has_item_reads: "ds_HasItem ds E cl i d n = (bres, d', n') \<Longrightarrow> d' = d"

locale datastore_contract = datastore_frame +
  assumes updates_batch: "ds_GetUpdatesForType ds E t tok ff cl m d n = (Inr (again, es), d', n') \<Longrightarrow>
      inv d \<Longrightarrow> 0 \<le> m \<Longrightarrow>
      int (length es) \<le> m \<and> sorted (map (\<lambda>e. the (Mtime e)) es) \<and>
      (\<forall>e \<in> set es. ClientID e = cl \<and> DataType e = Some t \<and>
         (\<exists>mt. Mtime e = Some mt \<and> tok < mt) \<and> (t \<noteq> HistoryTypeID \<longrightarrow> (\<exists>b. Deleted e = Some b)))"

text \<open>The part of the contract about disabled chains: once set, the mark stays.\<close>

locale datastore_disable = datastore_frame +
  fixes disabled :: "'d \<Rightarrow> string \<Rightarrow> bool"
  assumes is_disabled_value: "ds_IsSyncChainDisabled ds E cl d n = (Inr flag, d', n') \<Longrightarrow> flag = disabled d cl"
    and disable_sets: "ds_DisableSyncChain ds E cl d n = (None, d', n') \<Longrightarrow> disabled d' cl"
    and disable_keeps: "ds_DisableSyncChain ds E cl d n = (eres, d', n') \<Longrightarrow> disabled d c \<Longrightarrow> disabled d' c"
    and insert_keeps: "ds_InsertSyncEntity ds E e d n = (ires, d', n') \<Longrightarrow> disabled d c \<Longrightarrow> disabled d' c"
    and insert_tags_keeps: "ds_InsertSyncEntitiesWithServerTags ds E es d n = (eres, d', n') \<Longrightarrow>
      disabled d c \<Longrightarrow> disabled d' c"
    and update_keeps: "ds_UpdateSyncEntity ds E e v d n = (ures, d', n') \<Longrightarrow> disabled d c \<Longrightarrow> disabled d' c"
    and counts_keeps: "ds_UpdateClientItemCount ds E k a b d n = (eres, d', n') \<Longrightarrow>
      disabled d c \<Longrightarrow> disabled d' c"
    and clear_keeps: "ds_ClearServerData ds E cl d n = (cres, d', n') \<Longrightarrow> disabled d c \<Longrightarrow> disabled d' c"

text \<open>
  What a request of one client \<open>c\<close> is built from: every operation that it
  runs is an \<open>R\<close>-step, for a reflexive and transitive relation \<open>R\<close> between the states of the
  store before and after. Reads need not leave the store alone (between two operations
  others may run theirs). The loop over the entries of a commit uses three operations
  only, \<open>entry_steps\<close>; \<open>datastore_steps\<close> adds the others.
\<close>

locale entry_steps =
  fixes ds :: "'d datastore"
    and E :: env
    and c :: string
    and R :: "'d \<Rightarrow> 'd \<Rightarrow> bool"
  assumes step_refl: "R d d"
    and step_trans: "R d d' \<Longrightarrow> R d' d'' \<Longrightarrow> R d d''"
    and insert_step: "ds_InsertSyncEntity ds E e d n = (ires, d', n') \<Longrightarrow> storable e \<Longrightarrow> encoded E e \<Longrightarrow>
      ClientID e = c \<Longrightarrow> R d d'"
    and update_step: "ds_UpdateSyncEntity ds E e v d n = (ures, d', n') \<Longrightarrow> updatable e \<Longrightarrow> encoded E e \<Longrightarrow>
      ClientID e = c \<Longrightarrow> R d d'"
    and has_item_step: "ds_HasItem ds E c i d n = (bres, d', n') \<Longrightarrow> R d d'"

locale datastore_steps = entry_steps +
  assumes get_counts_own: "ds_GetClientItemCount ds E c d n = (Inr k, d', n') \<Longrightarrow> cnt_ClientID k = c"
    and insert_tags_step: "ds_InsertSyncEntitiesWithServerTags ds E es d n = (eres, d', n') \<Longrightarrow>
      \<forall>e \<in> set es. storable e \<and> encoded E e \<and> ClientID e = c \<Longrightarrow> R d d'"
    and counts_step: "ds_UpdateClientItemCount ds E k a b d n = (eres, d', n') \<Longrightarrow> cnt_ClientID k = c \<Longrightarrow> R d d'"
    and clear_step: "ds_ClearServerData ds E c d n = (cres, d', n') \<Longrightarrow> R d d'"
    and disable_step: "ds_DisableSyncChain ds E c d n = (eres, d', n') \<Longrightarrow> R d d'"
    and get_updates_step: "ds_GetUpdatesForType ds E t tok ff c m d n = (gres, d', n') \<Longrightarrow> R d d'"
    and has_tag_step: "ds_HasServerDefinedUniqueTag ds E c tag d n = (bres, d', n') \<Longrightarrow> R d d'"
    and get_counts_step: "ds_GetClientItemCount ds E c d n = (kres, d', n') \<Longrightarrow> R d d'"
    and is_disabled_step: "ds_IsSyncChainDisabled ds E c d n = (bres, d', n') \<Longrightarrow> R d d'"

end
