(* ===== verification/Sqlite_Store.thy ===== *)
theory Sqlite_Store
  imports Datastore
begin

section \<open>The SQLite store (sync-lite/sqlite\_store.go)\<close>

text \<open>
  The database is three tables, each a list of rows in insertion order; a column that can
  be NULL is an option. Every SQL statement of the source is a function on the tables with
  the statement's conditions, where a comparison with NULL does not hold. Each statement,
  and each begin and commit of a transaction, may fail with an error of the driver
  (\<open>db_fault\<close>); inside a transaction the working copy is dropped on any error, as
  \<open>defer tx.Rollback()\<close> does.
\<close>

subsection \<open>Rows and columns\<close>

record entity_row =
  c_client_id :: string
  c_id :: string
  c_parent_id :: "string option"
  c_version :: "int option"
  c_mtime :: "int option"
  c_ctime :: "int option"
  c_name :: "string option"
  c_non_unique_name :: "string option"
  c_server_defined_unique_tag :: "string option"
  c_deleted :: "int option"
  c_originator_cache_guid :: "string option"
  c_originator_client_item_id :: "string option"
  c_specifics :: "bytes option"
  c_data_type :: "int option"
  c_folder :: "int option"
  c_client_defined_unique_tag :: "string option"
  c_unique_position :: "bytes option"
  c_data_type_mtime :: "string option"
  c_expiration_time :: "int option"

record tag_row =
  t_client_id :: string
  t_id :: string
  t_mtime :: int
  t_ctime :: int

record count_row =
  n_client_id :: string
  n_item_count :: int
  n_period1 :: int
  n_period2 :: int
  n_period3 :: int
  n_period4 :: int
  n_last_period_change_time :: int
  n_version :: int

record SQLiteStore =
  sync_entities :: "entity_row list"
  unique_tags :: "tag_row list"
  client_item_counts :: "count_row list"

text \<open>\<open>CREATE TABLE IF NOT EXISTS\<close>: the tables of an existing file, else empty ones.\<close>

definition initSchema :: "SQLiteStore option \<Rightarrow> SQLiteStore" where
  "initSchema file =
     (case file of
        Some s \<Rightarrow> s
      | None \<Rightarrow> \<lparr>sync_entities = [], unique_tags = [], client_item_counts = []\<rparr>)"

definition entity_key :: "entity_row \<Rightarrow> string \<times> string" where
  "entity_key r = (c_client_id r, c_id r)"

definition tag_key :: "tag_row \<Rightarrow> string \<times> string" where
  "tag_key r = (t_client_id r, t_id r)"

subsection \<open>Conversions between Go values and column values\<close>

definition boolToInt :: "bool \<Rightarrow> int" where
  "boolToInt v = (if v then 1 else 0)"

definition nullableBool :: "bool option \<Rightarrow> int option" where
  "nullableBool v = map_option boolToInt v"

definition nullBoolToPtr :: "int option \<Rightarrow> bool option" where
  "nullBoolToPtr v = map_option (\<lambda>n. n \<noteq> 0) v"

definition ptrString :: "string option \<Rightarrow> string" where
  "ptrString v = (case v of None \<Rightarrow> '''' | Some s \<Rightarrow> s)"

definition isConstraintErr :: "error \<Rightarrow> bool" where
  "isConstraintErr err = contains ''constraint'' (to_lower err)"

text \<open>The row that \<open>insertSyncEntity\<close> writes and the entity that \<open>scanEntity\<close> reads.\<close>

definition row_of_entity :: "SyncEntity \<Rightarrow> entity_row" where
  "row_of_entity e =
     \<lparr> c_client_id = ClientID e, c_id = ID e, c_parent_id = ParentID e,
       c_version = Version e, c_mtime = Mtime e, c_ctime = Ctime e,
       c_name = Name e, c_non_unique_name = NonUniqueName e,
       c_server_defined_unique_tag = ServerDefinedUniqueTag e,
       c_deleted = nullableBool (Deleted e),
       c_originator_cache_guid = OriginatorCacheGUID e,
       c_originator_client_item_id = OriginatorClientItemID e,
       c_specifics = Specifics e, c_data_type = DataType e,
       c_folder = nullableBool (Folder e),
       c_client_defined_unique_tag = ClientDefinedUniqueTag e,
       c_unique_position = entity_UniquePosition e,
       c_data_type_mtime = DataTypeMtime e,
       c_expiration_time = ExpirationTime e \<rparr>"

definition scanEntity :: "entity_row \<Rightarrow> SyncEntity" where
  "scanEntity r =
     \<lparr> ClientID = c_client_id r, ID = c_id r, ParentID = c_parent_id r,
       Version = c_version r, Mtime = c_mtime r, Ctime = c_ctime r,
       Name = c_name r, NonUniqueName = c_non_unique_name r,
       ServerDefinedUniqueTag = c_server_defined_unique_tag r,
       Deleted = nullBoolToPtr (c_deleted r),
       OriginatorCacheGUID = c_originator_cache_guid r,
       OriginatorClientItemID = c_originator_client_item_id r,
       Specifics = c_specifics r, DataType = c_data_type r,
       Folder = nullBoolToPtr (c_folder r),
       ClientDefinedUniqueTag = c_client_defined_unique_tag r,
       entity_UniquePosition = c_unique_position r,
       DataTypeMtime = c_data_type_mtime r,
       ExpirationTime = c_expiration_time r \<rparr>"

subsection \<open>Statements\<close>

text \<open>One statement with outcome \<open>r\<close>, unless the driver fails at this step.\<close>

definition stmt :: "env \<Rightarrow> nat \<Rightarrow> error + 'a \<Rightarrow> (error + 'a) \<times> nat" where
  "stmt E n r = (case db_fault E n of Some err \<Rightarrow> (Inl err, Suc n) | None \<Rightarrow> (r, Suc n))"

definition insert_tag_row :: "env \<Rightarrow> string \<Rightarrow> string \<Rightarrow> int \<Rightarrow> SQLiteStore \<Rightarrow> error + SQLiteStore" where
  "insert_tag_row E clientID tagID now s =
     (if list_ex (\<lambda>r. tag_key r = (clientID, tagID)) (unique_tags s) then Inl (constraint_msg E)
      else Inr (s\<lparr>unique_tags := unique_tags s @
             [\<lparr>t_client_id = clientID, t_id = tagID, t_mtime = now, t_ctime = now\<rparr>]\<rparr>))"

definition insert_entity_row :: "env \<Rightarrow> entity_row \<Rightarrow> SQLiteStore \<Rightarrow> error + SQLiteStore" where
  "insert_entity_row E row s =
     (if list_ex (\<lambda>r. entity_key r = entity_key row) (sync_entities s) then Inl (constraint_msg E)
      else Inr (s\<lparr>sync_entities := sync_entities s @ [row]\<rparr>))"

definition insertSyncEntity ::
  "env \<Rightarrow> SyncEntity \<Rightarrow> SQLiteStore \<Rightarrow> nat \<Rightarrow> (error + SQLiteStore) \<times> nat" where
  "insertSyncEntity E entity s n = stmt E n (insert_entity_row E (row_of_entity entity) s)"

definition find_row :: "string \<Rightarrow> string \<Rightarrow> SQLiteStore \<Rightarrow> entity_row option" where
  "find_row clientID eid s = find (\<lambda>r. entity_key r = (clientID, eid)) (sync_entities s)"

definition has_tag :: "string \<Rightarrow> string \<Rightarrow> SQLiteStore \<Rightarrow> bool" where
  "has_tag clientID tagID s = list_ex (\<lambda>r. tag_key r = (clientID, tagID)) (unique_tags s)"

definition delete_tag :: "string \<Rightarrow> string \<Rightarrow> SQLiteStore \<Rightarrow> SQLiteStore" where
  "delete_tag clientID tagID s =
     s\<lparr>unique_tags := filter (\<lambda>r. tag_key r \<noteq> (clientID, tagID)) (unique_tags s)\<rparr>"

text \<open>The columns the dynamic \<open>UPDATE\<close> sets, and the statement.\<close>

definition update_columns :: "SyncEntity \<Rightarrow> entity_row \<Rightarrow> entity_row" where
  "update_columns e r = r
     \<lparr> c_version := Version e, c_mtime := Mtime e, c_specifics := Specifics e,
       c_data_type_mtime := DataTypeMtime e,
       c_unique_position := (if entity_UniquePosition e = None then c_unique_position r
                             else entity_UniquePosition e),
       c_parent_id := (if ParentID e = None then c_parent_id r else ParentID e),
       c_name := (if Name e = None then c_name r else Name e),
       c_non_unique_name := (if NonUniqueName e = None then c_non_unique_name r else NonUniqueName e),
       c_deleted := (if Deleted e = None then c_deleted r else nullableBool (Deleted e)),
       c_folder := (if Folder e = None then c_folder r else nullableBool (Folder e)) \<rparr>"

definition update_entity_row :: "SyncEntity \<Rightarrow> SQLiteStore \<Rightarrow> SQLiteStore" where
  "update_entity_row e s = s\<lparr>sync_entities :=
     map (\<lambda>r. if entity_key r = (ClientID e, ID e) then update_columns e r else r) (sync_entities s)\<rparr>"

subsection \<open>Writing entities\<close>

text \<open>The tag insertion of \<open>InsertSyncEntity\<close>: skipped for history and untagged entities.\<close>

definition insert_client_tag ::
  "env \<Rightarrow> SyncEntity \<Rightarrow> SQLiteStore \<Rightarrow> nat \<Rightarrow> (error + SQLiteStore) \<times> nat" where
  "insert_client_tag E entity s n =
     (case (ClientDefinedUniqueTag entity, DataType entity) of
        (Some tag, Some dataType) \<Rightarrow>
          if dataType \<noteq> HistoryTypeID
          then stmt E (Suc n) (insert_tag_row E (ClientID entity) (clientTagItemPrefix @ tag)
                 (unix_milli E n) s)
          else (Inr s, n)
      | _ \<Rightarrow> (Inr s, n))"

definition sql_InsertSyncEntity :: "env \<Rightarrow> SyncEntity \<Rightarrow> (SQLiteStore, bool \<times> error option) op" where
  "sql_InsertSyncEntity E entity s n =
     (case stmt E n (Inr ()) of
        (Inl err, n) \<Rightarrow> ((False, Some err), s, n)
      | (Inr _, n) \<Rightarrow>
     (case insert_client_tag E entity s n of
        (Inl err, n) \<Rightarrow>
          (if isConstraintErr err then ((True, None), s, n) else ((False, Some err), s, n))
      | (Inr s1, n) \<Rightarrow>
     (case insertSyncEntity E entity s1 n of
        (Inl err, n) \<Rightarrow>
          (if isConstraintErr err then ((True, None), s, n) else ((False, Some err), s, n))
      | (Inr s2, n) \<Rightarrow>
     (case stmt E n (Inr ()) of
        (Inl err, n) \<Rightarrow> ((False, Some err), s, n)
      | (Inr _, n) \<Rightarrow> ((False, None), s2, n)))))"

text \<open>The loop over the entities of one transaction, and the transaction.\<close>

fun insert_with_server_tags ::
  "env \<Rightarrow> int \<Rightarrow> SyncEntity list \<Rightarrow> SQLiteStore \<Rightarrow> nat \<Rightarrow> (error + SQLiteStore) \<times> nat" where
  "insert_with_server_tags E now [] s n = (Inr s, n)"
| "insert_with_server_tags E now (entity # entities) s n =
     (case stmt E n (insert_tag_row E (ClientID entity)
             (serverTagItemPrefix @ ptrString (ServerDefinedUniqueTag entity)) now s) of
        (Inl err, n) \<Rightarrow> (Inl err, n)
      | (Inr s, n) \<Rightarrow>
     (case insertSyncEntity E entity s n of
        (Inl err, n) \<Rightarrow> (Inl err, n)
      | (Inr s, n) \<Rightarrow> insert_with_server_tags E now entities s n))"

definition sql_InsertSyncEntitiesWithServerTags ::
  "env \<Rightarrow> SyncEntity list \<Rightarrow> (SQLiteStore, error option) op" where
  "sql_InsertSyncEntitiesWithServerTags E entities s n =
     (case stmt E n (Inr ()) of
        (Inl err, n) \<Rightarrow> (Some err, s, n)
      | (Inr _, n) \<Rightarrow>
     (case insert_with_server_tags E (unix_milli E n) entities s (Suc n) of
        (Inl err, n) \<Rightarrow> (Some err, s, n)
      | (Inr s1, n) \<Rightarrow>
     (case stmt E n (Inr ()) of
        (Inl err, n) \<Rightarrow> (Some err, s, n)
      | (Inr _, n) \<Rightarrow> (None, s1, n))))"

text \<open>The tag deletion of \<open>UpdateSyncEntity\<close>: only when a tagged entity is deleted.\<close>

definition delete_client_tag ::
  "env \<Rightarrow> SyncEntity \<Rightarrow> SQLiteStore \<Rightarrow> nat \<Rightarrow> (error + SQLiteStore) \<times> nat" where
  "delete_client_tag E entity s n =
     (case (Deleted entity, ClientDefinedUniqueTag entity, DataType entity) of
        (Some True, Some tag, Some dataType) \<Rightarrow>
          if dataType \<noteq> HistoryTypeID
          then stmt E n (Inr (delete_tag (ClientID entity) (clientTagItemPrefix @ tag) s))
          else (Inr s, n)
      | _ \<Rightarrow> (Inr s, n))"

text \<open>The version check: skipped for history; a NULL version never matches.\<close>

definition version_conflict :: "SyncEntity \<Rightarrow> int option \<Rightarrow> int \<Rightarrow> bool" where
  "version_conflict entity currentVersion oldVersion =
     (case DataType entity of
        Some dataType \<Rightarrow> dataType \<noteq> HistoryTypeID \<and> currentVersion \<noteq> Some oldVersion
      | None \<Rightarrow> False)"

definition sql_UpdateSyncEntity ::
  "env \<Rightarrow> SyncEntity \<Rightarrow> int \<Rightarrow> (SQLiteStore, bool \<times> bool \<times> error option) op" where
  "sql_UpdateSyncEntity E entity oldVersion s n =
     (case stmt E n (Inr ()) of
        (Inl err, n) \<Rightarrow> ((False, False, Some err), s, n)
      | (Inr _, n) \<Rightarrow>
     (case stmt E n (Inr (find_row (ClientID entity) (ID entity) s)) of
        (Inl err, n) \<Rightarrow> ((False, False, Some err), s, n)
      | (Inr None, n) \<Rightarrow> ((True, False, None), s, n)
      | (Inr (Some row), n) \<Rightarrow>
     (if version_conflict entity (c_version row) oldVersion then ((True, False, None), s, n)
      else
     (case stmt E n (Inr (update_entity_row entity s)) of
        (Inl err, n) \<Rightarrow> ((False, False, Some err), s, n)
      | (Inr s1, n) \<Rightarrow>
     (case delete_client_tag E entity s1 n of
        (Inl err, n) \<Rightarrow> ((False, False, Some err), s, n)
      | (Inr s2, n) \<Rightarrow>
     (case stmt E n (Inr ()) of
        (Inl err, n) \<Rightarrow> ((False, False, Some err), s, n)
      | (Inr _, n) \<Rightarrow>
          (let oldDeleted = (case c_deleted row of None \<Rightarrow> False | Some d \<Rightarrow> d \<noteq> 0);
               newDeleted = (Deleted entity = Some True)
           in ((False, \<not> oldDeleted \<and> newDeleted, None), s2, n))))))))"

subsection \<open>Reading updates\<close>

text \<open>The \<open>WHERE\<close> clause of \<open>GetUpdatesForType\<close> and its ordered result.\<close>

definition is_update :: "int \<Rightarrow> int \<Rightarrow> bool \<Rightarrow> string \<Rightarrow> int \<Rightarrow> entity_row \<Rightarrow> bool" where
  "is_update dataType clientToken fetchFolders clientID now r \<longleftrightarrow>
     c_client_id r = clientID \<and>
     c_data_type r = Some dataType \<and>
     (case c_mtime r of None \<Rightarrow> False | Some m \<Rightarrow> clientToken < m) \<and>
     (case c_expiration_time r of None \<Rightarrow> True | Some t \<Rightarrow> t = 0 \<or> now \<le> t) \<and>
     (fetchFolders \<or> c_folder r = Some 0)"

definition row_mtime :: "entity_row \<Rightarrow> int" where
  "row_mtime r = (case c_mtime r of None \<Rightarrow> 0 | Some m \<Rightarrow> m)"

definition select_updates ::
  "int \<Rightarrow> int \<Rightarrow> bool \<Rightarrow> string \<Rightarrow> int \<Rightarrow> SQLiteStore \<Rightarrow> entity_row list" where
  "select_updates dataType clientToken fetchFolders clientID now s =
     sort_key row_mtime (filter (is_update dataType clientToken fetchFolders clientID now) (sync_entities s))"

text \<open>
  \<open>maxSize\<close> is not negative in any call. One row more than asked for is fetched, to know
  whether there are more.
\<close>

definition sql_GetUpdatesForType ::
  "env \<Rightarrow> int \<Rightarrow> int \<Rightarrow> bool \<Rightarrow> string \<Rightarrow> int \<Rightarrow> (SQLiteStore, error + bool \<times> SyncEntity list) op" where
  "sql_GetUpdatesForType E dataType clientToken fetchFolders clientID maxSize s n =
     (let limit = (if maxSize + 1 < 1 then 1 else maxSize + 1);
          now = unix_secs E n;
          rows = take (nat limit) (select_updates dataType clientToken fetchFolders clientID now s)
      in case stmt E (Suc n) (Inr ()) of
           (Inl err, n) \<Rightarrow> (Inl err, s, n)
         | (Inr _, n) \<Rightarrow>
        (case stmt E n (Inr (map scanEntity rows)) of
           (Inl err, n) \<Rightarrow> (Inl err, s, n)
         | (Inr entities, n) \<Rightarrow>
             (let hasChangesRemaining = (maxSize < int (length entities))
              in (Inr (hasChangesRemaining,
                    if hasChangesRemaining then take (nat maxSize) entities else entities), s, n))))"

definition sql_HasServerDefinedUniqueTag ::
  "env \<Rightarrow> string \<Rightarrow> string \<Rightarrow> (SQLiteStore, error + bool) op" where
  "sql_HasServerDefinedUniqueTag E clientID tag s n =
     (case stmt E n (Inr (has_tag clientID (serverTagItemPrefix @ tag) s)) of (r, n) \<Rightarrow> (r, s, n))"

definition sql_HasItem :: "env \<Rightarrow> string \<Rightarrow> string \<Rightarrow> (SQLiteStore, error + bool) op" where
  "sql_HasItem E clientID eid s n =
     (case stmt E n (Inr (find_row clientID eid s \<noteq> None)) of (r, n) \<Rightarrow> (r, s, n))"

subsection \<open>Item counts\<close>

definition is_history_type :: "int \<Rightarrow> bool" where
  "is_history_type t \<longleftrightarrow> t = HistoryTypeID \<or> t = HistoryDeleteDirectiveTypeID"

definition count_history :: "string \<Rightarrow> int \<Rightarrow> SQLiteStore \<Rightarrow> int" where
  "count_history clientID now s = int (length (filter (\<lambda>r.
     c_client_id r = clientID \<and>
     (case c_data_type r of None \<Rightarrow> False | Some t \<Rightarrow> is_history_type t) \<and>
     c_deleted r = Some 0 \<and>
     (case c_expiration_time r of None \<Rightarrow> True | Some t \<Rightarrow> t = 0 \<or> now \<le> t)) (sync_entities s)))"

definition count_normal :: "string \<Rightarrow> SQLiteStore \<Rightarrow> int" where
  "count_normal clientID s = int (length (filter (\<lambda>r.
     c_client_id r = clientID \<and>
     (case c_data_type r of None \<Rightarrow> False | Some t \<Rightarrow> \<not> is_history_type t) \<and>
     c_deleted r = Some 0) (sync_entities s)))"

definition initRealCountsAndUpdateHistoryCounts ::
  "env \<Rightarrow> ClientItemCounts \<Rightarrow> (SQLiteStore, error + ClientItemCounts) op" where
  "initRealCountsAndUpdateHistoryCounts E counts s n =
     (let now = unix_secs E n; n = Suc n in
      if cnt_Version counts < CurrentCountVersion then
        (if 0 < ItemCount counts then
           (case stmt E n (Inr (count_history (cnt_ClientID counts) now s)) of
              (Inl err, n) \<Rightarrow> (Inl err, s, n)
            | (Inr historyCount, n) \<Rightarrow>
           (case stmt E n (Inr (count_normal (cnt_ClientID counts) s)) of
              (Inl err, n) \<Rightarrow> (Inl err, s, n)
            | (Inr normalCount, n) \<Rightarrow>
                (Inr (counts\<lparr>HistoryItemCountPeriod1 := 0, HistoryItemCountPeriod2 := 0,
                   HistoryItemCountPeriod3 := 0, HistoryItemCountPeriod4 := historyCount,
                   ItemCount := normalCount, LastPeriodChangeTime := now,
                   cnt_Version := CurrentCountVersion\<rparr>), s, n)))
         else (Inr (counts\<lparr>LastPeriodChangeTime := now, cnt_Version := CurrentCountVersion\<rparr>), s, n))
      else (Inr (roll_periods now counts), s, n))"

definition counts_of_row :: "count_row \<Rightarrow> ClientItemCounts" where
  "counts_of_row r =
     \<lparr> cnt_ClientID = n_client_id r, cnt_ID = n_client_id r, ItemCount = n_item_count r,
       HistoryItemCountPeriod1 = n_period1 r, HistoryItemCountPeriod2 = n_period2 r,
       HistoryItemCountPeriod3 = n_period3 r, HistoryItemCountPeriod4 = n_period4 r,
       LastPeriodChangeTime = n_last_period_change_time r, cnt_Version = n_version r \<rparr>"

definition row_of_counts :: "ClientItemCounts \<Rightarrow> count_row" where
  "row_of_counts c =
     \<lparr> n_client_id = cnt_ClientID c, n_item_count = ItemCount c,
       n_period1 = HistoryItemCountPeriod1 c, n_period2 = HistoryItemCountPeriod2 c,
       n_period3 = HistoryItemCountPeriod3 c, n_period4 = HistoryItemCountPeriod4 c,
       n_last_period_change_time = LastPeriodChangeTime c, n_version = cnt_Version c \<rparr>"

definition find_counts :: "string \<Rightarrow> SQLiteStore \<Rightarrow> count_row option" where
  "find_counts clientID s = find (\<lambda>r. n_client_id r = clientID) (client_item_counts s)"

definition zero_counts :: "string \<Rightarrow> ClientItemCounts" where
  "zero_counts clientID =
     \<lparr> cnt_ClientID = clientID, cnt_ID = clientID, ItemCount = 0, HistoryItemCountPeriod1 = 0,
       HistoryItemCountPeriod2 = 0, HistoryItemCountPeriod3 = 0, HistoryItemCountPeriod4 = 0,
       LastPeriodChangeTime = 0, cnt_Version = 0 \<rparr>"

definition sql_GetClientItemCount :: "env \<Rightarrow> string \<Rightarrow> (SQLiteStore, error + ClientItemCounts) op" where
  "sql_GetClientItemCount E clientID s n =
     (case stmt E n (Inr (find_counts clientID s)) of
        (Inl err, n) \<Rightarrow> (Inl err, s, n)
      | (Inr row, n) \<Rightarrow>
          initRealCountsAndUpdateHistoryCounts E
            (case row of None \<Rightarrow> zero_counts clientID | Some r \<Rightarrow> counts_of_row r) s n)"

definition upsert_counts :: "count_row \<Rightarrow> SQLiteStore \<Rightarrow> SQLiteStore" where
  "upsert_counts row s =
     (if find_counts (n_client_id row) s = None
      then s\<lparr>client_item_counts := client_item_counts s @ [row]\<rparr>
      else s\<lparr>client_item_counts :=
             map (\<lambda>r. if n_client_id r = n_client_id row then row else r) (client_item_counts s)\<rparr>)"

definition sql_UpdateClientItemCount ::
  "env \<Rightarrow> ClientItemCounts \<Rightarrow> int \<Rightarrow> int \<Rightarrow> (SQLiteStore, error option) op" where
  "sql_UpdateClientItemCount E counts newNormalItemCount newHistoryItemCount s n =
     (case stmt E n (Inr (upsert_counts
             (row_of_counts (add_counts counts newNormalItemCount newHistoryItemCount)) s)) of
        (Inl err, n) \<Rightarrow> (Some err, s, n)
      | (Inr s, n) \<Rightarrow> (None, s, n))"

subsection \<open>Clearing and disabling a chain\<close>

definition clear_tags :: "string \<Rightarrow> SQLiteStore \<Rightarrow> SQLiteStore" where
  "clear_tags clientID s =
     s\<lparr>unique_tags := filter (\<lambda>r. t_client_id r \<noteq> clientID) (unique_tags s)\<rparr>"

definition clear_counts :: "string \<Rightarrow> SQLiteStore \<Rightarrow> SQLiteStore" where
  "clear_counts clientID s =
     s\<lparr>client_item_counts := filter (\<lambda>r. n_client_id r \<noteq> clientID) (client_item_counts s)\<rparr>"

definition clear_entities :: "string \<Rightarrow> SQLiteStore \<Rightarrow> SQLiteStore" where
  "clear_entities clientID s =
     s\<lparr>sync_entities := filter (\<lambda>r. \<not> (c_client_id r = clientID \<and> c_id r \<noteq> disabledChainID))
        (sync_entities s)\<rparr>"

definition sql_ClearServerData :: "env \<Rightarrow> string \<Rightarrow> (SQLiteStore, error + SyncEntity list) op" where
  "sql_ClearServerData E clientID s n =
     (case stmt E n (Inr ()) of
        (Inl err, n) \<Rightarrow> (Inl err, s, n)
      | (Inr _, n) \<Rightarrow>
     (case stmt E n (Inr (map scanEntity (filter (\<lambda>r. c_client_id r = clientID) (sync_entities s)))) of
        (Inl err, n) \<Rightarrow> (Inl err, s, n)
      | (Inr entities, n) \<Rightarrow>
     (case stmt E n (Inr ()) of
        (Inl err, n) \<Rightarrow> (Inl err, s, n)
      | (Inr _, n) \<Rightarrow>
     (case stmt E n (Inr (clear_tags clientID s)) of
        (Inl err, n) \<Rightarrow> (Inl err, s, n)
      | (Inr s1, n) \<Rightarrow>
     (case stmt E n (Inr (clear_counts clientID s1)) of
        (Inl err, n) \<Rightarrow> (Inl err, s, n)
      | (Inr s2, n) \<Rightarrow>
     (case stmt E n (Inr (clear_entities clientID s2)) of
        (Inl err, n) \<Rightarrow> (Inl err, s, n)
      | (Inr s3, n) \<Rightarrow>
     (case stmt E n (Inr ()) of
        (Inl err, n) \<Rightarrow> (Inl err, s, n)
      | (Inr _, n) \<Rightarrow> (Inr entities, s3, n))))))))"

definition disabled_marker :: "string \<Rightarrow> int \<Rightarrow> entity_row" where
  "disabled_marker clientID now =
     \<lparr> c_client_id = clientID, c_id = disabledChainID, c_parent_id = None, c_version = None,
       c_mtime = Some now, c_ctime = Some now, c_name = Some reasonDeleted,
       c_non_unique_name = None, c_server_defined_unique_tag = None, c_deleted = None,
       c_originator_cache_guid = None, c_originator_client_item_id = None,
       c_specifics = None, c_data_type = None, c_folder = None,
       c_client_defined_unique_tag = None, c_unique_position = None,
       c_data_type_mtime = None, c_expiration_time = None \<rparr>"

definition upsert_marker :: "string \<Rightarrow> int \<Rightarrow> SQLiteStore \<Rightarrow> SQLiteStore" where
  "upsert_marker clientID now s =
     (if find_row clientID disabledChainID s = None
      then s\<lparr>sync_entities := sync_entities s @ [disabled_marker clientID now]\<rparr>
      else s\<lparr>sync_entities := map (\<lambda>r. if entity_key r = (clientID, disabledChainID)
             then r\<lparr>c_mtime := Some now, c_ctime := Some now, c_name := Some reasonDeleted\<rparr> else r)
             (sync_entities s)\<rparr>)"

definition sql_DisableSyncChain :: "env \<Rightarrow> string \<Rightarrow> (SQLiteStore, error option) op" where
  "sql_DisableSyncChain E clientID s n =
     (case stmt E (Suc n) (Inr (upsert_marker clientID (unix_milli E n) s)) of
        (Inl err, n) \<Rightarrow> (Some err, s, n)
      | (Inr s, n) \<Rightarrow> (None, s, n))"

definition sql_IsSyncChainDisabled :: "env \<Rightarrow> string \<Rightarrow> (SQLiteStore, error + bool) op" where
  "sql_IsSyncChainDisabled E clientID s n =
     (case stmt E n (Inr (find_row clientID disabledChainID s \<noteq> None)) of (r, n) \<Rightarrow> (r, s, n))"

text \<open>The method table.\<close>

definition sqlite :: "SQLiteStore datastore" where
  "sqlite =
     \<lparr> ds_InsertSyncEntity = sql_InsertSyncEntity,
       ds_InsertSyncEntitiesWithServerTags = sql_InsertSyncEntitiesWithServerTags,
       ds_UpdateSyncEntity = sql_UpdateSyncEntity,
       ds_GetUpdatesForType = sql_GetUpdatesForType,
       ds_HasServerDefinedUniqueTag = sql_HasServerDefinedUniqueTag,
       ds_GetClientItemCount = sql_GetClientItemCount,
       ds_UpdateClientItemCount = sql_UpdateClientItemCount,
       ds_ClearServerData = sql_ClearServerData,
       ds_DisableSyncChain = sql_DisableSyncChain,
       ds_IsSyncChainDisabled = sql_IsSyncChainDisabled,
       ds_HasItem = sql_HasItem \<rparr>"

lemma sqlite_simps [simp, run_simps]:
  "ds_InsertSyncEntity sqlite = sql_InsertSyncEntity"
  "ds_InsertSyncEntitiesWithServerTags sqlite = sql_InsertSyncEntitiesWithServerTags"
  "ds_UpdateSyncEntity sqlite = sql_UpdateSyncEntity"
  "ds_GetUpdatesForType sqlite = sql_GetUpdatesForType"
  "ds_HasServerDefinedUniqueTag sqlite = sql_HasServerDefinedUniqueTag"
  "ds_GetClientItemCount sqlite = sql_GetClientItemCount"
  "ds_UpdateClientItemCount sqlite = sql_UpdateClientItemCount"
  "ds_ClearServerData sqlite = sql_ClearServerData"
  "ds_DisableSyncChain sqlite = sql_DisableSyncChain"
  "ds_IsSyncChainDisabled sqlite = sql_IsSyncChainDisabled"
  "ds_HasItem sqlite = sql_HasItem"
  by (simp_all add: sqlite_def)

end
