(* ===== verification/Sqlite_Correct.thy ===== *)
theory Sqlite_Correct
  imports Sqlite_Store
begin

section \<open>Correctness of the SQLite store\<close>

text \<open>
  The primary keys stay unique and every row of a sync entity has the columns the reads
  rely on (\<open>store_inv\<close>); an operation touches the rows of its own client only; what each
  operation does on each of its branches; and the interpretation of the \<open>Datastore\<close>
  contract.
\<close>

subsection \<open>The invariant\<close>

definition row_ok :: "entity_row \<Rightarrow> bool" where
  "row_ok r \<longleftrightarrow> (\<forall>t. c_data_type r = Some t \<longrightarrow>
     c_mtime r \<noteq> None \<and> (t \<noteq> HistoryTypeID \<longrightarrow> c_deleted r \<noteq> None))"

definition store_inv :: "SQLiteStore \<Rightarrow> bool" where
  "store_inv s \<longleftrightarrow>
     unique_on entity_key (sync_entities s) \<and> unique_on tag_key (unique_tags s) \<and>
     unique_on n_client_id (client_item_counts s) \<and> (\<forall>r \<in> set (sync_entities s). row_ok r)"

lemma store_inv_init [inv_intros]: "store_inv (initSchema None)"
  by (simp add: store_inv_def initSchema_def)

lemma row_of_entity_simps [simp]:
  "c_client_id (row_of_entity e) = ClientID e" "c_id (row_of_entity e) = ID e"
  "c_mtime (row_of_entity e) = Mtime e" "c_data_type (row_of_entity e) = DataType e"
  "c_version (row_of_entity e) = Version e"
  "c_deleted (row_of_entity e) = nullableBool (Deleted e)"
  "c_folder (row_of_entity e) = nullableBool (Folder e)"
  "c_expiration_time (row_of_entity e) = ExpirationTime e"
  by (simp_all add: row_of_entity_def)

lemma update_columns_simps [simp]:
  "c_client_id (update_columns e r) = c_client_id r" "c_id (update_columns e r) = c_id r"
  "c_mtime (update_columns e r) = Mtime e" "c_version (update_columns e r) = Version e"
  "c_data_type (update_columns e r) = c_data_type r"
  "c_expiration_time (update_columns e r) = c_expiration_time r"
  "c_deleted (update_columns e r) = (if Deleted e = None then c_deleted r else nullableBool (Deleted e))"
  "entity_key (update_columns e r) = entity_key r"
  by (simp_all add: update_columns_def entity_key_def)

lemma nullableBool_None [simp]: "nullableBool b = None \<longleftrightarrow> b = None"
  by (simp add: nullableBool_def)

lemma nullableBool_Some [simp]: "nullableBool (Some b) = Some (boolToInt b)"
  by (simp add: nullableBool_def)

lemma row_ok_storable: "storable e \<Longrightarrow> row_ok (row_of_entity e)"
  by (auto simp: storable_def row_ok_def)

lemma row_ok_update: "updatable e \<Longrightarrow> row_ok r \<Longrightarrow> row_ok (update_columns e r)"
  by (auto simp: updatable_def row_ok_def)

lemma insert_entity_row_inv [inv_intros]:
  "insert_entity_row E row s = Inr s' \<Longrightarrow> row_ok row \<Longrightarrow> store_inv s \<Longrightarrow> store_inv s'"
  by (fastforce simp: insert_entity_row_def store_inv_def list_ex_iff split: if_splits)

lemma insert_tag_row_inv [inv_intros]:
  "insert_tag_row E c i now s = Inr s' \<Longrightarrow> store_inv s \<Longrightarrow> store_inv s'"
  by (auto simp: insert_tag_row_def store_inv_def list_ex_iff tag_key_def split: if_splits)

lemma update_entity_row_inv [inv_intros]:
  assumes "updatable e" and "store_inv s"
  shows "store_inv (update_entity_row e s)"
  using assms row_ok_update
  by (auto simp: store_inv_def update_entity_row_def intro!: unique_on_map)

lemma delete_tag_inv [inv_intros]: "store_inv s \<Longrightarrow> store_inv (delete_tag c i s)"
  by (auto simp: store_inv_def delete_tag_def)

lemma upsert_counts_inv [inv_intros]: "store_inv s \<Longrightarrow> store_inv (upsert_counts row s)"
  by (auto simp: store_inv_def upsert_counts_def find_counts_def find_None_iff intro!: unique_on_map)

lemma clear_inv [inv_intros]:
  "store_inv s \<Longrightarrow> store_inv (clear_tags c s)"
  "store_inv s \<Longrightarrow> store_inv (clear_counts c s)"
  "store_inv s \<Longrightarrow> store_inv (clear_entities c s)"
  by (auto simp: store_inv_def clear_tags_def clear_counts_def clear_entities_def)

lemma upsert_marker_inv [inv_intros]: "store_inv s \<Longrightarrow> store_inv (upsert_marker c now s)"
proof -
  assume inv: "store_inv s"
  have ok: "row_ok (disabled_marker c now)" and key: "entity_key (disabled_marker c now) = (c, disabledChainID)"
    by (simp_all add: disabled_marker_def row_ok_def entity_key_def)
  show ?thesis
  proof (cases "find_row c disabledChainID s = None")
    case True
    with inv ok key show ?thesis
      by (auto simp: upsert_marker_def store_inv_def find_row_def find_None_iff)
  next
    case False
    with inv show ?thesis
      by (auto simp: upsert_marker_def store_inv_def row_ok_def entity_key_def intro!: unique_on_map)
  qed
qed

subsection \<open>The data of one client\<close>

definition client_view ::
  "SQLiteStore \<Rightarrow> string \<Rightarrow> entity_row list \<times> tag_row list \<times> count_row list" where
  "client_view s c =
     (filter (\<lambda>r. c_client_id r = c) (sync_entities s),
      filter (\<lambda>r. t_client_id r = c) (unique_tags s),
      filter (\<lambda>r. n_client_id r = c) (client_item_counts s))"

lemma filter_map_other:
  assumes "\<And>r. P (f r) \<longleftrightarrow> P r" and "\<And>r. P r \<Longrightarrow> f r = r"
  shows "filter P (map f xs) = filter P xs"
  using assms by (induction xs) auto

lemma insert_entity_row_view [frame_simps]:
  "insert_entity_row E row s = Inr s' \<Longrightarrow> c \<noteq> c_client_id row \<Longrightarrow> client_view s' c = client_view s c"
  by (auto simp: insert_entity_row_def client_view_def split: if_splits)

lemma insert_tag_row_view [frame_simps]:
  "insert_tag_row E cl i now s = Inr s' \<Longrightarrow> c \<noteq> cl \<Longrightarrow> client_view s' c = client_view s c"
  by (auto simp: insert_tag_row_def client_view_def split: if_splits)

lemma update_entity_row_view [frame_simps]:
  "c \<noteq> ClientID e \<Longrightarrow> client_view (update_entity_row e s) c = client_view s c"
  unfolding client_view_def update_entity_row_def
  by (auto simp: entity_key_def intro!: filter_map_other)

lemma delete_tag_view [frame_simps]: "c \<noteq> cl \<Longrightarrow> client_view (delete_tag cl i s) c = client_view s c"
  by (auto simp: client_view_def delete_tag_def tag_key_def intro!: filter_cong)

lemma upsert_counts_view [frame_simps]:
  "c \<noteq> n_client_id row \<Longrightarrow> client_view (upsert_counts row s) c = client_view s c"
  by (auto simp: client_view_def upsert_counts_def intro!: filter_map_other)

lemma clear_view [frame_simps]:
  "c \<noteq> cl \<Longrightarrow> client_view (clear_tags cl s) c = client_view s c"
  "c \<noteq> cl \<Longrightarrow> client_view (clear_counts cl s) c = client_view s c"
  "c \<noteq> cl \<Longrightarrow> client_view (clear_entities cl s) c = client_view s c"
  by (auto simp: client_view_def clear_tags_def clear_counts_def clear_entities_def intro!: filter_cong)

lemma upsert_marker_view [frame_simps]:
  "c \<noteq> cl \<Longrightarrow> client_view (upsert_marker cl now s) c = client_view s c"
  by (auto simp: client_view_def upsert_marker_def disabled_marker_def entity_key_def
      intro!: filter_map_other)

text \<open>Row lookups see the client's data only.\<close>

lemma find_filter: "(\<And>x. P x \<Longrightarrow> Q x) \<Longrightarrow> find P (filter Q xs) = find P xs"
  by (induction xs) auto

lemma find_row_view: "find_row c i s = find (\<lambda>r. c_id r = i) (fst (client_view s c))"
proof -
  have "find (\<lambda>r. c_id r = i) (filter (\<lambda>r. c_client_id r = c) xs)
      = find (\<lambda>r. entity_key r = (c, i)) xs" for xs
    by (induction xs) (auto simp: entity_key_def)
  then show ?thesis by (simp add: find_row_def client_view_def)
qed


subsection \<open>The operations, taken apart\<close>

lemma stmt_Inr: "stmt E n r = (Inr x, n') \<longleftrightarrow> db_fault E n = None \<and> r = Inr x \<and> n' = Suc n"
  by (auto simp: stmt_def split: option.splits)

lemma stmt_ok [simp]: "db_fault E n = None \<Longrightarrow> stmt E n r = (r, Suc n)"
  by (simp add: stmt_def)

text \<open>The tag row that an insertion adds and that a deletion removes.\<close>

definition client_tag :: "SyncEntity \<Rightarrow> string option" where
  "client_tag e =
     (case (ClientDefinedUniqueTag e, DataType e) of
        (Some tag, Some t) \<Rightarrow> if t \<noteq> HistoryTypeID then Some (clientTagItemPrefix @ tag) else None
      | _ \<Rightarrow> None)"

lemma insert_client_tag_Inr:
  assumes "insert_client_tag E e s n = (Inr s', n')"
  shows "(client_tag e = None \<and> s' = s) \<or>
    (\<exists>tag. client_tag e = Some tag \<and> insert_tag_row E (ClientID e) tag (unix_milli E n) s = Inr s')"
  using assms
  by (auto simp: insert_client_tag_def client_tag_def stmt_Inr split: option.splits if_splits)

definition untag_deleted :: "SyncEntity \<Rightarrow> SQLiteStore \<Rightarrow> SQLiteStore" where
  "untag_deleted e s =
     (if Deleted e = Some True
      then (case client_tag e of None \<Rightarrow> s | Some tag \<Rightarrow> delete_tag (ClientID e) tag s) else s)"

lemma delete_client_tag_Inr:
  "delete_client_tag E e s n = (Inr s', n') \<Longrightarrow> s' = untag_deleted e s"
  by (auto simp: delete_client_tag_def untag_deleted_def client_tag_def stmt_Inr
      split: option.splits if_splits bool.splits)

lemma sql_Insert_cases:
  assumes "sql_InsertSyncEntity E e s n = (r, s', n')"
  obtains (unchanged) "s' = s" "r \<noteq> (False, None)"
  | (inserted) s1 m m' where "insert_client_tag E e s m = (Inr s1, m')"
      "insert_entity_row E (row_of_entity e) s1 = Inr s'" "r = (False, None)"
  using assms
  by (auto simp: sql_InsertSyncEntity_def insertSyncEntity_def stmt_Inr
      split: prod.splits sum.splits if_splits)

definition row_live :: "entity_row \<Rightarrow> bool" where
  "row_live r \<longleftrightarrow> \<not> (case c_deleted r of None \<Rightarrow> False | Some d \<Rightarrow> d \<noteq> 0)"

lemma sql_Update_cases:
  assumes "sql_UpdateSyncEntity E e v s n = (r, s', n')"
  obtains (unchanged) "s' = s" "\<forall>b. r \<noteq> (False, b, None)"
  | (updated) row where "find_row (ClientID e) (ID e) s = Some row"
      "\<not> version_conflict e (c_version row) v" "s' = untag_deleted e (update_entity_row e s)"
      "r = (False, row_live row \<and> Deleted e = Some True, None)"
proof (cases "\<exists>row. find_row (ClientID e) (ID e) s = Some row \<and> \<not> version_conflict e (c_version row) v
    \<and> db_fault E n = None \<and> db_fault E (Suc n) = None \<and> db_fault E (Suc (Suc n)) = None")
  case True
  then obtain row where row: "find_row (ClientID e) (ID e) s = Some row"
      "\<not> version_conflict e (c_version row) v"
    and ok: "db_fault E n = None" "db_fault E (Suc n) = None" "db_fault E (Suc (Suc n)) = None"
    by blast
  obtain d m where d: "delete_client_tag E e (update_entity_row e s) (Suc (Suc (Suc n))) = (d, m)"
    by fastforce
  show thesis
  proof (cases d)
    case (Inl err)
    with assms row ok d show thesis by (intro unchanged) (auto simp: sql_UpdateSyncEntity_def)
  next
    case (Inr s2)
    then have s2: "s2 = untag_deleted e (update_entity_row e s)"
      using d delete_client_tag_Inr by simp
    show thesis
    proof (cases "db_fault E m")
      case None
      with assms row ok d Inr s2 show thesis
        by (intro updated [of row]) (auto simp: sql_UpdateSyncEntity_def row_live_def Let_def)
    next
      case (Some err)
      with assms row ok d Inr show thesis
        by (intro unchanged) (auto simp: sql_UpdateSyncEntity_def stmt_def)
    qed
  qed
next
  case False
  with assms show thesis
    by (intro unchanged)
      (auto simp: sql_UpdateSyncEntity_def stmt_def split: option.splits if_splits)
qed

lemma insert_with_server_tags_pres:
  assumes "insert_with_server_tags E now es s n = (Inr s', n')" and "P s"
    and "\<And>e s s'. e \<in> set es \<Longrightarrow> P s \<Longrightarrow>
      insert_tag_row E (ClientID e) (serverTagItemPrefix @ ptrString (ServerDefinedUniqueTag e)) now s
        = Inr s' \<Longrightarrow> P s'"
    and "\<And>e s s'. e \<in> set es \<Longrightarrow> P s \<Longrightarrow> insert_entity_row E (row_of_entity e) s = Inr s' \<Longrightarrow> P s'"
  shows "P s'"
  using assms
proof (induction es arbitrary: s n)
  case Nil
  then show ?case by simp
next
  case (Cons e es)
  from Cons.prems(1) obtain s1 s2 n2 where
    1: "insert_tag_row E (ClientID e) (serverTagItemPrefix @ ptrString (ServerDefinedUniqueTag e)) now s
        = Inr s1" and 2: "insert_entity_row E (row_of_entity e) s1 = Inr s2"
    and 3: "insert_with_server_tags E now es s2 n2 = (Inr s', n')"
    by (auto simp: stmt_Inr insertSyncEntity_def split: prod.splits sum.splits)
  have "P s2" using Cons.prems(2-4) 1 2 by (metis list.set_intros(1))
  show ?case
    by (rule Cons.IH [OF 3 \<open>P s2\<close>]; rule Cons.prems(3) Cons.prems(4); (assumption | simp))
qed

lemma sql_InsertTags_cases:
  assumes "sql_InsertSyncEntitiesWithServerTags E es s n = (r, s', n')"
  obtains (unchanged) "s' = s" "r \<noteq> None"
  | (inserted) now m m' where "insert_with_server_tags E now es s m = (Inr s', m')" "r = None"
  using assms
  by (auto simp: sql_InsertSyncEntitiesWithServerTags_def stmt_Inr split: prod.splits sum.splits)

lemma sql_Clear_cases:
  assumes "sql_ClearServerData E c s n = (r, s', n')"
  obtains (unchanged) err where "s' = s" "r = Inl err"
  | (cleared) "s' = clear_entities c (clear_counts c (clear_tags c s))"
      "r = Inr (map scanEntity (filter (\<lambda>r. c_client_id r = c) (sync_entities s)))"
  using assms
  by (auto simp: sql_ClearServerData_def stmt_Inr split: prod.splits sum.splits)

lemma sql_Disable_cases:
  assumes "sql_DisableSyncChain E c s n = (r, s', n')"
  obtains (unchanged) err where "s' = s" "r = Some err"
  | (marked) "s' = upsert_marker c (unix_milli E n) s" "r = None"
  using assms by (auto simp: sql_DisableSyncChain_def stmt_Inr split: prod.splits sum.splits)

lemma sql_Counts_cases:
  assumes "sql_UpdateClientItemCount E k a b s n = (r, s', n')"
  obtains (unchanged) err where "s' = s" "r = Some err"
  | (written) "s' = upsert_counts (row_of_counts (add_counts k a b)) s" "r = None"
  using assms by (auto simp: sql_UpdateClientItemCount_def stmt_Inr split: prod.splits sum.splits)

lemma sql_reads:
  "sql_GetUpdatesForType E t tok ff c m s n = (g, s', n') \<Longrightarrow> s' = s"
  "sql_HasServerDefinedUniqueTag E c tag s n = (b, s', n') \<Longrightarrow> s' = s"
  "sql_IsSyncChainDisabled E c s n = (b, s', n') \<Longrightarrow> s' = s"
  "sql_HasItem E c i s n = (b, s', n') \<Longrightarrow> s' = s"
  by (auto simp: sql_GetUpdatesForType_def sql_HasServerDefinedUniqueTag_def
      sql_IsSyncChainDisabled_def sql_HasItem_def Let_def split: prod.splits sum.splits)

lemma sql_GetClientItemCount_reads:
  assumes "sql_GetClientItemCount E c s n = (k, s', n')"
  shows "s' = s" and "k = Inr cnt \<Longrightarrow> cnt_ClientID cnt = c"
proof -
  have find: "n_client_id row = c" if "find_counts c s = Some row" for row
    using that find_Some_set by (fastforce simp: find_counts_def)
  show "s' = s"
    using assms by (auto simp: sql_GetClientItemCount_def initRealCountsAndUpdateHistoryCounts_def
        Let_def split: prod.splits sum.splits if_splits)
  show "cnt_ClientID cnt = c" if "k = Inr cnt"
    using assms that find
    by (auto simp: sql_GetClientItemCount_def initRealCountsAndUpdateHistoryCounts_def stmt_Inr
        Let_def zero_counts_def counts_of_row_def roll_periods_def
        split: prod.splits sum.splits if_splits option.splits)
qed

lemma sql_GetUpdates_Inr:
  assumes "sql_GetUpdatesForType E t tok ff c m s n = (Inr (again, es), s', n')" and "0 \<le> m"
  shows "es = map scanEntity (take (nat m) (select_updates t tok ff c (unix_secs E n) s))"
    and "again \<longleftrightarrow> m < int (length (select_updates t tok ff c (unix_secs E n) s))"
proof -
  let ?q = "select_updates t tok ff c (unix_secs E n) s"
  have l: "nat (m + 1) = Suc (nat m)" using assms(2) by simp
  have "again \<longleftrightarrow> m < int (min (length ?q) (Suc (nat m)))"
    and "es = (if again then take (nat m) (map scanEntity (take (Suc (nat m)) ?q))
               else map scanEntity (take (Suc (nat m)) ?q))"
    using assms by (auto simp: sql_GetUpdatesForType_def stmt_Inr Let_def l split: prod.splits sum.splits)
  then show "again \<longleftrightarrow> m < int (length ?q)"
    and "es = map scanEntity (take (nat m) ?q)"
    using assms(2) by (auto simp: take_map min_def split: if_splits)
qed

lemma select_updates_sorted: "sorted (map row_mtime (select_updates t tok ff c now s))"
  by (simp add: select_updates_def)

lemma select_updates_set:
  "r \<in> set (select_updates t tok ff c now s) \<longleftrightarrow> r \<in> set (sync_entities s) \<and> is_update t tok ff c now r"
  by (simp add: select_updates_def)

lemma scanEntity_simps [simp]:
  "ClientID (scanEntity r) = c_client_id r" "ID (scanEntity r) = c_id r"
  "Mtime (scanEntity r) = c_mtime r" "DataType (scanEntity r) = c_data_type r"
  "Version (scanEntity r) = c_version r" "Deleted (scanEntity r) = nullBoolToPtr (c_deleted r)"
  by (simp_all add: scanEntity_def)

text \<open>Scanning a row that was inserted gives back the entity.\<close>

lemma scan_row_of_entity: "scanEntity (row_of_entity e) = e"
proof -
  have "nullBoolToPtr (nullableBool b) = b" for b
    by (cases b) (auto simp: nullBoolToPtr_def nullableBool_def boolToInt_def)
  then show ?thesis by (simp add: scanEntity_def row_of_entity_def)
qed

subsection \<open>The contract holds\<close>

lemma untag_deleted_inv [inv_intros]: "store_inv s \<Longrightarrow> store_inv (untag_deleted e s)"
  by (auto simp: untag_deleted_def delete_tag_inv split: option.splits)

lemma untag_deleted_view [frame_simps]:
  "c \<noteq> ClientID e \<Longrightarrow> client_view (untag_deleted e s) c = client_view s c"
  by (auto simp: untag_deleted_def delete_tag_view split: option.splits)

lemma sql_Insert_inv:
  assumes "sql_InsertSyncEntity E e d n = (ires, d', n')" and "storable e" and "store_inv d"
  shows "store_inv d'"
  using assms(1) by (rule sql_Insert_cases)
    (use assms(2,3) in \<open>auto dest!: insert_client_tag_Inr
      intro: insert_entity_row_inv insert_tag_row_inv row_ok_storable\<close>)

lemma sql_InsertTags_inv:
  assumes "sql_InsertSyncEntitiesWithServerTags E es d n = (eres, d', n')"
    and "\<forall>e \<in> set es. storable e" and "store_inv d"
  shows "store_inv d'"
  using assms(1)
proof (rule sql_InsertTags_cases)
  fix now m m'
  assume ins: "insert_with_server_tags E now es d m = (Inr d', m')"
  show ?thesis
    by (rule insert_with_server_tags_pres [OF ins, where P = store_inv])
      (use assms(2,3) in \<open>auto intro: insert_entity_row_inv insert_tag_row_inv row_ok_storable\<close>)
qed (use assms(3) in simp)

lemma sql_Update_inv:
  assumes "sql_UpdateSyncEntity E e v d n = (ures, d', n')" and "updatable e" and "store_inv d"
  shows "store_inv d'"
  using assms(1) by (rule sql_Update_cases)
    (use assms(2,3) in \<open>auto intro: untag_deleted_inv update_entity_row_inv\<close>)

interpretation sqlite_frame: datastore_frame sqlite E store_inv client_view for E
proof (unfold_locales, unfold sqlite_simps)
  fix e d n ires d' n' c
  assume i: "sql_InsertSyncEntity E e d n = (ires, d', n')"
  show "store_inv d'" if "storable e" "store_inv d"
    using sql_Insert_inv [OF i that] .
  show "client_view d' c = client_view d c" if "c \<noteq> ClientID e"
    using i by (rule sql_Insert_cases)
      (use that in \<open>auto dest!: insert_client_tag_Inr insert_tag_row_view [of _ _ _ _ _ _ c]
        insert_entity_row_view [of _ _ _ _ c]\<close>)
next
  fix es d n eres d' n' c
  assume i: "sql_InsertSyncEntitiesWithServerTags E es d n = (eres, d', n')"
  show "store_inv d'" if "\<forall>e \<in> set es. storable e \<and> encoded E e" "store_inv d"
    using sql_InsertTags_inv [OF i] that by blast
  show "client_view d' c = client_view d c" if "\<forall>e \<in> set es. ClientID e \<noteq> c"
    using i
  proof (rule sql_InsertTags_cases)
    fix now m m'
    assume ins: "insert_with_server_tags E now es d m = (Inr d', m')"
    show ?thesis
      by (rule insert_with_server_tags_pres [OF ins, where P = "\<lambda>s. client_view s c = client_view d c"])
        (use that in \<open>auto dest!: insert_tag_row_view [of _ _ _ _ _ _ c] insert_entity_row_view [of _ _ _ _ c]\<close>)
  qed simp
next
  fix e v d n ures d' n' c
  assume i: "sql_UpdateSyncEntity E e v d n = (ures, d', n')"
  show "store_inv d'" if "updatable e" "store_inv d"
    using sql_Update_inv [OF i that] .
  show "client_view d' c = client_view d c" if "c \<noteq> ClientID e"
    using i by (rule sql_Update_cases)
      (use that in \<open>auto simp: untag_deleted_view update_entity_row_view\<close>)
next
  fix k a b d n eres d' n' c
  assume i: "sql_UpdateClientItemCount E k a b d n = (eres, d', n')"
  show "store_inv d'" if "store_inv d"
    using i by (rule sql_Counts_cases) (use that in \<open>auto intro: upsert_counts_inv\<close>)
  show "client_view d' c = client_view d c" if "c \<noteq> cnt_ClientID k"
    using i by (rule sql_Counts_cases)
      (use that in \<open>auto simp: upsert_counts_view row_of_counts_def add_counts_def\<close>)
next
  fix cl d n cres d' n' c
  assume i: "sql_ClearServerData E cl d n = (cres, d', n')"
  show "store_inv d'" if "store_inv d"
    using i by (rule sql_Clear_cases) (use that in \<open>auto intro: clear_inv\<close>)
  show "client_view d' c = client_view d c" if "c \<noteq> cl"
    using i by (rule sql_Clear_cases) (use that in \<open>auto simp: clear_view\<close>)
next
  fix cl d n eres d' n' c
  assume i: "sql_DisableSyncChain E cl d n = (eres, d', n')"
  show "store_inv d'" if "store_inv d"
    using i by (rule sql_Disable_cases) (use that in \<open>auto intro: upsert_marker_inv\<close>)
  show "client_view d' c = client_view d c" if "c \<noteq> cl"
    using i by (rule sql_Disable_cases) (use that in \<open>auto simp: upsert_marker_view\<close>)
qed (auto dest: sql_reads sql_GetClientItemCount_reads)

interpretation sqlite_contract: datastore_contract sqlite E store_inv client_view for E
proof (unfold_locales, unfold sqlite_simps)
  fix t tok ff cl m d n again es d' n'
  assume g: "sql_GetUpdatesForType E t tok ff cl m d n = (Inr (again, es), d', n')"
    and inv: "store_inv d" and m: "0 \<le> m"
  let ?q = "select_updates t tok ff cl (unix_secs E n) d"
  have es: "es = map scanEntity (take (nat m) ?q)" by (rule sql_GetUpdates_Inr(1) [OF g m])
  have row: "c_client_id r = cl \<and> c_data_type r = Some t \<and> (\<exists>mt. c_mtime r = Some mt \<and> tok < mt) \<and>
      (t \<noteq> HistoryTypeID \<longrightarrow> (\<exists>b. nullBoolToPtr (c_deleted r) = Some b))" if "r \<in> set (take (nat m) ?q)" for r
  proof -
    from that have "r \<in> set ?q" by (rule in_set_takeD)
    then have r: "r \<in> set (sync_entities d)" "is_update t tok ff cl (unix_secs E n) r"
      by (auto simp: select_updates_set)
    with inv have "row_ok r" by (simp add: store_inv_def)
    with r show ?thesis
      by (auto simp: is_update_def row_ok_def nullBoolToPtr_def split: option.splits)
  qed
  have "the (c_mtime r) = row_mtime r" if "r \<in> set (take (nat m) ?q)" for r
    using row [OF that] by (auto simp: row_mtime_def)
  then have "map (\<lambda>e. the (Mtime e)) es = map row_mtime (take (nat m) ?q)"
    by (simp add: es)
  then have "sorted (map (\<lambda>e. the (Mtime e)) es)"
    using sorted_map_take [OF select_updates_sorted] by simp
  moreover have "int (length es) \<le> m" using m by (simp add: es)
  ultimately show "int (length es) \<le> m \<and> sorted (map (\<lambda>e. the (Mtime e)) es) \<and>
      (\<forall>e \<in> set es. ClientID e = cl \<and> DataType e = Some t \<and>
         (\<exists>mt. Mtime e = Some mt \<and> tok < mt) \<and> (t \<noteq> HistoryTypeID \<longrightarrow> (\<exists>b. Deleted e = Some b)))"
    using row by (auto simp: es)
qed


subsection \<open>Disabled chains\<close>

text \<open>The primary keys in the table of entities, and what the statements make of them.\<close>

definition row_keys :: "SQLiteStore \<Rightarrow> (string \<times> string) set" where
  "row_keys s = set (map entity_key (sync_entities s))"

definition chain_disabled :: "SQLiteStore \<Rightarrow> string \<Rightarrow> bool" where
  "chain_disabled s c \<longleftrightarrow> (c, disabledChainID) \<in> row_keys s"

lemma find_row_None: "find_row c i s = None \<longleftrightarrow> (c, i) \<notin> row_keys s"
  by (force simp: find_row_def find_None_iff row_keys_def)

lemma chain_disabled_find: "chain_disabled s c \<longleftrightarrow> find_row c disabledChainID s \<noteq> None"
  by (simp add: chain_disabled_def find_row_None)

lemma row_keys_update [simp]: "row_keys (update_entity_row e s) = row_keys s"
proof -
  have "map entity_key (map (\<lambda>r. if P r then update_columns e r else r) xs) = map entity_key xs" for P xs
    by simp
  then show ?thesis unfolding row_keys_def update_entity_row_def by (metis (no_types) select_convs(1) surjective update_convs(1))
qed

lemma row_keys_simps [simp]:
  "row_keys (delete_tag c i s) = row_keys s"
  "row_keys (clear_counts c s) = row_keys s"
  "row_keys (clear_tags c s) = row_keys s"
  "row_keys (upsert_counts row s) = row_keys s"
  by (simp_all add: row_keys_def delete_tag_def upsert_counts_def clear_counts_def clear_tags_def)

lemma row_keys_untag [simp]: "row_keys (untag_deleted e s) = row_keys s"
  by (simp add: untag_deleted_def split: option.splits)

lemma row_keys_clear [simp]:
  "row_keys (clear_entities c s) = row_keys s - {k. fst k = c \<and> snd k \<noteq> disabledChainID}"
  by (force simp: row_keys_def clear_entities_def entity_key_def)

lemma row_keys_marker [simp]:
  "row_keys (upsert_marker c now s) = insert (c, disabledChainID) (row_keys s)"
proof (cases "find_row c disabledChainID s = None")
  case True
  then show ?thesis by (simp add: upsert_marker_def row_keys_def disabled_marker_def entity_key_def)
next
  case False
  then have "(c, disabledChainID) \<in> row_keys s" by (simp add: find_row_None)
  moreover have "map entity_key (sync_entities (upsert_marker c now s)) = map entity_key (sync_entities s)"
    using False by (simp add: upsert_marker_def entity_key_def)
  ultimately show ?thesis by (simp add: row_keys_def insert_absorb del: set_map)
qed

lemma insert_row_keys:
  "insert_entity_row E row s = Inr s' \<Longrightarrow> row_keys s' = insert (entity_key row) (row_keys s)"
  "insert_tag_row E c i now s = Inr s' \<Longrightarrow> row_keys s' = row_keys s"
  by (auto simp: row_keys_def insert_entity_row_def insert_tag_row_def split: if_splits)

lemma sql_Insert_keys:
  assumes "sql_InsertSyncEntity E e s n = (r, s', n')" shows "row_keys s \<subseteq> row_keys s'"
  using assms by (rule sql_Insert_cases) (auto dest!: insert_client_tag_Inr simp: insert_row_keys)

lemma sql_InsertTags_keys:
  assumes "sql_InsertSyncEntitiesWithServerTags E es s n = (r, s', n')" shows "row_keys s \<subseteq> row_keys s'"
  using assms
proof (rule sql_InsertTags_cases)
  fix now m m'
  assume ins: "insert_with_server_tags E now es s m = (Inr s', m')"
  show ?thesis
    by (rule insert_with_server_tags_pres [OF ins, where P = "\<lambda>s'. row_keys s \<subseteq> row_keys s'"])
      (auto simp: insert_row_keys)
qed simp

interpretation sqlite_disable: datastore_disable sqlite E store_inv client_view chain_disabled for E
proof (unfold_locales, unfold sqlite_simps)
  show "flag = chain_disabled d cl" if "sql_IsSyncChainDisabled E cl d n = (Inr flag, d', n')"
    for cl d n flag d' n'
    using that by (auto simp: sql_IsSyncChainDisabled_def chain_disabled_find stmt_Inr
        split: prod.splits)
  show "chain_disabled d' cl" if "sql_DisableSyncChain E cl d n = (None, d', n')" for cl d n d' n'
    using that by (rule sql_Disable_cases) (auto simp: chain_disabled_def)
  show "chain_disabled d' c" if "sql_DisableSyncChain E cl d n = (eres, d', n')" "chain_disabled d c"
    for cl d n eres d' n' c
    using that(1) by (rule sql_Disable_cases) (use that(2) in \<open>auto simp: chain_disabled_def\<close>)
  show "chain_disabled d' c" if "sql_InsertSyncEntity E e d n = (ires, d', n')" "chain_disabled d c"
    for e d n ires d' n' c
    using sql_Insert_keys [OF that(1)] that(2) by (auto simp: chain_disabled_def)
  show "chain_disabled d' c" if "sql_InsertSyncEntitiesWithServerTags E es d n = (eres, d', n')"
    "chain_disabled d c" for es d n eres d' n' c
    using sql_InsertTags_keys [OF that(1)] that(2) by (auto simp: chain_disabled_def)
  show "chain_disabled d' c" if "sql_UpdateSyncEntity E e v d n = (ures, d', n')" "chain_disabled d c"
    for e v d n ures d' n' c
    using that(1) by (rule sql_Update_cases) (use that(2) in \<open>auto simp: chain_disabled_def\<close>)
  show "chain_disabled d' c" if "sql_UpdateClientItemCount E k a b d n = (eres, d', n')" "chain_disabled d c"
    for k a b d n eres d' n' c
    using that(1) by (rule sql_Counts_cases) (use that(2) in \<open>auto simp: chain_disabled_def\<close>)
  show "chain_disabled d' c" if "sql_ClearServerData E cl d n = (cres, d', n')" "chain_disabled d c"
    for cl d n cres d' n' c
    using that(1) by (rule sql_Clear_cases) (use that(2) in \<open>auto simp: chain_disabled_def\<close>)
qed


subsection \<open>Interleaved requests\<close>

text \<open>
  Requests of several clients run concurrently; each data store operation is one
  transaction. A step is one operation for one client, whatever it returns, so a sequence
  of steps is any interleaving of any requests. The operations store the columns as they
  are given; \<open>storable\<close> and \<open>updatable\<close> restrict the steps to entities with the columns that
  the handlers always set (modification time, version and data type, and in an inserted
  entity that is not history the deleted flag). That the handlers give no others is what the lemmas in
  \<open>datastore_steps\<close> show: they prove both for every entity that a request inserts or updates.
  \<open>ClearServerData\<close> reads the rows it returns before it opens the transaction that deletes; the
  step takes both at one point, the deletion, since the read does not change the store.
\<close>

inductive db_step :: "string \<Rightarrow> SQLiteStore \<Rightarrow> SQLiteStore \<Rightarrow> bool" where
  step_insert: "storable e \<Longrightarrow> sql_InsertSyncEntity E e s n = (r1, s', n') \<Longrightarrow> db_step (ClientID e) s s'"
| step_insert_tags: "\<forall>e \<in> set es. storable e \<and> ClientID e = c \<Longrightarrow>
    sql_InsertSyncEntitiesWithServerTags E es s n = (r2, s', n') \<Longrightarrow> db_step c s s'"
| step_update: "updatable e \<Longrightarrow> sql_UpdateSyncEntity E e v s n = (r3, s', n') \<Longrightarrow> db_step (ClientID e) s s'"
| step_counts: "sql_UpdateClientItemCount E k a b s n = (r4, s', n') \<Longrightarrow> db_step (cnt_ClientID k) s s'"
| step_clear: "sql_ClearServerData E c s n = (r5, s', n') \<Longrightarrow> db_step c s s'"
| step_disable: "sql_DisableSyncChain E c s n = (r6, s', n') \<Longrightarrow> db_step c s s'"

inductive db_run :: "string list \<Rightarrow> SQLiteStore \<Rightarrow> SQLiteStore \<Rightarrow> bool" where
  run_empty: "db_run [] s s"
| run_step: "db_step c s s' \<Longrightarrow> db_run cs s' s'' \<Longrightarrow> db_run (c # cs) s s''"

inductive_simps db_run_Nil [simp]: "db_run [] s s'"
inductive_simps db_run_Cons: "db_run (c # cs) s s''"
inductive_cases db_stepE: "db_step c s s'"

lemma db_step_inv: "db_step c s s' \<Longrightarrow> store_inv s \<Longrightarrow> store_inv s'"
proof (induction rule: db_step.induct)
  case step_insert then show ?case using sql_Insert_inv by simp
next
  case step_insert_tags then show ?case using sql_InsertTags_inv by simp
next
  case step_update then show ?case using sql_Update_inv by simp
next
  case step_counts then show ?case using sqlite_frame.counts_inv by simp
next
  case step_clear then show ?case using sqlite_frame.clear_inv by simp
next
  case step_disable then show ?case using sqlite_frame.disable_inv by simp
qed

lemma db_step_frame: "db_step c s s' \<Longrightarrow> c' \<noteq> c \<Longrightarrow> client_view s' c' = client_view s c'"
proof (induction rule: db_step.induct)
  case step_insert then show ?case using sqlite_frame.insert_frame by simp
next
  case step_insert_tags then show ?case using sqlite_frame.insert_tags_frame by simp
next
  case step_update then show ?case using sqlite_frame.update_frame by simp
next
  case step_counts then show ?case using sqlite_frame.counts_frame by simp
next
  case step_clear then show ?case using sqlite_frame.clear_frame by simp
next
  case step_disable then show ?case using sqlite_frame.disable_frame by simp
qed

lemma db_step_disabled: "db_step c s s' \<Longrightarrow> chain_disabled s c' \<Longrightarrow> chain_disabled s' c'"
proof (induction rule: db_step.induct)
  case step_insert then show ?case using sqlite_disable.insert_keeps by simp
next
  case step_insert_tags then show ?case using sqlite_disable.insert_tags_keeps by simp
next
  case step_update then show ?case using sqlite_disable.update_keeps by simp
next
  case step_counts then show ?case using sqlite_disable.counts_keeps by simp
next
  case step_clear then show ?case using sqlite_disable.clear_keeps by simp
next
  case step_disable then show ?case using sqlite_disable.disable_keeps by simp
qed

text \<open>A client's rows are not touched by the operations of others.\<close>

lemma interleaved_view:
  "db_run cs s s' \<Longrightarrow> c \<notin> set cs \<Longrightarrow> client_view s' c = client_view s c"
  by (induction rule: db_run.induct) (auto simp: db_step_frame)

lemma db_run_inv: "db_run cs s s' \<Longrightarrow> store_inv s \<Longrightarrow> store_inv s'"
  by (induction rule: db_run.induct) (auto intro: db_step_inv)

end
