(* ===== verification/Sqlite_Props.thy ===== *)
theory Sqlite_Props
  imports Sqlite_Correct Sample_Env
begin

section \<open>What the SQLite store promises\<close>

text \<open>
  The functional behaviour of the operations on every branch, optimistic concurrency on
  updates, reading back what was written, paging through updates, and clearing a chain.
\<close>

subsection \<open>Interleaved requests\<close>

text \<open>A run of two clients: one stores a bookmark, the other disables its chain.\<close>

lemma sample_run:
  "\<exists>s1 s2. db_run [''chain''] (initSchema None) s1 \<and> sync_entities s1 = [row_of_entity (sample_row ''a'' 3 5)] \<and>
     db_run [''other''] s1 s2 \<and> chain_disabled s2 ''other''"
proof -
  let ?s1 = "(initSchema None)\<lparr>sync_entities := [row_of_entity (sample_row ''a'' 3 5)]\<rparr>"
  let ?s2 = "upsert_marker ''other'' 1700000000000 ?s1"
  have "fst (snd (sql_InsertSyncEntity sample_env (sample_row ''a'' 3 5) (initSchema None) 0)) = ?s1"
    by (simp add: sql_InsertSyncEntity_def insert_client_tag_def insertSyncEntity_def insert_entity_row_def
        initSchema_def)
  then obtain r n where "sql_InsertSyncEntity sample_env (sample_row ''a'' 3 5) (initSchema None) 0 = (r, ?s1, n)"
    by (metis prod.collapse)
  moreover have "storable (sample_row ''a'' 3 5)" by (auto simp: storable_def)
  ultimately have "db_step ''chain'' (initSchema None) ?s1"
    using step_insert [of "sample_row ''a'' 3 5"] by fastforce
  moreover have "sql_DisableSyncChain sample_env ''other'' ?s1 0 = (None, ?s2, Suc (Suc 0))"
    by (simp add: sql_DisableSyncChain_def)
  then have "db_step ''other'' ?s1 ?s2" by (rule step_disable)
  moreover have "chain_disabled ?s2 ''other''"
    by (simp add: chain_disabled_def upsert_marker_def initSchema_def find_row_def entity_key_def
        row_keys_def disabled_marker_def)
  ultimately show ?thesis
    by (intro exI [of _ ?s1] exI [of _ ?s2]) (auto simp: db_run_Cons)
qed

text \<open>
  A client's rows (entities, uniqueness tags and counters) change only through
  operations of that client: any interleaving of the operations of others leaves them as
  they were.
\<close>

theorem interleaving_isolation:
  "db_run cs s s' \<Longrightarrow> c \<notin> set cs \<Longrightarrow> client_view s' c = client_view s c"
  by (rule interleaved_view)

lemma interleaving_isolation_witness:
  "\<exists>s1 s2. db_run [''other''] s1 s2 \<and> s1 \<noteq> s2 \<and>
     client_view s2 ''chain'' = ([row_of_entity (sample_row ''a'' 3 5)], snd (client_view s1 ''chain''))"
proof -
  obtain s1 s2 where r: "sync_entities s1 = [row_of_entity (sample_row ''a'' 3 5)]" "db_run [''other''] s1 s2"
      "chain_disabled s2 ''other''"
    using sample_run by blast
  have "s1 \<noteq> s2" using r(1,3) by (auto simp: chain_disabled_def row_keys_def entity_key_def)
  moreover have "client_view s2 ''chain'' = client_view s1 ''chain''"
    using interleaving_isolation [OF r(2)] by simp
  ultimately show ?thesis using r(1,2) by (auto simp: client_view_def)
qed

text \<open>
  A disabled sync chain stays disabled for good: once the marker is in the table, no
  interleaving of operations, clearing the chain's data included, removes it.
\<close>

theorem disabled_forever:
  "db_run cs s s' \<Longrightarrow> chain_disabled s c \<Longrightarrow> chain_disabled s' c"
  by (induction rule: db_run.induct) (auto intro: db_step_disabled)

lemma disabled_forever_witness:
  "\<exists>s1 s2 s3. db_run [''chain''] (initSchema None) s1 \<and> db_run [''other''] s1 s2 \<and>
     db_run [''other''] s2 s3 \<and> chain_disabled s3 ''other'' \<and> \<not> chain_disabled s1 ''other''"
proof -
  obtain s1 s2 where r: "db_run [''chain''] (initSchema None) s1" "sync_entities s1 = [row_of_entity (sample_row ''a'' 3 5)]"
      "db_run [''other''] s1 s2" "chain_disabled s2 ''other''"
    using sample_run by blast
  obtain res s3 n where "sql_ClearServerData sample_env ''other'' s2 0 = (res, s3, n)" by (metis prod_cases3)
  then have "db_run [''other''] s2 s3" by (auto simp: db_run_Cons intro: step_clear)
  moreover from disabled_forever [OF this r(4)] have "chain_disabled s3 ''other''" .
  moreover have "\<not> chain_disabled s1 ''other''" using r(2) by (auto simp: chain_disabled_def row_keys_def entity_key_def)
  ultimately show ?thesis using r by blast
qed

subsection \<open>Insertion\<close>

text \<open>Whether the keys an insertion needs are free, and the store with the entity added.\<close>

definition keys_free :: "SyncEntity \<Rightarrow> SQLiteStore \<Rightarrow> bool" where
  "keys_free e s \<longleftrightarrow> find_row (ClientID e) (ID e) s = None \<and>
     (case client_tag e of None \<Rightarrow> True | Some tag \<Rightarrow> \<not> has_tag (ClientID e) tag s)"

definition with_entity :: "SyncEntity \<Rightarrow> int \<Rightarrow> SQLiteStore \<Rightarrow> SQLiteStore" where
  "with_entity e now s = s
     \<lparr> unique_tags := unique_tags s @
         (case client_tag e of None \<Rightarrow> []
          | Some tag \<Rightarrow> [\<lparr>t_client_id = ClientID e, t_id = tag, t_mtime = now, t_ctime = now\<rparr>]),
       sync_entities := sync_entities s @ [row_of_entity e] \<rparr>"

definition no_faults :: "env \<Rightarrow> bool" where
  "no_faults E \<longleftrightarrow> (\<forall>n. db_fault E n = None) \<and> isConstraintErr (constraint_msg E)"

lemma find_row_list_ex:
  "list_ex (\<lambda>r. entity_key r = (c, i)) (sync_entities s) \<longleftrightarrow> find_row c i s \<noteq> None"
  by (force simp: find_row_def find_None_iff list_ex_iff)

lemma insert_client_tag_eq:
  "no_faults E \<Longrightarrow> fst (insert_client_tag E e s n) =
     (case client_tag e of None \<Rightarrow> Inr s
      | Some tag \<Rightarrow> insert_tag_row E (ClientID e) tag (unix_milli E n) s)"
  by (auto simp: insert_client_tag_def client_tag_def no_faults_def split: option.splits)

lemma sql_Insert_value:
  assumes "no_faults E"
  shows "fst (sql_InsertSyncEntity E e s n) = (\<not> keys_free e s, None)"
    and "fst (snd (sql_InsertSyncEntity E e s n)) =
      (if keys_free e s then with_entity e (unix_milli E (Suc n)) s else s)"
proof -
  have ok: "db_fault E m = None" "isConstraintErr (constraint_msg E)" for m
    using assms by (simp_all add: no_faults_def)
  obtain r m where r: "insert_client_tag E e s (Suc n) = (r, m)" by fastforce
  then have req: "r = (case client_tag e of None \<Rightarrow> Inr s
      | Some tag \<Rightarrow> insert_tag_row E (ClientID e) tag (unix_milli E (Suc n)) s)"
    using insert_client_tag_eq [OF assms, of e s "Suc n"] by simp
  show "fst (sql_InsertSyncEntity E e s n) = (\<not> keys_free e s, None)"
    using r req ok
    by (auto simp: sql_InsertSyncEntity_def insertSyncEntity_def insert_tag_row_def insert_entity_row_def
        keys_free_def has_tag_def find_row_list_ex entity_key_def [of "row_of_entity e"] find_row_def
        split: option.splits if_splits)
  show "fst (snd (sql_InsertSyncEntity E e s n)) =
      (if keys_free e s then with_entity e (unix_milli E (Suc n)) s else s)"
    using r req ok
    by (auto simp: sql_InsertSyncEntity_def insertSyncEntity_def insert_tag_row_def insert_entity_row_def
        keys_free_def has_tag_def find_row_list_ex entity_key_def [of "row_of_entity e"] find_row_def
        with_entity_def split: option.splits if_splits)
qed

text \<open>
  Inserting an entity, when the driver does not fail: if the ID or the client's
  unique tag is taken the store is unchanged and a conflict is reported (with no error);
  otherwise the row and its tag are added, and nothing else changes.
\<close>

theorem insert_functional:
  assumes "no_faults E"
  shows "fst (sql_InsertSyncEntity E e s n) = (\<not> keys_free e s, None) \<and>
    fst (snd (sql_InsertSyncEntity E e s n)) = (if keys_free e s then with_entity e (unix_milli E (Suc n)) s else s)"
  using sql_Insert_value [OF assms] by simp_all

lemma sample_no_faults: "no_faults sample_env"
  by (simp add: no_faults_def isConstraintErr_def to_lower_def contains_def lower_char_def has_prefix_def)

lemma insert_functional_witness:
  "fst (sql_InsertSyncEntity sample_env (sample_row ''a'' 0 5) (initSchema None) 0) = (False, None)"
  using insert_functional [OF sample_no_faults, of "sample_row ''a'' 0 5" "initSchema None" 0]
  by (simp add: keys_free_def initSchema_def find_row_def client_tag_def)

subsection \<open>Optimistic concurrency\<close>

lemma find_row_of_update:
  assumes "find_row c i s = Some row" and "c = ClientID e" and "i = ID e"
  shows "find_row c i (update_entity_row e s) = Some (update_columns e row)"
proof -
  have "find (\<lambda>r. entity_key r = (c, i)) (map (\<lambda>r. if entity_key r = (c, i) then update_columns e r else r) xs)
      = map_option (update_columns e) (find (\<lambda>r. entity_key r = (c, i)) xs)" for xs
    by (induction xs) auto
  then show ?thesis using assms by (simp add: find_row_def update_entity_row_def)
qed

lemma find_row_untag [simp]: "find_row c i (untag_deleted e s) = find_row c i s"
  by (auto simp: untag_deleted_def find_row_def delete_tag_def split: option.splits)

text \<open>A row lookup depends on the client's own rows only.\<close>

lemma find_row_run:
  "db_run cs s s' \<Longrightarrow> c \<notin> set cs \<Longrightarrow> find_row c i s' = find_row c i s"
  by (induction rule: db_run.induct) (auto simp: db_step_frame find_row_view)

text \<open>An update that meets its row, if the code's version check lets it pass: no conflict is reported.\<close>

lemma sql_Update_no_conflict:
  assumes "sql_UpdateSyncEntity E e v s n = (r, s', n')"
    and "find_row (ClientID e) (ID e) s = Some row" and "\<not> version_conflict e (c_version row) v"
  shows "\<not> fst r"
  using assms by (auto simp: sql_UpdateSyncEntity_def Let_def stmt_def split: option.splits sum.splits prod.splits)

text \<open>The data types for which \<open>UpdateSyncEntity\<close> checks the version.\<close>

definition version_checked :: "SyncEntity \<Rightarrow> bool" where
  "version_checked e \<longleftrightarrow> DataType e \<noteq> None \<and> DataType e \<noteq> Some HistoryTypeID"

text \<open>
  C7: Two devices of a chain read version \<open>v\<close> of an entity and both write it back, the first
  with success and giving the entity another version; requests of other chains may run in
  between. For the data types whose version is checked (all but history) no update is lost:
  the second does not succeed, whatever the driver answers, and leaves the store as it was.
  For a history entity (and one without a data type) the code does not check the version:
  the second is never refused as a conflict, and when it succeeds its columns replace those the
  first had written.
\<close>

theorem no_lost_update:
  assumes "sql_UpdateSyncEntity E e1 v s n = ((False, del, None), s1, n1)"
    and "db_run cs s1 s2" and "ClientID e1 \<notin> set cs"
    and "ClientID e2 = ClientID e1" and "ID e2 = ID e1"
    and "Version e1 \<noteq> Some v"
    and "sql_UpdateSyncEntity E' e2 v s2 m = ((conflict, del2, err), s3, m')"
  shows "if version_checked e2 then s3 = s2 \<and> (conflict \<or> err \<noteq> None)
    else \<not> conflict \<and>
      (case err of
         Some _ \<Rightarrow> s3 = s2
       | None \<Rightarrow> (\<exists>row. find_row (ClientID e1) (ID e1) s2 = Some row \<and> c_version row = Version e1 \<and>
           find_row (ClientID e1) (ID e1) s3 = Some (update_columns e2 row)))"
proof -
  have "\<exists>row. find_row (ClientID e1) (ID e1) s1 = Some row \<and> c_version row = Version e1"
    using assms(1) by (rule sql_Update_cases) (auto simp: find_row_of_update)
  then obtain row where row: "find_row (ClientID e1) (ID e1) s2 = Some row" "c_version row = Version e1"
    using find_row_run [OF assms(2,3)] by auto
  have checked: "version_conflict e2 (c_version row) v \<longleftrightarrow> version_checked e2"
    using assms(6) row(2) by (auto simp: version_conflict_def version_checked_def split: option.split)
  show ?thesis
  proof (cases "version_checked e2")
    case True
    have "s3 = s2 \<and> (\<forall>b. (conflict, del2, err) \<noteq> (False, b, None))"
      using assms(7) by (rule sql_Update_cases) (use True row checked assms(4,5) in auto)
    with True show ?thesis by auto
  next
    case False
    then have no: "\<not> conflict"
      using sql_Update_no_conflict [OF assms(7)] row checked assms(4,5) by auto
    show ?thesis using assms(7)
      by (rule sql_Update_cases)
        (use False no row assms(4,5) in \<open>auto simp: find_row_of_update split: option.split\<close>)
  qed
qed

definition sample_store :: SQLiteStore where
  "sample_store = \<lparr>sync_entities = [row_of_entity (sample_row ''a'' 3 5), row_of_entity (sample_row ''b'' 4 5)],
     unique_tags = [], client_item_counts = []\<rparr>"

text \<open>A bookmark refused the second time, and a history entity overwritten.\<close>

lemma no_lost_update_witness:
  "fst (sql_UpdateSyncEntity sample_env (sample_row ''a'' 8 8) 3 sample_store 0) = (False, False, None) \<and>
   (\<exists>conflict del err s1 s3 m'. s1 = fst (snd (sql_UpdateSyncEntity sample_env (sample_row ''a'' 8 8) 3 sample_store 0)) \<and>
      sql_UpdateSyncEntity sample_env (sample_row ''a'' 9 9) 3 s1 7 = ((conflict, del, err), s3, m') \<and>
      s3 = s1 \<and> (conflict \<or> err \<noteq> None)) \<and>
   (\<exists>del err s3 m'. sql_UpdateSyncEntity sample_env ((sample_row ''a'' 9 9)\<lparr>DataType := Some HistoryTypeID\<rparr>) 3
      (fst (snd (sql_UpdateSyncEntity sample_env (sample_row ''a'' 8 8) 3 sample_store 0))) 7 = ((False, del, err), s3, m'))"
proof -
  let ?h = "(sample_row ''a'' 9 9)\<lparr>DataType := Some HistoryTypeID\<rparr>"
  have first: "fst (sql_UpdateSyncEntity sample_env (sample_row ''a'' 8 8) 3 sample_store 0) = (False, False, None)"
    by (simp add: sql_UpdateSyncEntity_def sample_store_def find_row_def entity_key_def
        version_conflict_def delete_client_tag_def boolToInt_def HistoryTypeID_def)
  obtain s1 n1 where run: "sql_UpdateSyncEntity sample_env (sample_row ''a'' 8 8) 3 sample_store 0
      = ((False, False, None), s1, n1)"
    using first by (metis prod.collapse)
  obtain c2 d2 err2 s3 m' where second: "sql_UpdateSyncEntity sample_env (sample_row ''a'' 9 9) 3 s1 7
      = ((c2, d2, err2), s3, m')" by (metis prod.collapse)
  obtain c4 d4 err4 s4 m4 where history: "sql_UpdateSyncEntity sample_env ?h 3 s1 7 = ((c4, d4, err4), s4, m4)"
    by (metis prod.collapse)
  have "s3 = s1 \<and> (c2 \<or> err2 \<noteq> None)"
    using no_lost_update [OF run run_empty _ _ _ _ second] by (simp add: version_checked_def HistoryTypeID_def)
  moreover have "\<not> c4"
    using no_lost_update [OF run run_empty _ _ _ _ history] by (simp add: version_checked_def)
  ultimately show ?thesis using first run second history by auto
qed

subsection \<open>Reading updates\<close>

lemma sorted_split_le:
  "sorted (map f xs) \<Longrightarrow> x \<in> set (take k xs) \<Longrightarrow> y \<in> set (drop k xs) \<Longrightarrow> f x \<le> (f y :: int)"
  using sorted_append [of "map f (take k xs)" "map f (drop k xs)"]
  by (simp flip: map_append)

text \<open>
  C35: A successful \<open>GetUpdatesForType\<close> is the whole answer of its query: it returns, in
  the order of modification times, at most \<open>maxSize\<close> of the client's unexpired rows of
  that type modified after the token (folders included only on request); when it says that
  nothing remains it has returned every one of them, and a matching row it has left out is
  not older than any it returned.
\<close>

theorem get_updates_functional:
  assumes "sql_GetUpdatesForType E t tok ff c m s n = (Inr (again, es), s', n')" and "0 \<le> m"
  defines "matching \<equiv> filter (is_update t tok ff c (unix_secs E n)) (sync_entities s)"
  shows "int (length es) = min m (int (length matching)) \<and>
    sorted (map (\<lambda>e. the (Mtime e)) es) \<and>
    set es \<subseteq> scanEntity ` set matching \<and>
    (again \<longleftrightarrow> m < int (length matching)) \<and>
    (\<not> again \<longrightarrow> set es = scanEntity ` set matching) \<and>
    (r \<in> set matching \<longrightarrow> scanEntity r \<notin> set es \<longrightarrow> e \<in> set es \<longrightarrow> the (Mtime e) \<le> the (c_mtime r))"
proof -
  have "int (length es) = min m (int (length matching))"
    and "sorted (map (\<lambda>e. the (Mtime e)) es)"
    and "set es \<subseteq> scanEntity ` set matching"
    and "again \<longleftrightarrow> m < int (length matching)"
    and "\<not> again \<Longrightarrow> set es = scanEntity ` set matching"
    and "r \<in> set matching \<Longrightarrow> scanEntity r \<notin> set es \<Longrightarrow> e \<in> set es \<Longrightarrow> the (Mtime e) \<le> the (c_mtime r)"
  proof -
    let ?q = "select_updates t tok ff c (unix_secs E n) s"
    have q: "?q = sort_key row_mtime matching" by (simp add: select_updates_def matching_def)
    have es: "es = map scanEntity (take (nat m) ?q)" and again: "again \<longleftrightarrow> m < int (length ?q)"
      using sql_GetUpdates_Inr [OF assms(1,2)] by simp_all
    have mt: "row_mtime r = the (c_mtime r)" if "r \<in> set ?q" for r
      using that by (auto simp: select_updates_set is_update_def row_mtime_def split: option.splits)
    show "int (length es) = min m (int (length matching))"
      using assms(2) by (simp add: es q)
    show "again \<longleftrightarrow> m < int (length matching)" using again by (simp add: q)
    show "set es \<subseteq> scanEntity ` set matching"
      using set_take_subset [of "nat m" ?q] by (auto simp: es q)
    show "set es = scanEntity ` set matching" if "\<not> again"
      using that assms(2) by (simp add: es again q)
    have "map (\<lambda>e. the (Mtime e)) es = map row_mtime (take (nat m) ?q)"
      using mt in_set_takeD [of _ "nat m" ?q] by (simp add: es)
    then show "sorted (map (\<lambda>e. the (Mtime e)) es)"
      using sorted_map_take [OF select_updates_sorted] by simp
    show "the (Mtime e) \<le> the (c_mtime r)"
      if r: "r \<in> set matching" "scanEntity r \<notin> set es" and e: "e \<in> set es"
    proof -
      obtain x where x: "x \<in> set (take (nat m) ?q)" "e = scanEntity x" using e by (auto simp: es)
      have "r \<in> set ?q" "r \<notin> set (take (nat m) ?q)" using r by (auto simp: es q)
      then have "r \<in> set (drop (nat m) ?q)" by (metis append_take_drop_id Un_iff set_append)
      then have "row_mtime x \<le> row_mtime r"
        using x(1) sorted_split_le [OF select_updates_sorted] by blast
      then show ?thesis using mt \<open>r \<in> set ?q\<close> x in_set_takeD [OF x(1)] by simp
    qed
  qed
  then show ?thesis by blast
qed

lemma get_updates_functional_witness:
  "\<exists>again es s' n'. sql_GetUpdatesForType sample_env 32904 0 True ''chain'' 1 sample_store 0
     = (Inr (again, es), s', n') \<and> int (length es) = 1 \<and> again"
proof -
  have run: "sql_GetUpdatesForType sample_env 32904 0 True ''chain'' 1 sample_store 0 =
      (Inr (True, [sample_row ''a'' 3 5]), sample_store, 3)"
    by (simp add: sql_GetUpdatesForType_def select_updates_def sample_store_def is_update_def
        row_mtime_def scan_row_of_entity numeral_3_eq_3)
  have "int (length [sample_row ''a'' 3 5]) = 1 \<and> True"
    using get_updates_functional [OF run] by simp
  then show ?thesis using run by blast
qed

text \<open>The same query after the last modification time that a full page returned.\<close>

lemma is_update_token:
  assumes "tok \<le> tok'"
  shows "is_update t tok' ff c now r \<longleftrightarrow> is_update t tok ff c now r \<and> tok' < row_mtime r"
  using assms by (auto simp: is_update_def row_mtime_def split: option.splits)

lemma select_updates_token:
  assumes "tok \<le> tok'"
  shows "select_updates t tok' ff c now s = filter (\<lambda>r. tok' < row_mtime r) (select_updates t tok ff c now s)"
  using assms by (auto simp: select_updates_def is_update_token filter_sort conj_commute intro!: arg_cong [where f = "sort_key row_mtime"] filter_cong)

text \<open>
  C36: Paging is complete when the modification times are distinct: a device that asks
  again with the token of the last entity of a full page receives exactly the entities
  that follow it in the complete answer, none twice and none left out.
\<close>

theorem paging_complete:
  assumes "distinct (map row_mtime (select_updates t tok ff c now s))"
    and "0 < k" and "k \<le> length (select_updates t tok ff c now s)"
    and "tok' = row_mtime (last (take k (select_updates t tok ff c now s)))"
  shows "take k (select_updates t tok ff c now s) @ select_updates t tok' ff c now s
    = select_updates t tok ff c now s"
proof -
  let ?q = "select_updates t tok ff c now s"
  have last: "last (take k ?q) = ?q ! (k - 1)"
    using assms(2,3) last_conv_nth [of "take k ?q"] by (cases ?q) (auto simp: min_def)
  have "?q ! (k - 1) \<in> set ?q" using assms(2,3) by (intro nth_mem) simp
  then have "tok \<le> tok'"
    by (auto simp: assms(4) last select_updates_set is_update_def row_mtime_def split: option.splits)
  then have "select_updates t tok' ff c now s = drop k ?q"
    using filter_greater_sorted [OF select_updates_sorted assms(1-3)]
    by (simp add: select_updates_token assms(4) last)
  then show ?thesis by simp
qed

definition two_bookmarks :: SQLiteStore where
  "two_bookmarks = \<lparr>sync_entities = [row_of_entity (sample_row ''a'' 3 6), row_of_entity (sample_row ''b'' 4 5)],
     unique_tags = [], client_item_counts = []\<rparr>"

lemma paging_complete_witness:
  "take 1 (select_updates 32904 0 True ''chain'' 9 two_bookmarks) @
     select_updates 32904 5 True ''chain'' 9 two_bookmarks
   = select_updates 32904 0 True ''chain'' 9 two_bookmarks"
  by (rule paging_complete)
    (simp_all add: select_updates_def two_bookmarks_def is_update_def row_mtime_def)

text \<open>
  Without distinct times paging loses entities. Two bookmarks modified in the same
  millisecond, asked for one at a time: the first answer has the first one and says that
  more remains, and the next query, with the token of that answer, finds nothing.
\<close>

theorem paging_loses_ties:
  "fst (sql_GetUpdatesForType sample_env 32904 0 True ''chain'' 1 sample_store 0) = Inr (True, [sample_row ''a'' 3 5]) \<and>
    fst (sql_GetUpdatesForType sample_env 32904 5 True ''chain'' 1 sample_store 2) = Inr (False, []) \<and>
    row_of_entity (sample_row ''b'' 4 5) \<in> set (sync_entities sample_store)"
  by (simp_all add: sql_GetUpdatesForType_def select_updates_def sample_store_def is_update_def
      row_mtime_def scan_row_of_entity)

subsection \<open>Clearing a chain\<close>

text \<open>
  A successful \<open>ClearServerData\<close> returns every entity the client had and leaves
  nothing of the client's data but the marker of a disabled chain; a failed one changes
  nothing.
\<close>

theorem clear_removes_everything:
  "sql_ClearServerData E c s n = (r, s', n') \<Longrightarrow>
     (case r of
        Inl err \<Rightarrow> s' = s
      | Inr es \<Rightarrow> es = map scanEntity (fst (client_view s c)) \<and>
          client_view s' c = (filter (\<lambda>r. c_id r = disabledChainID) (fst (client_view s c)), [], []))"
proof -
  assume "sql_ClearServerData E c s n = (r, s', n')"
  then show ?thesis
    by (rule sql_Clear_cases)
      (auto simp: client_view_def clear_entities_def clear_counts_def clear_tags_def
        intro!: filter_cong)
qed

lemma clear_removes_everything_witness:
  "\<exists>es s' n'. sql_ClearServerData sample_env ''chain'' sample_store 0 = (Inr es, s', n') \<and>
     length es = 2 \<and> client_view s' ''chain'' = ([], [], [])"
proof -
  obtain s' n' where run: "sql_ClearServerData sample_env ''chain'' sample_store 0 =
      (Inr [sample_row ''a'' 3 5, sample_row ''b'' 4 5], s', n')"
    by (simp add: sql_ClearServerData_def sample_store_def scan_row_of_entity)
  have "client_view s' ''chain'' = ([], [], [])"
    using clear_removes_everything [OF run]
    by (simp add: client_view_def sample_store_def disabledChainID_def)
  with run show ?thesis by auto
qed

end
