(* ===== verification/Server_Tags.thy ===== *)
theory Server_Tags
  imports Sqlite_Props
begin

section \<open>Server-defined entities (command/server\_defined\_unique\_entity.go)\<close>

text \<open>
  A new chain gets five folders with unique server tags: \<open>Nigori\<close>, \<open>Bookmarks\<close> and three
  below \<open>Bookmarks\<close>, created in the order of a Go map. The lemmas show which entities one
  call creates, that they satisfy what the data store requires, and that the call does
  nothing for a chain that has them.
\<close>

definition nigoriName :: string where "nigoriName = ''Nigori''"
definition nigoriTag :: string where "nigoriTag = ''google_chrome_nigori''"
definition bookmarksName :: string where "bookmarksName = ''Bookmarks''"
definition bookmarksTag :: string where "bookmarksTag = ''google_chrome_bookmarks''"

definition bookmarkSecondLevelFolders :: "(string \<times> string) list" where
  "bookmarkSecondLevelFolders =
     [(''Other Bookmarks'', ''other_bookmarks''), (''Synced Bookmarks'', ''synced_bookmarks''),
      (''Bookmark Bar'', ''bookmark_bar'')]"

definition createServerDefinedUniqueEntity ::
  "env \<Rightarrow> string \<Rightarrow> string \<Rightarrow> string \<Rightarrow> string \<Rightarrow> EntitySpecifics \<Rightarrow> nat
     \<Rightarrow> (error + SyncEntity) outcome \<times> nat" where
  "createServerDefinedUniqueEntity E name serverDefinedTag clientID parentID specifics n =
     (let now = unix_milli E n;
          idString = new_uuid E (Suc n);
          pbEntity = empty_PbSyncEntity
            \<lparr> pb_Ctime := Some now, pb_Mtime := Some now, pb_Deleted := Some False,
              pb_Folder := Some True, pb_Name := Some name,
              pb_ServerDefinedUniqueTag := Some serverDefinedTag, pb_Version := Some 1,
              pb_ParentIdString := Some parentID, pb_IdString := Some idString,
              pb_Specifics := Some specifics \<rparr>
      in CreateDBSyncEntity E (Some pbEntity) None clientID (Suc (Suc n)))"

text \<open>The range loop over the second-level folders; \<open>entities\<close> is the slice so far.\<close>

fun create_second_level ::
  "env \<Rightarrow> string \<Rightarrow> string \<Rightarrow> EntitySpecifics \<Rightarrow> string list \<Rightarrow> SyncEntity list \<Rightarrow> nat
     \<Rightarrow> (error + SyncEntity list) outcome \<times> nat" where
  "create_second_level E clientID rootID specifics [] entities n = (Return (Inr entities), n)"
| "create_second_level E clientID rootID specifics (name # names) entities n =
     (case createServerDefinedUniqueEntity E name (the (map_of bookmarkSecondLevelFolders name))
             clientID rootID specifics n of
        (Panic, n) \<Rightarrow> (Panic, n)
      | (Return (Inl err), n) \<Rightarrow>
          (Return (Inl (''error creating entity with a server tag: '' @ err)), n)
      | (Return (Inr entity), n) \<Rightarrow>
          create_second_level E clientID rootID specifics names (entities @ [entity]) n)"

definition server_entities ::
  "env \<Rightarrow> string \<Rightarrow> nat \<Rightarrow> (error + SyncEntity list) outcome \<times> nat" where
  "server_entities E clientID n =
     (case createServerDefinedUniqueEntity E nigoriName nigoriTag clientID ''0''
             \<lparr>Encrypted = None, SpecificsVariant = Some (V_Nigori, [])\<rparr> n of
        (Panic, n) \<Rightarrow> (Panic, n)
      | (Return (Inl err), n) \<Rightarrow>
          (Return (Inl (''error creating entity with a server tag: '' @ err)), n)
      | (Return (Inr nigori), n) \<Rightarrow>
     (let specifics = \<lparr>Encrypted = None, SpecificsVariant = Some (V_Bookmark, [])\<rparr> in
      case createServerDefinedUniqueEntity E bookmarksName bookmarksTag clientID ''0'' specifics n of
        (Panic, n) \<Rightarrow> (Panic, n)
      | (Return (Inl err), n) \<Rightarrow>
          (Return (Inl (''error creating entity with a server tag: '' @ err)), n)
      | (Return (Inr bookmarks), n) \<Rightarrow>
          create_second_level E clientID (ID bookmarks) specifics
            (order_names E (map fst bookmarkSecondLevelFolders)) [nigori, bookmarks] n))"

definition InsertServerDefinedUniqueEntities ::
  "'d datastore \<Rightarrow> env \<Rightarrow> string \<Rightarrow> ('d, error option outcome) op" where
  "InsertServerDefinedUniqueEntities ds E clientID d n =
     (case ds_HasServerDefinedUniqueTag ds E clientID nigoriTag d n of
        (Inl err, d, n) \<Rightarrow>
          (Return (Some (''error checking if entity with a server tag existed: '' @ err)), d, n)
      | (Inr ready, d, n) \<Rightarrow>
     (if ready then (Return None, d, n)
      else
     (case server_entities E clientID n of
        (Panic, n) \<Rightarrow> (Panic, d, n)
      | (Return (Inl err), n) \<Rightarrow> (Return (Some err), d, n)
      | (Return (Inr entities), n) \<Rightarrow>
     (case ds_InsertSyncEntitiesWithServerTags ds E entities d n of
        (Some err, d, n) \<Rightarrow>
          (Return (Some (''error inserting entities with server tags: '' @ err)), d, n)
      | (None, d, n) \<Rightarrow> (Return None, d, n)))))"

subsection \<open>The entities\<close>

text \<open>What a created folder is.\<close>

definition server_folder :: "string \<Rightarrow> string \<Rightarrow> string \<Rightarrow> string \<Rightarrow> int \<Rightarrow> SyncEntity \<Rightarrow> bool" where
  "server_folder clientID name tag parentID t e \<longleftrightarrow>
     ClientID e = clientID \<and> Name e = Some name \<and> ServerDefinedUniqueTag e = Some tag \<and>
     ParentID e = Some parentID \<and> DataType e = Some t \<and> Deleted e = Some False \<and>
     Folder e = Some True \<and> Version e = Some 1 \<and> ClientDefinedUniqueTag e = None \<and>
     (\<exists>m. Mtime e = Some m)"

lemma server_folder_storable: "server_folder c nm tag p t e \<Longrightarrow> storable e"
  by (auto simp: server_folder_def storable_def)

lemma create_folder:
  assumes "createServerDefinedUniqueEntity E name tag c p \<lparr>Encrypted = None, SpecificsVariant = Some (v, b)\<rparr> n
      = (Return (Inr e), n')"
    and "v \<noteq> V_History"
  shows "server_folder c name tag p (data_type_id v) e"
  using assms
  by (auto simp: createServerDefinedUniqueEntity_def CreateDBSyncEntity_def validatePBEntity_def Let_def
      data_type_id_history choose_id_def empty_PbSyncEntity_def build_SyncEntity_def server_folder_def
      marshal_optional_position_def split: sum.splits)

lemma create_folder_no_panic:
  "v \<noteq> V_History \<Longrightarrow>
   createServerDefinedUniqueEntity E name tag c p \<lparr>Encrypted = None, SpecificsVariant = Some (v, b)\<rparr> n
     \<noteq> (Panic, n')"
  by (auto simp: createServerDefinedUniqueEntity_def CreateDBSyncEntity_def validatePBEntity_def Let_def
      data_type_id_history choose_id_def empty_PbSyncEntity_def marshal_optional_position_def
      split: sum.splits)

lemma create_second_level_ok:
  assumes "create_second_level E c root \<lparr>Encrypted = None, SpecificsVariant = Some (V_Bookmark, b)\<rparr> names es n
      = (Return (Inr es'), n')"
  shows "\<exists>fs. es' = es @ fs \<and>
    list_all2 (\<lambda>name e. server_folder c name (the (map_of bookmarkSecondLevelFolders name)) root 32904 e) names fs"
  using assms
proof (induction names arbitrary: es n)
  case Nil
  then show ?case by simp
next
  case (Cons name names)
  let ?sp = "\<lparr>Encrypted = None, SpecificsVariant = Some (V_Bookmark, b)\<rparr>"
  from Cons.prems obtain e n1 where
    e: "createServerDefinedUniqueEntity E name (the (map_of bookmarkSecondLevelFolders name)) c root ?sp n
        = (Return (Inr e), n1)"
    and rest: "create_second_level E c root ?sp names (es @ [e]) n1 = (Return (Inr es'), n')"
    by (auto split: prod.splits outcome.splits sum.splits)
  from Cons.IH [OF rest] obtain fs where "es' = (es @ [e]) @ fs"
    "list_all2 (\<lambda>name e. server_folder c name (the (map_of bookmarkSecondLevelFolders name)) root 32904 e) names fs"
    by blast
  then show ?case using create_folder [OF e] by (intro exI [of _ "e # fs"]) simp
qed

lemma create_second_level_no_panic:
  "create_second_level E c root \<lparr>Encrypted = None, SpecificsVariant = Some (V_Bookmark, b)\<rparr> names es n
     \<noteq> (Panic, n')"
  by (induction names arbitrary: es n)
    (auto simp: create_folder_no_panic split: prod.splits outcome.splits sum.splits)

lemma server_entities_no_panic: "server_entities E c n \<noteq> (Panic, n')"
  by (auto simp: server_entities_def create_folder_no_panic create_second_level_no_panic Let_def
      split: prod.splits outcome.splits sum.splits)

lemma server_entities_calls:
  assumes "server_entities E c n = (Return (Inr es), n')"
  obtains nigori bookmarks n1 n2 where
    "createServerDefinedUniqueEntity E nigoriName nigoriTag c ''0''
       \<lparr>Encrypted = None, SpecificsVariant = Some (V_Nigori, [])\<rparr> n = (Return (Inr nigori), n1)"
    "createServerDefinedUniqueEntity E bookmarksName bookmarksTag c ''0''
       \<lparr>Encrypted = None, SpecificsVariant = Some (V_Bookmark, [])\<rparr> n1 = (Return (Inr bookmarks), n2)"
    "create_second_level E c (ID bookmarks) \<lparr>Encrypted = None, SpecificsVariant = Some (V_Bookmark, [])\<rparr>
       (order_names E (map fst bookmarkSecondLevelFolders)) [nigori, bookmarks] n2 = (Return (Inr es), n')"
  using assms by (auto simp: server_entities_def Let_def split: prod.splits outcome.splits sum.splits)

lemma server_entities_ok:
  assumes "server_entities E c n = (Return (Inr es), n')"
  obtains nigori bookmarks fs where "es = nigori # bookmarks # fs"
    "server_folder c nigoriName nigoriTag ''0'' 47745 nigori"
    "server_folder c bookmarksName bookmarksTag ''0'' 32904 bookmarks"
    "list_all2 (\<lambda>name e. server_folder c name (the (map_of bookmarkSecondLevelFolders name))
        (ID bookmarks) 32904 e) (order_names E (map fst bookmarkSecondLevelFolders)) fs"
  using assms
proof (rule server_entities_calls, goal_cases)
  case (1 nigori bookmarks n1 n2)
  then show ?case using create_folder [OF 1(2)] create_folder [OF 1(3)] create_second_level_ok [OF 1(4)] by auto
qed

lemma created_encoded:
  "createServerDefinedUniqueEntity E nm tag c p sp n = (Return (Inr e), n') \<Longrightarrow> encoded E e"
  unfolding createServerDefinedUniqueEntity_def Let_def by (rule CreateDB_encoded)

lemma second_level_encoded:
  "create_second_level E c root sp names es0 n = (Return (Inr es), n') \<Longrightarrow> \<forall>e \<in> set es0. encoded E e \<Longrightarrow>
   \<forall>e \<in> set es. encoded E e"
proof (induction names arbitrary: es0 n)
  case (Cons name names)
  from Cons.prems(1) obtain e n1 where
    e: "createServerDefinedUniqueEntity E name (the (map_of bookmarkSecondLevelFolders name))
      c root sp n = (Return (Inr e), n1)"
    and rest: "create_second_level E c root sp names (es0 @ [e]) n1 = (Return (Inr es), n')"
    by (auto split: prod.splits outcome.splits sum.splits)
  show ?case using Cons.IH [OF rest] Cons.prems(2) created_encoded [OF e] by simp
qed simp

lemma server_entities_encoded:
  assumes "server_entities E c n = (Return (Inr es), n')"
  shows "\<forall>e \<in> set es. encoded E e"
  using assms
proof (rule server_entities_calls)
  fix nigori bookmarks n1 n2 sp1 sp2
  assume "createServerDefinedUniqueEntity E nigoriName nigoriTag c ''0'' sp1 n = (Return (Inr nigori), n1)"
    and "createServerDefinedUniqueEntity E bookmarksName bookmarksTag c ''0'' sp2 n1 = (Return (Inr bookmarks), n2)"
    and rest: "create_second_level E c (ID bookmarks) sp2
       (order_names E (map fst bookmarkSecondLevelFolders)) [nigori, bookmarks] n2 = (Return (Inr es), n')"
  then have "\<forall>e \<in> set [nigori, bookmarks]. encoded E e" using created_encoded by auto
  then show ?thesis by (rule second_level_encoded [OF rest])
qed

lemma server_entities_storable:
  assumes "server_entities E c n = (Return (Inr es), n')"
  shows "\<forall>e \<in> set es. storable e \<and> ClientID e = c"
proof -
  have one: "server_folder c nm tag p t e \<Longrightarrow> storable e \<and> ClientID e = c" for nm tag p t e
    using server_folder_storable by (auto simp: server_folder_def)
  have many: "\<forall>e \<in> set fs. storable e \<and> ClientID e = c"
    if "list_all2 (\<lambda>name e. server_folder c name (T name) p t e) names fs" for T p t names fs
    using that one by (induction rule: list_all2_induct) auto
  obtain nigori bookmarks fs where es: "es = nigori # bookmarks # fs"
      "server_folder c nigoriName nigoriTag ''0'' 47745 nigori"
      "server_folder c bookmarksName bookmarksTag ''0'' 32904 bookmarks"
    and fs: "list_all2 (\<lambda>name e. server_folder c name (the (map_of bookmarkSecondLevelFolders name))
        (ID bookmarks) 32904 e) (order_names E (map fst bookmarkSecondLevelFolders)) fs"
    by (rule server_entities_ok [OF assms])
  show ?thesis using one [OF es(2)] one [OF es(3)] many [OF fs] by (simp add: es(1))
qed

subsection \<open>The call as a whole, on the SQLite store\<close>

definition server_tag_row :: "int \<Rightarrow> SyncEntity \<Rightarrow> tag_row" where
  "server_tag_row now e =
     \<lparr> t_client_id = ClientID e, t_id = serverTagItemPrefix @ ptrString (ServerDefinedUniqueTag e),
       t_mtime = now, t_ctime = now \<rparr>"

lemma insert_with_server_tags_ok:
  "insert_with_server_tags E now es s n = (Inr s', n') \<Longrightarrow>
     s' = s\<lparr>sync_entities := sync_entities s @ map row_of_entity es,
            unique_tags := unique_tags s @ map (server_tag_row now) es\<rparr>"
proof (induction es arbitrary: s n)
  case Nil
  then show ?case by simp
next
  case (Cons e es)
  from Cons.prems obtain s1 s2 n2 where
    1: "insert_tag_row E (ClientID e) (serverTagItemPrefix @ ptrString (ServerDefinedUniqueTag e)) now s
        = Inr s1" and 2: "insert_entity_row E (row_of_entity e) s1 = Inr s2"
    and 3: "insert_with_server_tags E now es s2 n2 = (Inr s', n')"
    by (auto simp: stmt_Inr insertSyncEntity_def split: prod.splits sum.splits)
  from 1 2 have "s2 = s\<lparr>sync_entities := sync_entities s @ [row_of_entity e],
      unique_tags := unique_tags s @ [server_tag_row now e]\<rparr>"
    by (auto simp: insert_tag_row_def insert_entity_row_def server_tag_row_def split: if_splits)
  with Cons.IH [OF 3] show ?case by simp
qed

lemma server_call_cases:
  assumes "InsertServerDefinedUniqueEntities sqlite E c s n = (r, s', n')"
  obtains (unchanged) "s' = s" "r \<noteq> Panic" "r = Return None \<Longrightarrow> has_tag c (serverTagItemPrefix @ nigoriTag) s"
  | (created) es m m' now where "r = Return None" "server_entities E c m = (Return (Inr es), m')"
      "\<not> has_tag c (serverTagItemPrefix @ nigoriTag) s"
      "s' = s\<lparr>sync_entities := sync_entities s @ map row_of_entity es,
              unique_tags := unique_tags s @ map (server_tag_row now) es\<rparr>"
proof -
  obtain h n1 where h: "stmt E n (Inr (has_tag c (serverTagItemPrefix @ nigoriTag) s)) = (h, n1)"
    by fastforce
  consider (fault) err where "h = Inl err" | (ready) "h = Inr True" | (no) "h = Inr False"
    by (cases h) auto
  then show thesis
  proof cases
    case fault
    with assms h show thesis
      by (intro unchanged) (auto simp: InsertServerDefinedUniqueEntities_def sql_HasServerDefinedUniqueTag_def)
  next
    case ready
    with assms h show thesis
      by (intro unchanged) (auto simp: InsertServerDefinedUniqueEntities_def
          sql_HasServerDefinedUniqueTag_def stmt_Inr)
  next
    case no
    then have free: "\<not> has_tag c (serverTagItemPrefix @ nigoriTag) s" using h by (simp add: stmt_Inr)
    obtain o1 m' where e: "server_entities E c n1 = (o1, m')" by fastforce
    then have "o1 \<noteq> Panic" using server_entities_no_panic by metis
    then consider (bad) err where "o1 = Return (Inl err)" | (es) es where "o1 = Return (Inr es)"
      by (metis outcome.exhaust sum.exhaust)
    then show thesis
    proof cases
      case bad
      with assms h no e show thesis
        by (intro unchanged) (auto simp: InsertServerDefinedUniqueEntities_def sql_HasServerDefinedUniqueTag_def)
    next
      case es
      obtain q s1 n2 where ins: "sql_InsertSyncEntitiesWithServerTags E es s m' = (q, s1, n2)"
        by (metis prod_cases3)
      have run: "r = Return (map_option (\<lambda>err. ''error inserting entities with server tags: '' @ err) q)" "s' = s1"
        using assms h no e es ins
        by (auto simp: InsertServerDefinedUniqueEntities_def sql_HasServerDefinedUniqueTag_def
            split: option.splits)
      from ins show thesis
      proof (rule sql_InsertTags_cases)
        assume "s1 = s" "q \<noteq> None"
        with run show thesis by (intro unchanged) auto
      next
        fix now k k'
        assume "insert_with_server_tags E now es s k = (Inr s1, k')" "q = None"
        with run e es free show thesis by (intro created) (auto dest: insert_with_server_tags_ok)
      qed
    qed
  qed
qed



text \<open>
  Preparing a chain is idempotent: after a successful call, another call for the same
  chain changes nothing, whatever requests of other chains ran in between.
\<close>

theorem server_entities_once:
  assumes "InsertServerDefinedUniqueEntities sqlite E c s n = (Return None, s1, n1)"
    and "db_run cs s1 s2" and "c \<notin> set cs"
    and "InsertServerDefinedUniqueEntities sqlite E' c s2 m = (r, s3, m')"
  shows "s3 = s2"
proof -
  have "has_tag c (serverTagItemPrefix @ nigoriTag) s1"
    using assms(1)
  proof (rule server_call_cases)
    fix es m m' now
    assume s1: "s1 = s\<lparr>sync_entities := sync_entities s @ map row_of_entity es,
        unique_tags := unique_tags s @ map (server_tag_row now) es\<rparr>"
      and ents: "server_entities E c m = (Return (Inr es), m')"
    show ?thesis
      by (rule server_entities_ok [OF ents])
        (simp add: s1 has_tag_def tag_key_def server_tag_row_def server_folder_def ptrString_def)
  qed simp
  moreover have "has_tag c i s = list_ex (\<lambda>r. t_id r = i) (fst (snd (client_view s c)))" for i s
    by (auto simp: has_tag_def client_view_def tag_key_def list_ex_iff)
  ultimately have "has_tag c (serverTagItemPrefix @ nigoriTag) s2"
    using interleaved_view [OF assms(2,3)] by simp
  then show ?thesis using assms(4) by (auto elim: server_call_cases)
qed

definition prepared_store :: SQLiteStore where
  "prepared_store = \<lparr>sync_entities = [], unique_tags =
     [\<lparr>t_client_id = ''chain'', t_id = serverTagItemPrefix @ nigoriTag, t_mtime = 1, t_ctime = 1\<rparr>],
     client_item_counts = []\<rparr>"

lemma server_entities_once_witness:
  "\<exists>n1. InsertServerDefinedUniqueEntities sqlite sample_env ''chain'' prepared_store 0
       = (Return None, prepared_store, n1) \<and>
     fst (snd (InsertServerDefinedUniqueEntities sqlite sample_env ''chain'' prepared_store n1)) = prepared_store"
proof -
  obtain n1 where run: "InsertServerDefinedUniqueEntities sqlite sample_env ''chain'' prepared_store 0
      = (Return None, prepared_store, n1)"
    by (simp add: InsertServerDefinedUniqueEntities_def sql_HasServerDefinedUniqueTag_def
        prepared_store_def has_tag_def tag_key_def)
  obtain r s3 m' where again:
    "InsertServerDefinedUniqueEntities sqlite sample_env ''chain'' prepared_store n1 = (r, s3, m')"
    by (metis prod_cases3)
  have "s3 = prepared_store" by (rule server_entities_once [OF run run_empty _ again]) simp
  with run again show ?thesis by auto
qed

end
