(* ===== verification/Get_Updates.thy ===== *)
theory Get_Updates
  imports Varint Type_Cache Device_Limit Server_Tags
begin

section \<open>GET\_UPDATES requests (command/command.go)\<close>

text \<open>
  \<open>handleGetUpdatesRequest\<close>: the check of the device limit for a new client, the
  preparation of its chain, and the loop over the progress markers that fills the
  response. A handler's reply is the error code and error it returns; \<open>None\<close> from the
  device loop means that it never returns, \<open>Panic\<close> that the request panics. The response
  is modified in place in the code, so what it holds is part of the result on every
  branch; \<open>ChangesRemaining\<close> points to the local variable \<open>changesRemaining\<close>.
\<close>

definition nigoriTypeID :: int where "nigoriTypeID = 47745"
definition deviceInfoTypeID :: int where "deviceInfoTypeID = 154522"

subsection \<open>Counting the devices of a chain\<close>

text \<open>The loop over one batch: \<open>Inl ()\<close> when the limit is reached.\<close>

fun count_devices :: "env \<Rightarrow> string \<Rightarrow> SyncEntity list \<Rightarrow> int \<Rightarrow> (unit + int) outcome" where
  "count_devices E clientID [] activeDevices = Return (Inr activeDevices)"
| "count_devices E clientID (entity # entities) activeDevices =
     (case Deleted entity of
        None \<Rightarrow> Panic
      | Some deleted \<Rightarrow>
          (let activeDevices = (if \<not> deleted then activeDevices + 1 else activeDevices)
           in if hasReachedDeviceLimit E activeDevices clientID then Return (Inl ())
              else count_devices E clientID entities activeDevices))"

text \<open>The \<open>for\<close> loop around it, which reads from token 0 in every round.\<close>

partial_function (option) device_loop ::
  "'d datastore \<Rightarrow> env \<Rightarrow> string \<Rightarrow> int \<Rightarrow> ('d, 'c) sys
     \<Rightarrow> (reply option outcome \<times> ('d, 'c) sys) option" where
  "device_loop ds E clientID activeDevices s =
     (case on_db (ds_GetUpdatesForType ds E deviceInfoTypeID 0 False clientID (maxGUBatchSize E)) s of
        (Inl err, s) \<Rightarrow>
          Some (Return (Some (Some SyncEnums_TRANSIENT_ERROR,
            Some (''error getting updates for type '' @ itoa deviceInfoTypeID @ '': '' @ err))), s)
      | (Inr (hasChangesRemaining, syncEntities), s) \<Rightarrow>
          (case count_devices E clientID syncEntities activeDevices of
             Panic \<Rightarrow> Some (Panic, s)
           | Return (Inl _) \<Rightarrow>
               Some (Return (Some (Some SyncEnums_THROTTLED,
                 Some ''exceed limit of active devices in a chain'')), s)
           | Return (Inr active) \<Rightarrow>
               (if hasChangesRemaining then device_loop ds E clientID active s
                else Some (Return None, s))))"

text \<open>The part of the handler for a new client; \<open>Return None\<close> means to go on.\<close>

definition admit_new_client ::
  "'d datastore \<Rightarrow> env \<Rightarrow> string \<Rightarrow> ('d, 'c) sys \<Rightarrow> (reply option outcome \<times> ('d, 'c) sys) option" where
  "admit_new_client ds E clientID s =
     (case device_loop ds E clientID 0 s of
        None \<Rightarrow> None
      | Some (Return None, s) \<Rightarrow>
          (case on_db (InsertServerDefinedUniqueEntities ds E clientID) s of
             (Panic, s) \<Rightarrow> Some (Panic, s)
           | (Return (Some err), s) \<Rightarrow>
               Some (Return (Some (Some SyncEnums_TRANSIENT_ERROR,
                 Some (''error creating server defined unique entitiies: '' @ err))), s)
           | (Return None, s) \<Rightarrow> Some (Return None, s))
      | Some res \<Rightarrow> Some res)"

subsection \<open>One progress marker\<close>

text \<open>The loop that converts entities until the response is full: the entries, the number
  of entities taken, and the error of a conversion, if one failed.\<close>

fun fill_entries ::
  "env \<Rightarrow> int \<Rightarrow> SyncEntity list \<Rightarrow> PbSyncEntity list \<Rightarrow> nat \<Rightarrow> PbSyncEntity list \<times> nat \<times> error option" where
  "fill_entries E maxSize [] entries j = (entries, j, None)"
| "fill_entries E maxSize (d # ds) entries j =
     (if int (length entries) < maxSize
      then (case CreatePBSyncEntity E d of
              Inl err \<Rightarrow> (entries, j, Some err)
            | Inr entity \<Rightarrow> fill_entries E maxSize ds (entries @ [entity]) (Suc j))
      else (entries, j, None))"

definition set_marker_token :: "nat \<Rightarrow> bytes \<Rightarrow> GetUpdatesResponse \<Rightarrow> GetUpdatesResponse" where
  "set_marker_token i tok rsp = rsp\<lparr>NewProgressMarker := (NewProgressMarker rsp)
     [i := map_option (\<lambda>m. m\<lparr>Token := Some tok\<rparr>) (NewProgressMarker rsp ! i)]\<rparr>"

definition marker_token :: "DataTypeProgressMarker \<Rightarrow> bytes" where
  "marker_token m = (case Token m of None \<Rightarrow> [] | Some t \<Rightarrow> t)"

text \<open>The head of an iteration: the new marker with the client's token or an encoded 0.\<close>

definition start_marker ::
  "bool \<Rightarrow> nat \<Rightarrow> DataTypeProgressMarker \<Rightarrow> int \<Rightarrow> GetUpdatesResponse \<Rightarrow> GetUpdatesResponse" where
  "start_marker isNewClient i fromProgressMarker dataType rsp =
     (let tok = (if marker_token fromProgressMarker \<noteq> [] then marker_token fromProgressMarker
                 else put_token 0);
          rsp = rsp\<lparr>NewProgressMarker := (NewProgressMarker rsp)
            [i := Some \<lparr>DataTypeId = DataTypeId fromProgressMarker, Token = Some tok,
                        GetUpdateTriggers = None, GcDirective = None\<rparr>]\<rparr>
      in if dataType = nigoriTypeID \<and> isNewClient
         then rsp\<lparr>EncryptionKeys := [[0x31, 0x32, 0x33, 0x34]]\<rparr> else rsp)"

text \<open>What follows a successful query.\<close>

definition finish_marker ::
  "'c redis_client \<Rightarrow> env \<Rightarrow> string \<Rightarrow> bool \<Rightarrow> nat \<Rightarrow> int \<Rightarrow> int \<Rightarrow> bool \<Rightarrow> SyncEntity list
     \<Rightarrow> GetUpdatesResponse \<Rightarrow> ('d, 'c) sys \<Rightarrow> (GetUpdatesResponse \<times> reply option) outcome \<times> ('d, 'c) sys" where
  "finish_marker rc E clientID isNewClient i dataType token hasChangesRemaining entities rsp s =
     (if isNewClient \<and> dataType = nigoriTypeID \<and> token = 0 \<and> entities = []
      then (Return (rsp, Some (Some SyncEnums_TRANSIENT_ERROR,
              Some ''nigori root folder entity is not ready yet'')), s)
      else
     (let rsp = (if hasChangesRemaining then rsp\<lparr>ChangesRemaining := Some 1\<rparr> else rsp) in
      case fill_entries E (maxGUBatchSize E) entities (gur_Entries rsp) 0 of
        (entries, j, Some err) \<Rightarrow>
          (Return (rsp\<lparr>gur_Entries := entries\<rparr>, Some (Some SyncEnums_TRANSIENT_ERROR,
             Some (''error creating protobuf sync entity from DB entity: '' @ err))), s)
      | (entries, j, None) \<Rightarrow>
     (let rsp = rsp\<lparr>gur_Entries := entries\<rparr> in
      case (if j = 0 then Some token else Mtime (entities ! (j - 1))) of
        None \<Rightarrow> (Panic, s)
      | Some mtime \<Rightarrow>
     (let rsp = (if j \<noteq> 0 then set_marker_token i (put_token mtime) rsp else rsp) in
      if ChangesRemaining rsp \<noteq> Some 1
      then (case on_kv (SetTypeMtime rc E clientID dataType mtime) s of
              (_, s) \<Rightarrow> (Return (rsp, None), s))
      else (Return (rsp, None), s)))))"

definition gu_marker ::
  "'d datastore \<Rightarrow> 'c redis_client \<Rightarrow> env \<Rightarrow> string \<Rightarrow> bool \<Rightarrow> bool \<Rightarrow> bool \<Rightarrow> nat \<Rightarrow> DataTypeProgressMarker
     \<Rightarrow> GetUpdatesResponse \<Rightarrow> ('d, 'c) sys \<Rightarrow> (GetUpdatesResponse \<times> reply option) outcome \<times> ('d, 'c) sys" where
  "gu_marker ds rc E clientID isNewClient isPoll fetchFolders i fromProgressMarker rsp s =
     (case DataTypeId fromProgressMarker of
        None \<Rightarrow> (Panic, s)
      | Some dataType \<Rightarrow>
     (let rsp = start_marker isNewClient i fromProgressMarker dataType rsp in
      if maxGUBatchSize E \<le> int (length (gur_Entries rsp)) then (Return (rsp, None), s)
      else
     (case varint (case NewProgressMarker rsp ! i of None \<Rightarrow> [] | Some m \<Rightarrow> marker_token m) of
        (token, n) \<Rightarrow>
      if n \<le> 0
      then (Return (rsp, Some (None, Some (''failed at decoding token value '' @ itoa token))), s)
      else
     (case (if isPoll then on_kv (IsTypeMtimeUpdated rc E clientID dataType token) s else (True, s)) of
        (False, s) \<Rightarrow> (Return (rsp, None), s)
      | (True, s) \<Rightarrow>
     (case on_db (ds_GetUpdatesForType ds E dataType token fetchFolders clientID
                    (maxGUBatchSize E - int (length (gur_Entries rsp)))) s of
        (Inl err, s) \<Rightarrow>
          (Return (rsp, Some (Some SyncEnums_TRANSIENT_ERROR,
             Some (''error getting updates for type '' @ itoa dataType @ '': '' @ err))), s)
      | (Inr (hasChangesRemaining, entities), s) \<Rightarrow>
          finish_marker rc E clientID isNewClient i dataType token hasChangesRemaining entities rsp s)))))"

text \<open>The loop over the markers; a reply ends it.\<close>

fun gu_markers ::
  "'d datastore \<Rightarrow> 'c redis_client \<Rightarrow> env \<Rightarrow> string \<Rightarrow> bool \<Rightarrow> bool \<Rightarrow> bool \<Rightarrow> nat
     \<Rightarrow> DataTypeProgressMarker list \<Rightarrow> GetUpdatesResponse \<Rightarrow> ('d, 'c) sys
     \<Rightarrow> (GetUpdatesResponse \<times> reply option) outcome \<times> ('d, 'c) sys" where
  "gu_markers ds rc E clientID isNewClient isPoll fetchFolders i [] rsp s = (Return (rsp, None), s)"
| "gu_markers ds rc E clientID isNewClient isPoll fetchFolders i (m # ms) rsp s =
     (case gu_marker ds rc E clientID isNewClient isPoll fetchFolders i m rsp s of
        (Return (rsp, None), s) \<Rightarrow>
          gu_markers ds rc E clientID isNewClient isPoll fetchFolders (Suc i) ms rsp s
      | res \<Rightarrow> res)"

subsection \<open>The handler\<close>

definition handleGetUpdatesRequest ::
  "'d datastore \<Rightarrow> 'c redis_client \<Rightarrow> env \<Rightarrow> GetUpdatesMessage option \<Rightarrow> GetUpdatesResponse \<Rightarrow> string
     \<Rightarrow> ('d, 'c) sys \<Rightarrow> ((GetUpdatesResponse \<times> reply) outcome \<times> ('d, 'c) sys) option" where
  "handleGetUpdatesRequest ds rc E guMsg guRsp clientID s =
     (case guMsg of
        None \<Rightarrow> Some (Panic, s)
      | Some msg \<Rightarrow>
     (let isNewClient = (GetUpdatesOrigin msg = Some SyncEnums_NEW_CLIENT);
          isPoll = (GetUpdatesOrigin msg = Some SyncEnums_PERIODIC)
      in case (if isNewClient then admit_new_client ds E clientID s else Some (Return None, s)) of
           None \<Rightarrow> None
         | Some (Panic, s) \<Rightarrow> Some (Panic, s)
         | Some (Return (Some reply), s) \<Rightarrow> Some (Return (guRsp, reply), s)
         | Some (Return None, s) \<Rightarrow>
        (let guRsp = guRsp\<lparr>ChangesRemaining := Some 0\<rparr> in
         case FromProgressMarker msg of
           None \<Rightarrow> Some (Return (guRsp, (Some SyncEnums_SUCCESS, None)), s)
         | Some markers \<Rightarrow>
             if maxGUBatchSize E < 0 then Some (Panic, s)
             else
            (let fetchFolders = (case FetchFolders msg of None \<Rightarrow> True | Some b \<Rightarrow> b);
                 guRsp = guRsp\<lparr>NewProgressMarker := replicate (length markers) None, gur_Entries := []\<rparr>
             in case gu_markers ds rc E clientID isNewClient isPoll fetchFolders 0 markers guRsp s of
                  (Panic, s) \<Rightarrow> Some (Panic, s)
                | (Return (guRsp, Some reply), s) \<Rightarrow> Some (Return (guRsp, reply), s)
                | (Return (guRsp, None), s) \<Rightarrow>
                    Some (Return (guRsp, (Some SyncEnums_SUCCESS, None)), s)))))"

end
