(* ===== verification/Commit.thy ===== *)
theory Commit
  imports "HOL-Library.AList" Type_Cache Datastore
begin

section \<open>COMMIT requests (command/command.go)\<close>

text \<open>
  \<open>handleCommitRequest\<close>: the quota from the stored and the interim item counts, the loop
  that creates or updates one entity after the other and fills one response for each, and
  the bookkeeping at the end. What the loop carries from entry to entry is one record; a
  Go map that is iterated is an association list with unique keys.
\<close>

definition historyCountTypeStr :: string where "historyCountTypeStr = ''history''"
definition normalCountTypeStr :: string where "normalCountTypeStr = ''normal''"

subsection \<open>Item counts and quota\<close>

definition getInterimItemCounts ::
  "'c redis_client \<Rightarrow> env \<Rightarrow> string \<Rightarrow> bool \<Rightarrow> ('d, 'c) sys \<Rightarrow> (error + int \<times> int) \<times> ('d, 'c) sys" where
  "getInterimItemCounts rc E clientID clearCache s =
     (case on_kv (GetInterimCount rc E clientID normalCountTypeStr clearCache) s of
        (Inl err, s) \<Rightarrow> (Inl err, s)
      | (Inr newNormalCount, s) \<Rightarrow>
     (case on_kv (GetInterimCount rc E clientID historyCountTypeStr clearCache) s of
        (Inl err, s) \<Rightarrow> (Inl err, s)
      | (Inr newHistoryCount, s) \<Rightarrow> (Inr (newNormalCount, newHistoryCount), s)))"

definition getItemCounts ::
  "'d datastore \<Rightarrow> 'c redis_client \<Rightarrow> env \<Rightarrow> string \<Rightarrow> ('d, 'c) sys
     \<Rightarrow> (error + ClientItemCounts \<times> int \<times> int) \<times> ('d, 'c) sys" where
  "getItemCounts ds rc E clientID s =
     (case on_db (ds_GetClientItemCount ds E clientID) s of
        (Inl err, s) \<Rightarrow> (Inl err, s)
      | (Inr itemCounts, s) \<Rightarrow>
     (case getInterimItemCounts rc E clientID False s of
        (Inl err, s) \<Rightarrow> (Inl err, s)
      | (Inr (newNormalCount, newHistoryCount), s) \<Rightarrow>
          (Inr (itemCounts, newNormalCount, newHistoryCount), s)))"

definition boosted_quota_addition :: "env \<Rightarrow> int \<Rightarrow> int" where
  "boosted_quota_addition E currentHistoryItemCount =
     (if maxClientHistoryObjectQuota E < currentHistoryItemCount
      then min (maxClientObjectQuota E - maxClientHistoryObjectQuota E)
               (currentHistoryItemCount - maxClientHistoryObjectQuota E)
      else 0)"

text \<open>What the loop does not change.\<close>

record commit_quota =
  currentNormalItemCount :: int
  currentHistoryItemCount :: int
  boostedQuotaAddition :: int

subsection \<open>One entry\<close>

record commit_loop =
  entry_responses :: "EntryResponse option list"
  idMap :: "string \<rightharpoonup> string"
  typeMtimeMap :: "(int \<times> int) list"
  newNormalCount :: int
  newHistoryCount :: int

text \<open>
  How the database part of an entry ends: with the entry's response (\<open>continue\<close>), with
  an error of the interim counters, or normally.
\<close>

datatype entry_end = Entry_rejected EntryResponse | Entry_interim_error error | Entry_written

definition reject :: "CommitResponse_ResponseType \<Rightarrow> string option \<Rightarrow> entry_end" where
  "reject rspType msg = Entry_rejected
     (empty_EntryResponse\<lparr>ResponseType := Some rspType, er_ErrorMessage := msg\<rparr>)"

definition increment_count ::
  "'c redis_client \<Rightarrow> env \<Rightarrow> string \<Rightarrow> bool \<Rightarrow> bool \<Rightarrow> commit_loop \<Rightarrow> ('d, 'c) sys
     \<Rightarrow> entry_end \<times> commit_loop \<times> ('d, 'c) sys" where
  "increment_count rc E clientID isHistoryRelatedItem subtract l s =
     (case on_kv (IncrementInterimCount rc E clientID
             (if isHistoryRelatedItem then historyCountTypeStr else normalCountTypeStr) subtract) s of
        (Inl err, s) \<Rightarrow> (Entry_interim_error err, l, s)
      | (Inr n, s) \<Rightarrow>
          (Entry_written,
           if isHistoryRelatedItem then l\<lparr>newHistoryCount := n\<rparr> else l\<lparr>newNormalCount := n\<rparr>, s))"

definition commit_create ::
  "'d datastore \<Rightarrow> 'c redis_client \<Rightarrow> env \<Rightarrow> string \<Rightarrow> commit_quota \<Rightarrow> SyncEntity \<Rightarrow> bool \<Rightarrow> commit_loop
     \<Rightarrow> ('d, 'c) sys \<Rightarrow> entry_end \<times> commit_loop \<times> ('d, 'c) sys" where
  "commit_create ds rc E clientID q entityToCommit isHistoryRelatedItem l s =
     (if maxClientObjectQuota E + boostedQuotaAddition q \<le>
         currentNormalItemCount q + currentHistoryItemCount q + newNormalCount l + newHistoryCount l
      then (reject CommitResponse_OVER_QUOTA (Some (''There are already '' @
              itoa (currentNormalItemCount q + currentHistoryItemCount q) @
              '' non-deleted objects in store'')), l, s)
      else if \<not> isHistoryRelatedItem \<or>
              currentHistoryItemCount q + newHistoryCount l < maxClientHistoryObjectQuota E
      then (case on_db (ds_InsertSyncEntity ds E entityToCommit) s of
              ((conflict, Some err), s) \<Rightarrow>
                (reject (if conflict then CommitResponse_CONFLICT else CommitResponse_TRANSIENT_ERROR)
                   (Some (''Insert sync entity failed: '' @ err)), l, s)
            | ((conflict, None), s) \<Rightarrow>
                (let l = (case OriginatorClientItemID entityToCommit of
                            None \<Rightarrow> l
                          | Some i \<Rightarrow> l\<lparr>idMap := (idMap l)(i \<mapsto> ID entityToCommit)\<rparr>)
                 in increment_count rc E clientID isHistoryRelatedItem False l s))
      else (Entry_written, l, s))"

definition commit_update ::
  "'d datastore \<Rightarrow> 'c redis_client \<Rightarrow> env \<Rightarrow> string \<Rightarrow> SyncEntity \<Rightarrow> int \<Rightarrow> bool \<Rightarrow> commit_loop
     \<Rightarrow> ('d, 'c) sys \<Rightarrow> entry_end \<times> commit_loop \<times> ('d, 'c) sys" where
  "commit_update ds rc E clientID entityToCommit oldVersion isHistoryRelatedItem l s =
     (case on_db (ds_UpdateSyncEntity ds E entityToCommit oldVersion) s of
        ((conflict, deleted, Some err), s) \<Rightarrow>
          (reject CommitResponse_TRANSIENT_ERROR (Some (''Update sync entity failed: '' @ err)), l, s)
      | ((conflict, deleted, None), s) \<Rightarrow>
          (if conflict then (reject CommitResponse_CONFLICT None, l, s)
           else if deleted then increment_count rc E clientID isHistoryRelatedItem True l s
           else (Entry_written, l, s)))"

text \<open>
  Whether the entry updates an item: by its version, or for history by looking the item up.
\<close>

definition is_update_op ::
  "'d datastore \<Rightarrow> env \<Rightarrow> string \<Rightarrow> SyncEntity \<Rightarrow> int \<Rightarrow> int \<Rightarrow> ('d, 'c) sys
     \<Rightarrow> (error + bool) outcome \<times> ('d, 'c) sys" where
  "is_update_op ds E clientID entityToCommit dataType oldVersion s =
     (if dataType = HistoryTypeID
      then (case ClientDefinedUniqueTag entityToCommit of
              None \<Rightarrow> (Panic, s)
            | Some tag \<Rightarrow> (case on_db (ds_HasItem ds E clientID tag) s of (r, s) \<Rightarrow> (Return r, s)))
      else (Return (Inr (oldVersion \<noteq> 0)), s))"

text \<open>The parent's server-generated ID, if the parent was created by an earlier entry.\<close>

definition resolve_parent :: "(string \<rightharpoonup> string) \<Rightarrow> SyncEntity \<Rightarrow> SyncEntity" where
  "resolve_parent ids entityToCommit =
     (case ParentID entityToCommit of
        None \<Rightarrow> entityToCommit
      | Some parent \<Rightarrow>
          (case ids parent of
             None \<Rightarrow> entityToCommit
           | Some serverParentID \<Rightarrow> entityToCommit\<lparr>ParentID := Some serverParentID\<rparr>))"

definition set_response :: "nat \<Rightarrow> EntryResponse \<Rightarrow> commit_loop \<Rightarrow> commit_loop" where
  "set_response i entryRsp l = l\<lparr>entry_responses := (entry_responses l)[i := Some entryRsp]\<rparr>"

definition success_response :: "SyncEntity \<Rightarrow> EntryResponse" where
  "success_response e = empty_EntryResponse
     \<lparr> ResponseType := Some CommitResponse_SUCCESS, er_IdString := Some (ID e),
       er_Version := Version e, er_Mtime := Mtime e \<rparr>"

text \<open>The part of an iteration after the conversion.\<close>

definition commit_converted ::
  "'d datastore \<Rightarrow> 'c redis_client \<Rightarrow> env \<Rightarrow> string \<Rightarrow> commit_quota \<Rightarrow> nat \<Rightarrow> SyncEntity \<Rightarrow> commit_loop
     \<Rightarrow> ('d, 'c) sys \<Rightarrow> (commit_loop \<times> reply option) outcome \<times> ('d, 'c) sys" where
  "commit_converted ds rc E clientID q i entityToCommit l s =
     (let entityToCommit = resolve_parent (idMap l) entityToCommit in
      case (Version entityToCommit, DataType entityToCommit, Mtime entityToCommit) of
        (Some oldVersion, Some dataType, Some mtime) \<Rightarrow>
          (let isHistoryRelatedItem = (dataType = HistoryTypeID \<or> dataType = HistoryDeleteDirectiveTypeID);
               entityToCommit = entityToCommit\<lparr>Version := Some mtime\<rparr>
           in case is_update_op ds E clientID entityToCommit dataType oldVersion s of
                (Panic, s) \<Rightarrow> (Panic, s)
              | (Return (Inl err), s) \<Rightarrow>
                  (Return (set_response i (empty_EntryResponse
                     \<lparr>ResponseType := Some CommitResponse_TRANSIENT_ERROR,
                      er_ErrorMessage := Some (''Insert history sync entity failed: '' @ err)\<rparr>) l, None), s)
              | (Return (Inr isUpdateOp), s) \<Rightarrow>
                  (case (if \<not> isUpdateOp
                         then commit_create ds rc E clientID q entityToCommit isHistoryRelatedItem l s
                         else commit_update ds rc E clientID entityToCommit oldVersion isHistoryRelatedItem l s) of
                     (Entry_rejected entryRsp, l, s) \<Rightarrow> (Return (set_response i entryRsp l, None), s)
                   | (Entry_interim_error err, l, s) \<Rightarrow>
                       (Return (l, Some (Some SyncEnums_TRANSIENT_ERROR,
                          Some (''interim count update failed: '' @ err))), s)
                   | (Entry_written, l, s) \<Rightarrow>
                       (Return (set_response i (success_response entityToCommit)
                          (l\<lparr>typeMtimeMap := AList.update dataType mtime (typeMtimeMap l)\<rparr>), None), s)))
      | _ \<Rightarrow> (Panic, s))"

definition commit_entry ::
  "'d datastore \<Rightarrow> 'c redis_client \<Rightarrow> env \<Rightarrow> string \<Rightarrow> commit_quota \<Rightarrow> string option \<Rightarrow> nat
     \<Rightarrow> PbSyncEntity option \<Rightarrow> commit_loop \<Rightarrow> ('d, 'c) sys
     \<Rightarrow> (commit_loop \<times> reply option) outcome \<times> ('d, 'c) sys" where
  "commit_entry ds rc E clientID q cacheGuid i v l s =
     (let l = set_response i empty_EntryResponse l in
      case CreateDBSyncEntity E v cacheGuid clientID (seq s) of
        (Panic, n) \<Rightarrow> (Panic, s\<lparr>seq := n\<rparr>)
      | (Return (Inl err), n) \<Rightarrow>
          (Return (set_response i (empty_EntryResponse
             \<lparr>ResponseType := Some CommitResponse_INVALID_MESSAGE,
              er_ErrorMessage := Some (''Cannot convert protobuf sync entity to DB format: '' @ err)\<rparr>) l,
            None), s\<lparr>seq := n\<rparr>)
      | (Return (Inr entityToCommit), n) \<Rightarrow>
          commit_converted ds rc E clientID q i entityToCommit l (s\<lparr>seq := n\<rparr>))"

fun commit_entries ::
  "'d datastore \<Rightarrow> 'c redis_client \<Rightarrow> env \<Rightarrow> string \<Rightarrow> commit_quota \<Rightarrow> string option \<Rightarrow> nat
     \<Rightarrow> PbSyncEntity option list \<Rightarrow> commit_loop \<Rightarrow> ('d, 'c) sys
     \<Rightarrow> (commit_loop \<times> reply option) outcome \<times> ('d, 'c) sys" where
  "commit_entries ds rc E clientID q cacheGuid i [] l s = (Return (l, None), s)"
| "commit_entries ds rc E clientID q cacheGuid i (v # vs) l s =
     (case commit_entry ds rc E clientID q cacheGuid i v l s of
        (Return (l, None), s) \<Rightarrow> commit_entries ds rc E clientID q cacheGuid (Suc i) vs l s
      | res \<Rightarrow> res)"

subsection \<open>The handler\<close>

text \<open>The loop over the map of modification times.\<close>

fun save_mtimes ::
  "'c redis_client \<Rightarrow> env \<Rightarrow> string \<Rightarrow> (int \<times> int) list \<Rightarrow> int list \<Rightarrow> ('d, 'c) sys \<Rightarrow> ('d, 'c) sys" where
  "save_mtimes rc E clientID mtimes [] s = s"
| "save_mtimes rc E clientID mtimes (dataType # types) s =
     (case map_of mtimes dataType of
        None \<Rightarrow> save_mtimes rc E clientID mtimes types s
      | Some mtime \<Rightarrow>
          (case on_kv (SetTypeMtime rc E clientID dataType mtime) s of
             (_, s) \<Rightarrow> save_mtimes rc E clientID mtimes types s))"

text \<open>What follows the loop; a failing update of the counters is only logged.\<close>

definition finish_commit ::
  "'d datastore \<Rightarrow> 'c redis_client \<Rightarrow> env \<Rightarrow> string \<Rightarrow> ClientItemCounts \<Rightarrow> commit_loop \<Rightarrow> ('d, 'c) sys
     \<Rightarrow> reply \<times> ('d, 'c) sys" where
  "finish_commit ds rc E clientID itemCounts l s =
     (case getInterimItemCounts rc E clientID True s of
        (Inl err, s) \<Rightarrow>
          ((Some SyncEnums_TRANSIENT_ERROR, Some (''error getting interim item count: '' @ err)), s)
      | (Inr (newNormal, newHistory), s) \<Rightarrow>
          (let s = save_mtimes rc E clientID (typeMtimeMap l) (order_types E (map fst (typeMtimeMap l))) s
           in case on_db (ds_UpdateClientItemCount ds E itemCounts newNormal newHistory) s of
                (_, s) \<Rightarrow> ((Some SyncEnums_SUCCESS, None), s)))"

definition handleCommitRequest ::
  "'d datastore \<Rightarrow> 'c redis_client \<Rightarrow> env \<Rightarrow> CommitMessage option \<Rightarrow> CommitResponse \<Rightarrow> string
     \<Rightarrow> ('d, 'c) sys \<Rightarrow> (CommitResponse \<times> reply) outcome \<times> ('d, 'c) sys" where
  "handleCommitRequest ds rc E commitMsg commitRsp clientID s =
     (case commitMsg of
        None \<Rightarrow> (Return (commitRsp, (None, Some ''nil commitMsg is received'')), s)
      | Some msg \<Rightarrow>
     (case cm_Entries msg of
        None \<Rightarrow> (Return (commitRsp, (Some SyncEnums_SUCCESS, None)), s)
      | Some entries \<Rightarrow>
     (case getItemCounts ds rc E clientID s of
        (Inl err, s) \<Rightarrow>
          (Return (commitRsp, (Some SyncEnums_TRANSIENT_ERROR,
             Some (''error getting client's item count: '' @ err))), s)
      | (Inr (itemCounts, newNormal, newHistory), s) \<Rightarrow>
          (let q = \<lparr>currentNormalItemCount = ItemCount itemCounts,
                    currentHistoryItemCount = SumHistoryCounts itemCounts,
                    boostedQuotaAddition = boosted_quota_addition E (SumHistoryCounts itemCounts)\<rparr>;
               l = \<lparr>entry_responses = replicate (length entries) None, idMap = Map.empty,
                    typeMtimeMap = [], newNormalCount = newNormal, newHistoryCount = newHistory\<rparr>
           in case commit_entries ds rc E clientID q (CacheGuid msg) 0 entries l s of
                (Panic, s) \<Rightarrow> (Panic, s)
              | (Return (l, Some reply), s) \<Rightarrow>
                  (Return (commitRsp\<lparr>Entryresponse := entry_responses l\<rparr>, reply), s)
              | (Return (l, None), s) \<Rightarrow>
                  (case finish_commit ds rc E clientID itemCounts l s of
                     (reply, s) \<Rightarrow>
                       (Return (commitRsp\<lparr>Entryresponse := entry_responses l\<rparr>, reply), s))))))"

end
