(* ===== verification/Command.thy ===== *)
theory Command
  imports Get_Updates Commit
begin

section \<open>Dispatch of client messages (command/command.go)\<close>

text \<open>
  \<open>handleClearServerDataRequest\<close> and \<open>HandleClientToServerMessage\<close>. As in the handlers,
  the response is what the code has written into \<open>pbRsp\<close> when it returns, \<open>None\<close> means
  that the request never returns and \<open>Panic\<close> that it panics.
\<close>

definition storeBirthday :: string where "storeBirthday = ''1''"
definition maxCommitBatchSize :: int where "maxCommitBatchSize = 90"
definition setSyncPollInterval :: int where "setSyncPollInterval = 30"

subsection \<open>CLEAR\_SERVER\_DATA\<close>

text \<open>The cache keys of the cleared entities, in order and with repetitions.\<close>

fun type_mtime_keys :: "SyncEntity list \<Rightarrow> string list" where
  "type_mtime_keys [] = []"
| "type_mtime_keys (entity # entities) =
     (case DataType entity of
        None \<Rightarrow> type_mtime_keys entities
      | Some dataType \<Rightarrow> GetTypeMtimeKey (ClientID entity) dataType # type_mtime_keys entities)"

definition handleClearServerDataRequest ::
  "'d datastore \<Rightarrow> 'c redis_client \<Rightarrow> env \<Rightarrow> string \<Rightarrow> ('d, 'c) sys \<Rightarrow> reply \<times> ('d, 'c) sys" where
  "handleClearServerDataRequest ds rc E clientID s =
     (case on_db (ds_DisableSyncChain ds E clientID) s of
        (Some err, s) \<Rightarrow> ((Some SyncEnums_TRANSIENT_ERROR, Some err), s)
      | (None, s) \<Rightarrow>
     (case on_db (ds_ClearServerData ds E clientID) s of
        (Inl err, s) \<Rightarrow> ((Some SyncEnums_TRANSIENT_ERROR, Some err), s)
      | (Inr syncEntities, s) \<Rightarrow>
     (let typeMtimeCacheKeys = type_mtime_keys syncEntities in
      if typeMtimeCacheKeys \<noteq> [] then
        (case on_kv (rc_Del rc E typeMtimeCacheKeys) s of
           (Some err, s) \<Rightarrow> ((Some SyncEnums_TRANSIENT_ERROR, Some err), s)
         | (None, s) \<Rightarrow> ((Some SyncEnums_SUCCESS, None), s))
      else ((Some SyncEnums_SUCCESS, None), s))))"

subsection \<open>Dispatch\<close>

text \<open>
  What follows each handler call: the error code goes into the response, an error with a
  code becomes its message, and an error without one is returned to the HTTP layer.
\<close>

definition conclude ::
  "string \<Rightarrow> ClientToServerResponse \<Rightarrow> reply \<Rightarrow> ClientToServerResponse \<times> error option" where
  "conclude kind pbRsp rep =
     (let pbRsp = pbRsp\<lparr>ErrorCode := fst rep\<rparr> in
      case snd rep of
        None \<Rightarrow> (pbRsp, None)
      | Some err \<Rightarrow>
          (if fst rep \<noteq> None then (pbRsp\<lparr>csr_ErrorMessage := Some err\<rparr>, None)
           else (pbRsp, Some (''error handling '' @ kind @ '' request: '' @ err))))"

definition general_fields :: "ClientToServerResponse \<Rightarrow> ClientToServerResponse" where
  "general_fields pbRsp = pbRsp
     \<lparr> csr_StoreBirthday := Some storeBirthday,
       csr_ClientCommand := Some \<lparr>SetSyncPollInterval = Some setSyncPollInterval,
                                  MaxCommitBatchSize = Some maxCommitBatchSize\<rparr> \<rparr>"

definition HandleClientToServerMessage ::
  "'d datastore \<Rightarrow> 'c redis_client \<Rightarrow> env \<Rightarrow> ClientToServerMessage \<Rightarrow> ClientToServerResponse \<Rightarrow> string
     \<Rightarrow> ('d, 'c) sys
     \<Rightarrow> ((ClientToServerResponse \<times> error option) outcome \<times> ('d, 'c) sys) option" where
  "HandleClientToServerMessage ds rc E pb pbRsp clientID s =
     (let pbRsp = general_fields pbRsp in
      case MessageContents pb of
        None \<Rightarrow> Some (Return (pbRsp, Some ''nil pb.MessageContents received''), s)
      | Some GET_UPDATES \<Rightarrow>
          (case handleGetUpdatesRequest ds rc E (csm_GetUpdates pb) empty_GetUpdatesResponse clientID s of
             None \<Rightarrow> None
           | Some (Panic, s) \<Rightarrow> Some (Panic, s)
           | Some (Return (guRsp, rep), s) \<Rightarrow>
               Some (Return (conclude ''GetUpdates'' (pbRsp\<lparr>csr_GetUpdates := Some guRsp\<rparr>) rep), s))
      | Some COMMIT \<Rightarrow>
          (case handleCommitRequest ds rc E (csm_Commit pb) \<lparr>Entryresponse = []\<rparr> clientID s of
             (Panic, s) \<Rightarrow> Some (Panic, s)
           | (Return (commitRsp, rep), s) \<Rightarrow>
               Some (Return (conclude ''Commit'' (pbRsp\<lparr>csr_Commit := Some commitRsp\<rparr>) rep), s))
      | Some CLEAR_SERVER_DATA \<Rightarrow>
          (case handleClearServerDataRequest ds rc E clientID s of
             (rep, s) \<Rightarrow>
               Some (Return (conclude ''ClearServerData'' (pbRsp\<lparr>csr_ClearServerData := Some ()\<rparr>) rep), s))
      | Some _ \<Rightarrow> Some (Return (pbRsp, Some ''unsupported message type of ClientToServerMessage''), s))"

end
