(* ===== verification/Commit_Correct.thy ===== *)
theory Commit_Correct
  imports Commit Sqlite_Correct
begin

section \<open>What a commit does\<close>

text \<open>
  Lemmas for any data store that satisfies the contract and any cache: what each step of
  the loop does to the data store and to the responses, when it can panic, and that a
  commit keeps the invariant and the data of other clients.
\<close>

subsection \<open>Steps\<close>

text \<open>The database after an operation is one that the operation can produce.\<close>

definition reaches :: "('d \<Rightarrow> nat \<Rightarrow> 'r \<times> 'd \<times> nat) \<Rightarrow> 'd \<Rightarrow> 'd \<Rightarrow> bool" where
  "reaches f d d' \<longleftrightarrow> (\<exists>n r n'. f d n = (r, d', n'))"

lemma on_db_reaches: "on_db f s = (r, s') \<Longrightarrow> reaches f (db s) (db s')"
  unfolding reaches_def by (blast dest: on_db_db)

lemma resolve_parent_simps [simp]:
  "ClientID (resolve_parent ids e) = ClientID e" "ID (resolve_parent ids e) = ID e"
  "Version (resolve_parent ids e) = Version e" "Mtime (resolve_parent ids e) = Mtime e"
  "DataType (resolve_parent ids e) = DataType e" "Deleted (resolve_parent ids e) = Deleted e"
  "ClientDefinedUniqueTag (resolve_parent ids e) = ClientDefinedUniqueTag e"
  "OriginatorClientItemID (resolve_parent ids e) = OriginatorClientItemID e"
  by (auto simp: resolve_parent_def split: option.splits)

lemma set_response_simps [simp]:
  "entry_responses (set_response i r l) = (entry_responses l)[i := Some r]"
  "idMap (set_response i r l) = idMap l" "newNormalCount (set_response i r l) = newNormalCount l"
  "newHistoryCount (set_response i r l) = newHistoryCount l"
  by (simp_all add: set_response_def)

lemma increment_count_keeps:
  assumes "increment_count rc E c h b l s = (r, l', s')"
  shows "db s' = db s" and "entry_responses l' = entry_responses l" and "\<forall>x. r \<noteq> Entry_rejected x"
    and "idMap l' = idMap l"
  using assms by (auto simp: increment_count_def dest: on_kv_db split: prod.splits sum.splits if_splits)

lemma reject_simps [simp]: "reject t m \<noteq> Entry_written" "reject t m \<noteq> Entry_interim_error e"
  by (simp_all add: reject_def)

text \<open>A rejection names its reason.\<close>

definition answered :: "EntryResponse \<Rightarrow> bool" where
  "answered r \<longleftrightarrow> ResponseType r \<noteq> None"

lemma reject_answered: "reject t m = Entry_rejected r \<Longrightarrow> answered r"
  by (auto simp: reject_def answered_def empty_EntryResponse_def)

lemma commit_create_result:
  assumes "commit_create ds rc E c q e h l s = (r, l', s')"
  shows "db s' = db s \<or> reaches (ds_InsertSyncEntity ds E e) (db s) (db s')"
    and "entry_responses l' = entry_responses l" and "r = Entry_rejected x \<Longrightarrow> answered x"
proof -
  obtain ires s1 where ins: "on_db (ds_InsertSyncEntity ds E e) s = (ires, s1)" by fastforce
  obtain conflict err where ires: "ires = (conflict, err)" by fastforce
  note n' = on_db_reaches [OF ins]
  let ?l = "case OriginatorClientItemID e of None \<Rightarrow> l | Some i \<Rightarrow> l\<lparr>idMap := (idMap l)(i \<mapsto> ID e)\<rparr>"
  obtain r2 l2 s2 where inc: "increment_count rc E c h False ?l s1 = (r2, l2, s2)" by (metis prod_cases3)
  have resp: "entry_responses ?l = entry_responses l" by (auto split: option.splits)
  note keeps = increment_count_keeps [OF inc]
  have "(s' = s \<and> l' = l \<and> (\<forall>x. r = Entry_rejected x \<longrightarrow> answered x)) \<or>
      (s' = s1 \<and> l' = l \<and> (\<forall>x. r = Entry_rejected x \<longrightarrow> answered x)) \<or> (r, l', s') = (r2, l2, s2)"
    using assms ins ires inc
    by (auto simp: commit_create_def Let_def dest: reject_answered split: if_splits option.splits)
  then show "db s' = db s \<or> reaches (ds_InsertSyncEntity ds E e) (db s) (db s')"
    and "entry_responses l' = entry_responses l" and "r = Entry_rejected x \<Longrightarrow> answered x"
    using n' keeps resp by auto
qed

lemma commit_update_result:
  assumes "commit_update ds rc E c e v h l s = (r, l', s')"
  shows "db s' = db s \<or> reaches (ds_UpdateSyncEntity ds E e v) (db s) (db s')"
    and "entry_responses l' = entry_responses l" and "r = Entry_rejected x \<Longrightarrow> answered x"
proof -
  obtain ures s1 where upd: "on_db (ds_UpdateSyncEntity ds E e v) s = (ures, s1)" by fastforce
  obtain conflict del err where ures: "ures = (conflict, del, err)" by (metis prod_cases3)
  note n' = on_db_reaches [OF upd]
  obtain r2 l2 s2 where inc: "increment_count rc E c h True l s1 = (r2, l2, s2)" by (metis prod_cases3)
  note keeps = increment_count_keeps [OF inc]
  have "(s' = s1 \<and> l' = l \<and> (\<forall>x. r = Entry_rejected x \<longrightarrow> answered x)) \<or> (r, l', s') = (r2, l2, s2)"
    using assms upd ures inc
    by (auto simp: commit_update_def dest: reject_answered split: if_splits option.splits)
  then show "db s' = db s \<or> reaches (ds_UpdateSyncEntity ds E e v) (db s) (db s')"
    and "entry_responses l' = entry_responses l" and "r = Entry_rejected x \<Longrightarrow> answered x"
    using n' keeps by auto
qed

subsection \<open>The entity that an iteration writes\<close>

text \<open>
  What the conversion of an entry guarantees of the entity \<open>d\<close>, as far as the rest of the
  iteration relies on it.
\<close>

definition converted_ok :: "string \<Rightarrow> SyncEntity \<Rightarrow> bool" where
  "converted_ok c d \<longleftrightarrow> ClientID d = c \<and> (\<exists>m. Mtime d = Some m) \<and> (\<exists>v. Version d = Some v) \<and>
     (\<exists>t. DataType d = Some t \<and> (t = HistoryTypeID \<longrightarrow> (\<exists>tag. ClientDefinedUniqueTag d = Some tag))) \<and>
     (Version d = Some 0 \<longrightarrow> (\<exists>b. Deleted d = Some b))"

lemma converted_ok_CreateDB:
  assumes "CreateDBSyncEntity E v guid c n = (Return (Inr d), n')"
  shows "converted_ok c d"
proof -
  obtain e' idString version sp specifics v' payload position i m where
    e': "v = Some e'" and hist: "v' = V_History \<longrightarrow> pb_ClientTagHash e' = Some i"
    and d: "d = build_SyncEntity e' guid c i version specifics position (data_type_id v')
           (unix_milli E m) (unix_secs E m)"
    by (rule CreateDB_InrE [OF assms])
  have "DataType d = Some (data_type_id v')" "ClientDefinedUniqueTag d = pb_ClientTagHash e'" by (simp_all add: d)
  with hist CreateDB_fields [OF assms] show ?thesis
    by (auto simp: converted_ok_def data_type_id_history)
qed

lemma is_update_op_result:
  assumes "is_update_op ds E c e t v s = (r, s')"
  shows "r = Return (Inr b) \<Longrightarrow> t \<noteq> HistoryTypeID \<Longrightarrow> b = (v \<noteq> 0)"
    and "ClientDefinedUniqueTag e \<noteq> None \<or> t \<noteq> HistoryTypeID \<Longrightarrow> r \<noteq> Panic"
    and "s' = s \<or> (\<exists>tag. reaches (ds_HasItem ds E c tag) (db s) (db s'))" and "kv s' = kv s"
  using assms on_db_reaches [of "ds_HasItem ds E c _" s _ s']
  by (auto simp: is_update_op_def dest: on_db_kv split: if_splits option.splits prod.splits)

lemma commit_converted_split:
  assumes "commit_converted ds rc E c q i d l s = (res, s')" and "converted_ok c d"
    and "i < length (entry_responses l)"
  obtains (looked_up) r where "res = Return (set_response i r l, None)" "answered r"
      "\<exists>tag. reaches (ds_HasItem ds E c tag) (db s) (db s')" "kv s' = kv s"
  | (ran) e b s1 end_of l' t v m where "Version d = Some v" "DataType d = Some t" "Mtime d = Some m"
      "e = (resolve_parent (idMap l) d)\<lparr>Version := Some m\<rparr>" "t \<noteq> HistoryTypeID \<Longrightarrow> b = (v \<noteq> 0)"
      "s1 = s \<or> (\<exists>tag. reaches (ds_HasItem ds E c tag) (db s) (db s1))" "kv s1 = kv s"
      "(if \<not> b then commit_create ds rc E c q e (t = HistoryTypeID \<or> t = HistoryDeleteDirectiveTypeID) l s1
        else commit_update ds rc E c e v (t = HistoryTypeID \<or> t = HistoryDeleteDirectiveTypeID) l s1)
         = (end_of, l', s')"
      "res = (case end_of of
         Entry_rejected r \<Rightarrow> Return (set_response i r l', None)
       | Entry_interim_error err \<Rightarrow> Return (l', Some (Some SyncEnums_TRANSIENT_ERROR,
           Some (''interim count update failed: '' @ err)))
       | Entry_written \<Rightarrow> Return (set_response i (success_response e)
           (l'\<lparr>typeMtimeMap := AList.update t m (typeMtimeMap l')\<rparr>), None))"
proof -
  from assms(2) obtain v t m where f: "Version d = Some v" "DataType d = Some t" "Mtime d = Some m"
    and tag: "t = HistoryTypeID \<longrightarrow> ClientDefinedUniqueTag d \<noteq> None"
    by (auto simp: converted_ok_def)
  let ?e = "(resolve_parent (idMap l) d)\<lparr>Version := Some m\<rparr>"
  obtain u s1 where u: "is_update_op ds E c ?e t v s = (u, s1)" by fastforce
  note op = is_update_op_result [OF u]
  have "u \<noteq> Panic" using op(2) tag by auto
  then obtain x where x: "u = Return x" by (cases u) auto
  show thesis
  proof (cases x)
    case (Inl err)
    have ne: "t = HistoryTypeID" using u x Inl by (auto simp: is_update_op_def split: if_splits)
    have "\<exists>tag. reaches (ds_HasItem ds E c tag) (db s) (db s1)"
      using u x Inl ne on_db_reaches [of "ds_HasItem ds E c _" s _ s1] by (auto simp: is_update_op_def split: option.splits prod.splits)
    with assms(1) f u x Inl op(4) show thesis
      by (intro looked_up) (auto simp: commit_converted_def Let_def answered_def)
  next
    case (Inr b)
    obtain end_of l' s2 where w: "(if \<not> b then commit_create ds rc E c q ?e (t = HistoryTypeID \<or> t = HistoryDeleteDirectiveTypeID) l s1
        else commit_update ds rc E c ?e v (t = HistoryTypeID \<or> t = HistoryDeleteDirectiveTypeID) l s1)
         = (end_of, l', s2)" by (metis prod_cases3)
    have run: "s' = s2 \<and> res = (case end_of of
         Entry_rejected r \<Rightarrow> Return (set_response i r l', None)
       | Entry_interim_error err \<Rightarrow> Return (l', Some (Some SyncEnums_TRANSIENT_ERROR,
           Some (''interim count update failed: '' @ err)))
       | Entry_written \<Rightarrow> Return (set_response i (success_response ?e)
           (l'\<lparr>typeMtimeMap := AList.update t m (typeMtimeMap l')\<rparr>), None))"
      using assms(1) f u x Inr w
      by (cases end_of) (auto simp: commit_converted_def Let_def split: if_splits)
    show thesis
      by (rule ran [OF f refl _ op(3,4)]) (use op(1) x Inr w run in auto)
  qed
qed

subsection \<open>What a commit does, step by step\<close>

lemma encoded_resolved: "encoded E' ((resolve_parent f d)\<lparr>Version := v\<rparr>) = encoded E' d"
  by (simp add: encoded_def resolve_parent_def split: option.split)

context entry_steps
begin

lemma reached:
  "reaches (ds_InsertSyncEntity ds E e) d d' \<Longrightarrow> storable e \<Longrightarrow> encoded E e \<Longrightarrow> ClientID e = c \<Longrightarrow> R d d'"
  "reaches (ds_UpdateSyncEntity ds E e v) d d' \<Longrightarrow> updatable e \<Longrightarrow> encoded E e \<Longrightarrow> ClientID e = c \<Longrightarrow> R d d'"
  "reaches (ds_HasItem ds E c i) d d' \<Longrightarrow> R d d'"
  unfolding reaches_def using insert_step update_step has_item_step by blast+

lemma commit_converted_steps:
  assumes "commit_converted ds rc E c q i d l s = (res, s')" and "converted_ok c d"
    and "i < length (entry_responses l)" and "encoded E d"
  shows "R (db s) (db s')"
  using assms(1-3)
proof (rule commit_converted_split)
  fix r
  assume "\<exists>tag. reaches (ds_HasItem ds E c tag) (db s) (db s')"
  then show ?thesis using reached(3) by blast
next
  fix e b s1 end_of l' t v m
  assume f: "Version d = Some v" "DataType d = Some t" "Mtime d = Some m"
      "e = (resolve_parent (idMap l) d)\<lparr>Version := Some m\<rparr>" "t \<noteq> HistoryTypeID \<Longrightarrow> b = (v \<noteq> 0)"
    and s1: "s1 = s \<or> (\<exists>tag. reaches (ds_HasItem ds E c tag) (db s) (db s1))"
    and run: "(if \<not> b then commit_create ds rc E c q e (t = HistoryTypeID \<or> t = HistoryDeleteDirectiveTypeID) l s1
        else commit_update ds rc E c e v (t = HistoryTypeID \<or> t = HistoryDeleteDirectiveTypeID) l s1)
         = (end_of, l', s')"
  have first: "R (db s) (db s1)" using s1 reached(3) step_refl by auto
  have e: "encoded E e" "ClientID e = c" "updatable e"
    using f assms(2,4) by (auto simp: converted_ok_def updatable_def encoded_resolved)
  have "R (db s1) (db s')"
  proof (cases b)
    case True
    with run have "commit_update ds rc E c e v (t = HistoryTypeID \<or> t = HistoryDeleteDirectiveTypeID) l s1
        = (end_of, l', s')" by simp
    from commit_update_result(1) [OF this] show ?thesis using reached(2) e step_refl by auto
  next
    case False
    then have "storable e" using f assms(2) by (auto simp: converted_ok_def storable_def)
    moreover from False run have "commit_create ds rc E c q e (t = HistoryTypeID \<or> t = HistoryDeleteDirectiveTypeID) l s1
        = (end_of, l', s')" by simp
    note commit_create_result(1) [OF this]
    ultimately show ?thesis using reached(1) e step_refl by auto
  qed
  with first show ?thesis by (rule step_trans)
qed

lemma commit_entry_steps:
  assumes "commit_entry ds rc E c q g i v l s = (res, s')" and "i < length (entry_responses l)"
  shows "R (db s) (db s')"
proof -
  obtain o1 n where cv: "CreateDBSyncEntity E v g c (seq s) = (o1, n)" by fastforce
  consider (stop) "db s' = db s" | (ok) d where "o1 = Return (Inr d)"
    "commit_converted ds rc E c q i d (set_response i empty_EntryResponse l) (s\<lparr>seq := n\<rparr>) = (res, s')"
    using assms(1) cv
    by (cases o1) (auto simp: commit_entry_def Let_def split: sum.splits)
  then show ?thesis
  proof cases
    case stop
    then show ?thesis using step_refl by simp
  next
    case ok
    with commit_converted_steps [OF ok(2)] converted_ok_CreateDB [OF cv [unfolded ok(1)]]
      CreateDB_encoded [OF cv [unfolded ok(1)]] assms(2)
    show ?thesis by simp
  qed
qed

end

subsection \<open>Responses and panics\<close>

lemma commit_converted_response:
  assumes "commit_converted ds rc E c q i d l s = (res, s')" and "converted_ok c d"
    and "i < length (entry_responses l)"
  shows "\<exists>l' rep. res = Return (l', rep) \<and> length (entry_responses l') = length (entry_responses l) \<and>
    (case rep of
       None \<Rightarrow> \<exists>r. answered r \<and> entry_responses l' = (entry_responses l)[i := Some r]
     | Some x \<Rightarrow> fst x = Some SyncEnums_TRANSIENT_ERROR)"
  using assms
proof (rule commit_converted_split)
  fix r
  assume "res = Return (set_response i r l, None)" "answered r"
  then show ?thesis by auto
next
  fix e b s1 end_of l' t v m
  assume run: "(if \<not> b then commit_create ds rc E c q e (t = HistoryTypeID \<or> t = HistoryDeleteDirectiveTypeID) l s1
        else commit_update ds rc E c e v (t = HistoryTypeID \<or> t = HistoryDeleteDirectiveTypeID) l s1)
         = (end_of, l', s')"
    and res: "res = (case end_of of
         Entry_rejected r \<Rightarrow> Return (set_response i r l', None)
       | Entry_interim_error err \<Rightarrow> Return (l', Some (Some SyncEnums_TRANSIENT_ERROR,
           Some (''interim count update failed: '' @ err)))
       | Entry_written \<Rightarrow> Return (set_response i (success_response e)
           (l'\<lparr>typeMtimeMap := AList.update t m (typeMtimeMap l')\<rparr>), None))"
  have keep: "entry_responses l' = entry_responses l" and rej: "end_of = Entry_rejected x \<Longrightarrow> answered x" for x
    using run commit_create_result(2,3) commit_update_result(2,3) by (auto split: if_splits)
  have "answered (success_response e)" by (simp add: answered_def success_response_def)
  then show ?thesis using res keep rej by (cases end_of) auto
qed

text \<open>An iteration panics exactly when the conversion of its entry does.\<close>

lemma commit_entry_result:
  assumes "commit_entry ds rc E c q g i v l s = (res, s')" and "i < length (entry_responses l)"
  shows "res = Panic \<longleftrightarrow> conversion_panics E v"
    and "res = Return (l', rep) \<Longrightarrow> length (entry_responses l') = length (entry_responses l) \<and>
      (case rep of
         None \<Rightarrow> \<exists>r. answered r \<and> entry_responses l' = (entry_responses l)[i := Some r]
       | Some x \<Rightarrow> fst x = Some SyncEnums_TRANSIENT_ERROR)"
proof -
  obtain o1 n where cv: "CreateDBSyncEntity E v g c (seq s) = (o1, n)" by fastforce
  have p: "o1 = Panic \<longleftrightarrow> conversion_panics E v"
    using CreateDB_Panic_iff [of E v g c "seq s"] cv by simp
  consider (panic) "o1 = Panic" | (bad) err where "o1 = Return (Inl err)" | (ok) d where "o1 = Return (Inr d)"
    by (metis outcome.exhaust sum.exhaust)
  then have "(res = Panic \<longleftrightarrow> o1 = Panic) \<and> (\<forall>l' rep. res = Return (l', rep) \<longrightarrow>
      length (entry_responses l') = length (entry_responses l) \<and>
      (case rep of
         None \<Rightarrow> \<exists>r. answered r \<and> entry_responses l' = (entry_responses l)[i := Some r]
       | Some x \<Rightarrow> fst x = Some SyncEnums_TRANSIENT_ERROR))"
  proof cases
    case panic
    with assms(1) cv show ?thesis by (auto simp: commit_entry_def Let_def)
  next
    case bad
    let ?r = "empty_EntryResponse\<lparr>ResponseType := Some CommitResponse_INVALID_MESSAGE,
      er_ErrorMessage := Some (''Cannot convert protobuf sync entity to DB format: '' @ err)\<rparr>"
    have "res = Return (set_response i ?r (set_response i empty_EntryResponse l), None)"
      using assms(1) cv bad by (simp add: commit_entry_def Let_def)
    moreover have "answered ?r" by (simp add: answered_def)
    ultimately show ?thesis using bad by (auto intro: exI [of _ ?r])
  next
    case ok
    with assms(1) cv have run: "commit_converted ds rc E c q i d (set_response i empty_EntryResponse l) (s\<lparr>seq := n\<rparr>) = (res, s')"
      by (simp add: commit_entry_def Let_def)
    from commit_converted_response [OF run converted_ok_CreateDB [OF cv [unfolded ok]]] assms(2)
    obtain l1 rep1 where r: "res = Return (l1, rep1)" "length (entry_responses l1) = length (entry_responses l)"
      "case rep1 of
         None \<Rightarrow> \<exists>r. answered r \<and> entry_responses l1 = (entry_responses (set_response i empty_EntryResponse l))[i := Some r]
       | Some x \<Rightarrow> fst x = Some SyncEnums_TRANSIENT_ERROR" by auto
    then show ?thesis using ok by (cases rep1) auto
  qed
  with p show "res = Panic \<longleftrightarrow> conversion_panics E v"
    and "res = Return (l', rep) \<Longrightarrow> length (entry_responses l') = length (entry_responses l) \<and>
      (case rep of
         None \<Rightarrow> \<exists>r. answered r \<and> entry_responses l' = (entry_responses l)[i := Some r]
       | Some x \<Rightarrow> fst x = Some SyncEnums_TRANSIENT_ERROR)" by blast+
qed

subsection \<open>The loop and the handler\<close>

text \<open>The responses of \<open>n\<close> entries from index \<open>i\<close> on are filled in, the others as before.\<close>

definition filled :: "nat \<Rightarrow> nat \<Rightarrow> EntryResponse option list \<Rightarrow> EntryResponse option list \<Rightarrow> bool" where
  "filled i n old new \<longleftrightarrow> length new = length old \<and>
     (\<forall>k < length old. if i \<le> k \<and> k < i + n then \<exists>r. answered r \<and> new ! k = Some r
        else new ! k = old ! k)"

lemma filled_0 [simp]: "filled i 0 old old"
  by (auto simp: filled_def)

lemma filled_Suc:
  assumes "answered x" and "filled (Suc i) n (old[i := Some x]) new" and "i < length old"
  shows "filled i (Suc n) old new"
  unfolding filled_def
proof (intro conjI allI impI)
  show "length new = length old" using assms(2) by (simp add: filled_def)
  fix k
  assume k: "k < length old"
  with assms(2) have "if Suc i \<le> k \<and> k < Suc i + n then \<exists>r. answered r \<and> new ! k = Some r
      else new ! k = old[i := Some x] ! k" by (simp add: filled_def)
  then show "if i \<le> k \<and> k < i + Suc n then \<exists>r. answered r \<and> new ! k = Some r else new ! k = old ! k"
    using k assms(1,3) by (cases "k = i") (auto split: if_splits)
qed

definition loop_result ::
  "env \<Rightarrow> nat \<Rightarrow> PbSyncEntity option list \<Rightarrow> commit_loop \<Rightarrow> (commit_loop \<times> reply option) outcome \<Rightarrow> bool" where
  "loop_result E i vs l res \<longleftrightarrow>
     (case res of
        Panic \<Rightarrow> \<exists>v \<in> set vs. conversion_panics E v
      | Return (l', None) \<Rightarrow> filled i (length vs) (entry_responses l) (entry_responses l') \<and>
          (\<forall>v \<in> set vs. \<not> conversion_panics E v)
      | Return (l', Some x) \<Rightarrow> length (entry_responses l') = length (entry_responses l) \<and>
          fst x = Some SyncEnums_TRANSIENT_ERROR)"

lemma commit_entries_result:
  "commit_entries ds rc E c q g i vs l s = (res, s') \<Longrightarrow> i + length vs \<le> length (entry_responses l) \<Longrightarrow>
     loop_result E i vs l res"
proof (induction vs arbitrary: i l s)
  case Nil
  then show ?case by (auto simp: loop_result_def)
next
  case (Cons v vs)
  obtain r s1 where e: "commit_entry ds rc E c q g i v l s = (r, s1)" by fastforce
  have i: "i < length (entry_responses l)" using Cons.prems(2) by simp
  note one = commit_entry_result [OF e i]
  consider (panic) "r = Panic" | (stop) l1 x where "r = Return (l1, Some x)" | (go) l1 where "r = Return (l1, None)"
    by (metis outcome.exhaust surj_pair option.exhaust)
  then show ?case
  proof cases
    case panic
    with Cons.prems(1) e one(1) show ?thesis by (simp add: loop_result_def)
  next
    case stop
    with Cons.prems(1) e have "res = Return (l1, Some x)" by simp
    with one(2) [OF stop] show ?thesis by (simp add: loop_result_def)
  next
    case go
    with Cons.prems(1) e have run: "commit_entries ds rc E c q g (Suc i) vs l1 s1 = (res, s')" by simp
    from one(2) [OF go] obtain x where x: "answered x" "entry_responses l1 = (entry_responses l)[i := Some x]"
      by auto
    have np: "\<not> conversion_panics E v" using one(1) go by simp
    have IH: "loop_result E (Suc i) vs l1 res"
      by (rule Cons.IH [OF run]) (use Cons.prems(2) x(2) in simp)
    show ?thesis
    proof (cases "\<exists>l2. res = Return (l2, None)")
      case True
      then obtain l2 where res: "res = Return (l2, None)" ..
      with IH x(2) have "filled (Suc i) (length vs) ((entry_responses l)[i := Some x]) (entry_responses l2)"
        by (simp add: loop_result_def)
      from filled_Suc [OF x(1) this i] IH np res show ?thesis by (simp add: loop_result_def)
    next
      case False
      with IH x(2) show ?thesis by (auto simp: loop_result_def split: outcome.splits option.splits)
    qed
  qed
qed

lemma on_kv_keeps: "on_kv f s = (r, s') \<Longrightarrow> db s' = db s"
  by (rule on_kv_db)

lemma getInterimItemCounts_db: "getInterimItemCounts rc E c clr s = (r, s') \<Longrightarrow> db s' = db s"
  by (auto simp: getInterimItemCounts_def dest!: on_kv_db split: prod.splits sum.splits)

lemma save_mtimes_db [simp]: "db (save_mtimes rc E c mt ts s) = db s"
  by (induction ts arbitrary: s) (auto dest!: on_kv_db split: option.splits prod.splits)

lemma getItemCounts_result:
  assumes "getItemCounts ds rc E c s = (r, s')"
  shows "\<exists>n k n'. ds_GetClientItemCount ds E c (db s) n = (k, db s', n') \<and>
    (\<forall>itemCounts a b. r = Inr (itemCounts, a, b) \<longrightarrow> k = Inr itemCounts)"
proof -
  obtain k s1 where k: "on_db (ds_GetClientItemCount ds E c) s = (k, s1)" by fastforce
  from on_db_db [OF k] obtain n' where n': "ds_GetClientItemCount ds E c (db s) (seq s) = (k, db s1, n')" ..
  have "db s' = db s1 \<and> (\<forall>itemCounts a b. r = Inr (itemCounts, a, b) \<longrightarrow> k = Inr itemCounts)"
    using assms k by (auto simp: getItemCounts_def dest!: getInterimItemCounts_db
        split: prod.splits sum.splits)
  with n' show ?thesis by metis
qed

context entry_steps
begin

lemma commit_entries_steps:
  "commit_entries ds rc E c q g i vs l s = (res, s') \<Longrightarrow> i + length vs \<le> length (entry_responses l) \<Longrightarrow>
     R (db s) (db s')"
proof (induction vs arbitrary: i l s)
  case Nil
  then show ?case using step_refl by simp
next
  case (Cons v vs)
  obtain r s1 where e: "commit_entry ds rc E c q g i v l s = (r, s1)" by fastforce
  have i: "i < length (entry_responses l)" using Cons.prems(2) by simp
  have k: "R (db s) (db s1)" by (rule commit_entry_steps [OF e i])
  show ?case
  proof (cases "\<exists>l1. r = Return (l1, None)")
    case False
    with Cons.prems(1) e have "s' = s1" by (auto split: outcome.splits prod.splits option.splits)
    with k show ?thesis by simp
  next
    case True
    then obtain l1 where r: "r = Return (l1, None)" ..
    with Cons.prems(1) e have run: "commit_entries ds rc E c q g (Suc i) vs l1 s1 = (res, s')" by simp
    have "length (entry_responses l1) = length (entry_responses l)"
      using commit_entry_result(2) [OF e i r] by simp
    with Cons.IH [OF run] Cons.prems(2) k show ?thesis by (auto intro: step_trans)
  qed
qed

end

context datastore_steps
begin

lemma finish_commit_steps:
  assumes "finish_commit ds rc E c itemCounts l s = (rep, s')" and "cnt_ClientID itemCounts = c"
  shows "R (db s) (db s')"
proof -
  obtain r s1 where g: "getInterimItemCounts rc E c True s = (r, s1)" by fastforce
  note db1 = getInterimItemCounts_db [OF g]
  show ?thesis
  proof (cases r)
    case (Inl err)
    with assms(1) g db1 show ?thesis using step_refl by (simp add: finish_commit_def)
  next
    case (Inr ab)
    obtain a b where ab: "ab = (a, b)" by fastforce
    let ?s = "save_mtimes rc E c (typeMtimeMap l) (order_types E (map fst (typeMtimeMap l))) s1"
    obtain u s2 where u: "on_db (ds_UpdateClientItemCount ds E itemCounts a b) ?s = (u, s2)" by fastforce
    from on_db_db [OF u] obtain n where "ds_UpdateClientItemCount ds E itemCounts a b (db ?s) (seq ?s) = (u, db s2, n)" ..
    then have "R (db s1) (db s2)" using counts_step assms(2) by simp
    moreover have "s' = s2" using assms(1) g Inr ab u by (simp add: finish_commit_def Let_def)
    ultimately show ?thesis using db1 by simp
  qed
qed

lemma handleCommit_steps:
  assumes "handleCommitRequest ds rc E commitMsg rsp c s = (res, s')"
  shows "R (db s) (db s')"
proof (cases "\<exists>msg entries. commitMsg = Some msg \<and> cm_Entries msg = Some entries")
  case False
  with assms show ?thesis using step_refl by (auto simp: handleCommitRequest_def split: option.splits)
next
  case True
  then obtain msg entries where m: "commitMsg = Some msg" "cm_Entries msg = Some entries" by blast
  obtain r s1 where g: "getItemCounts ds rc E c s = (r, s1)" by fastforce
  from getItemCounts_result [OF g] obtain n k n' where
    k: "ds_GetClientItemCount ds E c (db s) n = (k, db s1, n')"
      "\<forall>itemCounts a b. r = Inr (itemCounts, a, b) \<longrightarrow> k = Inr itemCounts" by blast
  have first: "R (db s) (db s1)" by (rule get_counts_step [OF k(1)])
  show ?thesis
  proof (cases r)
    case (Inl err)
    with assms m g first show ?thesis by (simp add: handleCommitRequest_def)
  next
    case (Inr x)
    obtain itemCounts a b where x: "x = (itemCounts, a, b)" by (metis prod_cases3)
    have cl: "cnt_ClientID itemCounts = c" using k Inr x get_counts_own by auto
    let ?q = "\<lparr>currentNormalItemCount = ItemCount itemCounts,
                    currentHistoryItemCount = SumHistoryCounts itemCounts,
                    boostedQuotaAddition = boosted_quota_addition E (SumHistoryCounts itemCounts)\<rparr>"
    let ?l = "\<lparr>entry_responses = replicate (length entries) None, idMap = Map.empty,
                    typeMtimeMap = [], newNormalCount = a, newHistoryCount = b\<rparr>"
    obtain r2 s2 where e: "commit_entries ds rc E c ?q (CacheGuid msg) 0 entries ?l s1 = (r2, s2)" by fastforce
    have k2: "R (db s1) (db s2)" by (rule commit_entries_steps [OF e]) simp
    show ?thesis
    proof (cases "\<exists>l2. r2 = Return (l2, None)")
      case False
      with assms m g Inr x e have "s' = s2"
        by (auto simp: handleCommitRequest_def Let_def split: outcome.splits prod.splits option.splits)
      with k2 first step_trans show ?thesis by blast
    next
      case True
      then obtain l2 where r2: "r2 = Return (l2, None)" ..
      obtain rep s3 where f: "finish_commit ds rc E c itemCounts l2 s2 = (rep, s3)" by fastforce
      with assms m g Inr x e r2 have "s' = s3" by (auto simp: handleCommitRequest_def Let_def)
      with finish_commit_steps [OF f cl] k2 first step_trans show ?thesis by blast
    qed
  qed
qed

end

text \<open>
  With the frame contract: a step of client \<open>c\<close> keeps the invariant and the view of every
  other client, and so does all that a request does.
\<close>

context datastore_frame
begin

definition keeps :: "string \<Rightarrow> 'd \<Rightarrow> 'd \<Rightarrow> bool" where
  "keeps c d d' \<longleftrightarrow> (inv d \<longrightarrow> inv d') \<and> (\<forall>c'. c' \<noteq> c \<longrightarrow> view d' c' = view d c')"

lemma keeps_refl [simp]: "keeps c d d"
  by (simp add: keeps_def)

lemma keeps_trans: "keeps c d d' \<Longrightarrow> keeps c d' d'' \<Longrightarrow> keeps c d d''"
  by (auto simp: keeps_def)

end

sublocale datastore_frame \<subseteq> steps: datastore_steps ds E c "keeps c" for c
proof (unfold_locales, goal_cases)
  case (3 e d n ires d' n')
  then show ?case unfolding keeps_def using insert_inv insert_frame by blast
next
  case (4 e v d n ures d' n')
  then show ?case unfolding keeps_def using update_inv update_frame by blast
next
  case (7 es d n eres d' n')
  then show ?case unfolding keeps_def using insert_tags_inv [OF 7(1)] insert_tags_frame [OF 7(1)] by auto
next
  case (8 k a b d n eres d' n')
  then show ?case unfolding keeps_def using counts_inv counts_frame by blast
next
  case (9 d n cres d' n')
  then show ?case unfolding keeps_def using clear_inv clear_frame by blast
next
  case (10 d n eres d' n')
  then show ?case unfolding keeps_def using disable_inv disable_frame by blast
qed (auto intro: keeps_trans get_counts_client
    dest: get_updates_reads has_tag_reads get_counts_reads is_disabled_reads has_item_reads)

context datastore_frame
begin

lemmas commit_entry_keeps = steps.commit_entry_steps
lemmas handleCommit_keeps = steps.handleCommit_steps

end

text \<open>The shape of a commit's result, for any data store and cache.\<close>

lemma handleCommit_result:
  assumes "handleCommitRequest ds rc E (Some msg) rsp0 c s = (res, s')" and "cm_Entries msg = Some entries"
    and "\<forall>v \<in> set entries. \<not> conversion_panics E v"
  obtains (no_counts) err where "res = Return (rsp0, (Some SyncEnums_TRANSIENT_ERROR, Some err))"
  | (ran) rsp rep where "res = Return (rsp, rep)" "fst rep \<in> {Some SyncEnums_TRANSIENT_ERROR, Some SyncEnums_SUCCESS}"
      "length (Entryresponse rsp) = length entries"
      "fst rep = Some SyncEnums_SUCCESS \<Longrightarrow> \<forall>r \<in> set (Entryresponse rsp). \<exists>x. r = Some x \<and> answered x"
proof -
  obtain r s1 where g: "getItemCounts ds rc E c s = (r, s1)" by fastforce
  show thesis
  proof (cases r)
    case (Inl err)
    with assms g show thesis by (intro no_counts) (auto simp: handleCommitRequest_def)
  next
    case (Inr x)
    obtain itemCounts a b where x: "x = (itemCounts, a, b)" by (metis prod_cases3)
    let ?q = "\<lparr>currentNormalItemCount = ItemCount itemCounts,
                    currentHistoryItemCount = SumHistoryCounts itemCounts,
                    boostedQuotaAddition = boosted_quota_addition E (SumHistoryCounts itemCounts)\<rparr>"
    let ?l = "\<lparr>entry_responses = replicate (length entries) None, idMap = Map.empty,
                    typeMtimeMap = [], newNormalCount = a, newHistoryCount = b\<rparr>"
    obtain r2 s2 where e: "commit_entries ds rc E c ?q (CacheGuid msg) 0 entries ?l s1 = (r2, s2)" by fastforce
    have lr: "loop_result E 0 entries ?l r2" by (rule commit_entries_result [OF e]) simp
    consider (panic) "r2 = Panic" | (stop) l2 y where "r2 = Return (l2, Some y)" | (go) l2 where "r2 = Return (l2, None)"
      by (metis outcome.exhaust surj_pair option.exhaust)
    then show thesis
    proof cases
      case panic
      with lr assms(3) show thesis by (simp add: loop_result_def)
    next
      case stop
      with assms g Inr x e have "res = Return (rsp0\<lparr>Entryresponse := entry_responses l2\<rparr>, y)"
        by (simp add: handleCommitRequest_def Let_def)
      with lr stop show thesis by (intro ran) (auto simp: loop_result_def)
    next
      case go
      obtain rep s3 where f: "finish_commit ds rc E c itemCounts l2 s2 = (rep, s3)" by fastforce
      have rep: "fst rep \<in> {Some SyncEnums_TRANSIENT_ERROR, Some SyncEnums_SUCCESS}"
        using f by (auto simp: finish_commit_def Let_def split: prod.splits sum.splits)
      have res: "res = Return (rsp0\<lparr>Entryresponse := entry_responses l2\<rparr>, rep)"
        using assms g Inr x e go f by (simp add: handleCommitRequest_def Let_def)
      have fl: "filled 0 (length entries) (replicate (length entries) None) (entry_responses l2)"
        using lr go by (simp add: loop_result_def)
      then have "\<forall>r \<in> set (entry_responses l2). \<exists>x. r = Some x \<and> answered x"
        by (fastforce simp: filled_def in_set_conv_nth)
      with res rep fl show thesis by (intro ran) (auto simp: filled_def)
    qed
  qed
qed

end
