(* ===== verification/Get_Updates_Correct.thy ===== *)
theory Get_Updates_Correct
  imports Get_Updates
begin

section \<open>What a GET\_UPDATES response holds\<close>

text \<open>
  The lemmas about the marker loop are proved from the contract of the data store, for
  any cache; the properties are their instances on the SQLite store.
\<close>

subsection \<open>Filling the entries\<close>

lemma fill_entries_spec:
  assumes "fill_entries E maxSize ds entries j = (entries', j', err)"
  shows "\<exists>fs. entries' = entries @ fs \<and> j' = j + length fs \<and>
    list_all2 (\<lambda>d f. CreatePBSyncEntity E d = Inr f) (take (length fs) ds) fs \<and>
    (err = None \<longrightarrow> int (length entries + length ds) \<le> maxSize \<longrightarrow> length fs = length ds)"
  using assms
proof (induction ds arbitrary: entries j)
  case Nil
  then show ?case by simp
next
  case (Cons d ds)
  show ?case
  proof (cases "int (length entries) < maxSize")
    case False
    with Cons.prems show ?thesis by auto
  next
    case True
    show ?thesis
    proof (cases "CreatePBSyncEntity E d")
      case (Inl e)
      with True Cons.prems show ?thesis by auto
    next
      case (Inr f)
      with True Cons.prems have "fill_entries E maxSize ds (entries @ [f]) (Suc j) = (entries', j', err)"
        by simp
      from Cons.IH [OF this] obtain fs where fs: "entries' = (entries @ [f]) @ fs" "j' = Suc j + length fs"
        "list_all2 (\<lambda>d f. CreatePBSyncEntity E d = Inr f) (take (length fs) ds) fs"
        "err = None \<longrightarrow> int (length (entries @ [f]) + length ds) \<le> maxSize \<longrightarrow> length fs = length ds"
        by blast
      then show ?thesis using Inr by (intro exI [of _ "f # fs"]) auto
    qed
  qed
qed

lemma fill_entries_bound:
  "fill_entries E maxSize ds entries j = (entries', j', err) \<Longrightarrow> int (length entries) \<le> maxSize \<Longrightarrow>
     int (length entries') \<le> maxSize"
  by (induction ds arbitrary: entries j) (auto split: if_splits sum.splits)

subsection \<open>One marker\<close>

text \<open>The token a marker starts from.\<close>

definition start_token :: "DataTypeProgressMarker \<Rightarrow> bytes" where
  "start_token m = (if marker_token m \<noteq> [] then marker_token m else put_token 0)"

text \<open>
  What the response says of one requested marker \<open>m\<close>: \<open>m'\<close> is its new marker and \<open>fs\<close>
  the entries sent for it, \<open>full\<close> and \<open>remaining\<close> the response's final state. Either the
  type was not queried, because the response was full or because a poll found the type
  unchanged, and the token stays; or all that a query after the token returned is sent, the
  token is the time of the last entity, and the response says so if more remains.
\<close>

definition marker_result ::
  "'d datastore \<Rightarrow> env \<Rightarrow> string \<Rightarrow> bool \<Rightarrow> bool \<Rightarrow> 'd \<Rightarrow> bool \<Rightarrow> int option
     \<Rightarrow> DataTypeProgressMarker \<Rightarrow> DataTypeProgressMarker \<Rightarrow> PbSyncEntity list \<Rightarrow> bool" where
  "marker_result ds E c poll ff d full remaining m m' fs \<longleftrightarrow>
     DataTypeId m' = DataTypeId m \<and>
     ((fs = [] \<and> Token m' = Some (start_token m) \<and> (full \<or> poll)) \<or>
      (\<exists>t k n n' again es. DataTypeId m = Some t \<and> 0 < k \<and>
         ds_GetUpdatesForType ds E t (fst (varint (start_token m))) ff c k d n = (Inr (again, es), d, n') \<and>
         list_all2 (\<lambda>e f. CreatePBSyncEntity E e = Inr f) es fs \<and>
         (again \<longrightarrow> remaining = Some 1) \<and>
         Token m' = Some (if es = [] then start_token m else put_token (the (Mtime (last es))))))"

lemma marker_result_mono:
  "marker_result ds E c poll ff d full rem m m' fs \<Longrightarrow> (full \<Longrightarrow> full') \<Longrightarrow>
     (rem = Some 1 \<Longrightarrow> rem' = Some 1) \<Longrightarrow> marker_result ds E c poll ff d full' rem' m m' fs"
  unfolding marker_result_def by blast

lemma start_marker_simps [simp]:
  "gur_Entries (start_marker new i m t rsp) = gur_Entries rsp"
  "ChangesRemaining (start_marker new i m t rsp) = ChangesRemaining rsp"
  "NewProgressMarker (start_marker new i m t rsp) = (NewProgressMarker rsp)
     [i := Some \<lparr>DataTypeId = DataTypeId m, Token = Some (start_token m),
                 GetUpdateTriggers = None, GcDirective = None\<rparr>]"
  by (simp_all add: start_marker_def start_token_def Let_def)

lemma set_marker_token_simps [simp]:
  "gur_Entries (set_marker_token i tok rsp) = gur_Entries rsp"
  "ChangesRemaining (set_marker_token i tok rsp) = ChangesRemaining rsp"
  "NewProgressMarker (set_marker_token i tok rsp) =
     (NewProgressMarker rsp)[i := map_option (\<lambda>m. m\<lparr>Token := Some tok\<rparr>) (NewProgressMarker rsp ! i)]"
  by (simp_all add: set_marker_token_def)

text \<open>The state after a step: the database is unchanged.\<close>

lemma on_kv_case_db [simp]: "db (snd (on_kv f s)) = db s"
  by (auto simp: on_kv_def split: prod.splits)

lemma on_kv_keeps_db: "on_kv f s = (r, s') \<Longrightarrow> db s' = db s"
  by (rule on_kv_db)

lemma finish_marker_db: "finish_marker rc E c new i t token again es rsp s = (r, s') \<Longrightarrow> db s' = db s"
  by (auto simp: finish_marker_def Let_def dest: on_kv_db
      split: if_splits prod.splits option.splits)

lemma finish_marker_ok:
  assumes "finish_marker rc E c new i t token again es rsp s = (Return (rsp', None), s')"
    and "int (length (gur_Entries rsp) + length es) \<le> maxGUBatchSize E"
  shows "\<exists>fs. gur_Entries rsp' = gur_Entries rsp @ fs \<and>
      list_all2 (\<lambda>e f. CreatePBSyncEntity E e = Inr f) es fs \<and>
      ChangesRemaining rsp' = (if again then Some 1 else ChangesRemaining rsp) \<and>
      NewProgressMarker rsp' = (if es = [] then NewProgressMarker rsp
        else NewProgressMarker (set_marker_token i (put_token (the (Mtime (last es)))) rsp))"
proof -
  let ?rsp = "if again then rsp\<lparr>ChangesRemaining := Some 1\<rparr> else rsp"
  obtain entries j err where fill: "fill_entries E (maxGUBatchSize E) es (gur_Entries rsp) 0 = (entries, j, err)"
    by (metis prod_cases3)
  have sel: "gur_Entries ?rsp = gur_Entries rsp" "NewProgressMarker ?rsp = NewProgressMarker rsp"
    "ChangesRemaining ?rsp = (if again then Some 1 else ChangesRemaining rsp)" by auto
  have err: "err = None" using assms(1) fill by (auto simp: finish_marker_def Let_def sel(1) split: if_splits option.splits)
  from fill_entries_spec [OF fill] obtain fs where fs: "entries = gur_Entries rsp @ fs" "j = length fs"
    "list_all2 (\<lambda>e f. CreatePBSyncEntity E e = Inr f) (take (length fs) es) fs" "length fs = length es"
    using err assms(2) by auto
  show ?thesis
  proof (cases "es = []")
    case True
    with assms(1) fill fs err show ?thesis
      by (auto simp: finish_marker_def Let_def split: if_splits prod.splits)
  next
    case False
    with fs have j: "j \<noteq> 0" "es ! (j - 1) = last es" by (auto simp: last_conv_nth)
    with assms(1) fill err False obtain mt where mt: "Mtime (last es) = Some mt"
      by (auto simp: finish_marker_def Let_def split: if_splits option.splits)
    have "gur_Entries rsp' = entries \<and> ChangesRemaining rsp' = ChangesRemaining ?rsp \<and>
        NewProgressMarker rsp' = NewProgressMarker (set_marker_token i (put_token mt) rsp)"
      using assms(1) fill err False j mt by (auto simp: finish_marker_def Let_def split: if_splits prod.splits)
    then show ?thesis using fs False mt by (auto simp: sel)
  qed
qed

lemma finish_marker_no_panic:
  assumes "\<forall>e \<in> set es. Mtime e \<noteq> None"
  shows "fst (finish_marker rc E c new i t token again es rsp s) \<noteq> Panic"
proof -
  obtain entries j err where fill: "fill_entries E (maxGUBatchSize E) es (gur_Entries rsp) 0 = (entries, j, err)"
    by (metis prod_cases3)
  from fill_entries_spec [OF fill] have "j \<le> length es" by (auto dest: list_all2_lengthD)
  then have "j \<noteq> 0 \<Longrightarrow> Mtime (es ! (j - 1)) \<noteq> None" using assms by simp
  then show ?thesis using fill
    by (auto simp: finish_marker_def Let_def split: if_splits option.splits prod.splits)
qed

lemma finish_marker_bound:
  assumes "finish_marker rc E c new i t token again es rsp s = (Return (rsp', rep), s')"
    and "int (length (gur_Entries rsp)) \<le> maxGUBatchSize E"
  shows "int (length (gur_Entries rsp')) \<le> maxGUBatchSize E"
proof -
  obtain entries j err where fill: "fill_entries E (maxGUBatchSize E) es (gur_Entries rsp) 0 = (entries, j, err)"
    by (metis prod_cases3)
  have "gur_Entries rsp' = entries \<or> gur_Entries rsp' = gur_Entries rsp"
    using assms(1) fill by (auto simp: finish_marker_def Let_def split: if_splits option.splits prod.splits)
  then show ?thesis using fill_entries_bound [OF fill assms(2)] assms(2) by auto
qed

text \<open>The four ways through the head of an iteration, with the query's result.\<close>

lemma gu_marker_cases:
  assumes "gu_marker ds rc E c new poll ff i m rsp s = (res, s')" and "i < length (NewProgressMarker rsp)"
    and "DataTypeId m = Some t"
  defines "rsp1 \<equiv> start_marker new i m t rsp" and "tok \<equiv> fst (varint (start_token m))"
  obtains (stop) rep where "res = Return (rsp1, rep)" "db s' = db s"
      "rep = None \<Longrightarrow> maxGUBatchSize E \<le> int (length (gur_Entries rsp)) \<or> poll"
  | (failed) n0 n1 err rep where "res = Return (rsp1, Some rep)"
      "ds_GetUpdatesForType ds E t tok ff c (maxGUBatchSize E - int (length (gur_Entries rsp))) (db s) n0
         = (Inl err, db s', n1)" "int (length (gur_Entries rsp)) < maxGUBatchSize E"
  | (queried) n0 s2 n1 again es where
      "ds_GetUpdatesForType ds E t tok ff c (maxGUBatchSize E - int (length (gur_Entries rsp))) (db s) n0
         = (Inr (again, es), db s2, n1)" "int (length (gur_Entries rsp)) < maxGUBatchSize E"
      "finish_marker rc E c new i t tok again es rsp1 s2 = (res, s')"
proof -
  have tk: "(case NewProgressMarker rsp1 ! i of None \<Rightarrow> [] | Some m \<Rightarrow> marker_token m) = start_token m"
    using assms(2) by (simp add: rsp1_def marker_token_def)
  obtain k where v: "varint (start_token m) = (tok, k)" unfolding tok_def by (metis prod.collapse)
  note run = assms(1) [unfolded gu_marker_def assms(3) option.case Let_def, folded rsp1_def, unfolded tk v prod.case]
  have ents: "gur_Entries rsp1 = gur_Entries rsp" by (simp add: rsp1_def)
  show thesis
  proof (cases "maxGUBatchSize E \<le> int (length (gur_Entries rsp)) \<or> k \<le> 0")
    case True
    then have "s' = s \<and> (\<exists>rep. res = Return (rsp1, rep) \<and>
        (rep = None \<longrightarrow> maxGUBatchSize E \<le> int (length (gur_Entries rsp))))"
      using run by (auto simp: ents split: if_splits)
    then show thesis using stop by auto
  next
    case False
    obtain u s1 where u: "(if poll then on_kv (IsTypeMtimeUpdated rc E c t tok) s else (True, s)) = (u, s1)"
      by fastforce
    then have db1: "db s1 = db s" "\<not> u \<Longrightarrow> poll" by (auto split: if_splits dest: on_kv_db)
    show thesis
    proof (cases u)
      case False
      with run u db1 \<open>\<not> (_ \<or> _)\<close> show thesis by (intro stop) (auto simp: ents)
    next
      case True
      obtain q s2 where q: "on_db (ds_GetUpdatesForType ds E t tok ff c
          (maxGUBatchSize E - int (length (gur_Entries rsp)))) s1 = (q, s2)" by fastforce
      from on_db_db [OF q] obtain n1 where g: "ds_GetUpdatesForType ds E t tok ff c
          (maxGUBatchSize E - int (length (gur_Entries rsp))) (db s1) (seq s1) = (q, db s2, n1)" by blast
      show thesis
      proof (cases q)
        case (Inl err)
        with run u True q \<open>\<not> (_ \<or> _)\<close> show thesis
          by (intro failed [of _ "seq s1" err n1]) (use g db1(1) in \<open>auto simp: ents\<close>)
      next
        case (Inr a)
        obtain again es where "a = (again, es)" by fastforce
        with run u True q Inr \<open>\<not> (_ \<or> _)\<close> g show thesis
          by (intro queried [of "seq s1" again es s2 n1]) (use db1(1) in \<open>auto simp: ents\<close>)
      qed
    qed
  qed
qed

context datastore_contract
begin

lemma gu_marker_db:
  assumes "gu_marker ds rc E c new poll ff i m rsp s = (res, s')" and "i < length (NewProgressMarker rsp)"
  shows "db s' = db s"
proof (cases "DataTypeId m")
  case None
  with assms(1) show ?thesis by (simp add: gu_marker_def)
next
  case (Some t)
  from assms(1,2) Some show ?thesis
    by (rule gu_marker_cases) (auto dest!: get_updates_reads finish_marker_db)
qed

lemma gu_marker_bound:
  assumes "gu_marker ds rc E c new poll ff i m rsp s = (Return (rsp', rep), s')"
    and "i < length (NewProgressMarker rsp)" and "int (length (gur_Entries rsp)) \<le> maxGUBatchSize E"
  shows "int (length (gur_Entries rsp')) \<le> maxGUBatchSize E"
proof (cases "DataTypeId m")
  case None
  with assms(1) show ?thesis by (simp add: gu_marker_def)
next
  case (Some t)
  from assms(1,2) Some show ?thesis
    by (rule gu_marker_cases) (use assms(3) in \<open>auto dest: finish_marker_bound\<close>)
qed

lemma gu_marker_ok:
  assumes "gu_marker ds rc E c new poll ff i m rsp s = (Return (rsp', None), s')"
    and "i < length (NewProgressMarker rsp)" and "inv (db s)"
    and "int (length (gur_Entries rsp)) \<le> maxGUBatchSize E"
  shows "\<exists>m' fs. gur_Entries rsp' = gur_Entries rsp @ fs \<and>
    NewProgressMarker rsp' = (NewProgressMarker rsp)[i := Some m'] \<and>
    (ChangesRemaining rsp' = ChangesRemaining rsp \<or> ChangesRemaining rsp' = Some 1) \<and>
    marker_result ds E c poll ff (db s) (maxGUBatchSize E \<le> int (length (gur_Entries rsp')))
      (ChangesRemaining rsp') m m' fs"
proof (cases "DataTypeId m")
  case None
  with assms(1) show ?thesis by (simp add: gu_marker_def)
next
  case (Some t)
  let ?m = "\<lambda>tok. \<lparr>DataTypeId = DataTypeId m, Token = Some tok, GetUpdateTriggers = None, GcDirective = None\<rparr>"
  from assms(1,2) Some show ?thesis
  proof (rule gu_marker_cases)
    fix rep
    assume "Return (rsp', None) = Return (start_marker new i m t rsp, rep)"
      and "rep = None \<Longrightarrow> maxGUBatchSize E \<le> int (length (gur_Entries rsp)) \<or> poll"
    then show ?thesis
      by (intro exI [of _ "?m (start_token m)"] exI [of _ "[]"]) (auto simp: marker_result_def)
  next
    fix rep
    assume "Return (rsp', None) = Return (start_marker new i m t rsp, Some rep)"
    then show ?thesis by simp
  next
    fix n0 s2 n1 again es
    let ?k = "maxGUBatchSize E - int (length (gur_Entries rsp))" and ?tok = "fst (varint (start_token m))"
    assume q: "ds_GetUpdatesForType ds E t ?tok ff c ?k (db s) n0 = (Inr (again, es), db s2, n1)"
      and k: "int (length (gur_Entries rsp)) < maxGUBatchSize E"
      and fin: "finish_marker rc E c new i t ?tok again es (start_marker new i m t rsp) s2 = (Return (rsp', None), s')"
    have "int (length es) \<le> ?k" using updates_batch [OF q] assms(3) k by simp
    then have len: "int (length (gur_Entries (start_marker new i m t rsp)) + length es) \<le> maxGUBatchSize E"
      by simp
    from finish_marker_ok [OF fin len] obtain fs where
      fs: "gur_Entries rsp' = gur_Entries rsp @ fs" "list_all2 (\<lambda>e f. CreatePBSyncEntity E e = Inr f) es fs"
        "ChangesRemaining rsp' = (if again then Some 1 else ChangesRemaining rsp)"
      and npm: "NewProgressMarker rsp' = (if es = [] then NewProgressMarker (start_marker new i m t rsp)
        else NewProgressMarker (set_marker_token i (put_token (the (Mtime (last es)))) (start_marker new i m t rsp)))"
      by auto
    let ?t = "if es = [] then start_token m else put_token (the (Mtime (last es)))"
    have "NewProgressMarker rsp' = (NewProgressMarker rsp)[i := Some (?m ?t)]"
      using npm assms(2) by simp
    moreover have "marker_result ds E c poll ff (db s) full (ChangesRemaining rsp') m (?m ?t) fs" for full
      unfolding marker_result_def using Some q k fs get_updates_reads [OF q]
      by (intro conjI disjI2 exI [of _ t] exI [of _ ?k] exI [of _ n0] exI [of _ n1] exI [of _ again] exI [of _ es])
        auto
    ultimately show ?thesis using fs
      by (intro exI [of _ "?m ?t"] exI [of _ fs]) auto
  qed
qed

lemma gu_marker_no_panic:
  assumes "DataTypeId m = Some t" and "i < length (NewProgressMarker rsp)" and "inv (db s)"
    and "gu_marker ds rc E c new poll ff i m rsp s = (res, s')"
  shows "res \<noteq> Panic"
  using assms(4,2,1)
proof (rule gu_marker_cases)
  fix n0 s2 n1 again es
  let ?k = "maxGUBatchSize E - int (length (gur_Entries rsp))" and ?tok = "fst (varint (start_token m))"
  assume q: "ds_GetUpdatesForType ds E t ?tok ff c ?k (db s) n0 = (Inr (again, es), db s2, n1)"
    and k: "int (length (gur_Entries rsp)) < maxGUBatchSize E"
    and fin: "finish_marker rc E c new i t ?tok again es (start_marker new i m t rsp) s2 = (res, s')"
  have "\<forall>e \<in> set es. Mtime e \<noteq> None" using updates_batch [OF q assms(3)] k by force
  then show ?thesis using finish_marker_no_panic fin by (metis fst_conv)
qed auto

lemma gu_marker_length:
  assumes "gu_marker ds rc E c new poll ff i m rsp s = (Return (rsp', rep), s')"
    and "i < length (NewProgressMarker rsp)"
  shows "length (NewProgressMarker rsp') = length (NewProgressMarker rsp)"
proof -
  have fin: "length (NewProgressMarker rsp') = length (NewProgressMarker rsp1)"
    if "finish_marker rc E c new i t tok again es rsp1 s2 = (Return (rsp', rep), s')" for t tok again es rsp1 s2
    using that by (auto simp: finish_marker_def Let_def split: if_splits prod.splits option.splits)
  show ?thesis
  proof (cases "DataTypeId m")
    case None
    with assms(1) show ?thesis by (simp add: gu_marker_def)
  next
    case (Some t)
    from assms(1,2) Some show ?thesis by (rule gu_marker_cases) (auto dest: fin)
  qed
qed

lemma gu_markers_db:
  "gu_markers ds rc E c new poll ff i ms rsp s = (res, s') \<Longrightarrow>
     i + length ms \<le> length (NewProgressMarker rsp) \<Longrightarrow> db s' = db s"
proof (induction ms arbitrary: i rsp s)
  case Nil
  then show ?case by simp
next
  case (Cons m ms)
  obtain r s1 where g: "gu_marker ds rc E c new poll ff i m rsp s = (r, s1)" by fastforce
  have i: "i < length (NewProgressMarker rsp)" using Cons.prems(2) by simp
  have db: "db s1 = db s" by (rule gu_marker_db [OF g i])
  show ?case
  proof (cases "\<exists>rsp1. r = Return (rsp1, None)")
    case True
    then obtain rsp1 where r: "r = Return (rsp1, None)" ..
    with Cons.prems g have "gu_markers ds rc E c new poll ff (Suc i) ms rsp1 s1 = (res, s')" by simp
    with Cons.IH gu_marker_length [OF g [unfolded r] i] Cons.prems(2) db show ?thesis by simp
  next
    case False
    then show ?thesis using Cons.prems(1) g db by (auto split: outcome.splits prod.splits option.splits)
  qed
qed

lemma gu_markers_no_panic:
  "gu_markers ds rc E c new poll ff i ms rsp s = (res, s') \<Longrightarrow> \<forall>m \<in> set ms. DataTypeId m \<noteq> None \<Longrightarrow>
     i + length ms \<le> length (NewProgressMarker rsp) \<Longrightarrow> inv (db s) \<Longrightarrow> res \<noteq> Panic"
proof (induction ms arbitrary: i rsp s)
  case Nil
  then show ?case by auto
next
  case (Cons m ms)
  obtain r s1 where g: "gu_marker ds rc E c new poll ff i m rsp s = (r, s1)" by fastforce
  obtain t where t: "DataTypeId m = Some t" using Cons.prems(2) by auto
  have i: "i < length (NewProgressMarker rsp)" using Cons.prems(3) by simp
  have "r \<noteq> Panic" by (rule gu_marker_no_panic [OF t i Cons.prems(4) g])
  then obtain rsp1 rep where r: "r = Return (rsp1, rep)" by (cases r) auto
  show ?case
  proof (cases rep)
    case None
    with Cons.prems g r have "gu_markers ds rc E c new poll ff (Suc i) ms rsp1 s1 = (res, s')" by simp
    with Cons.IH [OF this] gu_marker_length [OF g [unfolded r] i] Cons.prems(2-4) gu_marker_db [OF g i]
    show ?thesis by simp
  next
    case (Some a)
    then show ?thesis using Cons.prems(1) g r by auto
  qed
qed

lemma gu_markers_bound:
  "gu_markers ds rc E c new poll ff i ms rsp s = (Return (rsp', rep), s') \<Longrightarrow>
     i + length ms \<le> length (NewProgressMarker rsp) \<Longrightarrow>
     int (length (gur_Entries rsp)) \<le> maxGUBatchSize E \<Longrightarrow>
     int (length (gur_Entries rsp')) \<le> maxGUBatchSize E \<and>
     length (NewProgressMarker rsp') = length (NewProgressMarker rsp)"
proof (induction ms arbitrary: i rsp s)
  case Nil
  then show ?case by simp
next
  case (Cons m ms)
  obtain r s1 where g: "gu_marker ds rc E c new poll ff i m rsp s = (r, s1)" by fastforce
  have i: "i < length (NewProgressMarker rsp)" using Cons.prems(2) by simp
  from Cons.prems(1) g obtain rsp1 rep1 where r: "r = Return (rsp1, rep1)"
    by (cases r) auto
  note g = g [unfolded r]
  have b: "int (length (gur_Entries rsp1)) \<le> maxGUBatchSize E"
      "length (NewProgressMarker rsp1) = length (NewProgressMarker rsp)"
    using gu_marker_bound [OF g i Cons.prems(3)] gu_marker_length [OF g i] by simp_all
  show ?case
  proof (cases rep1)
    case None
    with Cons.prems g have "gu_markers ds rc E c new poll ff (Suc i) ms rsp1 s1 = (Return (rsp', rep), s')"
      by simp
    with Cons.IH b Cons.prems(2) show ?thesis by simp
  next
    case (Some a)
    with Cons.prems(1) g b show ?thesis by simp
  qed
qed

lemma gu_markers_ok:
  assumes "gu_markers ds rc E c new poll ff (length pre) ms rsp s = (Return (rsp', None), s')"
    and "NewProgressMarker rsp = pre @ replicate (length ms) None" and "inv (db s)"
    and "int (length (gur_Entries rsp)) \<le> maxGUBatchSize E"
  shows "\<exists>ms' fss. length ms' = length ms \<and> length fss = length ms \<and>
    gur_Entries rsp' = gur_Entries rsp @ concat fss \<and> NewProgressMarker rsp' = pre @ map Some ms' \<and>
    (ChangesRemaining rsp = Some 1 \<longrightarrow> ChangesRemaining rsp' = Some 1) \<and>
    (\<forall>k < length ms. marker_result ds E c poll ff (db s) (maxGUBatchSize E \<le> int (length (gur_Entries rsp')))
       (ChangesRemaining rsp') (ms ! k) (ms' ! k) (fss ! k))"
  using assms
proof (induction ms arbitrary: pre rsp s)
  case Nil
  then show ?case by simp
next
  case (Cons m ms)
  obtain r s1 where g: "gu_marker ds rc E c new poll ff (length pre) m rsp s = (r, s1)" by fastforce
  from Cons.prems(1) g obtain rsp1 where r: "r = Return (rsp1, None)"
    by (auto split: outcome.splits prod.splits option.splits)
  note g = g [unfolded r]
  have i: "length pre < length (NewProgressMarker rsp)" using Cons.prems(2) by simp
  from gu_marker_ok [OF g i Cons.prems(3,4)] obtain m' fs where
    1: "gur_Entries rsp1 = gur_Entries rsp @ fs"
      "NewProgressMarker rsp1 = (NewProgressMarker rsp)[length pre := Some m']"
      "ChangesRemaining rsp1 = ChangesRemaining rsp \<or> ChangesRemaining rsp1 = Some 1"
      "marker_result ds E c poll ff (db s) (maxGUBatchSize E \<le> int (length (gur_Entries rsp1)))
         (ChangesRemaining rsp1) m m' fs" by auto
  have db: "db s1 = db s" by (rule gu_marker_db [OF g i])
  have rest: "gu_markers ds rc E c new poll ff (length (pre @ [Some m'])) ms rsp1 s1 = (Return (rsp', None), s')"
    using Cons.prems(1) g by simp
  have npm: "NewProgressMarker rsp1 = (pre @ [Some m']) @ replicate (length ms) None"
    using 1(2) Cons.prems(2) by (simp add: list_update_append)
  from Cons.IH [OF rest npm] db Cons.prems(3) gu_marker_bound [OF g i Cons.prems(4)]
  obtain ms' fss where
    2: "length ms' = length ms" "length fss = length ms" "gur_Entries rsp' = gur_Entries rsp1 @ concat fss"
      "NewProgressMarker rsp' = (pre @ [Some m']) @ map Some ms'"
      "ChangesRemaining rsp1 = Some 1 \<longrightarrow> ChangesRemaining rsp' = Some 1"
      "\<forall>k < length ms. marker_result ds E c poll ff (db s) (maxGUBatchSize E \<le> int (length (gur_Entries rsp')))
         (ChangesRemaining rsp') (ms ! k) (ms' ! k) (fss ! k)"
    by auto
  have "marker_result ds E c poll ff (db s) (maxGUBatchSize E \<le> int (length (gur_Entries rsp')))
      (ChangesRemaining rsp') m m' fs"
    by (rule marker_result_mono [OF 1(4)]) (use 2(3,5) in auto)
  then have "\<forall>k < length (m # ms). marker_result ds E c poll ff (db s)
      (maxGUBatchSize E \<le> int (length (gur_Entries rsp'))) (ChangesRemaining rsp')
      ((m # ms) ! k) ((m' # ms') ! k) ((fs # fss) ! k)"
    using 2(6) by (auto simp: less_Suc_eq_0_disj)
  with 1 2 show ?case
    by (intro exI [of _ "m' # ms'"] exI [of _ "fs # fss"]) auto
qed

end

end
