(* ===== verification/Get_Updates_Props.thy ===== *)
theory Get_Updates_Props
  imports Get_Updates_Correct
begin

section \<open>Properties of GET\_UPDATES\<close>

text \<open>
  Registering a new device (the device limit, and what more device records than one batch
  do to it), and what a device receives: sound, complete, bounded and without panics.
\<close>

subsection \<open>The device loop\<close>

lemma count_devices_no_panic:
  "\<forall>e \<in> set es. Deleted e \<noteq> None \<Longrightarrow> count_devices E c es a \<noteq> Panic"
  by (induction es arbitrary: a) (auto simp: Let_def split: if_splits)

definition active_devices :: "SyncEntity list \<Rightarrow> int" where
  "active_devices es = int (length (filter (\<lambda>e. Deleted e = Some False) es))"

lemma active_devices_simps [simp]:
  "active_devices [] = 0"
  "active_devices (e # es) = (if Deleted e = Some False then 1 + active_devices es else active_devices es)"
  "0 \<le> active_devices es"
  by (simp_all add: active_devices_def)

text \<open>A batch stops at the limit, or adds its active devices.\<close>

lemma count_devices_value:
  assumes "\<forall>e \<in> set es. Deleted e \<noteq> None" and "\<not> hasReachedDeviceLimit E a c"
  shows "count_devices E c es a =
    Return (if hasReachedDeviceLimit E (a + active_devices es) c then Inl () else Inr (a + active_devices es))"
  using assms
proof (induction es arbitrary: a)
  case Nil
  then show ?case by simp
next
  case (Cons e es)
  obtain d where d: "Deleted e = Some d" using Cons.prems(1) by auto
  let ?a = "if \<not> d then a + 1 else a"
  show ?case
  proof (cases "hasReachedDeviceLimit E ?a c")
    case True
    have "?a \<le> a + active_devices (e # es)" using d by simp
    then show ?thesis using True d limit_mono [OF True] by (simp add: Let_def)
  next
    case False
    have "?a + active_devices es = a + active_devices (e # es)" using d by auto
    with Cons.IH [OF _ False] Cons.prems(1) d False show ?thesis by (simp add: Let_def)
  qed
qed

text \<open>Induction over a run of the loop that returns, one case for each way a round ends.\<close>

lemma device_loop_induct [consumes 1, case_names error panic limit last again]:
  assumes "device_loop ds E c a s = Some y"
    and "\<And>a s err s1. on_db (ds_GetUpdatesForType ds E deviceInfoTypeID 0 False c (maxGUBatchSize E)) s = (Inl err, s1) \<Longrightarrow>
      P a s (Return (Some (Some SyncEnums_TRANSIENT_ERROR,
        Some (''error getting updates for type '' @ itoa deviceInfoTypeID @ '': '' @ err))), s1)"
    and "\<And>a s again es s1. on_db (ds_GetUpdatesForType ds E deviceInfoTypeID 0 False c (maxGUBatchSize E)) s
        = (Inr (again, es), s1) \<Longrightarrow> count_devices E c es a = Panic \<Longrightarrow> P a s (Panic, s1)"
    and "\<And>a s again es s1. on_db (ds_GetUpdatesForType ds E deviceInfoTypeID 0 False c (maxGUBatchSize E)) s
        = (Inr (again, es), s1) \<Longrightarrow> count_devices E c es a = Return (Inl ()) \<Longrightarrow>
      P a s (Return (Some (Some SyncEnums_THROTTLED,
        Some ''exceed limit of active devices in a chain'')), s1)"
    and "\<And>a s es s1 b. on_db (ds_GetUpdatesForType ds E deviceInfoTypeID 0 False c (maxGUBatchSize E)) s
        = (Inr (False, es), s1) \<Longrightarrow> count_devices E c es a = Return (Inr b) \<Longrightarrow> P a s (Return None, s1)"
    and "\<And>a s es s1 b y. on_db (ds_GetUpdatesForType ds E deviceInfoTypeID 0 False c (maxGUBatchSize E)) s
        = (Inr (True, es), s1) \<Longrightarrow> count_devices E c es a = Return (Inr b) \<Longrightarrow> P b s1 y \<Longrightarrow> P a s y"
  shows "P a s y"
proof -
  have "ds' = ds \<and> E' = E \<and> c' = c \<longrightarrow> P a s y" if "device_loop ds' E' c' a s = Some y" for ds' E' c' a s y
  proof (rule device_loop.raw_induct [where P = "\<lambda>ds' E' c' a s y. ds' = ds \<and> E' = E \<and> c' = c \<longrightarrow> P a s y",
        OF _ that])
    fix loop and ds' :: "'a datastore" and E' c' a and s :: "('a, 'b) sys" and y
    assume IH: "\<And>ds' E' c' a s y. loop ds' E' c' a s = Some y \<Longrightarrow> ds' = ds \<and> E' = E \<and> c' = c \<longrightarrow> P a s y"
      and body: "(case on_db (ds_GetUpdatesForType ds' E' deviceInfoTypeID 0 False c' (maxGUBatchSize E')) s of
        (Inl err, s) \<Rightarrow>
          Some (Return (Some (Some SyncEnums_TRANSIENT_ERROR,
            Some (''error getting updates for type '' @ itoa deviceInfoTypeID @ '': '' @ err))), s)
      | (Inr (hasChangesRemaining, syncEntities), s) \<Rightarrow>
          (case count_devices E' c' syncEntities a of
             Panic \<Rightarrow> Some (Panic, s)
           | Return (Inl _) \<Rightarrow>
               Some (Return (Some (Some SyncEnums_THROTTLED,
                 Some ''exceed limit of active devices in a chain'')), s)
           | Return (Inr active) \<Rightarrow>
               (if hasChangesRemaining then loop ds' E' c' active s else Some (Return None, s)))) = Some y"
    show "ds' = ds \<and> E' = E \<and> c' = c \<longrightarrow> P a s y"
    proof
      assume eq: "ds' = ds \<and> E' = E \<and> c' = c"
      obtain q s1 where q: "on_db (ds_GetUpdatesForType ds E deviceInfoTypeID 0 False c (maxGUBatchSize E)) s
          = (q, s1)" by fastforce
      show "P a s y"
      proof (cases q)
        case (Inl err)
        with body eq q have "y = (Return (Some (Some SyncEnums_TRANSIENT_ERROR,
            Some (''error getting updates for type '' @ itoa deviceInfoTypeID @ '': '' @ err))), s1)" by simp
        then show ?thesis using assms(2) q Inl by simp
      next
        case (Inr ae)
        obtain again es where ae: "ae = (again, es)" by fastforce
        consider (p) "count_devices E c es a = Panic" | (l) "count_devices E c es a = Return (Inl ())"
          | (b) b where "count_devices E c es a = Return (Inr b)"
          by (cases "count_devices E c es a" rule: outcome.exhaust) (auto, metis sum.exhaust unit.exhaust)
        then show ?thesis
        proof cases
          case p
          with body eq q Inr ae assms(3) show ?thesis by auto
        next
          case l
          with body eq q Inr ae have "y = (Return (Some (Some SyncEnums_THROTTLED,
              Some ''exceed limit of active devices in a chain'')), s1)" by simp
          then show ?thesis using assms(4) q Inr ae l by simp
        next
          case b
          show ?thesis
          proof (cases again)
            case True
            with body eq q Inr ae b have "loop ds E c b s1 = Some y" by simp
            from IH [OF this] assms(6) q Inr ae b True show ?thesis by simp
          next
            case False
            with body eq q Inr ae b assms(5) show ?thesis by auto
          qed
        qed
      qed
    qed
  qed
  from this [OF assms(1)] show ?thesis by simp
qed

context datastore_contract
begin

lemma device_batch:
  assumes "on_db (ds_GetUpdatesForType ds E deviceInfoTypeID 0 False c m) s = (Inr (again, es), s1)"
    and "inv (db s)" and "0 \<le> m"
  shows "\<forall>e \<in> set es. Deleted e \<noteq> None"
  using on_db_db [OF assms(1)] updates_batch assms(2,3)
  by (force simp: deviceInfoTypeID_def HistoryTypeID_def)

lemma on_db_updates: "on_db (ds_GetUpdatesForType ds E t tok ff c m) s = (q, s1) \<Longrightarrow> db s1 = db s"
  using on_db_db get_updates_reads by metis

text \<open>Whenever the loop returns, it has written nothing, and it has not panicked.\<close>

lemma device_loop_result:
  assumes "device_loop ds E c a s = Some (res, s')" and "inv (db s)" and "0 \<le> maxGUBatchSize E"
  shows "db s' = db s" and "res \<noteq> Panic" and "res = Return (Some rep) \<Longrightarrow> fst rep \<noteq> Some SyncEnums_SUCCESS"
proof -
  have "inv (db s) \<longrightarrow> db (snd y) = db s \<and> fst y \<noteq> Panic \<and>
      (\<forall>rep. fst y = Return (Some rep) \<longrightarrow> fst rep \<noteq> Some SyncEnums_SUCCESS)"
    if "device_loop ds E c a s = Some y" for y
    using that
  proof (induction rule: device_loop_induct)
    case (panic a s again es s1)
    then show ?case using device_batch count_devices_no_panic assms(3) by metis
  next
    case (again a s es s1 b y)
    then show ?case using on_db_updates by metis
  qed (auto dest: on_db_updates)
  from this [OF assms(1)] assms(2) show "db s' = db s" and "res \<noteq> Panic"
    and "res = Return (Some rep) \<Longrightarrow> fst rep \<noteq> Some SyncEnums_SUCCESS" by auto
qed

end

subsection \<open>Registering a device on the SQLite store\<close>

text \<open>The device records of a chain that a round reads, and its first batch.\<close>

definition device_rows :: "env \<Rightarrow> string \<Rightarrow> nat \<Rightarrow> SQLiteStore \<Rightarrow> entity_row list" where
  "device_rows E c n d = select_updates deviceInfoTypeID 0 False c (unix_secs E n) d"

definition first_batch :: "env \<Rightarrow> string \<Rightarrow> (SQLiteStore, 'c) sys \<Rightarrow> SyncEntity list" where
  "first_batch E c s = map scanEntity (take (nat (maxGUBatchSize E)) (device_rows E c (seq s) (db s)))"

lemma device_round:
  assumes "no_faults E" and "0 \<le> maxGUBatchSize E"
  shows "on_db (sql_GetUpdatesForType E deviceInfoTypeID 0 False c (maxGUBatchSize E)) s =
    (Inr (maxGUBatchSize E < int (length (device_rows E c (seq s) (db s))), first_batch E c s), s\<lparr>seq := seq s + 3\<rparr>)"
proof -
  have ok: "db_fault E n = None" for n using assms(1) by (simp add: no_faults_def)
  have "\<exists>again es. sql_GetUpdatesForType E deviceInfoTypeID 0 False c (maxGUBatchSize E) (db s) (seq s)
      = (Inr (again, es), db s, seq s + 3)"
    by (simp add: sql_GetUpdatesForType_def ok Let_def numeral_3_eq_3)
  then obtain again es where
    run: "sql_GetUpdatesForType E deviceInfoTypeID 0 False c (maxGUBatchSize E) (db s) (seq s)
      = (Inr (again, es), db s, seq s + 3)" by blast
  from sql_GetUpdates_Inr [OF run assms(2)] run show ?thesis
    by (simp add: on_db_def first_batch_def device_rows_def)
qed

lemma first_batch_flags:
  assumes "store_inv (db s)"
  shows "\<forall>e \<in> set (first_batch E c s). Deleted e \<noteq> None"
proof -
  have "Deleted (scanEntity r) \<noteq> None" if "r \<in> set (device_rows E c (seq s) (db s))" for r
    using that assms by (force simp: device_rows_def select_updates_set is_update_def store_inv_def
        row_ok_def deviceInfoTypeID_def HistoryTypeID_def nullBoolToPtr_def)
  then show ?thesis using in_set_takeD [of _ "nat (maxGUBatchSize E)" "device_rows E c (seq s) (db s)"]
    by (auto simp: first_batch_def)
qed

text \<open>
  The device limit, for a chain whose device records fit into one batch (500 in the
  code): the loop returns after one round, it refuses the device exactly when the chain's
  active (not deleted) device records have reached the limit of the client, and it writes
  nothing.
\<close>

theorem device_limit_enforced:
  assumes "no_faults E" and "store_inv (db s)" and "0 \<le> maxGUBatchSize E"
    and "int (length (device_rows E c (seq s) (db s))) \<le> maxGUBatchSize E"
  shows "device_loop sqlite E c 0 s = Some
    (Return (if hasReachedDeviceLimit E (active_devices (map scanEntity (device_rows E c (seq s) (db s)))) c
       then Some (Some SyncEnums_THROTTLED, Some ''exceed limit of active devices in a chain'')
       else None), s\<lparr>seq := seq s + 3\<rparr>)"
proof -
  have "first_batch E c s = map scanEntity (device_rows E c (seq s) (db s))"
    using assms(3,4) by (simp add: first_batch_def)
  then have "count_devices E c (first_batch E c s) 0 = Return
      (if hasReachedDeviceLimit E (active_devices (map scanEntity (device_rows E c (seq s) (db s)))) c
       then Inl () else Inr (active_devices (map scanEntity (device_rows E c (seq s) (db s)))))"
    using count_devices_value [OF first_batch_flags [OF assms(2), of E c] not_limit_zero, of E c] by simp
  then show ?thesis
    using assms(4) by (subst device_loop.simps) (simp add: device_round [OF assms(1,3)])
qed

text \<open>Device records do not expire; then every round reads the same batch.\<close>

definition devices_lasting :: "SQLiteStore \<Rightarrow> bool" where
  "devices_lasting d \<longleftrightarrow>
     (\<forall>r \<in> set (sync_entities d). c_data_type r = Some deviceInfoTypeID \<longrightarrow> c_expiration_time r = None)"

lemma device_rows_same:
  assumes "devices_lasting d"
  shows "device_rows E c n d = device_rows E c n' d"
  unfolding device_rows_def select_updates_def
  using assms by (intro arg_cong [where f = "sort_key row_mtime"] filter_cong)
    (auto simp: is_update_def devices_lasting_def)

text \<open>
  More device records than one batch, all of the first batch deleted: registering a
  device never returns. The loop asks for the records after token 0 in every round, so it
  reads the same batch again and again, the count stays 0 and records remain.
\<close>

theorem device_loop_diverges:
  assumes "no_faults E" and "0 \<le> maxGUBatchSize E" and "devices_lasting (db s)"
    and "maxGUBatchSize E < int (length (device_rows E c (seq s) (db s)))"
    and "\<forall>e \<in> set (first_batch E c s). Deleted e = Some True"
  shows "device_loop sqlite E c 0 s = None"
proof (rule ccontr)
  assume "device_loop sqlite E c 0 s \<noteq> None"
  then obtain y where "device_loop sqlite E c 0 s = Some y" by blast
  moreover have "a = 0 \<longrightarrow> db s1 = db s \<longrightarrow> False" if "device_loop sqlite E c a s1 = Some y" for a s1 y
    using that
  proof (induction rule: device_loop_induct)
    have rows: "device_rows E c n (db s) = device_rows E c (seq s) (db s)" for n
      by (rule device_rows_same [OF assms(3)])
    have same: "first_batch E c s1 = first_batch E c s" if "db s1 = db s" for s1
      using that rows [of "seq s1"] by (simp add: first_batch_def)
    have "count_devices E c es 0 = Return (Inr 0)" if "\<forall>e \<in> set es. Deleted e = Some True" for es
      using that by (induction es) (auto simp: not_limit_zero)
    then have count: "count_devices E c (first_batch E c s1) 0 = Return (Inr 0)" if "db s1 = db s" for s1
      using same [OF that] assms(5) by simp
    note round = device_round [OF assms(1,2)]
    {
      case (error a t err t1)
      then show ?case by (auto simp: round)
    next
      case (panic a t more es t1)
      then show ?case using count [of t] by (auto simp: round)
    next
      case (limit a t more es t1)
      then show ?case using count [of t] by (auto simp: round)
    next
      case (last a t es t1 b)
      then show ?case using assms(4) rows [of "seq t"] by (auto simp: round)
    next
      case (again a t es t1 b y)
      then show ?case using count [of t] by (auto simp: round)
    }
  qed
  ultimately show False by blast
qed

text \<open>A device record, and a server whose batches hold one entity.\<close>

definition sample_device :: "string \<Rightarrow> bool \<Rightarrow> int \<Rightarrow> entity_row" where
  "sample_device i del m = row_of_entity ((sample_row i 1 m)\<lparr>DataType := Some 154522, Deleted := Some del\<rparr>)"

definition device_sys :: "entity_row list \<Rightarrow> (SQLiteStore, MemoryRedis) sys" where
  "device_sys rows = \<lparr>db = \<lparr>sync_entities = rows, unique_tags = [], client_item_counts = []\<rparr>,
     kv = NewMemoryRedis, seq = 0\<rparr>"

definition tiny_env :: env where
  "tiny_env = sample_env\<lparr>maxGUBatchSize := 1\<rparr>"

lemma tiny_env_ok: "no_faults tiny_env" "maxGUBatchSize tiny_env = 1"
  using sample_no_faults by (simp_all add: tiny_env_def no_faults_def)

lemma sample_device_rows [simp]:
  "device_rows E ''chain'' n (db (device_sys [sample_device i a 5, sample_device j b 6]))
     = [sample_device i a 5, sample_device j b 6]"
  "device_rows E ''chain'' n (db (device_sys [sample_device i a 5])) = [sample_device i a 5]"
  by (simp_all add: device_rows_def select_updates_def device_sys_def is_update_def sample_device_def
      row_mtime_def deviceInfoTypeID_def boolToInt_def)

lemma sample_device_inv: "store_inv (db (device_sys [sample_device i a 5]))"
  by (simp add: store_inv_def device_sys_def row_ok_def sample_device_def unique_on_def)

lemma device_limit_enforced_witness:
  "\<exists>s'. device_loop sqlite sample_env ''chain'' 0 (device_sys [sample_device ''a'' False 5]) = Some (Return None, s')"
proof -
  have le: "int (length (device_rows sample_env ''chain'' (seq (device_sys [sample_device ''a'' False 5]))
      (db (device_sys [sample_device ''a'' False 5])))) \<le> maxGUBatchSize sample_env" by simp
  show ?thesis
    unfolding device_limit_enforced [OF sample_no_faults sample_device_inv _ le, simplified]
    by (simp add: sample_device_def scan_row_of_entity hasReachedDeviceLimit_def maxActiveDevices_def
        highMaxActiveDevices_def)
qed

lemma device_loop_diverges_witness:
  "device_loop sqlite tiny_env ''chain'' 0 (device_sys [sample_device ''a'' True 5, sample_device ''b'' False 6])
     = None"
proof (rule device_loop_diverges)
  show "devices_lasting (db (device_sys [sample_device ''a'' True 5, sample_device ''b'' False 6]))"
    by (simp add: devices_lasting_def device_sys_def sample_device_def)
qed (simp_all add: tiny_env_ok first_batch_def, simp add: sample_device_def nullBoolToPtr_def boolToInt_def)

text \<open>
  More device records than one batch, and an active device among the first batch:
  the same records are counted again in every round until the count reaches the limit, so
  the device is refused, however few active devices the chain has.
\<close>

theorem device_loop_recounts:
  assumes "no_faults E" and "0 \<le> maxGUBatchSize E" and "store_inv (db s)" and "devices_lasting (db s)"
    and "maxGUBatchSize E < int (length (device_rows E c (seq s) (db s)))"
    and "0 < active_devices (first_batch E c s)"
  shows "\<exists>s'. device_loop sqlite E c 0 s =
    Some (Return (Some (Some SyncEnums_THROTTLED, Some ''exceed limit of active devices in a chain'')), s')"
proof -
  let ?b = "first_batch E c s"
  have rows: "device_rows E c n (db s) = device_rows E c (seq s) (db s)" for n
    by (rule device_rows_same [OF assms(4)])
  have flags: "\<forall>e \<in> set ?b. Deleted e \<noteq> None" by (rule first_batch_flags [OF assms(3)])
  have "\<exists>s'. device_loop sqlite E c a t =
      Some (Return (Some (Some SyncEnums_THROTTLED, Some ''exceed limit of active devices in a chain'')), s')"
    if "db t = db s" and "\<not> hasReachedDeviceLimit E a c" for a and t :: "(SQLiteStore, 'a) sys"
    using that
  proof (induction "nat (100 - a)" arbitrary: a t rule: less_induct)
    case less
    have batch: "first_batch E c t = ?b"
      using less.prems(1) rows [of "seq t"] by (simp add: first_batch_def)
    have round: "on_db (sql_GetUpdatesForType E deviceInfoTypeID 0 False c (maxGUBatchSize E)) t =
        (Inr (True, ?b), t\<lparr>seq := seq t + 3\<rparr>)"
      using device_round [OF assms(1,2), of c t] batch assms(5) less.prems(1) rows [of "seq t"] by simp
    note count = count_devices_value [OF flags less.prems(2)]
    show ?case
    proof (cases "hasReachedDeviceLimit E (a + active_devices ?b) c")
      case True
      then show ?thesis by (subst device_loop.simps) (simp add: round count)
    next
      case False
      have a: "a < 100" using less.prems(2)
        by (auto simp: hasReachedDeviceLimit_def maxActiveDevices_def highMaxActiveDevices_def Let_def
            split: if_splits)
      have "nat (100 - (a + active_devices ?b)) < nat (100 - a)" using assms(6) a by simp
      from less.hyps [OF this _ False, of "t\<lparr>seq := seq t + 3\<rparr>"] less.prems(1) False
      show ?thesis by (subst device_loop.simps) (simp add: round count)
    qed
  qed
  then show ?thesis using not_limit_zero by blast
qed

lemma device_loop_recounts_witness:
  "\<exists>s'. device_loop sqlite tiny_env ''chain'' 0 (device_sys [sample_device ''a'' False 5, sample_device ''b'' True 6]) =
    Some (Return (Some (Some SyncEnums_THROTTLED, Some ''exceed limit of active devices in a chain'')), s')"
proof (rule device_loop_recounts)
  show "devices_lasting (db (device_sys [sample_device ''a'' False 5, sample_device ''b'' True 6]))"
    by (simp add: devices_lasting_def device_sys_def sample_device_def)
  show "store_inv (db (device_sys [sample_device ''a'' False 5, sample_device ''b'' True 6]))"
    by (simp add: store_inv_def device_sys_def row_ok_def sample_device_def unique_on_def entity_key_def)
qed (simp_all add: tiny_env_ok first_batch_def, simp add: sample_device_def nullBoolToPtr_def boolToInt_def)

text \<open>
  C39: When the registration of a device returns, and with what. If the chain's device
  records fit into one batch (500 in the code), the loop returns after one round, and it
  refuses the device exactly when the active (not deleted) records have reached the limit of
  the client. If they do not fit, every round reads the first batch again (from token 0):
  with an active record in it the device is refused however few active devices there are,
  and without one the loop never returns. When it returns, it has written nothing.
\<close>

theorem device_loop_outcome:
  assumes "no_faults E" and "0 \<le> maxGUBatchSize E" and "store_inv (db s)" and "devices_lasting (db s)"
  shows "map_option (apsnd db) (device_loop sqlite E c 0 s) =
    (let rows = device_rows E c (seq s) (db s);
         too_many = maxGUBatchSize E < int (length rows);
         throttled = (Some SyncEnums_THROTTLED, Some ''exceed limit of active devices in a chain'')
     in if too_many \<and> active_devices (first_batch E c s) = 0 then None
        else if too_many \<or> hasReachedDeviceLimit E (active_devices (map scanEntity rows)) c
        then Some (Return (Some throttled), db s)
        else Some (Return None, db s))"
proof (cases "maxGUBatchSize E < int (length (device_rows E c (seq s) (db s)))")
  case False
  with device_limit_enforced [OF assms(1,3,2), of c] show ?thesis by (simp add: Let_def)
next
  case more: True
  show ?thesis
  proof (cases "active_devices (first_batch E c s) = 0")
    case True
    have "Deleted e = Some True" if "e \<in> set (first_batch E c s)" for e
      using that True first_batch_flags [OF assms(3), of E c]
      by (cases "Deleted e") (auto simp: active_devices_def filter_empty_conv)
    then have "\<forall>e \<in> set (first_batch E c s). Deleted e = Some True" by blast
    with device_loop_diverges [OF assms(1,2,4) more] more True show ?thesis by (simp add: Let_def)
  next
    case False
    then have "0 < active_devices (first_batch E c s)"
      by (simp add: active_devices_def)
    from device_loop_recounts [OF assms more this] obtain s' where run: "device_loop sqlite E c 0 s =
        Some (Return (Some (Some SyncEnums_THROTTLED, Some ''exceed limit of active devices in a chain'')), s')" by blast
    have "db s' = db s" by (rule sqlite_contract.device_loop_result(1) [OF run assms(3,2)])
    with run more False show ?thesis by (simp add: Let_def)
  qed
qed

text \<open>Two records and batches of one: the loop diverges, or refuses, by the first record.\<close>

lemma device_loop_outcome_witness:
  "device_loop sqlite tiny_env ''chain'' 0 (device_sys [sample_device ''a'' True 5, sample_device ''b'' False 6])
     = None \<and>
   (\<exists>s'. device_loop sqlite tiny_env ''chain'' 0 (device_sys [sample_device ''a'' False 5, sample_device ''b'' True 6]) =
      Some (Return (Some (Some SyncEnums_THROTTLED, Some ''exceed limit of active devices in a chain'')), s')) \<and>
   (\<exists>s'. device_loop sqlite tiny_env ''chain'' 0 (device_sys [sample_device ''a'' False 5]) = Some (Return None, s'))"
proof -
  have ok: "devices_lasting (db (device_sys [sample_device i a 5, sample_device j b 6]))"
      "devices_lasting (db (device_sys [sample_device i a 5]))" for i a j b
    by (simp_all add: devices_lasting_def device_sys_def sample_device_def)
  have inv: "i \<noteq> j \<Longrightarrow> store_inv (db (device_sys [sample_device i a 5, sample_device j b 6]))" for i a j b
    by (simp add: store_inv_def device_sys_def row_ok_def sample_device_def unique_on_def entity_key_def)
  note outcome = device_loop_outcome [OF tiny_env_ok(1), where c = "''chain''"]
  have active: "active_devices (first_batch tiny_env ''chain'' (device_sys [sample_device i a 5, sample_device j b 6]))
      = (if a then 0 else 1)" for i a j b
    by (simp add: first_batch_def tiny_env_ok) (simp add: sample_device_def nullBoolToPtr_def boolToInt_def)
  have none: "\<not> hasReachedDeviceLimit tiny_env 1 ''chain''"
    by (simp add: hasReachedDeviceLimit_def maxActiveDevices_def highMaxActiveDevices_def Let_def)
  have one: "nullBoolToPtr (c_deleted (sample_device ''a'' False 5)) = Some False"
    by (simp add: sample_device_def nullBoolToPtr_def boolToInt_def)
  note outcomes = outcome [OF _ inv [of "''a''" "''b''" True False] ok(1)]
    outcome [OF _ inv [of "''a''" "''b''" False True] ok(1)]
    outcome [OF _ sample_device_inv [of "''a''" False] ok(2)]
  show ?thesis
    using outcomes by (auto simp: Let_def tiny_env_ok active none one)
qed

subsection \<open>The response\<close>

text \<open>A reply from inside the marker loop is never a success.\<close>

lemma finish_marker_reply:
  "finish_marker rc E c new i t tok again es rsp s = (Return (rsp', Some rep), s') \<Longrightarrow>
     fst rep \<noteq> Some SyncEnums_SUCCESS"
  by (auto simp: finish_marker_def Let_def split: if_splits prod.splits option.splits)

lemma gu_marker_reply:
  "gu_marker ds rc E c new poll ff i m rsp s = (Return (rsp', Some rep), s') \<Longrightarrow>
     fst rep \<noteq> Some SyncEnums_SUCCESS"
  by (auto simp: gu_marker_def Let_def dest: finish_marker_reply
      split: if_splits prod.splits option.splits sum.splits bool.splits)

lemma gu_markers_reply:
  "gu_markers ds rc E c new poll ff i ms rsp s = (Return (rsp', Some rep), s') \<Longrightarrow>
     fst rep \<noteq> Some SyncEnums_SUCCESS"
  by (induction ms arbitrary: i rsp s)
    (auto dest: gu_marker_reply split: prod.splits option.splits outcome.splits)

text \<open>What the handler reads off the message.\<close>

definition poll_of :: "GetUpdatesMessage \<Rightarrow> bool" where
  "poll_of msg \<longleftrightarrow> GetUpdatesOrigin msg = Some SyncEnums_PERIODIC"

definition folders_of :: "GetUpdatesMessage \<Rightarrow> bool" where
  "folders_of msg = (case FetchFolders msg of None \<Rightarrow> True | Some b \<Rightarrow> b)"

context datastore_frame
begin

lemma server_call_inv:
  assumes "InsertServerDefinedUniqueEntities ds E c d n = (r, d', n')"
  shows "inv d \<Longrightarrow> inv d'" and "c' \<noteq> c \<Longrightarrow> view d' c' = view d c'"
proof -
  obtain h d1 n1 where h: "ds_HasServerDefinedUniqueTag ds E c nigoriTag d n = (h, d1, n1)"
    by (metis prod_cases3)
  then have d1: "d1 = d" by (rule has_tag_reads)
  have "(inv d \<longrightarrow> inv d') \<and> (c' \<noteq> c \<longrightarrow> view d' c' = view d c')"
  proof (cases "d' = d")
    case False
    then have "h = Inr False" using assms h d1
      by (auto simp: InsertServerDefinedUniqueEntities_def split: sum.splits if_splits)
    with assms h d1 False obtain es n2 where e: "server_entities E c n1 = (Return (Inr es), n2)"
      by (auto simp: InsertServerDefinedUniqueEntities_def split: outcome.splits prod.splits sum.splits)
    obtain q d2 n3 where ins: "ds_InsertSyncEntitiesWithServerTags ds E es d n2 = (q, d2, n3)"
      by (metis prod_cases3)
    have "d' = d2" using assms h d1 \<open>h = Inr False\<close> e ins
      by (auto simp: InsertServerDefinedUniqueEntities_def split: option.splits)
    then show ?thesis
      using insert_tags_inv [OF ins] insert_tags_frame [OF ins, of c'] server_entities_storable [OF e]
        server_entities_encoded [OF e] by auto
  qed simp
  then show "inv d \<Longrightarrow> inv d'" and "c' \<noteq> c \<Longrightarrow> view d' c' = view d c'" by auto
qed

end

context datastore_contract
begin

lemma admit_inv:
  assumes "admit_new_client ds E c s = Some (r, s')" and "inv (db s)" and "0 \<le> maxGUBatchSize E"
  shows "inv (db s')" and "r = Return (Some rep) \<Longrightarrow> fst rep \<noteq> Some SyncEnums_SUCCESS"
    and "c' \<noteq> c \<Longrightarrow> view (db s') c' = view (db s) c'"
proof -
  from assms(1) obtain r1 s1 where l: "device_loop ds E c 0 s = Some (r1, s1)"
    by (auto simp: admit_new_client_def split: option.splits)
  note res = device_loop_result [OF l assms(2,3)]
  have "inv (db s') \<and> (\<forall>rep. r = Return (Some rep) \<longrightarrow> fst rep \<noteq> Some SyncEnums_SUCCESS) \<and>
      (c' \<noteq> c \<longrightarrow> view (db s') c' = view (db s) c')"
  proof (cases "r1 = Return None")
    case False
    with assms(1) l have "r = r1 \<and> s' = s1"
      by (auto simp: admit_new_client_def split: outcome.splits option.splits)
    with res assms(2) show ?thesis by auto
  next
    case True
    obtain q s2 where q: "on_db (InsertServerDefinedUniqueEntities ds E c) s1 = (q, s2)" by fastforce
    from on_db_db [OF q] obtain n where call: "InsertServerDefinedUniqueEntities ds E c (db s1) (seq s1) = (q, db s2, n)"
      by blast
    have "s' = s2 \<and> (\<forall>rep. r = Return (Some rep) \<longrightarrow> fst rep \<noteq> Some SyncEnums_SUCCESS)"
      using assms(1) l True q
      by (auto simp: admit_new_client_def split: outcome.splits option.splits)
    with server_call_inv [OF call] res(1) assms(2) show ?thesis by auto
  qed
  then show "inv (db s')" and "r = Return (Some rep) \<Longrightarrow> fst rep \<noteq> Some SyncEnums_SUCCESS"
    and "c' \<noteq> c \<Longrightarrow> view (db s') c' = view (db s) c'" by auto
qed

text \<open>The run of a handler that has markers to process.\<close>

lemma handle_markers:
  assumes "handleGetUpdatesRequest ds rc E (Some msg) rsp0 c s = Some (Return (rsp, rep), s')"
    and "fst rep = Some SyncEnums_SUCCESS" and "FromProgressMarker msg = Some ms"
    and "inv (db s)" and "0 \<le> maxGUBatchSize E"
  obtains new s1 where "inv (db s1)"
    "gu_markers ds rc E c new (poll_of msg) (folders_of msg) 0 ms
       (rsp0\<lparr>ChangesRemaining := Some 0, NewProgressMarker := replicate (length ms) None, gur_Entries := []\<rparr>) s1
       = (Return (rsp, None), s')"
proof -
  let ?new = "GetUpdatesOrigin msg = Some SyncEnums_NEW_CLIENT"
  let ?rsp = "rsp0\<lparr>ChangesRemaining := Some 0, NewProgressMarker := replicate (length ms) None, gur_Entries := []\<rparr>"
  from assms(1) obtain r1 s1 where
    a: "(if ?new then admit_new_client ds E c s else Some (Return None, s)) = Some (r1, s1)"
    by (auto simp: handleGetUpdatesRequest_def Let_def split: option.splits)
  have inv: "inv (db s1)" using a assms(4,5) by (auto dest: admit_inv split: if_splits)
  have bad: "r1 = Return (Some rep') \<Longrightarrow> fst rep' \<noteq> Some SyncEnums_SUCCESS" for rep'
    using a assms(4,5) by (auto dest: admit_inv(2) split: if_splits)
  have "r1 = Return None"
  proof (cases r1)
    case Panic
    with assms(1) a show ?thesis by (simp add: handleGetUpdatesRequest_def Let_def)
  next
    case (Return x)
    with assms(1,2) a bad show ?thesis
      by (cases x) (auto simp: handleGetUpdatesRequest_def Let_def)
  qed
  obtain r2 s2 where g: "gu_markers ds rc E c ?new (poll_of msg) (folders_of msg) 0 ms ?rsp s1 = (r2, s2)"
    by fastforce
  note run = assms(1) [unfolded handleGetUpdatesRequest_def Let_def option.case a, simplified \<open>r1 = Return None\<close>]
  have "s2 = s' \<and> (r2 = Return (rsp, None) \<or> r2 = Return (rsp, Some rep))"
    using run g assms(3,5)
    by (auto simp: poll_of_def folders_of_def split: outcome.splits prod.splits option.splits)
  with g assms(2) gu_markers_reply have "r2 = Return (rsp, None)" and "s2 = s'" by blast+
  with that inv g show thesis by blast
qed

end

text \<open>Partners in a pair of related lists.\<close>

lemma list_all2_partner:
  "list_all2 P xs ys \<Longrightarrow> y \<in> set ys \<Longrightarrow> \<exists>x \<in> set xs. P x y"
  "list_all2 P xs ys \<Longrightarrow> x \<in> set xs \<Longrightarrow> \<exists>y \<in> set ys. P x y"
  by (induction rule: list_all2_induct) auto

lemma in_concat_nth: "x \<in> set (concat xss) \<Longrightarrow> \<exists>k < length xss. x \<in> set (xss ! k)"
  by (auto simp: in_set_conv_nth [of _ xss])

text \<open>The rows behind one answered marker.\<close>

lemma batch_rows:
  assumes "sql_GetUpdatesForType E t tok ff c k d n = (Inr (again, es), d', n')" and "0 \<le> k"
  shows "e \<in> set es \<Longrightarrow> \<exists>r \<in> set (sync_entities d). e = scanEntity r \<and> is_update t tok ff c (unix_secs E n) r"
    and "\<not> again \<Longrightarrow> r \<in> set (sync_entities d) \<Longrightarrow> is_update t tok ff c (unix_secs E n) r \<Longrightarrow> scanEntity r \<in> set es"
proof -
  let ?q = "select_updates t tok ff c (unix_secs E n) d"
  have es: "es = map scanEntity (take (nat k) ?q)" and again: "again \<longleftrightarrow> k < int (length ?q)"
    using sql_GetUpdates_Inr [OF assms] by simp_all
  show "\<exists>r \<in> set (sync_entities d). e = scanEntity r \<and> is_update t tok ff c (unix_secs E n) r" if "e \<in> set es"
    using that in_set_takeD [of _ "nat k" ?q] by (auto simp: es select_updates_set)
  show "scanEntity r \<in> set es"
    if "\<not> again" "r \<in> set (sync_entities d)" "is_update t tok ff c (unix_secs E n) r"
    using that assms(2) by (auto simp: es again select_updates_set)
qed

text \<open>
  The markers of a successful answer on the SQLite store, with the entries sent for each.
\<close>

lemma answered_markers:
  assumes "handleGetUpdatesRequest sqlite rc E (Some msg) rsp0 c s = Some (Return (rsp, rep), s')"
    and "fst rep = Some SyncEnums_SUCCESS" and "FromProgressMarker msg = Some ms"
    and "store_inv (db s)" and "0 \<le> maxGUBatchSize E"
  obtains ms' fss where "length ms' = length ms" "length fss = length ms"
    "gur_Entries rsp = concat fss" "NewProgressMarker rsp = map Some ms'"
    "\<And>k. k < length ms \<Longrightarrow> marker_result sqlite E c (poll_of msg) (folders_of msg) (db s')
       (maxGUBatchSize E \<le> int (length (gur_Entries rsp))) (ChangesRemaining rsp) (ms ! k) (ms' ! k) (fss ! k)"
proof -
  obtain new s1 where inv: "store_inv (db s1)" and
    g: "gu_markers sqlite rc E c new (poll_of msg) (folders_of msg) 0 ms
       (rsp0\<lparr>ChangesRemaining := Some 0, NewProgressMarker := replicate (length ms) None, gur_Entries := []\<rparr>) s1
       = (Return (rsp, None), s')" (is "gu_markers _ _ _ _ _ _ _ _ _ ?rsp _ = _")
    by (rule sqlite_contract.handle_markers [OF assms])
  have db: "db s' = db s1" by (rule sqlite_contract.gu_markers_db [OF g]) simp
  have "gu_markers sqlite rc E c new (poll_of msg) (folders_of msg) (length []) ms ?rsp s1 = (Return (rsp, None), s')"
    using g by simp
  from sqlite_contract.gu_markers_ok [OF this _ inv] assms(5) that db show thesis by auto
qed

lemma marker_entries:
  assumes "marker_result sqlite E c poll ff d full rem m m' fs" and "f \<in> set fs"
  shows "\<exists>r t mt. r \<in> set (sync_entities d) \<and> c_client_id r = c \<and> DataTypeId m = Some t \<and> c_data_type r = Some t \<and>
    c_mtime r = Some mt \<and> fst (varint (start_token m)) < mt \<and> CreatePBSyncEntity E (scanEntity r) = Inr f"
proof -
  from assms obtain t k n n' again es where t: "DataTypeId m = Some t" "0 < k"
    and q: "sql_GetUpdatesForType E t (fst (varint (start_token m))) ff c k d n = (Inr (again, es), d, n')"
    and l: "list_all2 (\<lambda>e f. CreatePBSyncEntity E e = Inr f) es fs"
    by (auto simp: marker_result_def)
  obtain e where e: "e \<in> set es" "CreatePBSyncEntity E e = Inr f"
    using list_all2_partner(1) [OF l assms(2)] by blast
  obtain r where r: "r \<in> set (sync_entities d)" "e = scanEntity r"
      "is_update t (fst (varint (start_token m))) ff c (unix_secs E n) r"
    using batch_rows(1) [OF q _ e(1)] t(2) by auto
  then obtain mt where "c_mtime r = Some mt" "fst (varint (start_token m)) < mt"
    by (auto simp: is_update_def split: option.splits)
  with r e(2) t(1) show ?thesis
    by (intro exI [of _ r] exI [of _ t] exI [of _ mt]) (simp add: is_update_def)
qed

text \<open>
  C9: Soundness of a download: every entry of a successful response is the conversion of
  a row of the requesting client's own chain, of a data type the device asked for, and
  modified after the token the device sent for that type.
\<close>

theorem response_sound:
  assumes "handleGetUpdatesRequest sqlite rc E (Some msg) rsp0 c s = Some (Return (rsp, rep), s')"
    and "fst rep = Some SyncEnums_SUCCESS" and "FromProgressMarker msg = Some ms"
    and "store_inv (db s)" and "0 \<le> maxGUBatchSize E" and "f \<in> set (gur_Entries rsp)"
  shows "\<exists>m r t mt. m \<in> set ms \<and> DataTypeId m = Some t \<and> r \<in> set (sync_entities (db s')) \<and>
    c_client_id r = c \<and> c_data_type r = Some t \<and> c_mtime r = Some mt \<and>
    fst (varint (start_token m)) < mt \<and> CreatePBSyncEntity E (scanEntity r) = Inr f"
proof (rule answered_markers [OF assms(1-5)])
  fix ms' fss
  assume len: "length fss = length ms" and ents: "gur_Entries rsp = concat fss"
    and res: "\<And>k. k < length ms \<Longrightarrow> marker_result sqlite E c (poll_of msg) (folders_of msg) (db s')
       (maxGUBatchSize E \<le> int (length (gur_Entries rsp))) (ChangesRemaining rsp) (ms ! k) (ms' ! k) (fss ! k)"
  obtain k where k: "k < length ms" "f \<in> set (fss ! k)"
    using in_concat_nth assms(6) ents len by metis
  then show ?thesis using marker_entries [OF res [OF k(1)] k(2)] nth_mem [OF k(1)] by blast
qed

text \<open>Every row of a type that was asked for, when nothing remains and there is room.\<close>

lemma download_complete:
  assumes "handleGetUpdatesRequest sqlite rc E (Some msg) rsp0 c s = Some (Return (rsp, rep), s')"
    and "fst rep = Some SyncEnums_SUCCESS" and "FromProgressMarker msg = Some ms"
    and "store_inv (db s)" and "0 \<le> maxGUBatchSize E"
    and "ChangesRemaining rsp = Some 0" and "int (length (gur_Entries rsp)) < maxGUBatchSize E"
    and "GetUpdatesOrigin msg \<noteq> Some SyncEnums_PERIODIC"
    and "m \<in> set ms" and "DataTypeId m = Some t" and "r \<in> set (sync_entities (db s'))"
    and "c_client_id r = c" and "c_data_type r = Some t" and "c_mtime r = Some mt"
    and "fst (varint (start_token m)) < mt" and "c_expiration_time r = None"
    and "FetchFolders msg = Some False \<longrightarrow> c_folder r = Some 0"
  shows "\<exists>f \<in> set (gur_Entries rsp). CreatePBSyncEntity E (scanEntity r) = Inr f"
proof (rule answered_markers [OF assms(1-5)])
  fix ms' fss
  assume len: "length fss = length ms" and ents: "gur_Entries rsp = concat fss"
    and res: "\<And>k. k < length ms \<Longrightarrow> marker_result sqlite E c (poll_of msg) (folders_of msg) (db s')
       (maxGUBatchSize E \<le> int (length (gur_Entries rsp))) (ChangesRemaining rsp) (ms ! k) (ms' ! k) (fss ! k)"
  obtain k where k: "k < length ms" "m = ms ! k" using assms(9) by (metis in_set_conv_nth)
  have "\<not> poll_of msg" using assms(8) by (simp add: poll_of_def)
  with res [OF k(1)] assms(6,7,10) k(2) obtain b n n' again es where "0 < b"
    and q: "sql_GetUpdatesForType E t (fst (varint (start_token m))) (folders_of msg) c b (db s') n
      = (Inr (again, es), db s', n')"
    and l: "list_all2 (\<lambda>e f. CreatePBSyncEntity E e = Inr f) es (fss ! k)" and "\<not> again"
    by (auto simp: marker_result_def)
  have "is_update t (fst (varint (start_token m))) (folders_of msg) c (unix_secs E n) r"
    using assms(12-17) by (auto simp: is_update_def folders_of_def split: option.splits)
  then have "scanEntity r \<in> set es" using batch_rows(2) [OF q] \<open>0 < b\<close> \<open>\<not> again\<close> assms(11) by simp
  then obtain f where f: "f \<in> set (fss ! k)" "CreatePBSyncEntity E (scanEntity r) = Inr f"
    using list_all2_partner(2) [OF l] by blast
  moreover have "fss ! k \<in> set fss" using k(1) len by simp
  ultimately show ?thesis unfolding ents set_concat by blast
qed

text \<open>
  C8: Completeness of a download: when a successful response to a request that is not a
  poll says that nothing remains and is not full, then for every type the device asked for
  it holds every row of the chain modified after the device's token (except folders when
  they were not wanted, and expiring entities).
\<close>

theorem response_complete:
  assumes "handleGetUpdatesRequest sqlite rc E (Some msg) rsp0 c s = Some (Return (rsp, rep), s')"
    and "fst rep = Some SyncEnums_SUCCESS" and "FromProgressMarker msg = Some ms"
    and "store_inv (db s)" and "0 \<le> maxGUBatchSize E"
    and "ChangesRemaining rsp = Some 0" and "int (length (gur_Entries rsp)) < maxGUBatchSize E"
    and "GetUpdatesOrigin msg \<noteq> Some SyncEnums_PERIODIC"
    and "m \<in> set ms" and "DataTypeId m = Some t" and "r \<in> set (sync_entities (db s'))"
    and "c_client_id r = c" and "c_data_type r = Some t" and "c_mtime r = Some mt"
    and "fst (varint (start_token m)) < mt" and "c_expiration_time r = None"
    and "FetchFolders msg = Some False \<longrightarrow> c_folder r = Some 0"
  shows "\<exists>f \<in> set (gur_Entries rsp). CreatePBSyncEntity E (scanEntity r) = Inr f"
  by (rule download_complete [OF assms])

text \<open>A download by a device that has nothing yet, from a chain with two bookmarks.\<close>

definition sample_marker :: "int \<Rightarrow> DataTypeProgressMarker" where
  "sample_marker t = \<lparr>DataTypeId = Some t, Token = None, GetUpdateTriggers = None, GcDirective = None\<rparr>"

definition sample_gu :: "int list \<Rightarrow> GetUpdatesMessage" where
  "sample_gu ts = \<lparr>CallerInfo = None, FetchFolders = None, FromProgressMarker = Some (map sample_marker ts),
     Streaming = None, NeedEncryptionKey = None, GetUpdatesOrigin = Some SyncEnums_GU_TRIGGER,
     IsRetry = None, gum_ClientContexts = []\<rparr>"

definition bookmarks_sys :: "(SQLiteStore, MemoryRedis) sys" where
  "bookmarks_sys = \<lparr>db = two_bookmarks, kv = NewMemoryRedis, seq = 0\<rparr>"

lemma two_bookmarks_inv: "store_inv (db bookmarks_sys)"
  by (simp add: store_inv_def bookmarks_sys_def two_bookmarks_def row_ok_def unique_on_def entity_key_def)

lemma start_token_sample [simp]:
  "start_token (sample_marker t) = put_token 0" "DataTypeId (sample_marker t) = Some t"
  "marker_token (sample_marker t) = []"
  by (simp_all add: start_token_def sample_marker_def marker_token_def)

lemma bookmarks_query:
  "sql_GetUpdatesForType sample_env 32904 0 True ''chain'' 500 two_bookmarks n
     = (Inr (False, [sample_row ''b'' 4 5, sample_row ''a'' 3 6]), two_bookmarks, n + 3)"
  by (simp add: sql_GetUpdatesForType_def select_updates_def two_bookmarks_def is_update_def row_mtime_def
      scan_row_of_entity numeral_3_eq_3)

lemma varint_zero_token [simp]: "varint (put_token 0) = (0, int (length (put_varint 0)))"
  by (rule varint_put_token) (simp add: in_int64_def)

lemma sample_download:
  "\<exists>rsp s'. handleGetUpdatesRequest sqlite memory_redis sample_env (Some (sample_gu [32904])) empty_GetUpdatesResponse
     ''chain'' bookmarks_sys = Some (Return (rsp, (Some SyncEnums_SUCCESS, None)), s') \<and>
   length (gur_Entries rsp) = 2 \<and> ChangesRemaining rsp = Some 0 \<and> db s' = two_bookmarks"
  using length_put_varint(2) [of 0]
  by (simp add: handleGetUpdatesRequest_def sample_gu_def Let_def gu_marker_def start_marker_def
      nigoriTypeID_def bookmarks_sys_def empty_GetUpdatesResponse_def on_db_def bookmarks_query
      finish_marker_def CreatePBSyncEntity_def sample_row_def set_marker_token_def
      marker_token_def [of "\<lparr>DataTypeId = _, Token = _, GetUpdateTriggers = _, GcDirective = _\<rparr>"]
      on_kv_def SetTypeMtime_def mem_Set_def cache_ttl_def)

lemma sample_gu_simps [simp]:
  "FromProgressMarker (sample_gu ts) = Some (map sample_marker ts)"
  "GetUpdatesOrigin (sample_gu ts) = Some SyncEnums_GU_TRIGGER" "FetchFolders (sample_gu ts) = None"
  by (simp_all add: sample_gu_def)

lemma response_sound_witness:
  "\<exists>rsp s'. handleGetUpdatesRequest sqlite memory_redis sample_env (Some (sample_gu [32904])) empty_GetUpdatesResponse
     ''chain'' bookmarks_sys = Some (Return (rsp, (Some SyncEnums_SUCCESS, None)), s') \<and>
   (\<exists>r \<in> set (sync_entities (db s')). CreatePBSyncEntity sample_env (scanEntity r) = Inr (hd (gur_Entries rsp)))"
proof -
  obtain rsp s' where run: "handleGetUpdatesRequest sqlite memory_redis sample_env (Some (sample_gu [32904]))
      empty_GetUpdatesResponse ''chain'' bookmarks_sys = Some (Return (rsp, (Some SyncEnums_SUCCESS, None)), s')"
    and len: "length (gur_Entries rsp) = 2" using sample_download by blast
  have "hd (gur_Entries rsp) \<in> set (gur_Entries rsp)" using len by (intro hd_in_set) auto
  from response_sound [OF run _ _ two_bookmarks_inv _ this] run show ?thesis by auto
qed

lemma response_complete_witness:
  "\<exists>rsp s'. handleGetUpdatesRequest sqlite memory_redis sample_env (Some (sample_gu [32904])) empty_GetUpdatesResponse
     ''chain'' bookmarks_sys = Some (Return (rsp, (Some SyncEnums_SUCCESS, None)), s') \<and>
   (\<exists>f \<in> set (gur_Entries rsp). CreatePBSyncEntity sample_env (sample_row ''a'' 3 6) = Inr f)"
proof -
  obtain rsp s' where run: "handleGetUpdatesRequest sqlite memory_redis sample_env (Some (sample_gu [32904]))
      empty_GetUpdatesResponse ''chain'' bookmarks_sys = Some (Return (rsp, (Some SyncEnums_SUCCESS, None)), s')"
    and rest: "length (gur_Entries rsp) = 2" "ChangesRemaining rsp = Some 0" "db s' = two_bookmarks"
    using sample_download by blast
  have "\<exists>f \<in> set (gur_Entries rsp). CreatePBSyncEntity sample_env (scanEntity (row_of_entity (sample_row ''a'' 3 6))) = Inr f"
    by (rule response_complete [where ms = "[sample_marker 32904]" and m = "sample_marker 32904" and t = 32904 and mt = 6, OF run _ _ two_bookmarks_inv _ rest(2)])
      (simp_all add: rest two_bookmarks_def)
  then show ?thesis using run by (simp add: scan_row_of_entity)
qed

text \<open>
  C34: Bounds and safety of a download: on a well-formed store, when every marker names
  its data type, a request that is not from a new client always returns, without a panic;
  whatever the reply, the response holds at most one batch of entities and one marker for
  each marker of the request, and the data store is unchanged.
\<close>

theorem response_bounded:
  assumes "store_inv (db s)" and "0 \<le> maxGUBatchSize E" and "FromProgressMarker msg = Some ms"
    and "\<forall>m \<in> set ms. DataTypeId m \<noteq> None" and "GetUpdatesOrigin msg \<noteq> Some SyncEnums_NEW_CLIENT"
  shows "\<exists>rsp rep s'. handleGetUpdatesRequest sqlite rc E (Some msg) rsp0 c s = Some (Return (rsp, rep), s') \<and>
    int (length (gur_Entries rsp)) \<le> maxGUBatchSize E \<and> length (NewProgressMarker rsp) = length ms \<and>
    db s' = db s"
proof -
  let ?rsp = "rsp0\<lparr>ChangesRemaining := Some 0, NewProgressMarker := replicate (length ms) None, gur_Entries := []\<rparr>"
  obtain r s' where g: "gu_markers sqlite rc E c False (poll_of msg) (folders_of msg) 0 ms ?rsp s = (r, s')"
    by fastforce
  have "r \<noteq> Panic"
    by (rule sqlite_contract.gu_markers_no_panic [OF g assms(4)]) (simp_all add: assms(1))
  then obtain rsp rep where r: "r = Return (rsp, rep)" by (cases r) auto
  have b: "int (length (gur_Entries rsp)) \<le> maxGUBatchSize E \<and> length (NewProgressMarker rsp) = length ms"
    using sqlite_contract.gu_markers_bound [OF g [unfolded r]] assms(2) by simp
  have db: "db s' = db s" by (rule sqlite_contract.gu_markers_db [OF g]) simp
  have "\<exists>rep'. handleGetUpdatesRequest sqlite rc E (Some msg) rsp0 c s = Some (Return (rsp, rep'), s')"
    using assms(2,3,5) g [unfolded r]
    by (cases rep) (simp_all add: handleGetUpdatesRequest_def Let_def poll_of_def folders_of_def)
  with b db show ?thesis by blast
qed

lemma response_bounded_witness:
  "\<exists>rsp rep s'. handleGetUpdatesRequest sqlite memory_redis tiny_env (Some (sample_gu [32904, 45873]))
     empty_GetUpdatesResponse ''chain'' bookmarks_sys = Some (Return (rsp, rep), s') \<and>
   int (length (gur_Entries rsp)) \<le> 1 \<and> length (NewProgressMarker rsp) = 2"
  using response_bounded [OF two_bookmarks_inv, where E = tiny_env and msg = "sample_gu [32904, 45873]"
      and ms = "map sample_marker [32904, 45873]" and rc = memory_redis and c = "''chain''"
      and ?rsp0.0 = empty_GetUpdatesResponse]
  by (auto simp: tiny_env_ok)

text \<open>A chain with one bookmark and one password.\<close>

definition mixed_sys :: "(SQLiteStore, MemoryRedis) sys" where
  "mixed_sys = \<lparr>db = \<lparr>sync_entities = [row_of_entity (sample_row ''a'' 3 5),
       row_of_entity ((sample_row ''p'' 4 6)\<lparr>DataType := Some 45873\<rparr>)], unique_tags = [], client_item_counts = []\<rparr>,
     kv = NewMemoryRedis, seq = 0\<rparr>"

lemma mixed_query:
  "sql_GetUpdatesForType tiny_env 32904 0 True ''chain'' 1 (db mixed_sys) n
     = (Inr (False, [sample_row ''a'' 3 5]), db mixed_sys, n + 3)"
  by (simp add: sql_GetUpdatesForType_def select_updates_def mixed_sys_def is_update_def row_mtime_def
      scan_row_of_entity numeral_3_eq_3 tiny_env_def)

text \<open>
  A full response hides the rest: a chain with one bookmark and one password, and a
  batch of one entity. The bookmark fills the response, so passwords are not queried, and
  yet the response says that nothing remains; the device is not told to ask again.
\<close>

theorem full_response_hides_types:
  "\<exists>rsp s'. handleGetUpdatesRequest sqlite memory_redis tiny_env (Some (sample_gu [32904, 45873]))
       empty_GetUpdatesResponse ''chain'' mixed_sys = Some (Return (rsp, (Some SyncEnums_SUCCESS, None)), s') \<and>
     ChangesRemaining rsp = Some 0 \<and> map pb_IdString (gur_Entries rsp) = [Some ''a''] \<and>
     fst (sql_GetUpdatesForType tiny_env 45873 0 True ''chain'' 1 (db s') 0)
       = Inr (False, [(sample_row ''p'' 4 6)\<lparr>DataType := Some 45873\<rparr>])"
  using length_put_varint(2) [of 0] mixed_query
  by (simp add: handleGetUpdatesRequest_def sample_gu_def Let_def gu_marker_def start_marker_def
      nigoriTypeID_def mixed_sys_def empty_GetUpdatesResponse_def on_db_def tiny_env_def
      finish_marker_def CreatePBSyncEntity_def sample_row_def set_marker_token_def empty_PbSyncEntity_def
      marker_token_def [of "\<lparr>DataTypeId = _, Token = _, GetUpdateTriggers = _, GcDirective = _\<rparr>"]
      on_kv_def SetTypeMtime_def mem_Set_def cache_ttl_def sql_GetUpdatesForType_def select_updates_def
      is_update_def row_mtime_def scan_row_of_entity)

end
