(* ===== verification/Command_Correct.thy ===== *)
theory Command_Correct
  imports Command Commit_Correct Get_Updates_Props
begin

section \<open>What a request does\<close>

text \<open>
  For any data store whose operations are \<open>R\<close>-steps: each kind of request is one, whatever
  it answers and wherever it stops. With the frame contract, it keeps the store's invariant
  and changes the data of its own client only; and a disabled chain stays disabled.
\<close>

subsection \<open>The steps of a request\<close>

context datastore_steps
begin

lemma updates_steps: "on_db (ds_GetUpdatesForType ds E t tok ff c m) s = (q, s1) \<Longrightarrow> R (db s) (db s1)"
  using on_db_db get_updates_step by metis

lemma device_loop_steps: "device_loop ds E c a s = Some y \<Longrightarrow> R (db s) (db (snd y))"
proof (induction rule: device_loop_induct)
  case (again a s es s1 b y)
  then show ?case using updates_steps step_trans by metis
qed (auto dest: updates_steps)

lemma server_call_steps:
  assumes "InsertServerDefinedUniqueEntities ds E c d n = (r, d', n')"
  shows "R d d'"
proof -
  obtain h d1 n1 where h: "ds_HasServerDefinedUniqueTag ds E c nigoriTag d n = (h, d1, n1)" by (metis prod_cases3)
  have d1: "R d d1" by (rule has_tag_step [OF h])
  obtain o1 n2 where e: "server_entities E c n1 = (o1, n2)" by fastforce
  have ins: "R d1 d2" if "o1 = Return (Inr es)"
    "ds_InsertSyncEntitiesWithServerTags ds E es d1 n2 = (q, d2, n3)" for es q d2 n3
    using server_entities_storable [OF e [unfolded that(1)]] server_entities_encoded [OF e [unfolded that(1)]]
      insert_tags_step [OF that(2)] by blast
  consider "d' = d1" | es q where "o1 = Return (Inr es)"
      "ds_InsertSyncEntitiesWithServerTags ds E es d1 n2 = (q, d', n')"
    using assms h e
    by (auto simp: InsertServerDefinedUniqueEntities_def split: sum.splits if_splits outcome.splits
        option.splits prod.splits)
  then show ?thesis by cases (use ins d1 step_trans in blast)+
qed

lemma admit_steps:
  assumes "admit_new_client ds E c s = Some (r, s')"
  shows "R (db s) (db s')"
proof -
  obtain r1 s1 where l: "device_loop ds E c 0 s = Some (r1, s1)"
    using assms by (auto simp: admit_new_client_def split: option.splits)
  have k1: "R (db s) (db s1)" using device_loop_steps [OF l] by simp
  obtain r2 s2 where i: "on_db (InsertServerDefinedUniqueEntities ds E c) s1 = (r2, s2)" by fastforce
  have k2: "R (db s1) (db s2)" using on_db_db [OF i] server_call_steps by blast
  have "s' = s1 \<or> s' = s2"
    using assms l i by (auto simp: admit_new_client_def split: outcome.splits option.splits)
  then show ?thesis using k1 k2 step_trans by blast
qed

lemma gu_marker_steps:
  assumes "gu_marker ds rc E c new poll ff i m rsp s = (r, s')"
  shows "R (db s) (db s')"
proof (cases "DataTypeId m")
  case None
  with assms show ?thesis using step_refl by (simp add: gu_marker_def)
next
  case (Some t)
  let ?rsp = "start_marker new i m t rsp"
  obtain tok w where v: "varint (case NewProgressMarker ?rsp ! i of None \<Rightarrow> [] | Some x \<Rightarrow> marker_token x) = (tok, w)"
    by fastforce
  obtain b s1 where poll: "(if poll then on_kv (IsTypeMtimeUpdated rc E c t tok) s else (True, s)) = (b, s1)"
    by fastforce
  have db1: "db s1 = db s" using poll on_kv_db by (auto split: if_splits)
  let ?read = "ds_GetUpdatesForType ds E t tok ff c (maxGUBatchSize E - int (length (gur_Entries ?rsp)))"
  obtain q s2 where read: "on_db ?read s1 = (q, s2)" by fastforce
  have k: "R (db s) (db s2)" using updates_steps [OF read] db1 by simp
  have "db s' = db s1 \<or> db s' = db s2"
  proof (cases q)
    case (Inl err)
    with assms Some v poll read db1 show ?thesis
      by (auto simp: gu_marker_def Let_def split: if_splits bool.splits)
  next
    case (Inr x)
    obtain again es where "x = (again, es)" by fastforce
    with Inr assms Some v poll read db1 show ?thesis
      by (auto simp: gu_marker_def Let_def dest: finish_marker_db split: if_splits bool.splits)
  qed
  with k db1 show ?thesis using step_refl by auto
qed

lemma gu_markers_steps:
  "gu_markers ds rc E c new poll ff i ms rsp s = (r, s') \<Longrightarrow> R (db s) (db s')"
proof (induction ms arbitrary: i rsp s)
  case Nil
  then show ?case using step_refl by simp
next
  case (Cons m ms)
  obtain r1 s1 where g: "gu_marker ds rc E c new poll ff i m rsp s = (r1, s1)" by fastforce
  note k = gu_marker_steps [OF g]
  show ?case
  proof (cases "\<exists>rsp1. r1 = Return (rsp1, None)")
    case True
    then obtain rsp1 where "r1 = Return (rsp1, None)" ..
    with Cons.prems g have "gu_markers ds rc E c new poll ff (Suc i) ms rsp1 s1 = (r, s')" by simp
    from Cons.IH [OF this] k show ?thesis using step_trans by blast
  next
    case False
    with Cons.prems g have "s' = s1" by (auto split: outcome.splits prod.splits option.splits)
    with k show ?thesis by simp
  qed
qed

lemma handleGetUpdates_steps:
  assumes "handleGetUpdatesRequest ds rc E guMsg guRsp c s = Some (r, s')"
  shows "R (db s) (db s')"
proof (cases guMsg)
  case None
  with assms show ?thesis using step_refl by (simp add: handleGetUpdatesRequest_def)
next
  case (Some msg)
  let ?admit = "if GetUpdatesOrigin msg = Some SyncEnums_NEW_CLIENT then admit_new_client ds E c s
    else Some (Return None, s)"
  obtain r1 s1 where a: "?admit = Some (r1, s1)"
    using assms Some by (auto simp: handleGetUpdatesRequest_def Let_def split: option.splits if_splits)
  have k1: "R (db s) (db s1)" using a admit_steps step_refl by (auto split: if_splits)
  show ?thesis
  proof (cases "r1 = Return None \<and> (\<exists>ms. FromProgressMarker msg = Some ms) \<and> \<not> maxGUBatchSize E < 0")
    case False
    then have "s' = s1" using assms Some a
      by (auto simp: handleGetUpdatesRequest_def Let_def split: option.splits outcome.splits if_splits)
    with k1 show ?thesis by simp
  next
    case True
    then obtain ms where ms: "FromProgressMarker msg = Some ms" "r1 = Return None" "\<not> maxGUBatchSize E < 0" by blast
    obtain r2 s2 where g: "gu_markers ds rc E c (GetUpdatesOrigin msg = Some SyncEnums_NEW_CLIENT)
        (GetUpdatesOrigin msg = Some SyncEnums_PERIODIC) (case FetchFolders msg of None \<Rightarrow> True | Some b \<Rightarrow> b) 0 ms
        ((guRsp\<lparr>ChangesRemaining := Some 0\<rparr>)\<lparr>NewProgressMarker := replicate (length ms) None, gur_Entries := []\<rparr>) s1
        = (r2, s2)" by fastforce
    have "s' = s2" using assms Some a ms g
      by (auto simp: handleGetUpdatesRequest_def Let_def split: outcome.splits option.splits prod.splits)
    with gu_markers_steps [OF g] k1 show ?thesis using step_trans by blast
  qed
qed

lemma clear_request_steps:
  assumes "handleClearServerDataRequest ds rc E c s = (rep, s')"
  shows "R (db s) (db s')"
proof -
  obtain q1 s1 where 1: "on_db (ds_DisableSyncChain ds E c) s = (q1, s1)" by fastforce
  have k1: "R (db s) (db s1)" using on_db_db [OF 1] disable_step by metis
  obtain q2 s2 where 2: "on_db (ds_ClearServerData ds E c) s1 = (q2, s2)" by fastforce
  have k2: "R (db s1) (db s2)" using on_db_db [OF 2] clear_step by metis
  obtain q3 s3 where 3: "on_kv (rc_Del rc E (type_mtime_keys (projr q2))) s2 = (q3, s3)" by fastforce
  have "s' = s1 \<or> s' = s2 \<or> s' = s3"
    using assms 1 2 3
    by (cases q1; cases q2) (auto simp: handleClearServerDataRequest_def Let_def split: if_splits option.splits)
  then show ?thesis using k1 step_trans [OF k1 k2] on_kv_db [OF 3] by auto
qed

lemma request_steps:
  assumes "HandleClientToServerMessage ds rc E pb rsp c s = Some (res, s')"
  shows "R (db s) (db s')"
proof -
  consider "s' = s"
    | r where "handleGetUpdatesRequest ds rc E (csm_GetUpdates pb) empty_GetUpdatesResponse c s = Some (r, s')"
    | r where "handleCommitRequest ds rc E (csm_Commit pb) \<lparr>Entryresponse = []\<rparr> c s = (r, s')"
    | r where "handleClearServerDataRequest ds rc E c s = (r, s')"
    using assms
    by (auto simp: HandleClientToServerMessage_def Let_def
        split: option.splits ClientToServerMessage_Contents.splits prod.splits outcome.splits)
  then show ?thesis
    by cases (auto intro: step_refl handleGetUpdates_steps handleCommit_steps clear_request_steps)
qed

end

context datastore_frame
begin

lemmas handleGetUpdates_keeps = steps.handleGetUpdates_steps
lemmas request_keeps = steps.request_steps

end

subsection \<open>Reading updates\<close>

text \<open>A store whose reads leave it alone: other origins than \<open>NEW_CLIENT\<close> write nothing.\<close>

context datastore_contract
begin

lemma handleGetUpdates_reads:
  assumes "handleGetUpdatesRequest ds rc E (Some msg) guRsp c s = Some (r, s')"
    and "GetUpdatesOrigin msg \<noteq> Some SyncEnums_NEW_CLIENT"
  shows "db s' = db s"
proof (cases "(\<exists>ms. FromProgressMarker msg = Some ms) \<and> \<not> maxGUBatchSize E < 0")
  case False
  with assms show ?thesis
    by (auto simp: handleGetUpdatesRequest_def Let_def split: option.splits if_splits)
next
  case True
  then obtain ms where ms: "FromProgressMarker msg = Some ms" "\<not> maxGUBatchSize E < 0" by blast
  obtain r2 s2 where g: "gu_markers ds rc E c False (GetUpdatesOrigin msg = Some SyncEnums_PERIODIC)
      (case FetchFolders msg of None \<Rightarrow> True | Some b \<Rightarrow> b) 0 ms
      ((guRsp\<lparr>ChangesRemaining := Some 0\<rparr>)\<lparr>NewProgressMarker := replicate (length ms) None, gur_Entries := []\<rparr>) s
      = (r2, s2)" by fastforce
  have "s' = s2" using assms ms g
    by (auto simp: handleGetUpdatesRequest_def Let_def split: outcome.splits option.splits prod.splits)
  then show ?thesis using gu_markers_db [OF g] by simp
qed

end

subsection \<open>Disabled chains\<close>

text \<open>
  A store that satisfies both parts of the contract satisfies the first with the invariant
  that a given chain is disabled, so every request keeps it.
\<close>

locale datastore_full = datastore_contract + datastore_disable
begin

lemma disabled_contract: "datastore_contract ds E (\<lambda>d. inv d \<and> disabled d x) view"
proof (unfold_locales, goal_cases)
  case (19 t tok ff cl m d n again es d' n')
  then show ?case using updates_batch by blast
qed (auto dest: insert_inv insert_frame insert_tags_inv insert_tags_frame update_inv update_frame counts_inv
    counts_frame clear_inv clear_frame disable_inv disable_frame get_updates_reads has_tag_reads get_counts_reads
    get_counts_client is_disabled_reads has_item_reads disable_keeps insert_keeps insert_tags_keeps update_keeps
    counts_keeps clear_keeps)

lemma request_disabled:
  assumes "HandleClientToServerMessage ds rc E pb rsp c s = Some (res, s')"
    and "inv (db s)" and "disabled (db s) x"
  shows "disabled (db s') x"
proof -
  have "datastore_frame.keeps (\<lambda>d. inv d \<and> disabled d x) view c (db s) (db s')"
    by (rule datastore_frame.request_keeps [OF datastore_contract.axioms(1) [OF disabled_contract] assms(1)])
  then show ?thesis
    using assms(2,3) datastore_frame.keeps_def [OF datastore_contract.axioms(1) [OF disabled_contract]] by simp
qed

end

interpretation sqlite_full: datastore_full sqlite E store_inv client_view chain_disabled for E
  by unfold_locales

end
