(* ===== verification/Commit_Quota.thy ===== *)
theory Commit_Quota
  imports Commit_Correct Sample_Env
begin

section \<open>The quota of a commit\<close>

text \<open>
  With the in-memory cache, for any data store: the counters that the loop carries agree
  with the interim counters in the cache, and a commit never counts items beyond the
  quota. Interim counters are written by \<open>Incr\<close> only, so they have no expiry.
\<close>

definition interim_is :: "MemoryRedis \<Rightarrow> string \<Rightarrow> int \<Rightarrow> bool" where
  "interim_is m key n \<longleftrightarrow>
     (case mr_kv m key of
        None \<Rightarrow> n = 0
      | Some v \<Rightarrow> \<not> hasExpiry v \<and> atoi (mv_value v) = Inr n)"

definition in_step :: "string \<Rightarrow> commit_loop \<Rightarrow> MemoryRedis \<Rightarrow> bool" where
  "in_step c l m \<longleftrightarrow>
     interim_is m (GetInterimCountKey c normalCountTypeStr) (newNormalCount l) \<and>
     interim_is m (GetInterimCountKey c historyCountTypeStr) (newHistoryCount l)"

text \<open>Room for \<open>k\<close> more steps before a 64-bit counter could wrap around.\<close>

definition roomy :: "nat \<Rightarrow> commit_loop \<Rightarrow> bool" where
  "roomy k l \<longleftrightarrow> in_int64 (newNormalCount l - int k) \<and> in_int64 (newNormalCount l + int k) \<and>
     in_int64 (newHistoryCount l - int k) \<and> in_int64 (newHistoryCount l + int k)"

definition counted_total :: "commit_quota \<Rightarrow> commit_loop \<Rightarrow> int" where
  "counted_total q l = currentNormalItemCount q + currentHistoryItemCount q + newNormalCount l + newHistoryCount l"

definition quota_limit :: "env \<Rightarrow> commit_quota \<Rightarrow> int" where
  "quota_limit E q = maxClientObjectQuota E + boostedQuotaAddition q"

lemma interim_keys: "GetInterimCountKey c normalCountTypeStr \<noteq> GetInterimCountKey c historyCountTypeStr"
  by (simp add: GetInterimCountKey_def normalCountTypeStr_def historyCountTypeStr_def)

lemma mem_Incr_interim:
  assumes "mem_Incr E key sub m n = (Inr x, m', n')" and "interim_is m key k"
  shows "x = wrap64 (if sub then k - 1 else k + 1)" and "in_int64 x \<Longrightarrow> interim_is m' key x"
    and "j \<noteq> key \<Longrightarrow> interim_is m j y \<Longrightarrow> interim_is m' j y"
proof -
  have cur: "(case mr_kv m key of None \<Rightarrow> Inr 0 | Some v \<Rightarrow> atoi (mv_value v)) = Inr k"
    and same: "dropIfExpiredLocked E key m n = (m, n)"
    using assms(2) by (auto simp: interim_is_def dropIfExpiredLocked_def split: option.splits)
  have x: "x = wrap64 (if sub then k - 1 else k + 1)"
    and m': "m' = m\<lparr>mr_kv := (mr_kv m)(key \<mapsto> \<lparr>mv_value = itoa x, expiresAt = 0, hasExpiry = False\<rparr>)\<rparr>"
    using assms(1) cur same by (auto simp: mem_Incr_def Let_def)
  show "x = wrap64 (if sub then k - 1 else k + 1)" by (rule x)
  show "in_int64 x \<Longrightarrow> interim_is m' key x" by (simp add: m' interim_is_def atoi_itoa)
  show "j \<noteq> key \<Longrightarrow> interim_is m j y \<Longrightarrow> interim_is m' j y" by (simp add: m' interim_is_def)
qed

lemma increment_in_step:
  assumes "increment_count memory_redis E c h sub l s = (Entry_written, l', s')"
    and "in_step c l (kv s)" and "roomy (Suc k) l"
  shows "in_step c l' (kv s')" and "roomy k l'"
    and "counted_total q l' = counted_total q l + (if sub then - 1 else 1)"
proof -
  let ?key = "GetInterimCountKey c (if h then historyCountTypeStr else normalCountTypeStr)"
  let ?old = "if h then newHistoryCount l else newNormalCount l"
  obtain x n' where r: "mem_Incr E ?key sub (kv s) (seq s) = (Inr x, kv s', n')"
    and l': "l' = (if h then l\<lparr>newHistoryCount := x\<rparr> else l\<lparr>newNormalCount := x\<rparr>)"
    using assms(1)
    by (auto simp: increment_count_def IncrementInterimCount_def on_kv_def split: prod.splits sum.splits)
  have now: "interim_is (kv s) ?key ?old" using assms(2) by (simp add: in_step_def)
  note u = mem_Incr_interim [OF r now]
  have rng: "in_int64 (if sub then ?old - 1 else ?old + 1)"
    using assms(3) by (auto simp: roomy_def in_int64_def)
  have x: "x = (if sub then ?old - 1 else ?old + 1)" unfolding u(1) by (rule wrap64_id [OF rng])
  with rng have ix: "in_int64 x" by simp
  show "in_step c l' (kv s')"
    using u(2) [OF ix] u(3) assms(2) l' interim_keys [of c] by (auto simp: in_step_def split: if_splits)
  show "roomy k l'" using assms(3) l' x by (auto simp: roomy_def in_int64_def split: if_splits)
  show "counted_total q l' = counted_total q l + (if sub then - 1 else 1)"
    using l' x by (auto simp: counted_total_def)
qed

text \<open>What the loop keeps: the counters in step and the total below the bound.\<close>

definition within_quota ::
  "env \<Rightarrow> string \<Rightarrow> commit_quota \<Rightarrow> int \<Rightarrow> nat \<Rightarrow> commit_loop \<Rightarrow> MemoryRedis \<Rightarrow> bool" where
  "within_quota E c q b k l m \<longleftrightarrow> in_step c l m \<and> roomy k l \<and> counted_total q l \<le> max b (quota_limit E q)"

lemma roomy_Suc: "roomy (Suc k) l \<Longrightarrow> roomy k l"
  by (auto simp: roomy_def in_int64_def)

lemma within_quota_cong:
  "newNormalCount l' = newNormalCount l \<Longrightarrow> newHistoryCount l' = newHistoryCount l \<Longrightarrow>
     within_quota E c q b k l' m \<longleftrightarrow> within_quota E c q b k l m"
  by (simp add: within_quota_def in_step_def roomy_def counted_total_def)

lemma set_response_quota [simp]: "within_quota E c q b k (set_response i r l) m \<longleftrightarrow> within_quota E c q b k l m"
  by (rule within_quota_cong) simp_all

lemma within_quota_Suc: "within_quota E c q b (Suc k) l m \<Longrightarrow> within_quota E c q b k l m"
  by (auto simp: within_quota_def dest: roomy_Suc)

lemma commit_create_quota:
  assumes "commit_create ds memory_redis E c q e h l s = (r, l', s')" and "\<forall>err. r \<noteq> Entry_interim_error err"
    and "within_quota E c q b (Suc k) l (kv s)"
  shows "within_quota E c q b k l' (kv s')"
proof -
  have keep: "within_quota E c q b k l (kv s)"
    by (rule within_quota_Suc [OF assms(3)])
  obtain cf er s1 where ins: "on_db (ds_InsertSyncEntity ds E e) s = ((cf, er), s1)" by (metis surj_pair)
  note kv1 = on_db_kv [OF ins]
  let ?l = "case OriginatorClientItemID e of None \<Rightarrow> l | Some i \<Rightarrow> l\<lparr>idMap := (idMap l)(i \<mapsto> ID e)\<rparr>"
  have "(l' = l \<and> kv s' = kv s) \<or>
      (counted_total q l < quota_limit E q \<and> increment_count memory_redis E c h False ?l s1 = (r, l', s'))"
    using assms(1) ins kv1
    by (cases er) (auto simp: commit_create_def counted_total_def quota_limit_def Let_def split: if_splits)
  then show ?thesis
  proof (elim disjE conjE)
    assume lt: "counted_total q l < quota_limit E q" and inc: "increment_count memory_redis E c h False ?l s1 = (r, l', s')"
    have "r = Entry_written" using increment_count_keeps(3) [OF inc] assms(2) by (cases r) auto
    with inc have inc: "increment_count memory_redis E c h False ?l s1 = (Entry_written, l', s')" by simp
    have same: "newNormalCount ?l = newNormalCount l" "newHistoryCount ?l = newHistoryCount l"
      by (auto split: option.splits)
    have st: "in_step c ?l (kv s1)" "roomy (Suc k) ?l"
      using assms(3) same kv1 by (simp_all add: within_quota_def in_step_def roomy_def)
    have tot: "counted_total q ?l = counted_total q l" using same by (simp add: counted_total_def)
    from increment_in_step [OF inc st] lt tot show ?thesis by (auto simp: within_quota_def)
  qed (use keep in simp)
qed

lemma commit_update_quota:
  assumes "commit_update ds memory_redis E c e v h l s = (r, l', s')" and "\<forall>err. r \<noteq> Entry_interim_error err"
    and "within_quota E c q b (Suc k) l (kv s)"
  shows "within_quota E c q b k l' (kv s')"
proof -
  have keep: "within_quota E c q b k l (kv s)"
    by (rule within_quota_Suc [OF assms(3)])
  obtain cf del er s1 where upd: "on_db (ds_UpdateSyncEntity ds E e v) s = ((cf, del, er), s1)" by (metis surj_pair)
  note kv1 = on_db_kv [OF upd]
  have "(l' = l \<and> kv s' = kv s) \<or> increment_count memory_redis E c h True l s1 = (r, l', s')"
    using assms(1) upd kv1 by (cases er) (auto simp: commit_update_def split: if_splits)
  then show ?thesis
  proof
    assume inc: "increment_count memory_redis E c h True l s1 = (r, l', s')"
    have "r = Entry_written" using increment_count_keeps(3) [OF inc] assms(2) by (cases r) auto
    with inc have inc: "increment_count memory_redis E c h True l s1 = (Entry_written, l', s')" by simp
    have st: "in_step c l (kv s1)" "roomy (Suc k) l" using assms(3) kv1 by (simp_all add: within_quota_def)
    from increment_in_step [OF inc st] assms(3) show ?thesis by (auto simp: within_quota_def)
  qed (use keep in simp)
qed

lemma commit_converted_quota:
  assumes "commit_converted ds memory_redis E c q i d l s = (Return (l', None), s')" and "converted_ok c d"
    and "i < length (entry_responses l)" and quota: "within_quota E c q b (Suc k) l (kv s)"
  shows "within_quota E c q b k l' (kv s')"
  using assms(1-3)
proof (rule commit_converted_split)
  fix r
  assume "Return (l', None) = Return (set_response i r l, None :: reply option)" "kv s' = kv s"
  with within_quota_Suc [OF quota] show ?thesis by simp
next
  fix e u s1 end_of l1 t v m
  assume kv1: "kv s1 = kv s"
    and run: "(if \<not> u then commit_create ds memory_redis E c q e (t = HistoryTypeID \<or> t = HistoryDeleteDirectiveTypeID) l s1
        else commit_update ds memory_redis E c e v (t = HistoryTypeID \<or> t = HistoryDeleteDirectiveTypeID) l s1)
         = (end_of, l1, s')"
    and res: "Return (l', None) = (case end_of of
         Entry_rejected r \<Rightarrow> Return (set_response i r l1, None)
       | Entry_interim_error err \<Rightarrow> Return (l1, Some (Some SyncEnums_TRANSIENT_ERROR,
           Some (''interim count update failed: '' @ err)))
       | Entry_written \<Rightarrow> Return (set_response i (success_response e)
           (l1\<lparr>typeMtimeMap := AList.update t m (typeMtimeMap l1)\<rparr>), None))"
  have ne: "\<forall>err. end_of \<noteq> Entry_interim_error err" using res by auto
  have quota1: "within_quota E c q b (Suc k) l (kv s1)" using quota kv1 by simp
  have "within_quota E c q b k l1 (kv s')"
    using run commit_create_quota [OF _ ne quota1] commit_update_quota [OF _ ne quota1] by (auto split: if_splits)
  moreover have "newNormalCount l' = newNormalCount l1" "newHistoryCount l' = newHistoryCount l1"
    using res by (auto split: entry_end.splits)
  ultimately show ?thesis using within_quota_cong by blast
qed

lemma commit_entry_quota:
  assumes "commit_entry ds memory_redis E c q g i v l s = (Return (l', None), s')"
    and "i < length (entry_responses l)" and "within_quota E c q b (Suc k) l (kv s)"
  shows "within_quota E c q b k l' (kv s')"
proof -
  obtain o1 n where cv: "CreateDBSyncEntity E v g c (seq s) = (o1, n)" by fastforce
  have l0: "within_quota E c q b (Suc k) (set_response i empty_EntryResponse l) (kv (s\<lparr>seq := n\<rparr>))"
    using assms(3) by simp
  consider (bad) "within_quota E c q b (Suc k) l' (kv s')" | (ok) d where "o1 = Return (Inr d)"
    "commit_converted ds memory_redis E c q i d (set_response i empty_EntryResponse l) (s\<lparr>seq := n\<rparr>)
      = (Return (l', None), s')"
    using assms(1,3) cv
    by (cases o1) (auto simp: commit_entry_def Let_def split: sum.splits)
  then show ?thesis
  proof cases
    case bad
    then show ?thesis by (rule within_quota_Suc)
  next
    case ok
    show ?thesis
      by (rule commit_converted_quota [OF ok(2) converted_ok_CreateDB [OF cv [unfolded ok(1)]] _ l0])
        (use assms(2) in simp)
  qed
qed

lemma commit_entries_quota:
  "commit_entries ds memory_redis E c q g i vs l s = (Return (l', None), s') \<Longrightarrow>
     i + length vs \<le> length (entry_responses l) \<Longrightarrow> within_quota E c q b (length vs) l (kv s) \<Longrightarrow>
     within_quota E c q b 0 l' (kv s')"
proof (induction vs arbitrary: i l s)
  case Nil
  then show ?case by simp
next
  case (Cons v vs)
  obtain l1 s1 where e: "commit_entry ds memory_redis E c q g i v l s = (Return (l1, None), s1)"
    and run: "commit_entries ds memory_redis E c q g (Suc i) vs l1 s1 = (Return (l', None), s')"
    using Cons.prems(1) by (auto split: prod.splits outcome.splits option.splits)
  have i: "i < length (entry_responses l)" using Cons.prems(2) by simp
  have len: "length (entry_responses l1) = length (entry_responses l)"
    using commit_entry_result(2) [OF e i refl] by simp
  have "within_quota E c q b (length vs) l1 (kv s1)"
    by (rule commit_entry_quota [OF e i]) (use Cons.prems(3) in simp)
  with Cons.IH [OF run] Cons.prems(2) len show ?case by simp
qed

end
