(* ===== verification/Commit_Props.thy ===== *)
theory Commit_Props
  imports Commit_Quota Sqlite_Props
begin

section \<open>Properties of COMMIT\<close>

text \<open>
  On the SQLite store and the in-memory cache: what a commit answers, what a created and
  an updated entity are in the store afterwards, which conflicts are detected and which
  are not, and that the quota holds.
\<close>

text \<open>A data type that is not history-related.\<close>

definition plain_type :: "int option \<Rightarrow> bool" where
  "plain_type t \<longleftrightarrow> t \<noteq> Some HistoryTypeID \<and> t \<noteq> Some HistoryDeleteDirectiveTypeID"

subsection \<open>A concrete run\<close>

definition sample_quota :: commit_quota where
  "sample_quota = \<lparr>currentNormalItemCount = 0, currentHistoryItemCount = 0, boostedQuotaAddition = 0\<rparr>"

definition sample_loop :: commit_loop where
  "sample_loop = \<lparr>entry_responses = [None], idMap = Map.empty, typeMtimeMap = [],
     newNormalCount = 0, newHistoryCount = 0\<rparr>"

definition sys_of :: "SQLiteStore \<Rightarrow> (SQLiteStore, MemoryRedis) sys" where
  "sys_of d = \<lparr>db = d, kv = NewMemoryRedis, seq = 0\<rparr>"

text \<open>The bookmark of the store \<open>sample_store\<close> as a client sends it back, changed.\<close>

definition changed_bookmark :: PbSyncEntity where
  "changed_bookmark = sample_bookmark\<lparr>pb_IdString := Some ''a'', pb_Version := Some 3\<rparr>"

definition taken_store :: SQLiteStore where
  "taken_store = \<lparr>sync_entities = [row_of_entity (sample_row ''item-1'' 3 5)],
     unique_tags = [], client_item_counts = []\<rparr>"

lemmas conversion_run = CreateDBSyncEntity_def sample_bookmark_def changed_bookmark_def empty_PbSyncEntity_def
  validatePBEntity_def sample_marshal_def marshal_optional_position_def choose_id_def HistoryTypeID_def
  HistoryDeleteDirectiveTypeID_def

lemmas commit_run = commit_entry_def commit_converted_def Let_def is_update_op_def resolve_parent_def
  build_SyncEntity_def commit_create_def commit_update_def on_db_def on_kv_def sql_InsertSyncEntity_def
  stmt_def insert_client_tag_def insertSyncEntity_def insert_entity_row_def increment_count_def
  IncrementInterimCount_def mem_Incr_def NewMemoryRedis_def dropIfExpiredLocked_def sys_of_def
  sample_loop_def sample_quota_def

lemma sample_converts:
  "\<exists>d. CreateDBSyncEntity sample_env (Some sample_bookmark) None ''chain'' 0 = (Return (Inr d), 1) \<and>
     ID d = ''item-1'' \<and> ClientID d = ''chain'' \<and> DataType d = Some 32904 \<and> ClientDefinedUniqueTag d = None"
  by (simp add: conversion_run)

lemma sample_counts: "counted_total sample_quota sample_loop < quota_limit sample_env sample_quota"
  by (simp add: counted_total_def quota_limit_def sample_quota_def sample_loop_def)

lemma sample_plain: "plain_type (Some 32904)"
  by (simp add: plain_type_def HistoryTypeID_def HistoryDeleteDirectiveTypeID_def)

lemma sample_bookmark_version: "pb_Version sample_bookmark = Some 0"
  by (simp add: sample_bookmark_def)

lemma sample_loop_length: "0 < length (entry_responses sample_loop)"
  by (simp add: sample_loop_def)

text \<open>A commit of the sample bookmark.\<close>

definition sample_commit :: CommitMessage where
  "sample_commit = \<lparr>cm_Entries = Some [Some sample_bookmark], CacheGuid = None, ExtensionsActivity = [],
     ConfigParams = None, cm_ClientContexts = [], Padding = None\<rparr>"

lemma sample_no_panic: "\<not> conversion_panics sample_env (Some sample_bookmark)"
  by (simp add: conversion_panics_def sample_bookmark_def)

subsection \<open>The whole request\<close>

text \<open>
  C14: A commit of entities that can be converted never panics: it answers with one
  response per entry, in the order of the entries, and reports success only when every
  entry has been given its own verdict; it reports a transient error otherwise, which is
  also what it does, without touching the response, when the item counts cannot be read.
\<close>

theorem commit_answers_every_entry:
  assumes "handleCommitRequest ds rc E (Some msg) rsp0 c s = (res, s')" and "cm_Entries msg = Some entries"
    and "\<forall>v \<in> set entries. \<not> conversion_panics E v"
  shows "\<exists>rsp code err. res = Return (rsp, (Some code, err)) \<and>
    code \<in> {SyncEnums_TRANSIENT_ERROR, SyncEnums_SUCCESS} \<and>
    (rsp = rsp0 \<or> length (Entryresponse rsp) = length entries) \<and>
    (code = SyncEnums_SUCCESS \<longrightarrow> length (Entryresponse rsp) = length entries \<and>
       (\<forall>r \<in> set (Entryresponse rsp). \<exists>x t. r = Some x \<and> ResponseType x = Some t))"
  using assms
proof (rule handleCommit_result)
  fix err
  assume "res = Return (rsp0, (Some SyncEnums_TRANSIENT_ERROR, Some err))"
  then show ?thesis by auto
next
  fix rsp rep
  assume r: "res = Return (rsp, rep)" "fst rep \<in> {Some SyncEnums_TRANSIENT_ERROR, Some SyncEnums_SUCCESS}"
    "length (Entryresponse rsp) = length entries"
    "fst rep = Some SyncEnums_SUCCESS \<Longrightarrow> \<forall>r \<in> set (Entryresponse rsp). \<exists>x. r = Some x \<and> answered x"
  then obtain code where "fst rep = Some code" "code \<in> {SyncEnums_TRANSIENT_ERROR, SyncEnums_SUCCESS}" by auto
  with r show ?thesis
    by (intro exI [of _ rsp] exI [of _ code] exI [of _ "snd rep"]) (auto simp: answered_def prod_eq_iff)
qed

lemma commit_answers_every_entry_witness:
  "\<exists>rsp code err s'. handleCommitRequest sqlite memory_redis sample_env (Some sample_commit) \<lparr>Entryresponse = []\<rparr>
      ''chain'' (sys_of (initSchema None)) = (Return (rsp, (Some code, err)), s') \<and>
      code \<in> {SyncEnums_TRANSIENT_ERROR, SyncEnums_SUCCESS}"
proof -
  obtain res s' where run: "handleCommitRequest sqlite memory_redis sample_env (Some sample_commit)
      \<lparr>Entryresponse = []\<rparr> ''chain'' (sys_of (initSchema None)) = (res, s')" by fastforce
  have "cm_Entries sample_commit = Some [Some sample_bookmark]" by (simp add: sample_commit_def)
  from commit_answers_every_entry [OF run this] sample_no_panic run show ?thesis by auto
qed

text \<open>
  A commit keeps the store's invariant and changes only the committing client's data,
  whatever it answers, even when it panics halfway through its entries.
\<close>

theorem commit_isolated:
  assumes "handleCommitRequest sqlite rc E commitMsg rsp0 c s = (res, s')" and "store_inv (db s)"
  shows "store_inv (db s') \<and>
    (c' \<noteq> c \<longrightarrow> client_view (db s') c' = client_view (db s) c')"
  using sqlite_frame.handleCommit_keeps [OF assms(1)] assms(2) by (simp_all add: sqlite_frame.keeps_def)

lemma commit_isolated_witness:
  "\<exists>res s'. handleCommitRequest sqlite memory_redis sample_env (Some sample_commit) \<lparr>Entryresponse = []\<rparr>
      ''chain'' (sys_of (initSchema None)) = (res, s') \<and> store_inv (db s') \<and>
      client_view (db s') ''other'' = ([], [], [])"
proof -
  obtain res s' where run: "handleCommitRequest sqlite memory_redis sample_env (Some sample_commit)
      \<lparr>Entryresponse = []\<rparr> ''chain'' (sys_of (initSchema None)) = (res, s')" by fastforce
  have inv: "store_inv (db (sys_of (initSchema None)))" using store_inv_init by (simp add: sys_of_def)
  have "client_view (db s') ''other'' = client_view (db (sys_of (initSchema None))) ''other''"
    by (rule commit_isolated [OF run inv, THEN conjunct2, THEN mp]) simp
  then show ?thesis
    using run commit_isolated [OF run inv, THEN conjunct1] by (simp add: sys_of_def client_view_def initSchema_def)
qed

subsection \<open>Creating an entity\<close>

text \<open>The entity that an iteration writes, from the converted one.\<close>

definition entity_to_commit :: "(string \<rightharpoonup> string) \<Rightarrow> SyncEntity \<Rightarrow> SyncEntity" where
  "entity_to_commit ids d = (resolve_parent ids d)\<lparr>Version := Mtime d\<rparr>"

lemma entity_to_commit_simps [simp]:
  "ClientID (entity_to_commit ids d) = ClientID d" "ID (entity_to_commit ids d) = ID d"
  "Version (entity_to_commit ids d) = Mtime d" "Mtime (entity_to_commit ids d) = Mtime d"
  "DataType (entity_to_commit ids d) = DataType d" "Deleted (entity_to_commit ids d) = Deleted d"
  "ClientDefinedUniqueTag (entity_to_commit ids d) = ClientDefinedUniqueTag d"
  "OriginatorClientItemID (entity_to_commit ids d) = OriginatorClientItemID d"
  by (simp_all add: entity_to_commit_def)

lemma parent_of_entity_to_commit:
  "ParentID (entity_to_commit ids d) =
     (case ParentID d of None \<Rightarrow> None | Some p \<Rightarrow> Some (case ids p of None \<Rightarrow> p | Some s \<Rightarrow> s))"
  by (auto simp: entity_to_commit_def resolve_parent_def split: option.splits)

lemma on_db_Insert:
  assumes "no_faults E"
  shows "\<exists>n'. on_db (sql_InsertSyncEntity E e) s = ((\<not> keys_free e (db s), None),
    s\<lparr>db := if keys_free e (db s) then with_entity e (unix_milli E (Suc (seq s))) (db s) else db s, seq := n'\<rparr>)"
proof -
  obtain r d n' where run: "sql_InsertSyncEntity E e (db s) (seq s) = (r, d, n')" by (metis prod_cases3)
  with sql_Insert_value [OF assms, of e "db s" "seq s"] show ?thesis
    by (intro exI [of _ n']) (simp add: on_db_def)
qed

text \<open>
  A create of a plain (not history-related) entity within the quota, when the driver does
  not fail and the interim counter can be incremented.
\<close>

lemma commit_create_plain:
  assumes "no_faults E" and "commit_create sqlite rc E c q e False l s = (r, l', s')"
    and "counted_total q l < quota_limit E q" and "\<forall>err. r \<noteq> Entry_interim_error err"
  shows "r = Entry_written" and "db s' = (if keys_free e (db s) then with_entity e (unix_milli E (Suc (seq s))) (db s) else db s)"
    and "idMap l' = (case OriginatorClientItemID e of None \<Rightarrow> idMap l | Some i \<Rightarrow> (idMap l)(i \<mapsto> ID e))"
    and "entry_responses l' = entry_responses l"
proof -
  obtain n' where ins: "on_db (sql_InsertSyncEntity E e) s = ((\<not> keys_free e (db s), None),
    s\<lparr>db := if keys_free e (db s) then with_entity e (unix_milli E (Suc (seq s))) (db s) else db s, seq := n'\<rparr>)"
    (is "_ = (_, ?s)")
    using on_db_Insert [OF assms(1)] by blast
  let ?l = "case OriginatorClientItemID e of None \<Rightarrow> l | Some i \<Rightarrow> l\<lparr>idMap := (idMap l)(i \<mapsto> ID e)\<rparr>"
  have inc: "increment_count rc E c False False ?l ?s = (r, l', s')"
    using assms(2,3) ins by (simp add: commit_create_def counted_total_def quota_limit_def)
  note keeps = increment_count_keeps [OF inc]
  show "r = Entry_written" using keeps(3) assms(4) by (cases r) auto
  show "db s' = (if keys_free e (db s) then with_entity e (unix_milli E (Suc (seq s))) (db s) else db s)"
    using keeps(1) by simp
  show "idMap l' = (case OriginatorClientItemID e of None \<Rightarrow> idMap l | Some i \<Rightarrow> (idMap l)(i \<mapsto> ID e))"
    using keeps(4) by (auto split: option.splits)
  show "entry_responses l' = entry_responses l" using keeps(2) by (auto split: option.splits)
qed

text \<open>An iteration on a plain entity, after its conversion.\<close>

lemma converted_fields:
  assumes "CreateDBSyncEntity E (Some v) g c n = (Return (Inr d), n')"
  shows "Version d = pb_Version v" and "\<exists>m. Mtime d = Some m" and "\<exists>t. DataType d = Some t"
    and "ClientID d = c" and "\<exists>k. pb_Version v = Some k"
    and "OriginatorClientItemID d = (if g = None then None else pb_IdString v)"
proof -
  note f = CreateDB_fields [OF assms]
  show "Version d = pb_Version v" and "\<exists>k. pb_Version v = Some k"
    and "OriginatorClientItemID d = (if g = None then None else pb_IdString v)"
    by (rule CreateDB_InrE [OF assms], simp add: build_SyncEntity_def)+
  show "\<exists>m. Mtime d = Some m" "\<exists>t. DataType d = Some t" "ClientID d = c" using f by auto
qed

lemma commit_entry_plain:
  assumes "CreateDBSyncEntity E (Some v) g c (seq s) = (Return (Inr d), n)"
    and "pb_Version v = Some k" and "plain_type (DataType d)" and "DataType d = Some t" and "Mtime d = Some m"
    and "commit_entry ds rc E c q g i (Some v) l s = (Return (l', rep), s')"
  obtains e l0 en l1 where
    "e = entity_to_commit (idMap l) d" "l0 = set_response i empty_EntryResponse l"
    "(if k = 0 then commit_create ds rc E c q e False l0 (s\<lparr>seq := n\<rparr>)
      else commit_update ds rc E c e k False l0 (s\<lparr>seq := n\<rparr>)) = (en, l1, s')"
    "(l', rep) = (case en of
        Entry_rejected r \<Rightarrow> (set_response i r l1, None)
      | Entry_interim_error err \<Rightarrow> (l1, Some (Some SyncEnums_TRANSIENT_ERROR,
           Some (''interim count update failed: '' @ err)))
      | Entry_written \<Rightarrow> (set_response i (success_response e)
           (l1\<lparr>typeMtimeMap := AList.update t m (typeMtimeMap l1)\<rparr>), None))"
proof -
  let ?e = "entity_to_commit (idMap l) d" and ?l = "set_response i empty_EntryResponse l"
  obtain en l1 s1 where w: "(if k = 0 then commit_create ds rc E c q ?e False ?l (s\<lparr>seq := n\<rparr>)
      else commit_update ds rc E c ?e k False ?l (s\<lparr>seq := n\<rparr>)) = (en, l1, s1)"
    by (metis prod_cases3)
  have ver: "Version d = Some k" using converted_fields(1) [OF assms(1)] assms(2) by simp
  have e: "(resolve_parent (idMap l) d)\<lparr>Version := Some m\<rparr> = ?e" by (simp add: entity_to_commit_def assms(5))
  have "t \<noteq> HistoryTypeID" "t \<noteq> HistoryDeleteDirectiveTypeID"
    using assms(3,4) by (auto simp: plain_type_def)
  then have "s' = s1 \<and> (l', rep) = (case en of
        Entry_rejected r \<Rightarrow> (set_response i r l1, None)
      | Entry_interim_error err \<Rightarrow> (l1, Some (Some SyncEnums_TRANSIENT_ERROR,
           Some (''interim count update failed: '' @ err)))
      | Entry_written \<Rightarrow> (set_response i (success_response ?e)
           (l1\<lparr>typeMtimeMap := AList.update t m (typeMtimeMap l1)\<rparr>), None))"
    using assms(1,4,5,6) ver w e
    by (cases en) (auto simp: commit_entry_def commit_converted_def is_update_op_def Let_def split: if_splits)
  with w show thesis by (intro that [OF refl refl]) auto
qed

lemma commit_entry_creates:
  assumes "no_faults E"
    and "CreateDBSyncEntity E (Some v) g c (seq s) = (Return (Inr d), n)"
    and "pb_Version v = Some 0" and "plain_type (DataType d)"
    and "counted_total q l < quota_limit E q" and "i < length (entry_responses l)"
    and "commit_entry sqlite rc E c q g i (Some v) l s = (Return (l', None), s')"
  shows "entry_responses l' ! i = Some (success_response (entity_to_commit (idMap l) d))"
    and "db s' = (if keys_free (entity_to_commit (idMap l) d) (db s)
      then with_entity (entity_to_commit (idMap l) d) (unix_milli E (Suc n)) (db s) else db s)"
    and "g \<noteq> None \<Longrightarrow> pb_IdString v = Some x \<Longrightarrow> idMap l' x = Some (ID d)"
proof -
  obtain m t where mt: "Mtime d = Some m" "DataType d = Some t" using converted_fields [OF assms(2)] by blast
  note org = converted_fields(6) [OF assms(2)]
  obtain e l0 en l1 where a: "e = entity_to_commit (idMap l) d" "l0 = set_response i empty_EntryResponse l"
    and "(if (0::int) = 0 then commit_create sqlite rc E c q e False l0 (s\<lparr>seq := n\<rparr>)
      else commit_update sqlite rc E c e 0 False l0 (s\<lparr>seq := n\<rparr>)) = (en, l1, s')"
    and r: "(l', None) = (case en of
        Entry_rejected r \<Rightarrow> (set_response i r l1, None)
      | Entry_interim_error err \<Rightarrow> (l1, Some (Some SyncEnums_TRANSIENT_ERROR,
           Some (''interim count update failed: '' @ err)))
      | Entry_written \<Rightarrow> (set_response i (success_response e)
           (l1\<lparr>typeMtimeMap := AList.update t m (typeMtimeMap l1)\<rparr>), None))"
    by (rule commit_entry_plain [OF assms(2-4) mt(2) mt(1) assms(7)])
  then have run: "commit_create sqlite rc E c q e False l0 (s\<lparr>seq := n\<rparr>) = (en, l1, s')" by simp
  have tot: "counted_total q l0 < quota_limit E q" using assms(5) a by (simp add: counted_total_def)
  have ne: "\<forall>err. en \<noteq> Entry_interim_error err" using r by auto
  note c = commit_create_plain [OF assms(1) run tot ne]
  from c(1) r have l': "l' = set_response i (success_response e) (l1\<lparr>typeMtimeMap := AList.update t m (typeMtimeMap l1)\<rparr>)"
    by simp
  show "entry_responses l' ! i = Some (success_response (entity_to_commit (idMap l) d))"
    using l' c(4) a assms(6) by simp
  show "db s' = (if keys_free (entity_to_commit (idMap l) d) (db s)
      then with_entity (entity_to_commit (idMap l) d) (unix_milli E (Suc n)) (db s) else db s)"
    using c(2) a by simp
  show "idMap l' x = Some (ID d)" if "g \<noteq> None" "pb_IdString v = Some x"
    using l' c(3) a org that by simp
qed

text \<open>
  C10: Committing a new (version 0) plain entity within the quota, when the driver does not
  fail and the ID and the client tag are free. The response is a success with the server's
  ID and with the entity's modification time as its version; the store holds one more row,
  the converted entity with that version, whose parent is the server's ID of the parent if
  an earlier entry of the commit created it; and later entries can refer to this entity by
  the ID the client gave it.
\<close>

theorem commit_create_stores:
  assumes "no_faults E"
    and "CreateDBSyncEntity E (Some v) g c (seq s) = (Return (Inr d), n)"
    and "pb_Version v = Some 0" and "plain_type (DataType d)"
    and "counted_total q l < quota_limit E q" and "i < length (entry_responses l)"
    and "commit_entry sqlite rc E c q g i (Some v) l s = (Return (l', None), s')"
    and "keys_free (entity_to_commit (idMap l) d) (db s)"
  shows "entry_responses l' ! i = Some (success_response (entity_to_commit (idMap l) d)) \<and>
    sync_entities (db s') = sync_entities (db s) @ [row_of_entity (entity_to_commit (idMap l) d)] \<and>
    (g \<noteq> None \<longrightarrow> pb_IdString v = Some x \<longrightarrow> idMap l' x = Some (ID d))"
  using commit_entry_creates [OF assms(1-7)] assms(8) by (simp_all add: with_entity_def)

lemma commit_create_stores_witness:
  "\<exists>l' s'. commit_entry sqlite memory_redis sample_env ''chain'' sample_quota None 0 (Some sample_bookmark)
      sample_loop (sys_of (initSchema None)) = (Return (l', None), s') \<and> length (sync_entities (db s')) = 1"
proof -
  obtain d where d: "CreateDBSyncEntity sample_env (Some sample_bookmark) None ''chain'' (seq (sys_of (initSchema None)))
      = (Return (Inr d), 1)" "DataType d = Some 32904"
    using sample_converts by (auto simp: sys_of_def)
  obtain l' s' where run: "commit_entry sqlite memory_redis sample_env ''chain'' sample_quota None 0 (Some sample_bookmark)
      sample_loop (sys_of (initSchema None)) = (Return (l', None), s')"
    by (simp add: conversion_run commit_run initSchema_def)
  have free: "keys_free (entity_to_commit (idMap sample_loop) d) (db (sys_of (initSchema None)))"
    using sample_converts d
    by (simp add: keys_free_def sys_of_def initSchema_def find_row_def has_tag_def split: option.splits)
  have "sync_entities (db s') = sync_entities (db (sys_of (initSchema None)))
      @ [row_of_entity (entity_to_commit (idMap sample_loop) d)]"
    by (rule commit_create_stores [OF sample_no_faults d(1) sample_bookmark_version _ sample_counts
          sample_loop_length run free, THEN conjunct2, THEN conjunct1]) (simp add: d(2) sample_plain)
  with run show ?thesis by (auto simp: sys_of_def initSchema_def)
qed

text \<open>
  C12: A conflict of a create is not reported. When the driver does not fail, a new plain
  entity is committed within the quota and its ID or its client's unique tag is already
  taken, the store stays as it is, and the client is told that its entity was
  stored: the response is the same success, with an ID and a version.
\<close>

theorem commit_conflict_unreported:
  assumes "no_faults E"
    and "CreateDBSyncEntity E (Some v) g c (seq s) = (Return (Inr d), n)"
    and "pb_Version v = Some 0" and "plain_type (DataType d)"
    and "counted_total q l < quota_limit E q" and "i < length (entry_responses l)"
    and "commit_entry sqlite rc E c q g i (Some v) l s = (Return (l', None), s')"
    and "\<not> keys_free (entity_to_commit (idMap l) d) (db s)"
  shows "entry_responses l' ! i = Some (success_response (entity_to_commit (idMap l) d)) \<and>
    db s' = db s"
  using commit_entry_creates [OF assms(1-7)] assms(8) by simp_all

lemma commit_conflict_unreported_witness:
  "\<exists>l' s'. commit_entry sqlite memory_redis sample_env ''chain'' sample_quota None 0 (Some sample_bookmark)
      sample_loop (sys_of taken_store) = (Return (l', None), s') \<and> db s' = taken_store \<and>
      (\<exists>r. entry_responses l' ! 0 = Some r \<and> ResponseType r = Some CommitResponse_SUCCESS)"
proof -
  obtain d where d: "CreateDBSyncEntity sample_env (Some sample_bookmark) None ''chain'' (seq (sys_of taken_store))
      = (Return (Inr d), 1)" "DataType d = Some 32904" "ID d = ''item-1''" "ClientID d = ''chain''"
    using sample_converts by (auto simp: sys_of_def)
  obtain l' s' where run: "commit_entry sqlite memory_redis sample_env ''chain'' sample_quota None 0 (Some sample_bookmark)
      sample_loop (sys_of taken_store) = (Return (l', None), s')"
    by (simp add: conversion_run commit_run taken_store_def list_ex_iff entity_key_def isConstraintErr_def
        to_lower_def contains_def lower_char_def has_prefix_def row_of_entity_def)
  have taken: "\<not> keys_free (entity_to_commit (idMap sample_loop) d) (db (sys_of taken_store))"
    using d by (simp add: keys_free_def sys_of_def taken_store_def find_row_def entity_key_def row_of_entity_def)
  note told = commit_conflict_unreported [OF sample_no_faults d(1) sample_bookmark_version _ sample_counts
      sample_loop_length run taken]
  have "db s' = taken_store" using told by (simp add: d(2) sample_plain sys_of_def)
  moreover have "entry_responses l' ! 0 = Some (success_response (entity_to_commit (idMap sample_loop) d))"
    using told by (simp add: d(2) sample_plain)
  ultimately show ?thesis using run by (simp add: success_response_def)
qed

subsection \<open>Updating an entity\<close>

text \<open>The row that an update of a plain entity may replace.\<close>

definition current_row :: "SyncEntity \<Rightarrow> int \<Rightarrow> SQLiteStore \<Rightarrow> entity_row option" where
  "current_row e v d =
     (case find_row (ClientID e) (ID e) d of
        None \<Rightarrow> None
      | Some row \<Rightarrow> if c_version row = Some v then Some row else None)"

definition rejected_as :: "CommitResponse_ResponseType \<Rightarrow> EntryResponse" where
  "rejected_as t = empty_EntryResponse\<lparr>ResponseType := Some t\<rparr>"

lemma delete_client_tag_value:
  "no_faults E \<Longrightarrow> \<exists>m. delete_client_tag E e s n = (Inr (untag_deleted e s), m)"
  by (auto simp: delete_client_tag_def untag_deleted_def client_tag_def no_faults_def
      split: option.splits bool.splits if_splits)

lemma sql_Update_value:
  assumes "no_faults E" and "plain_type (DataType e)" and "DataType e = Some t"
  shows "\<exists>n'. sql_UpdateSyncEntity E e v s n = (case current_row e v s of
      None \<Rightarrow> ((True, False, None), s, n')
    | Some row \<Rightarrow> ((False, row_live row \<and> Deleted e = Some True, None),
        untag_deleted e (update_entity_row e s), n'))"
proof -
  obtain m where d: "delete_client_tag E e (update_entity_row e s) (Suc (Suc (Suc n))) =
      (Inr (untag_deleted e (update_entity_row e s)), m)"
    using delete_client_tag_value [OF assms(1)] by blast
  have "t \<noteq> HistoryTypeID" using assms(2,3) by (simp add: plain_type_def)
  moreover have "db_fault E k = None" for k using assms(1) by (simp add: no_faults_def)
  ultimately show ?thesis using d assms(3)
    by (auto simp: sql_UpdateSyncEntity_def current_row_def version_conflict_def row_live_def Let_def
        split: option.splits)
qed

lemma commit_update_plain:
  assumes "no_faults E" and "plain_type (DataType e)" and "DataType e = Some t"
    and "commit_update sqlite rc E c e v False l s = (r, l', s')" and "\<forall>err. r \<noteq> Entry_interim_error err"
  shows "entry_responses l' = entry_responses l"
    and "case current_row e v (db s) of
       None \<Rightarrow> r = Entry_rejected (rejected_as CommitResponse_CONFLICT) \<and> db s' = db s
     | Some row \<Rightarrow> r = Entry_written \<and> db s' = untag_deleted e (update_entity_row e (db s))"
proof -
  show "entry_responses l' = entry_responses l" by (rule commit_update_result(2) [OF assms(4)])
  obtain n' where u: "sql_UpdateSyncEntity E e v (db s) (seq s) = (case current_row e v (db s) of
      None \<Rightarrow> ((True, False, None), db s, n')
    | Some row \<Rightarrow> ((False, row_live row \<and> Deleted e = Some True, None),
        untag_deleted e (update_entity_row e (db s)), n'))"
    using sql_Update_value [OF assms(1-3)] by blast
  show "case current_row e v (db s) of
       None \<Rightarrow> r = Entry_rejected (rejected_as CommitResponse_CONFLICT) \<and> db s' = db s
     | Some row \<Rightarrow> r = Entry_written \<and> db s' = untag_deleted e (update_entity_row e (db s))"
  proof (cases "current_row e v (db s)")
    case None
    with u assms(4) show ?thesis
      by (auto simp: commit_update_def on_db_def reject_def rejected_as_def empty_EntryResponse_def)
  next
    case (Some row)
    let ?s = "s\<lparr>db := untag_deleted e (update_entity_row e (db s)), seq := n'\<rparr>"
    consider "r = Entry_written" "s' = ?s" | "increment_count rc E c False True l ?s = (r, l', s')"
      using u assms(4) Some by (auto simp: commit_update_def on_db_def split: if_splits)
    then show ?thesis
    proof cases
      case 2
      from increment_count_keeps [OF 2] assms(5) Some show ?thesis by (cases r) auto
    qed (use Some in simp)
  qed
qed

text \<open>
  C11: Committing a plain entity with a version other than 0 updates an existing one
  exactly when the store holds the entity with that version. Then the response is a
  success and the row takes the committed columns (and the client's tag is released if
  the entity is deleted); otherwise the response is \<open>CONFLICT\<close> and the store is unchanged.
  The quota plays no part.
\<close>

theorem commit_update_functional:
  assumes "no_faults E"
    and "CreateDBSyncEntity E (Some v) g c (seq s) = (Return (Inr d), n)"
    and "pb_Version v = Some k" and "k \<noteq> 0" and "plain_type (DataType d)"
    and "i < length (entry_responses l)"
    and "commit_entry sqlite rc E c q g i (Some v) l s = (Return (l', None), s')"
    and "e = entity_to_commit (idMap l) d"
  shows "case current_row e k (db s) of
       None \<Rightarrow> entry_responses l' ! i = Some (rejected_as CommitResponse_CONFLICT) \<and> db s' = db s
     | Some row \<Rightarrow> entry_responses l' ! i = Some (success_response e) \<and>
         db s' = untag_deleted e (update_entity_row e (db s))"
proof -
  obtain m t where mt: "Mtime d = Some m" "DataType d = Some t" using converted_fields [OF assms(2)] by blast
  obtain l0 en l1 where a: "l0 = set_response i empty_EntryResponse l"
    and w: "(if k = 0 then commit_create sqlite rc E c q e False l0 (s\<lparr>seq := n\<rparr>)
      else commit_update sqlite rc E c e k False l0 (s\<lparr>seq := n\<rparr>)) = (en, l1, s')"
    and r: "(l', None) = (case en of
        Entry_rejected r \<Rightarrow> (set_response i r l1, None)
      | Entry_interim_error err \<Rightarrow> (l1, Some (Some SyncEnums_TRANSIENT_ERROR,
           Some (''interim count update failed: '' @ err)))
      | Entry_written \<Rightarrow> (set_response i (success_response e)
           (l1\<lparr>typeMtimeMap := AList.update t m (typeMtimeMap l1)\<rparr>), None))"
    by (rule commit_entry_plain [OF assms(2,3,5) mt(2) mt(1) assms(7)]) (use assms(8) in blast)
  have run: "commit_update sqlite rc E c e k False l0 (s\<lparr>seq := n\<rparr>) = (en, l1, s')" using w assms(4) by simp
  have pl: "plain_type (DataType e)" "DataType e = Some t" using assms(5,8) mt by simp_all
  have ne: "\<forall>err. en \<noteq> Entry_interim_error err" using r by auto
  note u = commit_update_plain [OF assms(1) pl run ne]
  have len: "i < length (entry_responses l1)" using u(1) a assms(6) by simp
  show ?thesis using u(2) r len by (auto split: option.splits)
qed

lemma commit_update_functional_witness:
  "\<exists>l' s'. commit_entry sqlite memory_redis sample_env ''chain'' sample_quota None 0 (Some changed_bookmark)
      sample_loop (sys_of sample_store) = (Return (l', None), s') \<and>
      (\<exists>r. entry_responses l' ! 0 = Some r \<and> ResponseType r = Some CommitResponse_SUCCESS)"
proof -
  obtain d where d: "CreateDBSyncEntity sample_env (Some changed_bookmark) None ''chain'' (seq (sys_of sample_store))
      = (Return (Inr d), 1)" "DataType d = Some 32904" "ID d = ''a''" "ClientID d = ''chain''"
    by (simp add: conversion_run sys_of_def)
  obtain l' s' where run: "commit_entry sqlite memory_redis sample_env ''chain'' sample_quota None 0 (Some changed_bookmark)
      sample_loop (sys_of sample_store) = (Return (l', None), s')"
    by (simp add: conversion_run commit_run sample_store_def sql_UpdateSyncEntity_def find_row_def
        entity_key_def row_of_entity_def version_conflict_def delete_client_tag_def)
  have ver: "pb_Version changed_bookmark = Some 3" by (simp add: changed_bookmark_def)
  have "\<exists>row. current_row (entity_to_commit (idMap sample_loop) d) 3 (db (sys_of sample_store)) = Some row"
    using d by (simp add: current_row_def sys_of_def sample_store_def find_row_def entity_key_def row_of_entity_def)
  with commit_update_functional [OF sample_no_faults d(1) ver _ _ sample_loop_length run refl]
  have "entry_responses l' ! 0 = Some (success_response (entity_to_commit (idMap sample_loop) d))"
    by (auto simp: d(2) sample_plain)
  with run show ?thesis by (simp add: success_response_def)
qed

subsection \<open>Quota\<close>

text \<open>
  C13: The quota holds: whatever the entries and the data store's answers, a commit whose
  counters agree with the cache never counts more items than the quota (with the boost for
  old history), or than it started with if that was more already; and the counters still
  agree with the cache at the end. Counters do not wrap around.
\<close>

theorem quota_respected:
  assumes "commit_entries ds memory_redis E c q g 0 vs l s = (Return (l', None), s')"
    and "length vs \<le> length (entry_responses l)" and "in_step c l (kv s)" and "roomy (length vs) l"
  shows "counted_total q l' \<le> max (counted_total q l) (quota_limit E q) \<and>
    in_step c l' (kv s')"
  using commit_entries_quota [OF assms(1), of "counted_total q l"] assms(2-4)
  by (simp_all add: within_quota_def)

lemma quota_respected_witness:
  "\<exists>l' s'. commit_entries sqlite memory_redis sample_env ''chain'' sample_quota None 0 [Some sample_bookmark]
      sample_loop (sys_of (initSchema None)) = (Return (l', None), s') \<and>
      counted_total sample_quota l' \<le> 50000 \<and> in_step ''chain'' l' (kv s')"
proof -
  obtain l' s' where run: "commit_entries sqlite memory_redis sample_env ''chain'' sample_quota None 0
      [Some sample_bookmark] sample_loop (sys_of (initSchema None)) = (Return (l', None), s')"
    by (simp add: conversion_run commit_run initSchema_def)
  have st: "in_step ''chain'' sample_loop (kv (sys_of (initSchema None)))" "roomy (length [Some sample_bookmark]) sample_loop"
    by (simp_all add: in_step_def interim_is_def roomy_def in_int64_def sample_loop_def sys_of_def NewMemoryRedis_def)
  have "counted_total sample_quota l' \<le> max (counted_total sample_quota sample_loop) (quota_limit sample_env sample_quota)"
    by (rule quota_respected [OF run _ st, THEN conjunct1]) (simp add: sample_loop_def)
  moreover have "in_step ''chain'' l' (kv s')"
    by (rule quota_respected [OF run _ st, THEN conjunct2]) (simp add: sample_loop_def)
  ultimately show ?thesis
    using run by (simp add: counted_total_def quota_limit_def sample_quota_def sample_loop_def)
qed

end
