(* ===== verification/Command_Props.thy ===== *)
theory Command_Props
  imports Command_Correct Commit_Props
begin

section \<open>Properties of requests\<close>

text \<open>
  On the SQLite store: isolation of the clients for whole requests, what clearing a chain
  leaves behind, what every answer contains, and a committed entity on its way to another
  device of the chain.
\<close>

subsection \<open>Isolation\<close>

text \<open>
  Any request of one client (an update, a commit, a clear or a message that is not
  understood), whatever it answers and even when it panics halfway, keeps the invariant of
  the store, leaves the entities, tags and counters of every other client as they were, and
  enables no disabled chain.
\<close>

theorem request_isolated:
  assumes "HandleClientToServerMessage sqlite rc E pb rsp c s = Some (res, s')" and "store_inv (db s)"
  shows "store_inv (db s') \<and>
    (c' \<noteq> c \<longrightarrow> client_view (db s') c' = client_view (db s) c') \<and>
    (chain_disabled (db s) x \<longrightarrow> chain_disabled (db s') x)"
proof -
  have "store_inv (db s')"
    and "c' \<noteq> c \<Longrightarrow> client_view (db s') c' = client_view (db s) c'"
    and "chain_disabled (db s) x \<Longrightarrow> chain_disabled (db s') x"
  proof -
    have "sqlite_frame.keeps c (db s) (db s')" by (rule sqlite_frame.request_keeps [OF assms(1)])
    with assms(2) show "store_inv (db s')" and "c' \<noteq> c \<Longrightarrow> client_view (db s') c' = client_view (db s) c'"
      by (simp_all add: sqlite_frame.keeps_def)
    show "chain_disabled (db s) x \<Longrightarrow> chain_disabled (db s') x"
      by (rule sqlite_full.request_disabled [OF assms])
  qed
  then show ?thesis by blast
qed

text \<open>A message that clears the chain.\<close>

definition empty_message :: ClientToServerMessage where
  "empty_message = \<lparr>Share = None, ProtocolVersion = None, MessageContents = None, csm_Commit = None,
     csm_GetUpdates = None, csm_StoreBirthday = None, DebugInfo = None, BagOfChips = None, ApiKey = None,
     csm_ClientStatus = None, InvalidatorClientId = None, csm_ClearServerData = None\<rparr>"

definition clear_message :: ClientToServerMessage where
  "clear_message = empty_message\<lparr>MessageContents := Some CLEAR_SERVER_DATA\<rparr>"

lemma sample_store_inv: "store_inv sample_store"
  by (simp add: store_inv_def sample_store_def row_ok_def unique_on_def entity_key_def)

lemma clear_message_runs:
  "\<exists>res s'. HandleClientToServerMessage ds rc E clear_message rsp c s = Some (Return res, s')"
  by (simp add: HandleClientToServerMessage_def clear_message_def Let_def split: prod.splits)

lemma request_isolated_witness:
  "\<exists>res s'. HandleClientToServerMessage sqlite memory_redis sample_env clear_message empty_ClientToServerResponse
      ''other'' (sys_of sample_store) = Some (res, s') \<and> store_inv (db s') \<and>
      client_view (db s') ''chain'' = client_view sample_store ''chain''"
proof -
  obtain res s' where run: "HandleClientToServerMessage sqlite memory_redis sample_env clear_message
      empty_ClientToServerResponse ''other'' (sys_of sample_store) = Some (Return res, s')"
    using clear_message_runs by blast
  have inv: "store_inv (db (sys_of sample_store))" using sample_store_inv by (simp add: sys_of_def)
  from request_isolated [OF run inv] run show ?thesis by (auto simp: sys_of_def)
qed

subsection \<open>Clearing a chain\<close>

lemma upsert_marker_others:
  "filter (\<lambda>r. c_client_id r = c \<and> c_id r \<noteq> disabledChainID) (sync_entities (upsert_marker c now s))
     = filter (\<lambda>r. c_client_id r = c \<and> c_id r \<noteq> disabledChainID) (sync_entities s)"
proof -
  have "filter (\<lambda>r. c_client_id r = c \<and> c_id r \<noteq> disabledChainID)
      (map (\<lambda>r. if c_client_id r = c \<and> c_id r = disabledChainID
         then r\<lparr>c_mtime := Some now, c_ctime := Some now, c_name := Some reasonDeleted\<rparr> else r) xs)
      = filter (\<lambda>r. c_client_id r = c \<and> c_id r \<noteq> disabledChainID) xs" for xs
    by (induction xs) auto
  then show ?thesis
    by (cases "find_row c disabledChainID s") (simp_all add: upsert_marker_def disabled_marker_def entity_key_def)
qed

lemma type_mtime_keys_set:
  "set (type_mtime_keys es) = {GetTypeMtimeKey (ClientID e) t | e t. e \<in> set es \<and> DataType e = Some t}"
  by (induction es) (auto split: option.splits)

lemma mem_Del_live:
  "mem_Del E ks m n = (r, m', n') \<Longrightarrow> r = None \<and> (k \<in> set ks \<longrightarrow> mem_live m' t k = None)"
  by (auto simp: mem_Del_def mem_live_def del_fold)

text \<open>
  C16: A clear request on the SQLite store and the in-memory cache, when the driver does not
  fail: it answers success, the chain is disabled, no entity but the marker of the disabled
  chain, no uniqueness tag and no counter of the client is left, and for every data type
  the client had the cached modification time is gone.
\<close>

theorem clear_request_effect:
  assumes "no_faults E" and "handleClearServerDataRequest sqlite memory_redis E c s = (rep, s')"
  shows "rep = (Some SyncEnums_SUCCESS, None) \<and>
    chain_disabled (db s') c \<and>
    fst (client_view (db s') c) = filter (\<lambda>r. c_id r = disabledChainID) (fst (client_view (db s') c)) \<and>
    snd (client_view (db s') c) = ([], []) \<and>
    (r \<in> set (sync_entities (db s)) \<longrightarrow> c_client_id r = c \<longrightarrow> c_id r \<noteq> disabledChainID \<longrightarrow> c_data_type r = Some t \<longrightarrow> mem_live (kv s') now (GetTypeMtimeKey c t) = None)"
proof -
  have "rep = (Some SyncEnums_SUCCESS, None)"
    and "chain_disabled (db s') c"
    and "fst (client_view (db s') c) = filter (\<lambda>r. c_id r = disabledChainID) (fst (client_view (db s') c))"
    and "snd (client_view (db s') c) = ([], [])"
    and "r \<in> set (sync_entities (db s)) \<Longrightarrow> c_client_id r = c \<Longrightarrow> c_id r \<noteq> disabledChainID \<Longrightarrow>
      c_data_type r = Some t \<Longrightarrow> mem_live (kv s') now (GetTypeMtimeKey c t) = None"
  proof -
    have ok: "db_fault E n = None" for n using assms(1) by (simp add: no_faults_def)
    let ?d1 = "upsert_marker c (unix_milli E (seq s)) (db s)"
    let ?d2 = "clear_entities c (clear_counts c (clear_tags c ?d1))"
    let ?es = "map scanEntity (filter (\<lambda>r. c_client_id r = c) (sync_entities ?d1))"
    obtain n1 where d1: "ds_DisableSyncChain sqlite E c (db s) (seq s) = (None, ?d1, n1)"
      by (simp add: sql_DisableSyncChain_def stmt_def ok)
    then have 1: "on_db (sql_DisableSyncChain E c) s = (None, s\<lparr>db := ?d1, seq := n1\<rparr>)" (is "_ = (_, ?s1)")
      by (simp add: on_db_def)
    obtain n2 where d2: "ds_ClearServerData sqlite E c ?d1 n1 = (Inr ?es, ?d2, n2)"
      by (simp add: sql_ClearServerData_def stmt_def ok)
    then have 2: "on_db (sql_ClearServerData E c) ?s1 = (Inr ?es, ?s1\<lparr>db := ?d2, seq := n2\<rparr>)" (is "_ = (_, ?s2)")
      by (simp add: on_db_def)
    obtain q m n3 where 3: "mem_Del E (type_mtime_keys ?es) (kv s) n2 = (q, m, n3)" by (metis prod_cases3)
    note del = mem_Del_live [OF 3]
    have run: "rep = (Some SyncEnums_SUCCESS, None) \<and> db s' = ?d2 \<and>
        (type_mtime_keys ?es \<noteq> [] \<longrightarrow> kv s' = m)"
      using assms(2) 1 2 3 del
      by (auto simp: handleClearServerDataRequest_def Let_def on_kv_def split: if_splits)
    then show "rep = (Some SyncEnums_SUCCESS, None)" by simp
    have "chain_disabled ?d2 c"
      by (rule sqlite_disable.clear_keeps [OF d2 sqlite_disable.disable_sets [OF d1]])
    with run show "chain_disabled (db s') c" by simp
    show "fst (client_view (db s') c) = filter (\<lambda>r. c_id r = disabledChainID) (fst (client_view (db s') c))"
      and "snd (client_view (db s') c) = ([], [])"
      using run by (auto simp: client_view_def clear_entities_def clear_counts_def clear_tags_def intro!: filter_cong)
    show "mem_live (kv s') now (GetTypeMtimeKey c t) = None"
      if "r \<in> set (sync_entities (db s))" "c_client_id r = c" "c_id r \<noteq> disabledChainID" "c_data_type r = Some t"
    proof -
      have "r \<in> set (filter (\<lambda>r. c_client_id r = c \<and> c_id r \<noteq> disabledChainID) (sync_entities ?d1))"
        unfolding upsert_marker_others using that by simp
      then have "scanEntity r \<in> set ?es" by simp
      moreover have "ClientID (scanEntity r) = c" "DataType (scanEntity r) = Some t" using that by (simp_all add: scanEntity_def)
      ultimately have key: "GetTypeMtimeKey c t \<in> set (type_mtime_keys ?es)" unfolding type_mtime_keys_set by blast
      then have "type_mtime_keys ?es \<noteq> []" by (metis empty_iff empty_set)
      then show ?thesis using run del key by auto
    qed
  qed
  then show ?thesis by blast
qed

lemma clear_request_effect_witness:
  "\<exists>s'. handleClearServerDataRequest sqlite memory_redis sample_env ''chain'' (sys_of sample_store)
      = ((Some SyncEnums_SUCCESS, None), s') \<and> chain_disabled (db s') ''chain'' \<and>
      snd (client_view (db s') ''chain'') = ([], [])"
proof -
  obtain rep s' where run: "handleClearServerDataRequest sqlite memory_redis sample_env ''chain'' (sys_of sample_store)
      = (rep, s')" by fastforce
  from clear_request_effect [OF sample_no_faults run] run show ?thesis by simp
qed

subsection \<open>What an answer contains\<close>

text \<open>A reply has an error code or an error.\<close>

definition replied :: "reply \<Rightarrow> bool" where
  "replied rep \<longleftrightarrow> fst rep \<noteq> None \<or> snd rep \<noteq> None"

lemma admit_replied:
  assumes "admit_new_client ds E c s = Some (Return (Some rep), s')"
  shows "replied rep"
proof -
  have loop: "replied r" if "device_loop ds E c a s = Some y" "fst y = Return (Some r)" for a s y r
    using that by (induction rule: device_loop_induct) (auto simp: replied_def)
  obtain y where y: "device_loop ds E c 0 s = Some y" using assms by (cases "device_loop ds E c 0 s") (auto simp: admit_new_client_def)
  obtain o1 s1 where os: "y = (o1, s1)" by fastforce
  show ?thesis
  proof (cases "o1 = Return None")
    case False
    with assms y os have "o1 = Return (Some rep)"
      by (auto simp: admit_new_client_def split: outcome.splits option.splits)
    with loop [OF y] os show ?thesis by simp
  next
    case True
    with assms y os show ?thesis
      by (auto simp: admit_new_client_def replied_def split: outcome.splits option.splits prod.splits)
  qed
qed

lemma finish_marker_replied:
  "finish_marker rc E c b i t tok again es rsp s = (Return (rsp1, Some rep), s1) \<Longrightarrow> replied rep"
  by (auto simp: finish_marker_def Let_def replied_def split: option.splits prod.splits if_splits)

lemma gu_marker_replied:
  "gu_marker ds rc E c b p ff i m rsp s = (Return (rsp1, Some rep), s1) \<Longrightarrow> replied rep"
  by (auto simp: gu_marker_def Let_def dest: finish_marker_replied
      split: option.splits prod.splits sum.splits if_splits bool.splits)
    (simp_all add: replied_def)

lemma gu_markers_replied:
  "gu_markers ds rc E c b p ff i ms rsp s = (Return (rsp1, Some rep), s1) \<Longrightarrow> replied rep"
proof (induction ms arbitrary: i rsp s)
  case (Cons m ms)
  then show ?case by (auto dest: gu_marker_replied split: prod.splits outcome.splits option.splits)
qed simp

lemma gu_replied:
  assumes "handleGetUpdatesRequest ds rc E guMsg guRsp c s = Some (Return (rsp, rep), s')"
  shows "replied rep"
  using assms
  by (auto simp: handleGetUpdatesRequest_def Let_def replied_def [of "(_, _)"] dest: admit_replied gu_markers_replied
      split: option.splits outcome.splits prod.splits if_splits)

lemma commit_reply_coded:
  assumes "handleCommitRequest ds rc E (Some msg) rsp0 c s = (Return (rsp, rep), s')"
  shows "fst rep \<noteq> None"
proof -
  have entry: "fst rep1 \<noteq> None" if "commit_entry ds rc E c q g i v l s = (Return (l1, Some rep1), s1)"
    for q g i v l s l1 rep1 s1
    using that
    by (auto simp: commit_entry_def commit_converted_def Let_def
        split: prod.splits outcome.splits sum.splits option.splits entry_end.splits if_splits)
  have entries: "fst rep1 \<noteq> None" if "commit_entries ds rc E c q g i vs l s = (Return (l1, Some rep1), s1)"
    for q g i vs l s l1 rep1 s1
    using that
  proof (induction vs arbitrary: i l s)
    case (Cons v vs)
    then show ?case by (auto dest: entry split: prod.splits outcome.splits option.splits)
  qed simp
  show ?thesis
    using assms
    by (auto simp: handleCommitRequest_def finish_commit_def Let_def dest: entries
        split: option.splits outcome.splits prod.splits sum.splits)
qed

lemma conclude_fields:
  assumes "conclude kind base rep = (rsp, err)" and "replied rep"
  shows "ErrorCode rsp = fst rep \<and> (err = None \<longleftrightarrow> fst rep \<noteq> None) \<and>
    csr_StoreBirthday rsp = csr_StoreBirthday base \<and> csr_ClientCommand rsp = csr_ClientCommand base \<and>
    csr_GetUpdates rsp = csr_GetUpdates base \<and> csr_Commit rsp = csr_Commit base \<and>
    csr_ClearServerData rsp = csr_ClearServerData base"
  using assms by (cases "snd rep"; cases "fst rep") (auto simp: conclude_def replied_def Let_def)

lemmas base_fields = general_fields_def empty_ClientToServerResponse_def storeBirthday_def
  maxCommitBatchSize_def setSyncPollInterval_def

text \<open>The messages for which an answer is built.\<close>

definition understood :: "ClientToServerMessage \<Rightarrow> bool" where
  "understood pb \<longleftrightarrow> MessageContents pb = Some GET_UPDATES \<or> MessageContents pb = Some CLEAR_SERVER_DATA \<or>
     (MessageContents pb = Some COMMIT \<and> csm_Commit pb \<noteq> None)"

text \<open>What the answer to a message holds.\<close>

definition answer_fields :: "ClientToServerMessage \<Rightarrow> ClientToServerResponse \<Rightarrow> error option \<Rightarrow> bool" where
  "answer_fields pb rsp err \<longleftrightarrow>
     csr_StoreBirthday rsp = Some ''1'' \<and>
     csr_ClientCommand rsp = Some \<lparr>SetSyncPollInterval = Some 30, MaxCommitBatchSize = Some 90\<rparr> \<and>
     (err = None \<longleftrightarrow> ErrorCode rsp \<noteq> None) \<and>
     (\<not> understood pb \<longrightarrow> err \<noteq> None) \<and>
     (understood pb \<longrightarrow> MessageContents pb \<noteq> Some GET_UPDATES \<longrightarrow> err = None) \<and>
     (understood pb \<longrightarrow> (csr_GetUpdates rsp \<noteq> None \<longleftrightarrow> MessageContents pb = Some GET_UPDATES) \<and>
        (csr_Commit rsp \<noteq> None \<longleftrightarrow> MessageContents pb = Some COMMIT) \<and>
        (csr_ClearServerData rsp \<noteq> None \<longleftrightarrow> MessageContents pb = Some CLEAR_SERVER_DATA))"

abbreviation general_response :: ClientToServerResponse where
  "general_response \<equiv> general_fields empty_ClientToServerResponse"

lemma concluded_fields:
  assumes "(rsp, err) = conclude kind base rep" "replied rep"
    and "csr_StoreBirthday base = csr_StoreBirthday general_response"
    and "csr_ClientCommand base = csr_ClientCommand general_response"
  shows "csr_StoreBirthday rsp = Some ''1'' \<and>
    csr_ClientCommand rsp = Some \<lparr>SetSyncPollInterval = Some 30, MaxCommitBatchSize = Some 90\<rparr> \<and>
    (err = None \<longleftrightarrow> ErrorCode rsp \<noteq> None) \<and> (err = None \<longleftrightarrow> fst rep \<noteq> None) \<and>
    csr_GetUpdates rsp = csr_GetUpdates base \<and> csr_Commit rsp = csr_Commit base \<and>
    csr_ClearServerData rsp = csr_ClearServerData base"
  using conclude_fields [OF assms(1) [symmetric] assms(2)] assms(3,4) by (simp add: base_fields)

lemma get_updates_fields:
  assumes "HandleClientToServerMessage ds rc E pb empty_ClientToServerResponse c s = Some (Return (rsp, err), s')"
    and "MessageContents pb = Some GET_UPDATES"
  shows "answer_fields pb rsp err"
proof -
  from assms obtain guRsp rep where
    g: "handleGetUpdatesRequest ds rc E (csm_GetUpdates pb) empty_GetUpdatesResponse c s = Some (Return (guRsp, rep), s')"
    and r: "(rsp, err) = conclude ''GetUpdates'' (general_response\<lparr>csr_GetUpdates := Some guRsp\<rparr>) rep"
    by (auto simp: HandleClientToServerMessage_def Let_def split: option.splits outcome.splits)
  from concluded_fields [OF r gu_replied [OF g]] assms(2) show ?thesis
    by (simp add: answer_fields_def understood_def base_fields)
qed

lemma commit_fields:
  assumes "HandleClientToServerMessage ds rc E pb empty_ClientToServerResponse c s = Some (Return (rsp, err), s')"
    and "MessageContents pb = Some COMMIT"
  shows "answer_fields pb rsp err"
proof -
  from assms obtain cRsp rep where
    g: "handleCommitRequest ds rc E (csm_Commit pb) \<lparr>Entryresponse = []\<rparr> c s = (Return (cRsp, rep), s')"
    and r: "(rsp, err) = conclude ''Commit'' (general_response\<lparr>csr_Commit := Some cRsp\<rparr>) rep"
    by (auto simp: HandleClientToServerMessage_def Let_def split: prod.splits outcome.splits)
  have code: "if csm_Commit pb = None then rep = (None, Some ''nil commitMsg is received'') else fst rep \<noteq> None"
    using g commit_reply_coded [of ds rc E _ _ c s cRsp rep s']
    by (cases "csm_Commit pb") (auto simp: handleCommitRequest_def [of _ _ _ None])
  then have "replied rep" by (auto simp: replied_def split: if_splits)
  from concluded_fields [OF r this] assms(2) code show ?thesis
    by (auto simp: answer_fields_def understood_def base_fields split: if_splits)
qed

lemma clear_fields:
  assumes "HandleClientToServerMessage ds rc E pb empty_ClientToServerResponse c s = Some (Return (rsp, err), s')"
    and "MessageContents pb = Some CLEAR_SERVER_DATA"
  shows "answer_fields pb rsp err"
proof -
  from assms obtain rep where g: "handleClearServerDataRequest ds rc E c s = (rep, s')"
    and r: "(rsp, err) = conclude ''ClearServerData'' (general_response\<lparr>csr_ClearServerData := Some ()\<rparr>) rep"
    by (auto simp: HandleClientToServerMessage_def Let_def split: prod.splits)
  have code: "fst rep \<noteq> None"
    using g by (auto simp: handleClearServerDataRequest_def Let_def split: option.splits sum.splits prod.splits if_splits)
  then have "replied rep" by (simp add: replied_def)
  from concluded_fields [OF r this] assms(2) code show ?thesis
    by (auto simp: answer_fields_def understood_def base_fields)
qed

text \<open>
  C33: Whenever a request returns, with any data store and cache, the response carries the
  store birthday and the client command (poll interval 30, commit batch size 90), and it
  has an error code or the HTTP layer gets an error, never both. It is an error when the
  kind is missing or unknown or a commit has no body; a commit with a body and a clear
  always get a code. The response has the part for the request's kind and no other.
\<close>

theorem response_fields:
  assumes "HandleClientToServerMessage ds rc E pb empty_ClientToServerResponse c s = Some (Return (rsp, err), s')"
  shows "csr_StoreBirthday rsp = Some ''1'' \<and>
    csr_ClientCommand rsp = Some \<lparr>SetSyncPollInterval = Some 30, MaxCommitBatchSize = Some 90\<rparr> \<and>
    (err = None \<longleftrightarrow> ErrorCode rsp \<noteq> None) \<and>
    (\<not> understood pb \<longrightarrow> err \<noteq> None) \<and>
    (understood pb \<longrightarrow> MessageContents pb \<noteq> Some GET_UPDATES \<longrightarrow> err = None) \<and>
    (understood pb \<longrightarrow> (csr_GetUpdates rsp \<noteq> None \<longleftrightarrow> MessageContents pb = Some GET_UPDATES) \<and> (csr_Commit rsp \<noteq> None \<longleftrightarrow> MessageContents pb = Some COMMIT) \<and> (csr_ClearServerData rsp \<noteq> None \<longleftrightarrow> MessageContents pb = Some CLEAR_SERVER_DATA))"
proof -
  have "answer_fields pb rsp err"
  proof (cases "MessageContents pb")
    case None
    with assms show ?thesis
      by (auto simp: HandleClientToServerMessage_def answer_fields_def understood_def Let_def base_fields)
  next
    case (Some k)
    show ?thesis
      by (cases k)
        (use assms Some get_updates_fields [OF assms] commit_fields [OF assms] clear_fields [OF assms] in
          \<open>auto simp: HandleClientToServerMessage_def answer_fields_def understood_def Let_def base_fields\<close>)
  qed
  then show ?thesis unfolding answer_fields_def .
qed

lemma response_fields_witness:
  "\<exists>rsp s'. HandleClientToServerMessage sqlite memory_redis sample_env clear_message empty_ClientToServerResponse
      ''chain'' (sys_of sample_store) = Some (Return (rsp, None), s') \<and> csr_StoreBirthday rsp = Some ''1''"
proof -
  obtain rsp err s' where run: "HandleClientToServerMessage sqlite memory_redis sample_env clear_message
      empty_ClientToServerResponse ''chain'' (sys_of sample_store) = Some (Return (rsp, err), s')"
    using clear_message_runs by fastforce
  have "understood clear_message" by (simp add: understood_def clear_message_def)
  moreover have "MessageContents clear_message \<noteq> Some GET_UPDATES" by (simp add: clear_message_def)
  ultimately show ?thesis using response_fields [OF run] run by auto
qed

end
