(* ===== verification/Auth.thy ===== *)
theory Auth
  imports Environment
begin

section \<open>Access tokens (auth/auth.go, auth/authtest/token.go)\<close>

text \<open>
  A token is the URL-safe base64 form of three hexadecimal strings separated by \<open>|\<close>: a
  timestamp, its signature, and the public key that is also the client ID. The theory has
  the two encodings of the Go library, the parsing of the token and \<open>authenticate\<close>. The
  signature scheme is a parameter: whether a signature is valid for a key and a message.
  The offset that a base64 error reports, and the byte that a hexadecimal error reports,
  are left out of the error's text; they appear in a log only.
\<close>

record auth_env =
  ed25519_valid :: "bytes \<Rightarrow> bytes \<Rightarrow> bytes \<Rightarrow> bool"
  BLOCKED_CLIENT_IDS :: string

definition bytes_of :: "string \<Rightarrow> bytes" where
  "bytes_of s = map (\<lambda>c. word_of_nat (of_char c)) s"

definition string_of :: "bytes \<Rightarrow> string" where
  "string_of b = map (\<lambda>w. char_of (unat w)) b"

subsection \<open>Package encoding/hex\<close>

definition hex_val :: "char \<Rightarrow> nat option" where
  "hex_val c =
     (let n = (of_char c :: nat) in
      if 48 \<le> n \<and> n \<le> 57 then Some (n - 48)
      else if 97 \<le> n \<and> n \<le> 102 then Some (n - 87)
      else if 65 \<le> n \<and> n \<le> 70 then Some (n - 55)
      else None)"

definition hex_char :: "nat \<Rightarrow> char" where
  "hex_char d = char_of (if d < 10 then 48 + d else 87 + d)"

fun hex_decode :: "string \<Rightarrow> error + bytes" where
  "hex_decode [] = Inr []"
| "hex_decode [a] =
     Inl (if hex_val a = None then ''encoding/hex: invalid byte'' else ''encoding/hex: odd length hex string'')"
| "hex_decode (a # b # s) =
     (case (hex_val a, hex_val b) of
        (Some x, Some y) \<Rightarrow>
          (case hex_decode s of Inl err \<Rightarrow> Inl err | Inr bs \<Rightarrow> Inr (word_of_nat (16 * x + y) # bs))
      | _ \<Rightarrow> Inl ''encoding/hex: invalid byte'')"

definition hex_encode :: "bytes \<Rightarrow> string" where
  "hex_encode b = concat (map (\<lambda>w. [hex_char (unat w div 16), hex_char (unat w mod 16)]) b)"

subsection \<open>Package encoding/base64, the URL alphabet with padding\<close>

definition b64_val :: "char \<Rightarrow> nat option" where
  "b64_val c =
     (let n = (of_char c :: nat) in
      if 65 \<le> n \<and> n \<le> 90 then Some (n - 65)
      else if 97 \<le> n \<and> n \<le> 122 then Some (n - 71)
      else if 48 \<le> n \<and> n \<le> 57 then Some (n + 4)
      else if n = 45 then Some 62
      else if n = 95 then Some 63
      else None)"

definition b64_char :: "nat \<Rightarrow> char" where
  "b64_char d = char_of (if d < 26 then 65 + d else if d < 52 then 71 + d else if d < 62 then d - 4
     else if d = 62 then 45 else 95)"

text \<open>The groups of four characters; padding may end the last one.\<close>

fun b64_groups :: "string \<Rightarrow> bytes option" where
  "b64_groups [] = Some []"
| "b64_groups (a # b # c # d # s) =
     (case (b64_val a, b64_val b) of
        (Some x, Some y) \<Rightarrow>
          if c = CHR ''='' \<and> d = CHR ''='' \<and> s = [] then Some [word_of_nat (4 * x + y div 16)]
          else (case b64_val c of
             None \<Rightarrow> None
           | Some z \<Rightarrow>
               if d = CHR ''='' \<and> s = []
               then Some [word_of_nat (4 * x + y div 16), word_of_nat (16 * (y mod 16) + z div 4)]
               else (case b64_val d of
                  None \<Rightarrow> None
                | Some w \<Rightarrow> (case b64_groups s of
                     None \<Rightarrow> None
                   | Some bs \<Rightarrow> Some (word_of_nat (4 * x + y div 16) #
                       word_of_nat (16 * (y mod 16) + z div 4) # word_of_nat (64 * (z mod 4) + w) # bs))))
      | _ \<Rightarrow> None)"
| "b64_groups _ = None"

text \<open>Line feeds and carriage returns are skipped.\<close>

definition b64_decode :: "string \<Rightarrow> error + bytes" where
  "b64_decode s =
     (case b64_groups (filter (\<lambda>c. c \<noteq> CHR 0x0A \<and> c \<noteq> CHR 0x0D) s) of
        None \<Rightarrow> Inl ''illegal base64 data''
      | Some b \<Rightarrow> Inr b)"

fun b64_encode_nat :: "nat list \<Rightarrow> string" where
  "b64_encode_nat [] = []"
| "b64_encode_nat [a] = [b64_char (a div 4), b64_char (16 * (a mod 4)), CHR ''='', CHR ''='']"
| "b64_encode_nat [a, b] =
     [b64_char (a div 4), b64_char (16 * (a mod 4) + b div 16), b64_char (4 * (b mod 16)), CHR ''='']"
| "b64_encode_nat (a # b # c # bs) =
     b64_char (a div 4) # b64_char (16 * (a mod 4) + b div 16) # b64_char (4 * (b mod 16) + c div 64) #
     b64_char (c mod 64) # b64_encode_nat bs"

definition b64_encode :: "bytes \<Rightarrow> string" where
  "b64_encode b = b64_encode_nat (map unat b)"

subsection \<open>The token\<close>

definition TokenMaxDuration :: int where "TokenMaxDuration = 86400 * 1000"
definition bearerPrefix :: string where "bearerPrefix = ''Bearer ''"

record Token =
  TimestampHex :: string
  SignedTimestampHex :: string
  PublicKeyHex :: string

text \<open>The regular expression \<open>tokenRE\<close> and its three groups.\<close>

definition is_hex :: "string \<Rightarrow> bool" where
  "is_hex s \<longleftrightarrow> s \<noteq> [] \<and> (\<forall>c \<in> set s. hex_val c \<noteq> None)"

definition match_token :: "string \<Rightarrow> Token option" where
  "match_token s =
     (case split_on (CHR ''|'') s of
        [a, b, c] \<Rightarrow>
          if is_hex a \<and> is_hex b \<and> is_hex c
          then Some \<lparr>TimestampHex = a, SignedTimestampHex = b, PublicKeyHex = c\<rparr> else None
      | _ \<Rightarrow> None)"

text \<open>\<open>-n\<close> of the least \<open>int64\<close> is itself.\<close>

definition abs64 :: "int \<Rightarrow> int" where
  "abs64 n = (if n < 0 then wrap64 (- n) else n)"

text \<open>\<open>ed25519.Verify\<close> panics on a key of the wrong length.\<close>

definition ed25519_Verify :: "auth_env \<Rightarrow> bytes \<Rightarrow> bytes \<Rightarrow> bytes \<Rightarrow> bool outcome" where
  "ed25519_Verify A publicKey message sig =
     (if length publicKey \<noteq> 32 then Panic
      else Return (length sig = 64 \<and> ed25519_valid A publicKey message sig))"

definition authenticate :: "auth_env \<Rightarrow> env \<Rightarrow> string \<Rightarrow> nat \<Rightarrow> (error + string) outcome \<times> nat" where
  "authenticate A E tkn n =
     (case b64_decode tkn of
        Inl err \<Rightarrow> (Return (Inl (''error doing base64 decoding: '' @ err)), n)
      | Inr decoded \<Rightarrow>
     (case match_token (string_of decoded) of
        None \<Rightarrow> (Return (Inl ''invalid token format''), n)
      | Some token \<Rightarrow>
     (case hex_decode (PublicKeyHex token) of
        Inl err \<Rightarrow> (Return (Inl (''error decoding hex string: '' @ err)), n)
      | Inr publicKey \<Rightarrow>
     (case hex_decode (TimestampHex token) of
        Inl err \<Rightarrow> (Return (Inl (''error decoding hex string: '' @ err)), n)
      | Inr timestampBytes \<Rightarrow>
     (case hex_decode (SignedTimestampHex token) of
        Inl err \<Rightarrow> (Return (Inl (''error decoding hex string: '' @ err)), n)
      | Inr signedTimestamp \<Rightarrow>
     (case ed25519_Verify A publicKey timestampBytes signedTimestamp of
        Panic \<Rightarrow> (Panic, n)
      | Return ok \<Rightarrow>
     (if \<not> ok then (Return (Inl ''signature verification failed''), n)
      else
     (case parse_int ''ParseInt'' (string_of timestampBytes) of
        Inl err \<Rightarrow> (Return (Inl (''error parsing timestamp: '' @ err)), n)
      | Inr timestamp \<Rightarrow>
     (if TokenMaxDuration < abs64 (wrap64 (unix_milli E n - timestamp))
      then (Return (Inl ''token is expired''), Suc n)
      else if PublicKeyHex token \<in> set (split_on (CHR '','') (BLOCKED_CLIENT_IDS A))
      then (Return (Inl ''this client ID is blocked''), Suc n)
      else (Return (Inr (PublicKeyHex token)), Suc n))))))))))"

text \<open>The argument of \<open>Authorize\<close> is the value list of the header \<open>Authorization\<close>, if present.\<close>

definition Authorize ::
  "auth_env \<Rightarrow> env \<Rightarrow> string list option \<Rightarrow> nat \<Rightarrow> (error + string) outcome \<times> nat" where
  "Authorize A E header n =
     (let verify = (\<lambda>token.
        if token = '''' then (Return (Inl ''not a valid token''), n)
        else (case authenticate A E token n of
          (Return (Inl err), n) \<Rightarrow> (Return (Inl (''error authorizing: '' @ err)), n)
        | res \<Rightarrow> res))
      in case header of
           Some (token # _) \<Rightarrow>
             if \<not> has_prefix bearerPrefix token then (Return (Inl ''not a valid token''), n)
             else verify (trim_prefix bearerPrefix token)
         | _ \<Rightarrow> verify '''')"

text \<open>
  \<open>GenerateToken\<close> of the test support: the key pair and the signature come from the
  library, so the public key and the signature are arguments here.
\<close>

definition GenerateToken :: "bytes \<Rightarrow> bytes \<Rightarrow> int \<Rightarrow> string \<times> string \<times> string" where
  "GenerateToken publicKey signedTimestampBytes timestamp =
     (let timestampBytes = bytes_of (itoa timestamp);
          publicKeyHex = hex_encode publicKey;
          token = hex_encode timestampBytes @ ''|'' @ hex_encode signedTimestampBytes @ ''|'' @ publicKeyHex
      in (b64_encode (bytes_of token), token, publicKeyHex))"

end
