(* ===== verification/Auth_Correct.thy ===== *)
theory Auth_Correct
  imports Auth
begin

section \<open>Encodings and tokens\<close>

text \<open>
  Decoding undoes encoding for both encodings, what a decoded hexadecimal string looks
  like, and what a successful authentication has checked.
\<close>

subsection \<open>Bytes and characters\<close>

lemma string_of_bytes_of [simp]: "string_of (bytes_of s) = s"
proof -
  have "char_of (unat (word_of_nat (of_char c) :: 8 word)) = c" for c
  proof -
    have "(of_char c :: nat) < 256" by simp
    then show ?thesis by (simp add: unat_of_nat)
  qed
  then show ?thesis by (induction s) (simp_all add: string_of_def bytes_of_def)
qed

lemma bytes_of_Cons [simp]: "bytes_of [] = []" "bytes_of (c # s) = word_of_nat (of_char c) # bytes_of s"
  by (simp_all add: bytes_of_def)

lemma length_bytes_of [simp]: "length (bytes_of s) = length s"
  by (simp add: bytes_of_def)

lemma of_char_of_less: "n < 256 \<Longrightarrow> (of_char (char_of n) :: nat) = n"
  by simp

lemma byte_split [simp]: "word_of_nat (16 * (unat w div 16) + unat w mod 16) = (w :: 8 word)"
  by simp

lemma unat_byte: "unat (w :: 8 word) < 256"
proof -
  have "unat w < 2 ^ LENGTH(8)" by (rule unsigned_less)
  then show ?thesis by simp
qed

subsection \<open>Hexadecimal\<close>

lemma hex_val_char: "d < 16 \<Longrightarrow> hex_val (hex_char d) = Some d"
  by (auto simp: hex_val_def hex_char_def Let_def)

lemma hex_encode_Cons:
  "hex_encode [] = []" "hex_encode (w # b) = hex_char (unat w div 16) # hex_char (unat w mod 16) # hex_encode b"
  by (simp_all add: hex_encode_def)

lemma hex_decode_encode: "hex_decode (hex_encode b) = Inr b"
proof (induction b)
  case (Cons w b)
  have "unat w div 16 < 16" using unat_byte [of w] by (simp add: less_mult_imp_div_less)
  with Cons show ?case by (simp add: hex_encode_Cons hex_val_char)
qed (simp add: hex_encode_Cons)

lemma hex_encode_chars: "c \<in> set (hex_encode b) \<Longrightarrow> hex_val c \<noteq> None"
proof (induction b)
  case (Cons w b)
  have "unat w div 16 < 16" using unat_byte [of w] by (simp add: less_mult_imp_div_less)
  with Cons show ?case by (auto simp: hex_encode_Cons hex_val_char)
qed (simp add: hex_encode_Cons)

lemma is_hex_encode: "b \<noteq> [] \<Longrightarrow> is_hex (hex_encode b)"
  using hex_encode_chars [of _ b] by (cases b) (auto simp: is_hex_def hex_encode_Cons)

lemma hex_val_seps: "hex_val (CHR ''|'') = None" "hex_val (CHR ''#'') = None" "hex_val (CHR '','') = None"
  by (simp_all add: hex_val_def)

lemma is_hex_no_sep: "is_hex s \<Longrightarrow> CHR ''|'' \<notin> set s \<and> CHR ''#'' \<notin> set s"
  using hex_val_seps by (auto simp: is_hex_def)

text \<open>A string of hexadecimal digits fails to decode only when its length is odd.\<close>

lemma hex_decode_digits:
  "\<forall>c \<in> set s. hex_val c \<noteq> None \<Longrightarrow>
     (case hex_decode s of
        Inl err \<Rightarrow> odd (length s) \<and> err = ''encoding/hex: odd length hex string''
      | Inr b \<Rightarrow> length s = 2 * length b)"
proof (induction s rule: hex_decode.induct)
  case (3 a b s)
  then show ?case by (auto split: sum.splits)
qed simp_all

subsection \<open>Base64\<close>

lemma b64_val_char: "d < 64 \<Longrightarrow> b64_val (b64_char d) = Some d"
  by (auto simp: b64_val_def b64_char_def Let_def)

lemma b64_char_ordinary:
  assumes "d < 64"
  shows "b64_char d \<noteq> CHR ''=''" and "b64_char d \<noteq> CHR 0x0A" and "b64_char d \<noteq> CHR 0x0D"
proof -
  have n: "b64_val (CHR ''='') = None" "b64_val (CHR 0x0A) = None" "b64_val (CHR 0x0D) = None"
    by (simp_all add: b64_val_def)
  have other: "b64_char d \<noteq> c" if "b64_val c = None" for c
    using that b64_val_char [OF assms] by auto
  show "b64_char d \<noteq> CHR ''=''" and "b64_char d \<noteq> CHR 0x0A" and "b64_char d \<noteq> CHR 0x0D"
    by (rule other, rule n)+
qed

lemma b64_digit_bounds:
  fixes a b :: nat
  assumes "a < 256"
  shows "a div 4 < 64" and "16 * (a mod 4) < 64" and "4 * (a mod 16) < 64" and "a mod 64 < 64"
    and "b < 256 \<Longrightarrow> 16 * (a mod 4) + b div 16 < 64" and "b < 256 \<Longrightarrow> 4 * (a mod 16) + b div 64 < 64"
proof -
  have m: "a mod 4 < 4" "a mod 16 < 16" by simp_all
  show "a div 4 < 64" using assms by (simp add: less_mult_imp_div_less)
  show "16 * (a mod 4) < 64" "4 * (a mod 16) < 64" "a mod 64 < 64" using m by linarith+
  show "16 * (a mod 4) + b div 16 < 64" if "b < 256"
    using m less_mult_imp_div_less [of b 16 16] that by linarith
  show "4 * (a mod 16) + b div 64 < 64" if "b < 256"
    using m less_mult_imp_div_less [of b 4 64] that by linarith
qed

lemma join_digits:
  fixes k m r :: nat
  assumes "r < k"
  shows "(k * m + r) div k = m" and "(k * m + r) mod k = r"
  using assms by simp_all

lemma b64_group_values:
  fixes a b c :: nat
  assumes "a < 256" and "b < 256" and "c < 256"
  shows "4 * (a div 4) + (16 * (a mod 4) + b div 16) div 16 = a"
    and "4 * (a div 4) + (16 * (a mod 4)) div 16 = a"
    and "16 * ((16 * (a mod 4) + b div 16) mod 16) + (4 * (b mod 16) + c div 64) div 4 = b"
    and "16 * ((16 * (a mod 4) + b div 16) mod 16) + (4 * (b mod 16)) div 4 = b"
    and "64 * ((4 * (b mod 16) + c div 64) mod 4) + c mod 64 = c"
proof -
  have d: "b div 16 < 16" "c div 64 < 4" using assms by (simp_all add: less_mult_imp_div_less)
  show "4 * (a div 4) + (16 * (a mod 4) + b div 16) div 16 = a"
    unfolding join_digits(1) [OF d(1)] by simp
  show "4 * (a div 4) + (16 * (a mod 4)) div 16 = a" by simp
  show "16 * ((16 * (a mod 4) + b div 16) mod 16) + (4 * (b mod 16) + c div 64) div 4 = b"
    unfolding join_digits(2) [OF d(1)] join_digits(1) [OF d(2)] by simp
  show "16 * ((16 * (a mod 4) + b div 16) mod 16) + (4 * (b mod 16)) div 4 = b"
    unfolding join_digits(2) [OF d(1)] by simp
  show "64 * ((4 * (b mod 16) + c div 64) mod 4) + c mod 64 = c"
    unfolding join_digits(2) [OF d(2)] by simp
qed

lemma b64_groups_encode: "\<forall>n \<in> set ns. n < 256 \<Longrightarrow> b64_groups (b64_encode_nat ns) = Some (map word_of_nat ns)"
proof (induction ns rule: b64_encode_nat.induct)
  case (2 a)
  then have a: "a < 256" by simp
  note v = b64_group_values(2) [OF a a a]
  show ?case using a v
    by (simp add: b64_val_char b64_digit_bounds del: of_nat_add of_nat_mult div_mult_self1_is_m div_mult_mult1_if)
next
  case (3 a b)
  then have ab: "a < 256" "b < 256" by simp_all
  show ?case using b64_group_values(1,4) [OF ab ab(2)] ab
    by (simp add: b64_val_char b64_char_ordinary b64_digit_bounds del: of_nat_add of_nat_mult)
next
  case (4 a b c bs)
  then have abc: "a < 256" "b < 256" "c < 256" by simp_all
  have "b div 16 < 16" "c div 64 < 4" using abc by (simp_all add: less_mult_imp_div_less)
  then show ?case using abc 4
    by (simp add: b64_val_char b64_char_ordinary b64_digit_bounds del: of_nat_add of_nat_mult)
qed simp

lemma b64_encode_no_newline: "\<forall>n \<in> set ns. n < 256 \<Longrightarrow>
    filter (\<lambda>c. c \<noteq> CHR 0x0A \<and> c \<noteq> CHR 0x0D) (b64_encode_nat ns) = b64_encode_nat ns"
  by (induction ns rule: b64_encode_nat.induct) (simp_all add: b64_char_ordinary b64_digit_bounds)

lemma b64_decode_encode: "b64_decode (b64_encode b) = Inr b"
proof -
  have all: "\<forall>n \<in> set (map unat b). n < 256" using unat_byte by auto
  have "map word_of_nat (map unat b) = b" by (induction b) simp_all
  then show ?thesis
    unfolding b64_decode_def b64_encode_def b64_encode_no_newline [OF all] b64_groups_encode [OF all] by simp
qed

subsection \<open>Tokens\<close>

lemma split_join:
  "CHR ''|'' \<notin> set a \<Longrightarrow> CHR ''|'' \<notin> set b \<Longrightarrow> CHR ''|'' \<notin> set c \<Longrightarrow>
     split_on (CHR ''|'') (a @ ''|'' @ b @ ''|'' @ c) = [a, b, c]"
  by (simp add: split_on_append split_on_id)

lemma match_token_join:
  "is_hex a \<Longrightarrow> is_hex b \<Longrightarrow> is_hex c \<Longrightarrow>
     match_token (a @ ''|'' @ b @ ''|'' @ c)
       = Some \<lparr>TimestampHex = a, SignedTimestampHex = b, PublicKeyHex = c\<rparr>"
  using is_hex_no_sep split_join [of a b c] by (simp add: match_token_def)

lemma match_token_hex:
  "match_token s = Some t \<Longrightarrow> is_hex (TimestampHex t) \<and> is_hex (SignedTimestampHex t) \<and> is_hex (PublicKeyHex t)"
  by (auto simp: match_token_def split: list.splits if_splits)

text \<open>What a token must satisfy, the blocked IDs and the clock apart.\<close>

definition token_signed :: "auth_env \<Rightarrow> string \<Rightarrow> Token \<Rightarrow> int \<Rightarrow> bool" where
  "token_signed A tkn t ts \<longleftrightarrow>
     (\<exists>decoded key msg sig. b64_decode tkn = Inr decoded \<and> match_token (string_of decoded) = Some t \<and>
        hex_decode (PublicKeyHex t) = Inr key \<and> hex_decode (TimestampHex t) = Inr msg \<and>
        hex_decode (SignedTimestampHex t) = Inr sig \<and> length key = 32 \<and> length sig = 64 \<and>
        ed25519_valid A key msg sig \<and> parse_int ''ParseInt'' (string_of msg) = Inr ts)"

definition fresh :: "env \<Rightarrow> nat \<Rightarrow> int \<Rightarrow> bool" where
  "fresh E n ts \<longleftrightarrow> abs64 (wrap64 (unix_milli E n - ts)) \<le> TokenMaxDuration"

definition blocked :: "auth_env \<Rightarrow> string \<Rightarrow> bool" where
  "blocked A clientID \<longleftrightarrow> clientID \<in> set (split_on (CHR '','') (BLOCKED_CLIENT_IDS A))"

lemma authenticate_accepts:
  assumes "token_signed A tkn t ts" and "fresh E n ts" and "\<not> blocked A (PublicKeyHex t)"
  shows "authenticate A E tkn n = (Return (Inr (PublicKeyHex t)), Suc n)"
  using assms by (auto simp: authenticate_def token_signed_def fresh_def blocked_def ed25519_Verify_def)

lemma authenticate_accepted:
  assumes "authenticate A E tkn n = (Return (Inr clientID), n')"
  shows "\<exists>t ts. token_signed A tkn t ts \<and> clientID = PublicKeyHex t \<and> fresh E n ts \<and> \<not> blocked A clientID \<and> n' = Suc n"
  using assms
  by (auto simp: authenticate_def token_signed_def fresh_def blocked_def ed25519_Verify_def not_less
      split: sum.splits option.splits if_splits outcome.splits)

lemma accepted_hex: "authenticate A E tkn n = (Return (Inr clientID), n') \<Longrightarrow> is_hex clientID"
  using authenticate_accepted match_token_hex by (fastforce simp: token_signed_def)

lemma authorized_hex: "Authorize A E header n = (Return (Inr clientID), n') \<Longrightarrow> is_hex clientID"
  by (auto simp: Authorize_def Let_def dest: accepted_hex split: option.splits list.splits prod.splits
      if_splits outcome.splits sum.splits)

text \<open>A header that is accepted has a bearer token signed by the key of the client ID.\<close>

lemma authorized_signed:
  assumes "Authorize A E header n = (Return (Inr clientID), n')"
  shows "\<exists>tkn others t ts. header = Some ((bearerPrefix @ tkn) # others) \<and> token_signed A tkn t ts \<and>
    PublicKeyHex t = clientID \<and> fresh E n ts \<and> \<not> blocked A clientID"
proof -
  obtain tkn others where h: "header = Some (tkn # others)" "has_prefix bearerPrefix tkn"
    and a: "authenticate A E (trim_prefix bearerPrefix tkn) n = (Return (Inr clientID), n')"
    using assms
    by (auto simp: Authorize_def Let_def split: option.splits list.splits prod.splits if_splits
        outcome.splits sum.splits)
  have tkn: "tkn = bearerPrefix @ trim_prefix bearerPrefix tkn"
    using h(2) by (auto simp: has_prefix_def trim_prefix_def) (metis append_take_drop_id)
  obtain t ts where "token_signed A (trim_prefix bearerPrefix tkn) t ts" "clientID = PublicKeyHex t"
      "fresh E n ts" "\<not> blocked A clientID"
    using authenticate_accepted [OF a] by blast
  then show ?thesis using h(1) tkn by metis
qed

lemma abs64_exact: "in_int64 (x) \<Longrightarrow> x \<noteq> - (2 ^ 63) \<Longrightarrow> abs64 x = \<bar>x\<bar>"
  by (auto simp: abs64_def in_int64_def intro!: wrap64_id)

end
