(* ===== verification/Auth_Props.thy ===== *)
theory Auth_Props
  imports Auth_Correct Sample_Env
begin

section \<open>Properties of authentication\<close>

text \<open>
  Generated tokens are accepted; an accepted token was signed and is of the day, but for
  one instant; a key on the block list gets in under another spelling; and exactly which
  tokens make the request panic.
\<close>

lemma header_prefix: "has_prefix bearerPrefix (bearerPrefix @ t)" "trim_prefix bearerPrefix (bearerPrefix @ t) = t"
  by (simp_all add: has_prefix_def trim_prefix_def)

lemma joined_token_signed:
  assumes "is_hex h" and "hex_decode h = Inr key" and "length key = 32" and "length sig = 64"
    and "ed25519_valid A key (bytes_of (itoa ts)) sig" and "in_int64 ts"
  shows "token_signed A (b64_encode (bytes_of
      (hex_encode (bytes_of (itoa ts)) @ ''|'' @ hex_encode sig @ ''|'' @ h)))
    \<lparr>TimestampHex = hex_encode (bytes_of (itoa ts)), SignedTimestampHex = hex_encode sig, PublicKeyHex = h\<rparr> ts"
proof -
  have "bytes_of (itoa ts) \<noteq> []" by (simp add: bytes_of_def)
  then have "is_hex (hex_encode (bytes_of (itoa ts)))" by (rule is_hex_encode)
  moreover have "is_hex (hex_encode sig)" using assms(4) by (intro is_hex_encode) auto
  ultimately show ?thesis
    unfolding token_signed_def b64_decode_encode
    using assms match_token_join by (simp add: hex_decode_encode parse_int_itoa)
qed

text \<open>A generated token in the header.\<close>

lemma generated_accepted:
  assumes "length key = 32" and "length sig = 64" and "ed25519_valid A key (bytes_of (itoa ts)) sig"
    and "in_int64 ts" and "fresh E n ts" and "\<not> blocked A (hex_encode key)"
  shows "Authorize A E (Some ((bearerPrefix @ fst (GenerateToken key sig ts)) # others)) n
    = (Return (Inr (hex_encode key)), Suc n)"
proof -
  have "is_hex (hex_encode key)" using assms(1) by (intro is_hex_encode) auto
  note signed = joined_token_signed [OF this hex_decode_encode assms(1-4)]
  have auth: "authenticate A E (fst (GenerateToken key sig ts)) n = (Return (Inr (hex_encode key)), Suc n)"
    using authenticate_accepts [OF signed assms(5)] assms(6) by (simp add: GenerateToken_def Let_def)
  moreover have "fst (GenerateToken key sig ts) \<noteq> ''''"
  proof
    assume "fst (GenerateToken key sig ts) = ''''"
    then have "authenticate A E (fst (GenerateToken key sig ts)) n = (Return (Inl ''invalid token format''), n)"
      by (simp add: authenticate_def b64_decode_def string_of_def match_token_def)
    with auth show False by simp
  qed
  ultimately show ?thesis by (simp add: Authorize_def header_prefix)
qed

text \<open>
  C26: A token made by \<open>GenerateToken\<close> from a 32-byte key and a 64-byte valid signature of
  a timestamp within a day of the server's clock is accepted in an \<open>Authorization\<close> header,
  and the client ID is the hexadecimal key, unless that is on the block list: the base64
  and hexadecimal encodings, the joined format and the decimal timestamp are read back.
\<close>

theorem token_accepted:
  assumes "length key = 32" and "length sig = 64" and "ed25519_valid A key (bytes_of (itoa ts)) sig"
    and "in_int64 ts" and "fresh E n ts" and "\<not> blocked A (hex_encode key)"
  shows "Authorize A E (Some ((bearerPrefix @ fst (GenerateToken key sig ts)) # others)) n
    = (Return (Inr (hex_encode key)), Suc n)"
  by (rule generated_accepted [OF assms])

definition sample_auth :: auth_env where
  "sample_auth = \<lparr>ed25519_valid = (\<lambda>key msg sig. sig = replicate 64 7), BLOCKED_CLIENT_IDS = ''''\<rparr>"

lemma sample_fresh: "fresh sample_env 0 1700000000000"
  by (simp add: fresh_def wrap64_def abs64_def TokenMaxDuration_def)

lemma sample_not_blocked: "h \<noteq> '''' \<Longrightarrow> \<not> blocked sample_auth h"
  by (simp add: blocked_def sample_auth_def)

definition sample_key :: bytes where "sample_key = replicate 32 1"
definition sample_sig :: bytes where "sample_sig = replicate 64 7"

lemma sample_key_facts:
  "is_hex (hex_encode sample_key)" "length sample_key = 32" "length sample_sig = 64"
  "ed25519_valid sample_auth key msg sample_sig" "\<not> blocked sample_auth (hex_encode sample_key)"
proof -
  show hex: "is_hex (hex_encode sample_key)" by (intro is_hex_encode) (simp add: sample_key_def)
  show "length sample_key = 32" "length sample_sig = 64" by (simp_all add: sample_key_def sample_sig_def)
  show "ed25519_valid sample_auth key msg sample_sig" by (simp add: sample_auth_def sample_sig_def)
  show "\<not> blocked sample_auth (hex_encode sample_key)"
    using hex by (intro sample_not_blocked) (auto simp: is_hex_def)
qed

lemma sample_time: "in_int64 1700000000000"
  by (simp add: in_int64_def)

lemma token_accepted_witness:
  "fst (Authorize sample_auth sample_env
     (Some [bearerPrefix @ fst (GenerateToken sample_key sample_sig 1700000000000)]) 0)
   = Return (Inr (hex_encode sample_key))"
  using token_accepted [OF sample_key_facts(2,3,4) sample_time sample_fresh sample_key_facts(5)] by simp

lemma wrap64_over:
  assumes "2 ^ 63 \<le> x" and "x < 2 ^ 63 + 2 ^ 64"
  shows "wrap64 x = x - 2 ^ 64"
proof -
  have "(x + 2 ^ 63) mod 2 ^ 64 = (x + 2 ^ 63 - 2 ^ 64) mod 2 ^ 64"
    by (metis minus_mod_self2)
  also have "\<dots> = x + 2 ^ 63 - 2 ^ 64" using assms by (intro mod_pos_pos_trivial) auto
  finally show ?thesis by (simp add: wrap64_def)
qed

text \<open>The age test, with the clock past the epoch.\<close>

lemma fresh_iff:
  assumes "clock_ok E" and "in_int64 ts"
  shows "fresh E n ts \<longleftrightarrow> \<bar>unix_milli E n - ts\<bar> \<le> TokenMaxDuration \<or> unix_milli E n - ts = 2 ^ 63"
proof -
  let ?x = "unix_milli E n - ts"
  have "now_ns E n < 2 ^ 63" using assms(1) by (simp add: clock_ok_def)
  then have "unix_milli E n < 2 ^ 62" by (simp add: unix_milli_def div_less_iff_less_mult)
  then have x: "- (2 ^ 63) < ?x" "?x < 2 ^ 63 + 2 ^ 62"
    using clock_ok_milli [OF assms(1), of n] assms(2) by (auto simp: in_int64_def)
  consider "?x < 2 ^ 63" | "?x = 2 ^ 63" | "2 ^ 63 < ?x" by linarith
  then show ?thesis
  proof cases
    case 1
    then have "in_int64 ?x" using x by (simp add: in_int64_def)
    moreover have "?x \<noteq> - (2 ^ 63)" using x(1) by linarith
    ultimately show ?thesis using 1 by (auto simp: fresh_def wrap64_id abs64_exact)
  next
    case 2
    then show ?thesis by (simp add: fresh_def wrap64_def abs64_def TokenMaxDuration_def)
  next
    case 3
    have w: "wrap64 ?x = ?x - 2 ^ 64" using 3 x by (intro wrap64_over) simp_all
    have "in_int64 (?x - 2 ^ 64)" "?x - 2 ^ 64 \<noteq> - (2 ^ 63)" using 3 x by (simp_all add: in_int64_def)
    with w have "abs64 (wrap64 ?x) = 2 ^ 64 - ?x" using x by (simp add: abs64_exact)
    then show ?thesis using 3 x by (simp add: fresh_def TokenMaxDuration_def)
  qed
qed

text \<open>
  C25: Soundness: when a request is authorized, its header carries a bearer token in the
  format, whose timestamp is signed with the key that the client ID spells, which is not
  on the block list; the timestamp is within a day of the clock, or exactly \<open>2 ^ 63\<close>
  milliseconds before it; and the client ID is a non-empty hexadecimal string.
\<close>

theorem authorize_sound:
  assumes "Authorize A E header n = (Return (Inr clientID), n')" and "clock_ok E"
  shows "is_hex clientID \<and> \<not> blocked A clientID \<and>
    (\<exists>tkn others t ts. header = Some ((bearerPrefix @ tkn) # others) \<and> token_signed A tkn t ts \<and> PublicKeyHex t = clientID \<and>
       (in_int64 ts \<longrightarrow> \<bar>unix_milli E n - ts\<bar> \<le> TokenMaxDuration \<or> unix_milli E n - ts = 2 ^ 63))"
  using authorized_signed [OF assms(1)] authorized_hex [OF assms(1)] fresh_iff [OF assms(2)] by metis

lemma sample_clock: "clock_ok (sample_env\<lparr>now_ns := \<lambda>n. 1700000000000000000\<rparr>)"
  by (simp add: clock_ok_def)

lemma authorize_sound_witness:
  "\<exists>id. fst (Authorize sample_auth (sample_env\<lparr>now_ns := \<lambda>n. 1700000000000000000\<rparr>)
     (Some [bearerPrefix @ fst (GenerateToken sample_key sample_sig 1700000000000)]) 0) = Return (Inr id) \<and>
   is_hex id"
proof -
  let ?E = "sample_env\<lparr>now_ns := \<lambda>n. 1700000000000000000\<rparr>"
  have fr: "fresh ?E 0 1700000000000"
    by (simp add: fresh_def unix_milli_def wrap64_def abs64_def TokenMaxDuration_def)
  have run: "Authorize sample_auth ?E (Some [bearerPrefix @ fst (GenerateToken sample_key sample_sig 1700000000000)]) 0
      = (Return (Inr (hex_encode sample_key)), Suc 0)"
    by (rule generated_accepted [OF sample_key_facts(2,3,4) sample_time fr sample_key_facts(5)])
  from authorize_sound [OF run sample_clock] run show ?thesis by auto
qed

subsection \<open>Weak points\<close>

text \<open>
  A token whose timestamp lies exactly \<open>2 ^ 63\<close> milliseconds before the clock is not
  taken for expired: the difference wraps to the least 64-bit integer, whose absolute
  value, computed by negation, is negative.
\<close>

theorem far_past_accepted:
  assumes "token_signed A tkn t ts" and "unix_milli E n - ts = 2 ^ 63" and "\<not> blocked A (PublicKeyHex t)"
  shows "authenticate A E tkn n = (Return (Inr (PublicKeyHex t)), Suc n)"
proof (rule authenticate_accepts [OF assms(1) _ assms(3)])
  show "fresh E n ts" using assms(2) by (simp add: fresh_def wrap64_def abs64_def TokenMaxDuration_def)
qed

lemma far_past_accepted_witness:
  "\<exists>tkn id. fst (authenticate sample_auth sample_env tkn 0) = Return (Inr id) \<and>
     tkn = fst (GenerateToken sample_key sample_sig (1700000000000 - 2 ^ 63))"
proof -
  let ?ts = "1700000000000 - 2 ^ 63 :: int"
  have ts: "in_int64 ?ts" by (simp add: in_int64_def)
  have far: "unix_milli sample_env 0 - ?ts = 2 ^ 63" by simp
  note signed = joined_token_signed [OF sample_key_facts(1) hex_decode_encode sample_key_facts(2,3,4) ts]
  have "authenticate sample_auth sample_env (fst (GenerateToken sample_key sample_sig ?ts)) 0
      = (Return (Inr (hex_encode sample_key)), Suc 0)"
    using far_past_accepted [OF signed far] sample_key_facts(5)
    by (simp only: GenerateToken_def Let_def fst_conv Token.simps not_False_eq_True)
  then show ?thesis by auto
qed

text \<open>
  The block list compares spellings, not keys: a client whose key is on the list in
  its usual lower-case spelling is let in, under a client ID of its own choice, with any
  other spelling \<open>h\<close> of the same key (capital letters) that is not on the list.
\<close>

theorem block_list_bypassed:
  assumes "blocked A (hex_encode key)" and "is_hex h" and "hex_decode h = Inr key" and "\<not> blocked A h"
    and "length key = 32" and "length sig = 64" and "ed25519_valid A key (bytes_of (itoa ts)) sig"
    and "in_int64 ts" and "fresh E n ts"
  shows "authenticate A E (b64_encode (bytes_of
      (hex_encode (bytes_of (itoa ts)) @ ''|'' @ hex_encode sig @ ''|'' @ h))) n = (Return (Inr h), Suc n)"
  using authenticate_accepts [OF joined_token_signed [OF assms(2,3,5-8)] assms(9)] assms(4) by simp

definition wary_auth :: auth_env where
  "wary_auth = sample_auth\<lparr>BLOCKED_CLIENT_IDS := hex_encode (replicate 32 171)\<rparr>"

lemma upper_spelling:
  "hex_decode (concat (replicate k ''AB'')) = Inr (replicate k 171)"
  "k \<noteq> 0 \<Longrightarrow> is_hex (concat (replicate k ''AB''))" "set (concat (replicate k ''AB'')) \<subseteq> {CHR ''A'', CHR ''B''}"
  by (induction k) (auto simp: hex_val_def is_hex_def)

lemma lower_spelling: "hex_encode (replicate k 171) = concat (replicate k ''ab'')"
proof -
  have "hex_char 10 = CHR ''a''" "hex_char 11 = CHR ''b''" by (simp_all add: hex_char_def char_of_eq_iff)
  then show ?thesis by (simp add: hex_encode_def map_replicate)
qed

lemma block_list_bypassed_witness:
  "blocked wary_auth (hex_encode (replicate 32 171)) \<and>
   (\<exists>tkn. authenticate wary_auth sample_env tkn 0 = (Return (Inr (concat (replicate 32 ''AB''))), Suc 0))"
proof -
  let ?key = "replicate 32 171 :: bytes" and ?h = "concat (replicate 32 ''AB'')"
  have comma: "CHR '','' \<notin> set (hex_encode ?key)" using hex_encode_chars [of "CHR '',''" ?key] hex_val_seps by auto
  have list: "split_on (CHR '','') (BLOCKED_CLIENT_IDS wary_auth) = [hex_encode ?key]"
    using split_on_id [OF comma] by (simp add: wary_auth_def)
  have b: "blocked wary_auth (hex_encode ?key)" by (simp add: blocked_def list)
  have "hd ?h = CHR ''A''" "hd (concat (replicate 32 ''ab'')) = CHR ''a''" by (simp_all add: hd_concat)
  then have "?h \<noteq> hex_encode ?key" unfolding lower_spelling by force
  then have nb: "\<not> blocked wary_auth ?h" by (simp add: blocked_def list)
  have len: "length ?key = 32" by simp
  have val: "ed25519_valid wary_auth ?key (bytes_of (itoa 1700000000000)) sample_sig"
    by (simp add: wary_auth_def sample_auth_def sample_sig_def)
  have hex: "is_hex ?h" by (rule upper_spelling(2)) simp
  from block_list_bypassed [OF b hex upper_spelling(1) nb len sample_key_facts(3) val sample_time sample_fresh] b
  show ?thesis by blast
qed

text \<open>
  C27: A request panics in authentication exactly when its token has the format, its three
  parts have even length and its key is not 32 bytes long.
\<close>

theorem authenticate_panics_iff:
  "fst (authenticate A E tkn n) = Panic \<longleftrightarrow>
     (\<exists>decoded t. b64_decode tkn = Inr decoded \<and> match_token (string_of decoded) = Some t \<and>
        even (length (PublicKeyHex t)) \<and> even (length (TimestampHex t)) \<and> even (length (SignedTimestampHex t)) \<and>
        length (PublicKeyHex t) \<noteq> 64)"
proof -
  have dec: "(\<exists>b. hex_decode s = Inr b) \<longleftrightarrow> even (length s)" if "is_hex s" for s
    using hex_decode_digits [of s] that by (auto simp: is_hex_def split: sum.splits)
  have len: "length s = 2 * length b" if "hex_decode s = Inr b" "is_hex s" for s b
    using hex_decode_digits [of s] that by (simp add: is_hex_def)
  show ?thesis
  proof (cases "\<exists>decoded t. b64_decode tkn = Inr decoded \<and> match_token (string_of decoded) = Some t")
    case False
    then show ?thesis by (auto simp: authenticate_def split: sum.splits option.splits)
  next
    case True
    then obtain decoded t where t: "b64_decode tkn = Inr decoded" "match_token (string_of decoded) = Some t" by blast
    note hex = match_token_hex [OF t(2)]
    have "fst (authenticate A E tkn n) = Panic \<longleftrightarrow>
        (\<exists>key msg sig. hex_decode (PublicKeyHex t) = Inr key \<and> hex_decode (TimestampHex t) = Inr msg \<and>
           hex_decode (SignedTimestampHex t) = Inr sig \<and> length key \<noteq> 32)"
      using t by (auto simp: authenticate_def ed25519_Verify_def split: sum.splits)
    also have "\<dots> \<longleftrightarrow> even (length (PublicKeyHex t)) \<and> even (length (TimestampHex t)) \<and>
        even (length (SignedTimestampHex t)) \<and> length (PublicKeyHex t) \<noteq> 64"
      using hex dec len by (metis (no_types, lifting) mult_2 mult_cancel1 numeral_Bit0 zero_neq_numeral mult.commute)
    finally show ?thesis using t by auto
  qed
qed

end
