(* ===== verification/Http.thy ===== *)
theory Http
  imports Auth Command
begin

section \<open>The HTTP layer (sync-lite/main.go, middleware/, synccontext/)\<close>

text \<open>
  A handler maps a request and the server's state to a response and the state; \<open>None\<close>
  means that it never returns, \<open>Panic\<close> that it panics (the HTTP server closes the
  connection and goes on). A response has the status, the headers that the code sets and
  the body. The protobuf codec of whole messages and the gzip decoder are parameters, as is
  the reader of a request body: the bytes that it yields before it ends or fails (the
  failure being reported by a read of its own, after the last byte).
\<close>

type_synonym reader = "bytes \<times> error option"

record wire_env =
  unmarshal_message :: "bytes \<Rightarrow> error + ClientToServerMessage"
  marshal_response :: "ClientToServerResponse \<Rightarrow> error + bytes"
  gzip_reader :: "reader \<Rightarrow> error + reader"

record http_request =
  rq_Authorization :: "string list option"
  rq_ContentEncoding :: string
  rq_Body :: reader

record http_response =
  rsp_status :: int
  rsp_headers :: "(string \<times> string) list"
  rsp_body :: bytes

text \<open>\<open>http.Error\<close> ends the text with a newline.\<close>

definition http_error :: "string \<Rightarrow> int \<Rightarrow> http_response" where
  "http_error msg code =
     \<lparr>rsp_status = code, rsp_headers = [], rsp_body = bytes_of (msg @ [CHR 0x0A])\<rparr>"

definition http_ok :: "bytes \<Rightarrow> http_response" where
  "http_ok out = \<lparr>rsp_status = 200, rsp_headers = [], rsp_body = out\<rparr>"

text \<open>\<open>io.ReadAll(io.LimitReader(reader, limit))\<close>: what exceeds the limit is not read.\<close>

definition read_limited :: "nat \<Rightarrow> reader \<Rightarrow> error + bytes" where
  "read_limited limit r =
     (if limit \<le> length (fst r) then Inr (take limit (fst r))
      else case snd r of Some err \<Rightarrow> Inl err | None \<Rightarrow> Inr (fst r))"

text \<open>The response for a disabled chain, as marshalled.\<close>

definition disabled_response :: ClientToServerResponse where
  "disabled_response = empty_ClientToServerResponse\<lparr>ErrorCode := Some SyncEnums_DISABLED_BY_ADMIN\<rparr>"

definition answer_disabled :: "wire_env \<Rightarrow> http_response" where
  "answer_disabled W =
     (case marshal_response W disabled_response of
        Inl err \<Rightarrow> http_error ''Marshal Error'' 500
      | Inr out \<Rightarrow> http_ok out)"

type_synonym ('d, 'c) served = "(http_response outcome \<times> ('d, 'c) sys) option"

subsection \<open>sync-lite\<close>

definition payloadLimit10MB :: nat where
  "payloadLimit10MB = 10 * 1024 * 1024"

text \<open>\<open>commandHandler\<close> from the reading of the body on.\<close>

definition command_body ::
  "wire_env \<Rightarrow> 'd datastore \<Rightarrow> 'c redis_client \<Rightarrow> env \<Rightarrow> string \<Rightarrow> http_request \<Rightarrow> ('d, 'c) sys
     \<Rightarrow> ('d, 'c) served" where
  "command_body W ds rc E clientID r s =
     (case (if rq_ContentEncoding r = ''gzip'' then gzip_reader W (rq_Body r) else Inr (rq_Body r)) of
        Inl err \<Rightarrow> Some (Return (http_error ''Create gzip reader failed'' 500), s)
      | Inr reader \<Rightarrow>
     (case read_limited payloadLimit10MB reader of
        Inl err \<Rightarrow> Some (Return (http_error ''Read request body error'' 500), s)
      | Inr msg \<Rightarrow>
     (case unmarshal_message W msg of
        Inl err \<Rightarrow> Some (Return (http_error ''Unmarshal error'' 500), s)
      | Inr pb \<Rightarrow>
     (case HandleClientToServerMessage ds rc E pb empty_ClientToServerResponse clientID s of
        None \<Rightarrow> None
      | Some (Panic, s) \<Rightarrow> Some (Panic, s)
      | Some (Return (pbRsp, Some err), s) \<Rightarrow> Some (Return (http_error err 500), s)
      | Some (Return (pbRsp, None), s) \<Rightarrow>
          Some (Return (case marshal_response W pbRsp of
                          Inl err \<Rightarrow> http_error ''Marshal Error'' 500
                        | Inr out \<Rightarrow> http_ok out), s)))))"

definition commandHandler ::
  "auth_env \<Rightarrow> wire_env \<Rightarrow> 'd datastore \<Rightarrow> 'c redis_client \<Rightarrow> env \<Rightarrow> http_request \<Rightarrow> ('d, 'c) sys
     \<Rightarrow> ('d, 'c) served" where
  "commandHandler A W ds rc E r s =
     (case Authorize A E (rq_Authorization r) (seq s) of
        (Panic, n) \<Rightarrow> Some (Panic, s\<lparr>seq := n\<rparr>)
      | (Return (Inl err), n) \<Rightarrow> Some (Return (http_error ''Unauthorized'' 401), s\<lparr>seq := n\<rparr>)
      | (Return (Inr clientID), n) \<Rightarrow>
     (if clientID = '''' then Some (Return (http_error ''Unauthorized'' 401), s\<lparr>seq := n\<rparr>)
      else
     (case on_db (ds_IsSyncChainDisabled ds E clientID) (s\<lparr>seq := n\<rparr>) of
        (Inl err, s) \<Rightarrow> Some (Return (http_error ''unable to complete request'' 500), s)
      | (Inr disabled, s) \<Rightarrow>
          if disabled then Some (Return (answer_disabled W), s)
          else command_body W ds rc E clientID r s)))"

text \<open>The settings that \<open>main\<close> takes from the environment; a half-configured TLS is fatal.\<close>

record server_config =
  listenAddr :: string
  sqlitePath :: string
  tlsFiles :: "(string \<times> string) option"
  accountName :: string
  debugEnabled :: bool

definition getenvDefault :: "(string \<Rightarrow> string) \<Rightarrow> string \<Rightarrow> string \<Rightarrow> string" where
  "getenvDefault getenv key fallback = (let v = getenv key in if v = '''' then fallback else v)"

definition load_config :: "(string \<Rightarrow> string) \<Rightarrow> error + server_config" where
  "load_config getenv =
     (let tlsCertFile = getenv ''TLS_CERT_FILE''; tlsKeyFile = getenv ''TLS_KEY_FILE'' in
      if (tlsCertFile = '''') \<noteq> (tlsKeyFile = '''')
      then Inl ''TLS config invalid: set both TLS_CERT_FILE and TLS_KEY_FILE, or neither''
      else Inr
        \<lparr> listenAddr = getenvDefault getenv ''LISTEN_ADDR'' '':8295'',
          sqlitePath = getenvDefault getenv ''SQLITE_PATH'' ''./sync-lite.db'',
          tlsFiles = (if tlsCertFile \<noteq> '''' \<and> tlsKeyFile \<noteq> '''' then Some (tlsCertFile, tlsKeyFile) else None),
          accountName = getenvDefault getenv ''ACCOUNT_NAME'' '''',
          debugEnabled = (to_lower (getenvDefault getenv ''LOG_LEVEL'' ''info'') = ''debug'') \<rparr>)"

subsection \<open>Middleware\<close>

text \<open>The values that the request context holds under the keys of synccontext.\<close>

record ('d, 'c) request_ctx =
  ContextKeyDatastore :: "'d datastore option"
  ContextKeyCache :: "'c redis_client option"
  ContextKeyClientID :: "string option"

type_synonym ('d, 'c) handler = "http_request \<Rightarrow> ('d, 'c) request_ctx \<Rightarrow> ('d, 'c) sys \<Rightarrow> ('d, 'c) served"

definition Auth_middleware :: "auth_env \<Rightarrow> env \<Rightarrow> ('d, 'c) handler \<Rightarrow> ('d, 'c) handler" where
  "Auth_middleware A E next_handler r ctx s =
     (case Authorize A E (rq_Authorization r) (seq s) of
        (Panic, n) \<Rightarrow> Some (Panic, s\<lparr>seq := n\<rparr>)
      | (Return res, n) \<Rightarrow>
          (let clientID = (case res of Inl err \<Rightarrow> '''' | Inr c \<Rightarrow> c) in
           if clientID = '''' then Some (Return (http_error ''Unauthorized'' 401), s\<lparr>seq := n\<rparr>)
           else next_handler r (ctx\<lparr>ContextKeyClientID := Some clientID\<rparr>) (s\<lparr>seq := n\<rparr>)))"

definition DisabledChain :: "wire_env \<Rightarrow> env \<Rightarrow> ('d, 'c) handler \<Rightarrow> ('d, 'c) handler" where
  "DisabledChain W E next_handler r ctx s =
     (case ContextKeyClientID ctx of
        None \<Rightarrow> Some (Return (http_error ''unauthorized'' 401), s)
      | Some clientID \<Rightarrow>
     (case ContextKeyDatastore ctx of
        None \<Rightarrow> Some (Return (http_error ''unable to complete request'' 500), s)
      | Some ds \<Rightarrow>
     (case on_db (ds_IsSyncChainDisabled ds E clientID) s of
        (Inl err, s) \<Rightarrow> Some (Return (http_error ''unable to complete request'' 500), s)
      | (Inr disabled, s) \<Rightarrow>
          if disabled then Some (Return (answer_disabled W), s) else next_handler r ctx s)))"

text \<open>
  The header is set before the next handler runs, whose own value of it, if it sets one,
  replaces this one.
\<close>

definition set_before :: "string \<Rightarrow> string \<Rightarrow> http_response \<Rightarrow> http_response" where
  "set_before key v rsp =
     (if key \<in> fst ` set (rsp_headers rsp) then rsp
      else rsp\<lparr>rsp_headers := (key, v) # rsp_headers rsp\<rparr>)"

definition CommonResponseHeaders :: "env \<Rightarrow> ('d, 'c) handler \<Rightarrow> ('d, 'c) handler" where
  "CommonResponseHeaders E next_handler r ctx s =
     (let now = unix_milli E (seq s) in
      case next_handler r ctx (s\<lparr>seq := Suc (seq s)\<rparr>) of
        Some (Return rsp, s) \<Rightarrow>
          Some (Return (set_before ''Sane-Time-Millis'' (itoa now) rsp), s)
      | res \<Rightarrow> res)"

end
