(* ===== verification/Http_Props.thy ===== *)
theory Http_Props
  imports Http Auth_Props Command_Props
begin

section \<open>Properties of the HTTP layer\<close>

text \<open>
  The handler of sync-lite against the middleware, what it answers to strangers and to
  members of a disabled chain, and the state of the server over any sequence of HTTP
  requests. These theorems compose the token check, the request handlers and the store.
\<close>

lemmas handler_defs = commandHandler_def command_body_def answer_disabled_def

subsection \<open>The handler and the middleware\<close>

text \<open>
  C29: The handler of sync-lite does what the two middlewares do in front of the
  handling of the body: authorization, then the check for a disabled chain, each with the
  same answers, the same store calls and the same early returns.
\<close>

theorem handler_is_middleware:
  "commandHandler A W ds rc E r s =
     Auth_middleware A E
       (DisabledChain W E (\<lambda>r ctx s. command_body W ds rc E (the (ContextKeyClientID ctx)) r s))
       r \<lparr>ContextKeyDatastore = Some ds, ContextKeyCache = Some rc, ContextKeyClientID = None\<rparr> s"
proof -
  obtain a n where a: "Authorize A E (rq_Authorization r) (seq s) = (a, n)" by fastforce
  show ?thesis
    by (cases a) (auto simp: a commandHandler_def Auth_middleware_def DisabledChain_def Let_def
        split: sum.splits prod.splits)
qed

subsection \<open>Who gets in\<close>

text \<open>The chain for which a request is let in.\<close>

definition requester :: "auth_env \<Rightarrow> env \<Rightarrow> http_request \<Rightarrow> nat \<Rightarrow> string option" where
  "requester A E r n =
     (case fst (Authorize A E (rq_Authorization r) n) of Return (Inr clientID) \<Rightarrow> Some clientID | _ \<Rightarrow> None)"

lemma requester_authorized:
  "requester A E r n = Some c \<longleftrightarrow> (\<exists>n'. Authorize A E (rq_Authorization r) n = (Return (Inr c), n'))"
  by (cases "Authorize A E (rq_Authorization r) n")
    (auto simp: requester_def split: outcome.splits sum.splits)

lemma requester_nonempty: "requester A E r n = Some c \<Longrightarrow> c \<noteq> ''''"
  using authorized_hex unfolding requester_authorized by (fastforce simp: is_hex_def)

text \<open>A request that is not let in.\<close>

lemma handler_stranger:
  assumes "requester A E r (seq s) = None" and "commandHandler A W ds rc E r s = Some (out, s')"
  shows "db s' = db s \<and> kv s' = kv s \<and> (out = Panic \<or> out = Return (http_error ''Unauthorized'' 401))"
  using assms by (cases "Authorize A E (rq_Authorization r) (seq s)")
    (auto simp: commandHandler_def requester_def split: outcome.splits sum.splits)

text \<open>A request that is let in: the chain is looked up, then the body is handled.\<close>

lemma handler_member:
  assumes "requester A E r (seq s) = Some c"
  obtains n where "commandHandler A W ds rc E r s =
    (case on_db (ds_IsSyncChainDisabled ds E c) (s\<lparr>seq := n\<rparr>) of
       (Inl err, s) \<Rightarrow> Some (Return (http_error ''unable to complete request'' 500), s)
     | (Inr disabled, s) \<Rightarrow>
         if disabled then Some (Return (answer_disabled W), s) else command_body W ds rc E c r s)"
proof -
  obtain n where "Authorize A E (rq_Authorization r) (seq s) = (Return (Inr c), n)"
    using assms unfolding requester_authorized by blast
  then show ?thesis using requester_nonempty [OF assms] by (intro that [of n]) (simp add: commandHandler_def)
qed

text \<open>The body: either nothing is touched, or the request handler ran.\<close>

lemma command_body_cases:
  assumes "command_body W ds rc E c r s = Some (out, s')"
  obtains "s' = s"
    | pb res where "HandleClientToServerMessage ds rc E pb empty_ClientToServerResponse c s = Some (res, s')"
  using assms
  by (auto simp: command_body_def split: sum.splits option.splits prod.splits outcome.splits if_splits)

lemma http_statuses [simp]: "rsp_status (http_error msg code) = code" "rsp_status (http_ok out) = 200"
  by (simp_all add: http_error_def http_ok_def)

lemma answer_disabled_status: "rsp_status (answer_disabled W) \<in> {200, 500}"
  by (simp add: answer_disabled_def split: sum.splits)

lemma command_body_status:
  "command_body W ds rc E c r s = Some (Return rsp, s') \<Longrightarrow> rsp_status rsp \<in> {200, 500}"
  by (auto simp: command_body_def split: sum.splits option.splits prod.splits outcome.splits if_splits)

text \<open>
  C28: A request is answered with status 401 exactly when its header does not authorize it,
  and then neither the store nor the cache is touched; every other answer has status 200
  or 500.
\<close>

theorem unauthorized_iff:
  assumes "commandHandler A W ds rc E r s = Some (Return rsp, s')"
  shows "(rsp_status rsp = 401 \<longleftrightarrow> requester A E r (seq s) = None) \<and>
    (rsp_status rsp = 401 \<longrightarrow> db s' = db s \<and> kv s' = kv s) \<and> rsp_status rsp \<in> {200, 401, 500}"
proof (cases "requester A E r (seq s)")
  case None
  then show ?thesis using handler_stranger [OF None assms] by auto
next
  case (Some c)
  obtain n where "commandHandler A W ds rc E r s =
    (case on_db (ds_IsSyncChainDisabled ds E c) (s\<lparr>seq := n\<rparr>) of
       (Inl err, s) \<Rightarrow> Some (Return (http_error ''unable to complete request'' 500), s)
     | (Inr disabled, s) \<Rightarrow>
         if disabled then Some (Return (answer_disabled W), s) else command_body W ds rc E c r s)"
    by (rule handler_member [OF Some])
  with assms have "rsp_status rsp \<in> {200, 500}"
    using answer_disabled_status command_body_status
    by (fastforce split: prod.splits sum.splits if_splits)
  with Some show ?thesis by auto
qed

text \<open>A codec under which every body is a clear request and every response is empty.\<close>

definition sample_wire :: wire_env where
  "sample_wire = \<lparr>unmarshal_message = (\<lambda>_. Inr clear_message), marshal_response = (\<lambda>_. Inr []),
     gzip_reader = (\<lambda>_. Inl ''gzip: invalid header'')\<rparr>"

definition sample_request :: http_request where
  "sample_request =
     \<lparr>rq_Authorization = Some [bearerPrefix @ fst (GenerateToken sample_key sample_sig 1700000000000)],
      rq_ContentEncoding = '''', rq_Body = ([], None)\<rparr>"

definition anonymous_request :: http_request where
  "anonymous_request = sample_request\<lparr>rq_Authorization := None\<rparr>"

lemma anonymous_answer:
  "\<exists>s'. commandHandler sample_auth W ds rc E anonymous_request s
      = Some (Return (http_error ''Unauthorized'' 401), s')"
  by (simp add: commandHandler_def anonymous_request_def Authorize_def)

lemma unauthorized_iff_witness:
  "\<exists>s'. commandHandler sample_auth sample_wire sqlite memory_redis sample_env anonymous_request (sys_of sample_store)
      = Some (Return (http_error ''Unauthorized'' 401), s') \<and> db s' = sample_store"
proof -
  obtain s' where run: "commandHandler sample_auth sample_wire sqlite memory_redis sample_env anonymous_request
      (sys_of sample_store) = Some (Return (http_error ''Unauthorized'' 401), s')"
    using anonymous_answer by blast
  from unauthorized_iff [OF run] run show ?thesis by (simp add: sys_of_def)
qed

subsection \<open>Sequences of requests\<close>

text \<open>
  The server serves requests one after the other; each handler call is a step. Requests
  that never return are not steps.
\<close>

inductive http_run :: "auth_env \<Rightarrow> wire_env \<Rightarrow> env \<Rightarrow> (SQLiteStore, MemoryRedis) sys \<Rightarrow> http_request list
    \<Rightarrow> (SQLiteStore, MemoryRedis) sys \<Rightarrow> bool"
  for A W E s where
  idle: "http_run A W E s [] s"
| serve: "http_run A W E s rs s1 \<Longrightarrow> commandHandler A W sqlite memory_redis E r s1 = Some (out, s2) \<Longrightarrow>
    http_run A W E s (rs @ [r]) s2"

text \<open>On a store whose operations are steps for the client, a whole HTTP request is one.\<close>

context datastore_steps
begin

lemma handler_steps:
  assumes "commandHandler A W ds rc E r s = Some (out, s')" and "requester A E r (seq s) \<in> {None, Some c}"
  shows "R (db s) (db s')"
proof (cases "requester A E r (seq s)")
  case None
  from handler_stranger [OF None assms(1)] show ?thesis using step_refl by simp
next
  case (Some c0)
  with assms(2) have req: "requester A E r (seq s) = Some c" by simp
  obtain n where h: "commandHandler A W ds rc E r s =
    (case on_db (ds_IsSyncChainDisabled ds E c) (s\<lparr>seq := n\<rparr>) of
       (Inl err, s) \<Rightarrow> Some (Return (http_error ''unable to complete request'' 500), s)
     | (Inr disabled, s) \<Rightarrow>
         if disabled then Some (Return (answer_disabled W), s) else command_body W ds rc E c r s)"
    by (rule handler_member [OF req])
  obtain q s1 where d: "on_db (ds_IsSyncChainDisabled ds E c) (s\<lparr>seq := n\<rparr>) = (q, s1)" by fastforce
  have first: "R (db s) (db s1)" using on_db_db [OF d] is_disabled_step by fastforce
  from assms(1) h d consider "s' = s1" | "command_body W ds rc E c r s1 = Some (out, s')"
    by (auto split: sum.splits if_splits)
  then show ?thesis
  proof cases
    case 1
    with first show ?thesis by simp
  next
    case 2
    then have "R (db s1) (db s')"
      by (cases rule: command_body_cases) (use step_refl request_steps in auto)
    with first step_trans show ?thesis by blast
  qed
qed

end

text \<open>What one HTTP request does to the store.\<close>

lemma handler_cases:
  assumes "commandHandler A W sqlite rc E r s = Some (out, s')"
  obtains (nothing) "db s' = db s"
  | (request) c0 s1 pb res where "requester A E r (seq s) = Some c0" "db s1 = db s"
      "HandleClientToServerMessage sqlite rc E pb empty_ClientToServerResponse c0 s1 = Some (res, s')"
proof (cases "requester A E r (seq s)")
  case None
  then show ?thesis using handler_stranger [OF None assms] by (elim conjE) (rule nothing)
next
  case (Some c0)
  obtain n where h: "commandHandler A W sqlite rc E r s =
    (case on_db (ds_IsSyncChainDisabled sqlite E c0) (s\<lparr>seq := n\<rparr>) of
       (Inl err, s) \<Rightarrow> Some (Return (http_error ''unable to complete request'' 500), s)
     | (Inr disabled, s) \<Rightarrow>
         if disabled then Some (Return (answer_disabled W), s) else command_body W sqlite rc E c0 r s)"
    by (rule handler_member [OF Some])
  obtain q s1 where d: "on_db (ds_IsSyncChainDisabled sqlite E c0) (s\<lparr>seq := n\<rparr>) = (q, s1)" by fastforce
  have db1: "db s1 = db s" using on_db_db [OF d] sqlite_frame.is_disabled_reads by fastforce
  from assms h d consider "s' = s1" | "command_body W sqlite rc E c0 r s1 = Some (out, s')"
    by (auto split: sum.splits if_splits)
  then show ?thesis
  proof cases
    case 1
    then have "db s' = db s" using db1 by simp
    then show ?thesis by (rule nothing)
  next
    case 2
    then show ?thesis
    proof (cases rule: command_body_cases)
      case 1
      then have "db s' = db s" using db1 by simp
      then show ?thesis by (rule nothing)
    next
      case (2 pb res)
      show ?thesis by (rule request [OF Some db1 2])
    qed
  qed
qed

lemma handler_keeps:
  assumes "commandHandler A W sqlite rc E r s = Some (out, s')" and "store_inv (db s)"
  shows "store_inv (db s')" and "requester A E r (seq s) \<noteq> Some c \<Longrightarrow> client_view (db s') c = client_view (db s) c"
    and "chain_disabled (db s) x \<Longrightarrow> chain_disabled (db s') x"
proof -
  have "store_inv (db s') \<and> (requester A E r (seq s) \<noteq> Some c \<longrightarrow> client_view (db s') c = client_view (db s) c) \<and>
      (chain_disabled (db s) x \<longrightarrow> chain_disabled (db s') x)"
    using assms(1)
  proof (cases rule: handler_cases)
    case nothing
    with assms(2) show ?thesis by simp
  next
    case (request c0 s1 pb res)
    have inv: "store_inv (db s1)" using request(2) assms(2) by simp
    have k: "sqlite_frame.keeps c0 (db s1) (db s')" by (rule sqlite_frame.request_keeps [OF request(3)])
    show ?thesis using k inv request(1,2) sqlite_full.request_disabled [OF request(3) inv]
      by (auto simp: sqlite_frame.keeps_def)
  qed
  then show "store_inv (db s')" and "requester A E r (seq s) \<noteq> Some c \<Longrightarrow> client_view (db s') c = client_view (db s) c"
    and "chain_disabled (db s) x \<Longrightarrow> chain_disabled (db s') x" by blast+
qed

lemma run_keeps_inv: "http_run A W E s rs s' \<Longrightarrow> store_inv (db s) \<Longrightarrow> store_inv (db s')"
  by (induction rule: http_run.induct) (blast intro: handler_keeps(1))+

lemma run_keeps_disabled:
  "http_run A W E s rs s' \<Longrightarrow> store_inv (db s) \<Longrightarrow> chain_disabled (db s) c \<Longrightarrow> chain_disabled (db s') c"
  by (induction rule: http_run.induct) (blast intro: run_keeps_inv handler_keeps(3))+

text \<open>A request with a token signed by the key that the client ID spells.\<close>

definition signed_for :: "auth_env \<Rightarrow> string \<Rightarrow> http_request \<Rightarrow> bool" where
  "signed_for A clientID r \<longleftrightarrow>
     (\<exists>tkn others t ts. rq_Authorization r = Some ((bearerPrefix @ tkn) # others) \<and>
        token_signed A tkn t ts \<and> PublicKeyHex t = clientID)"

lemma requester_signed: "requester A E r n = Some c \<Longrightarrow> signed_for A c r"
  unfolding requester_authorized signed_for_def using authorized_signed by metis

text \<open>
  C1: End to end: whatever sequence of HTTP requests the server serves, as long as none of
  them carries a token signed with the key that a chain's client ID spells, the entities,
  tags and counters of that chain stay exactly as they were, and the invariant of the
  store holds. The requests may be malformed, unauthorized, for other chains or panic.
\<close>

theorem only_key_holder_writes:
  assumes "http_run A W E s rs s'" and "store_inv (db s)" and "\<forall>r \<in> set rs. \<not> signed_for A c r"
  shows "store_inv (db s') \<and> client_view (db s') c = client_view (db s) c"
  using assms
proof (induction rule: http_run.induct)
  case (serve rs s1 r out s2)
  then have inv: "store_inv (db s1)" and view: "client_view (db s1) c = client_view (db s) c" by simp_all
  have "requester A E r (seq s1) \<noteq> Some c" using serve.prems requester_signed by fastforce
  then show ?case using handler_keeps [OF serve.hyps(2) inv] view by simp
qed simp

text \<open>
  C17: Once a chain is disabled, every request let in for it is answered with
  \<open>DISABLED_BY_ADMIN\<close>, after any further sequence of requests, and changes nothing, when
  the driver does not fail.
\<close>

theorem disabled_chain_refused:
  assumes "http_run A W E s rs s1" and "store_inv (db s)" and "chain_disabled (db s) c"
    and "requester A E r (seq s1) = Some c" and "no_faults E"
  shows "\<exists>n. commandHandler A W sqlite memory_redis E r s1 = Some (Return (answer_disabled W), s1\<lparr>seq := n\<rparr>)"
proof -
  have dis: "chain_disabled (db s1) c" by (rule run_keeps_disabled [OF assms(1-3)])
  obtain n where h: "commandHandler A W sqlite memory_redis E r s1 =
      (case on_db (ds_IsSyncChainDisabled sqlite E c) (s1\<lparr>seq := n\<rparr>) of
         (Inl err, s) \<Rightarrow> Some (Return (http_error ''unable to complete request'' 500), s)
       | (Inr disabled, s) \<Rightarrow>
           if disabled then Some (Return (answer_disabled W), s) else command_body W sqlite memory_redis E c r s)"
    by (rule handler_member [OF assms(4)])
  have ok: "db_fault E n = None" for n using assms(5) by (simp add: no_faults_def)
  have "on_db (ds_IsSyncChainDisabled sqlite E c) (s1\<lparr>seq := n\<rparr>) = (Inr True, s1\<lparr>seq := Suc n\<rparr>)"
    using dis by (simp add: on_db_def sql_IsSyncChainDisabled_def stmt_def ok find_row_None chain_disabled_def)
  with h show ?thesis by auto
qed

subsection \<open>Runs on concrete requests\<close>

definition member_state :: "(SQLiteStore, MemoryRedis) sys" where
  "member_state = sys_of (upsert_marker (hex_encode sample_key) 0 sample_store)"

lemma member_state_disabled:
  "store_inv (db member_state)" "chain_disabled (db member_state) (hex_encode sample_key)" "seq member_state = 0"
proof -
  let ?E = "sample_env\<lparr>now_ns := \<lambda>n. 0\<rparr>"
  have d: "ds_DisableSyncChain sqlite ?E (hex_encode sample_key) sample_store 0
      = (None, db member_state, Suc (Suc 0))"
    by (simp add: sql_DisableSyncChain_def stmt_def member_state_def sys_of_def unix_milli_def sample_env_def)
  show "store_inv (db member_state)" by (rule sqlite_frame.disable_inv [OF d sample_store_inv])
  show "chain_disabled (db member_state) (hex_encode sample_key)" by (rule sqlite_disable.disable_sets [OF d])
  show "seq member_state = 0" by (simp add: member_state_def sys_of_def)
qed

lemma sample_requester: "requester sample_auth sample_env sample_request 0 = Some (hex_encode sample_key)"
  unfolding requester_authorized sample_request_def
  using generated_accepted [OF sample_key_facts(2,3,4) sample_time sample_fresh sample_key_facts(5)] by simp

lemma anonymous_run: "http_run A W E s [anonymous_request] s"
proof -
  have "commandHandler A W sqlite memory_redis E anonymous_request s
      = Some (Return (http_error ''Unauthorized'' 401), s)"
    by (simp add: commandHandler_def anonymous_request_def Authorize_def)
  from http_run.serve [OF http_run.idle this] show ?thesis by simp
qed

lemma disabled_chain_refused_witness:
  "\<exists>n. commandHandler sample_auth sample_wire sqlite memory_redis sample_env sample_request member_state
     = Some (Return (answer_disabled sample_wire), member_state\<lparr>seq := n\<rparr>)"
  using disabled_chain_refused [OF anonymous_run [of sample_auth sample_wire sample_env] member_state_disabled(1,2)
      sample_requester [folded member_state_disabled(3)] sample_no_faults] .

text \<open>A request of one chain that clears it leaves another alone.\<close>

lemma sample_served:
  "\<exists>out s'. commandHandler sample_auth sample_wire sqlite memory_redis sample_env sample_request (sys_of sample_store)
     = Some (out, s')"
proof -
  have "requester sample_auth sample_env sample_request (seq (sys_of sample_store)) = Some (hex_encode sample_key)"
    using sample_requester by (simp add: sys_of_def)
  then obtain n where h: "commandHandler sample_auth sample_wire sqlite memory_redis sample_env sample_request
      (sys_of sample_store) =
      (case on_db (ds_IsSyncChainDisabled sqlite sample_env (hex_encode sample_key)) (sys_of sample_store\<lparr>seq := n\<rparr>) of
         (Inl err, s) \<Rightarrow> Some (Return (http_error ''unable to complete request'' 500), s)
       | (Inr disabled, s) \<Rightarrow>
           if disabled then Some (Return (answer_disabled sample_wire), s)
           else command_body sample_wire sqlite memory_redis sample_env (hex_encode sample_key) sample_request s)"
    by (rule handler_member)
  have "\<exists>out s'. command_body sample_wire sqlite memory_redis sample_env (hex_encode sample_key) sample_request s
      = Some (out, s')" for s :: "(SQLiteStore, MemoryRedis) sys"
  proof -
    obtain res s' where "HandleClientToServerMessage sqlite memory_redis sample_env clear_message
        empty_ClientToServerResponse (hex_encode sample_key) s = Some (Return res, s')"
      using clear_message_runs by blast
    then show ?thesis
      by (cases "snd res"; cases res)
        (auto simp: command_body_def sample_wire_def sample_request_def read_limited_def payloadLimit10MB_def)
  qed
  then show ?thesis by (auto simp: h split: prod.splits sum.splits)
qed

lemma only_key_holder_writes_witness:
  "\<exists>s'. http_run sample_auth sample_wire sample_env (sys_of sample_store) [sample_request] s' \<and>
     client_view (db s') ''chain'' = client_view sample_store ''chain''"
proof -
  obtain out s' where "commandHandler sample_auth sample_wire sqlite memory_redis sample_env sample_request
      (sys_of sample_store) = Some (out, s')" using sample_served by blast
  from http_run.serve [OF http_run.idle this]
  have run: "http_run sample_auth sample_wire sample_env (sys_of sample_store) [sample_request] s'" by simp
  have "hex_decode ''chain'' \<noteq> Inr key" for key by (simp add: hex_val_def)
  then have strangers: "\<forall>r \<in> set [sample_request]. \<not> signed_for sample_auth ''chain'' r"
    by (auto simp: signed_for_def token_signed_def)
  have inv: "store_inv (db (sys_of sample_store))" using sample_store_inv by (simp add: sys_of_def)
  from only_key_holder_writes [OF run inv strangers] run show ?thesis by (auto simp: sys_of_def)
qed

subsection \<open>The body\<close>

text \<open>
  An uncompressed body of 10 MB or more is cut at 10 MB without an error, and what the
  server does is what it does for the cut body: the rest, and whether reading it would have
  failed, has no influence.
\<close>

theorem oversize_truncated:
  assumes "rq_ContentEncoding r \<noteq> ''gzip''" and "payloadLimit10MB \<le> length (fst (rq_Body r))"
  shows "commandHandler A W ds rc E r s =
    commandHandler A W ds rc E (r\<lparr>rq_Body := (take payloadLimit10MB (fst (rq_Body r)), None)\<rparr>) s"
proof -
  have "read_limited payloadLimit10MB (take payloadLimit10MB (fst (rq_Body r)), None)
      = read_limited payloadLimit10MB (rq_Body r)"
    using assms(2) by (simp add: read_limited_def)
  with assms(1) have "command_body W ds rc E c r s =
      command_body W ds rc E c (r\<lparr>rq_Body := (take payloadLimit10MB (fst (rq_Body r)), None)\<rparr>) s" for c s
    by (simp add: command_body_def)
  then show ?thesis
    by (auto simp: commandHandler_def split: prod.split outcome.split sum.split)
qed

lemma oversize_truncated_witness:
  "commandHandler A W ds rc E (sample_request\<lparr>rq_Body := (replicate (payloadLimit10MB + 5) 0, Some ''reset'')\<rparr>) s =
   commandHandler A W ds rc E (sample_request\<lparr>rq_Body := (replicate payloadLimit10MB 0, None)\<rparr>) s"
proof -
  let ?r = "sample_request\<lparr>rq_Body := (replicate (payloadLimit10MB + 5) 0, Some ''reset'')\<rparr>"
  have "rq_ContentEncoding ?r \<noteq> ''gzip''" "payloadLimit10MB \<le> length (fst (rq_Body ?r))"
    by (simp_all add: sample_request_def)
  from oversize_truncated [OF this] show ?thesis by simp
qed

subsection \<open>Configuration\<close>

text \<open>
  The configuration is refused exactly when one TLS file is set without the other, and
  an accepted one serves TLS exactly when both are; an empty variable counts as unset.
\<close>

theorem config_tls:
  "(case load_config getenv of
      Inl err \<Rightarrow> (getenv ''TLS_CERT_FILE'' = '''') \<noteq> (getenv ''TLS_KEY_FILE'' = '''')
    | Inr cfg \<Rightarrow>
        tlsFiles cfg = (if getenv ''TLS_CERT_FILE'' = '''' then None
                        else Some (getenv ''TLS_CERT_FILE'', getenv ''TLS_KEY_FILE'')) \<and>
        (getenv ''TLS_CERT_FILE'' = '''' \<longleftrightarrow> getenv ''TLS_KEY_FILE'' = '''') \<and>
        listenAddr cfg \<noteq> '''' \<and> sqlitePath cfg \<noteq> '''')"
  by (auto simp: load_config_def getenvDefault_def Let_def)

end
