(* ===== verification/Simulation.thy ===== *)
theory Simulation
  imports Command_Correct
begin

section \<open>Replacing the store and the cache\<close>

text \<open>
  When one data store represents another (an abstraction function commutes with every
  method, with equal results and step numbers), and one cache client another, then the
  request handlers do the same on both: the abstraction function commutes with whole
  requests, those that panic and those that never return included. The laws are stated
  once, as locales; the lemmas follow the handlers from the operations up to the dispatch.
\<close>

definition map_sys :: "('d1 \<Rightarrow> 'd2) \<Rightarrow> ('c1 \<Rightarrow> 'c2) \<Rightarrow> ('d1, 'c1) sys \<Rightarrow> ('d2, 'c2) sys" where
  "map_sys f g s = \<lparr>db = f (db s), kv = g (kv s), seq = seq s\<rparr>"

lemma map_sys_simps [simp]:
  "db (map_sys f g s) = f (db s)" "kv (map_sys f g s) = g (kv s)" "seq (map_sys f g s) = seq s"
  "(map_sys f g s)\<lparr>seq := n\<rparr> = map_sys f g (s\<lparr>seq := n\<rparr>)"
  by (simp_all add: map_sys_def)

text \<open>An operation that commutes with an abstraction function.\<close>

definition op_map :: "('a \<Rightarrow> 'b) \<Rightarrow> ('a, 'r) op \<Rightarrow> ('b, 'r) op \<Rightarrow> bool" where
  "op_map a f g \<longleftrightarrow> (\<forall>d n r d' n'. f d n = (r, d', n') \<longrightarrow> g (a d) n = (r, a d', n'))"

lemma op_mapI: "(\<And>d n r d' n'. f d n = (r, d', n') \<Longrightarrow> g (a d) n = (r, a d', n')) \<Longrightarrow> op_map a f g"
  by (simp add: op_map_def)

lemma op_mapD: "op_map a f g \<Longrightarrow> f d n = (r, d', n') \<Longrightarrow> g (a d) n = (r, a d', n')"
  by (simp add: op_map_def)

lemma op_map_eq: "op_map a f g \<Longrightarrow> g (a d) n = (case f d n of (r, d', n') \<Rightarrow> (r, a d', n'))"
  by (auto simp: op_map_def split: prod.split)

lemma op_map_eqI: "(\<And>d n. g (a d) n = (case f d n of (r, d', n') \<Rightarrow> (r, a d', n'))) \<Longrightarrow> op_map a f g"
  by (simp add: op_map_def)

lemma on_db_map: "op_map a f g \<Longrightarrow> on_db g (map_sys a b s) = apsnd (map_sys a b) (on_db f s)"
  by (simp add: on_db_def op_map_eq map_sys_def split: prod.split)

lemma on_kv_map: "op_map b f g \<Longrightarrow> on_kv g (map_sys a b s) = apsnd (map_sys a b) (on_kv f s)"
  by (simp add: on_kv_def op_map_eq map_sys_def split: prod.split)

lemmas results_split = prod.split sum.split outcome.split option.split

text \<open>
  The laws are about the operations for a set \<open>members\<close> of clients: a request of a client
  calls no others. What the store returns must then belong to these clients as well.
\<close>

locale datastore_simulation =
  fixes ds1 :: "'d1 datastore" and ds2 :: "'d2 datastore" and abs_db :: "'d1 \<Rightarrow> 'd2" and members :: "string set"
  assumes insert_sim: "ClientID e \<in> members \<Longrightarrow>
      op_map abs_db (ds_InsertSyncEntity ds1 E e) (ds_InsertSyncEntity ds2 E e)"
    and insert_tags_sim: "\<forall>e \<in> set es. ClientID e \<in> members \<Longrightarrow>
      op_map abs_db (ds_InsertSyncEntitiesWithServerTags ds1 E es) (ds_InsertSyncEntitiesWithServerTags ds2 E es)"
    and update_sim: "ClientID e \<in> members \<Longrightarrow>
      op_map abs_db (ds_UpdateSyncEntity ds1 E e v) (ds_UpdateSyncEntity ds2 E e v)"
    and get_updates_sim: "c \<in> members \<Longrightarrow> op_map abs_db (ds_GetUpdatesForType ds1 E t tok ff c m)
      (ds_GetUpdatesForType ds2 E t tok ff c m)"
    and has_tag_sim: "c \<in> members \<Longrightarrow> op_map abs_db (ds_HasServerDefinedUniqueTag ds1 E c tag)
      (ds_HasServerDefinedUniqueTag ds2 E c tag)"
    and get_counts_sim: "c \<in> members \<Longrightarrow>
      op_map abs_db (ds_GetClientItemCount ds1 E c) (ds_GetClientItemCount ds2 E c)"
    and get_counts_member: "c \<in> members \<Longrightarrow> ds_GetClientItemCount ds1 E c d n = (Inr k, d', n') \<Longrightarrow>
      cnt_ClientID k \<in> members"
    and counts_sim: "cnt_ClientID k \<in> members \<Longrightarrow>
      op_map abs_db (ds_UpdateClientItemCount ds1 E k x y) (ds_UpdateClientItemCount ds2 E k x y)"
    and clear_sim: "c \<in> members \<Longrightarrow> op_map abs_db (ds_ClearServerData ds1 E c) (ds_ClearServerData ds2 E c)"
    and clear_members: "c \<in> members \<Longrightarrow> ds_ClearServerData ds1 E c d n = (Inr es, d', n') \<Longrightarrow> e \<in> set es \<Longrightarrow>
      ClientID e \<in> members"
    and disable_sim: "c \<in> members \<Longrightarrow> op_map abs_db (ds_DisableSyncChain ds1 E c) (ds_DisableSyncChain ds2 E c)"
    and is_disabled_sim: "c \<in> members \<Longrightarrow>
      op_map abs_db (ds_IsSyncChainDisabled ds1 E c) (ds_IsSyncChainDisabled ds2 E c)"
    and has_item_sim: "c \<in> members \<Longrightarrow> op_map abs_db (ds_HasItem ds1 E c i) (ds_HasItem ds2 E c i)"

text \<open>A key of the cache belongs to the client whose ID comes before the first \<open>#\<close>.\<close>

definition own_key :: "string \<Rightarrow> string \<Rightarrow> bool" where
  "own_key c k \<longleftrightarrow> take (length c + 1) k = c @ ''#''"

lemma own_keys [simp]: "own_key c (GetTypeMtimeKey c t)" "own_key c (GetInterimCountKey c ty)"
  by (simp_all add: own_key_def GetTypeMtimeKey_def GetInterimCountKey_def)

locale redis_simulation =
  fixes rc1 :: "'c1 redis_client" and rc2 :: "'c2 redis_client" and abs_kv :: "'c1 \<Rightarrow> 'c2"
    and members :: "string set"
  assumes set_sim: "c \<in> members \<Longrightarrow> own_key c k \<Longrightarrow> op_map abs_kv (rc_Set rc1 E k v ttl) (rc_Set rc2 E k v ttl)"
    and incr_sim: "c \<in> members \<Longrightarrow> own_key c k \<Longrightarrow>
      op_map abs_kv (rc_Incr rc1 E k subtract) (rc_Incr rc2 E k subtract)"
    and get_sim: "c \<in> members \<Longrightarrow> own_key c k \<Longrightarrow> op_map abs_kv (rc_Get rc1 E k del) (rc_Get rc2 E k del)"
    and del_sim: "\<forall>k \<in> set ks. \<exists>c \<in> members. own_key c k \<Longrightarrow> op_map abs_kv (rc_Del rc1 E ks) (rc_Del rc2 E ks)"

locale server_simulation = datastore_simulation ds1 ds2 abs_db members + redis_simulation rc1 rc2 abs_kv members
  for ds1 :: "'d1 datastore" and ds2 :: "'d2 datastore" and abs_db :: "'d1 \<Rightarrow> 'd2"
    and rc1 :: "'c1 redis_client" and rc2 :: "'c2 redis_client" and abs_kv :: "'c1 \<Rightarrow> 'c2"
    and members :: "string set" +
  fixes c :: string
  assumes member: "c \<in> members"
begin

abbreviation (input) abs_sys :: "('d1, 'c1) sys \<Rightarrow> ('d2, 'c2) sys" where
  "abs_sys \<equiv> map_sys abs_db abs_kv"

subsection \<open>Operations\<close>

lemma server_call_sim:
  "op_map abs_db (InsertServerDefinedUniqueEntities ds1 E c) (InsertServerDefinedUniqueEntities ds2 E c)"
proof (rule op_map_eqI)
  fix d n
  obtain h d1 n1 where h: "ds_HasServerDefinedUniqueTag ds1 E c nigoriTag d n = (h, d1, n1)" by (metis prod_cases3)
  obtain o1 n2 where e: "server_entities E c n1 = (o1, n2)" by fastforce
  have "\<forall>e \<in> set es. ClientID e \<in> members" if "o1 = Return (Inr es)" for es
    using server_entities_storable [OF e [unfolded that]] member by simp
  then show "InsertServerDefinedUniqueEntities ds2 E c (abs_db d) n
      = (case InsertServerDefinedUniqueEntities ds1 E c d n of (r, d', n') \<Rightarrow> (r, abs_db d', n'))"
    using h e by (simp add: InsertServerDefinedUniqueEntities_def op_map_eq [OF has_tag_sim [OF member]]
        op_map_eq [OF insert_tags_sim] split: results_split)
qed

lemma interim_sim: "op_map abs_kv (GetInterimCount rc1 E c ty clr) (GetInterimCount rc2 E c ty clr)"
  by (rule op_map_eqI) (simp add: GetInterimCount_def op_map_eq [OF get_sim [OF member]] split: results_split)

lemma increment_sim: "op_map abs_kv (IncrementInterimCount rc1 E c ty b) (IncrementInterimCount rc2 E c ty b)"
  by (rule op_map_eqI) (simp add: IncrementInterimCount_def op_map_eq [OF incr_sim [OF member]] split: results_split)

lemma set_mtime_sim: "op_map abs_kv (SetTypeMtime rc1 E c t m) (SetTypeMtime rc2 E c t m)"
  by (rule op_map_eqI) (simp add: SetTypeMtime_def op_map_eq [OF set_sim [OF member]] split: results_split)

lemma is_updated_sim: "op_map abs_kv (IsTypeMtimeUpdated rc1 E c t tok) (IsTypeMtimeUpdated rc2 E c t tok)"
  by (rule op_map_eqI) (simp add: IsTypeMtimeUpdated_def op_map_eq [OF get_sim [OF member]] split: results_split)

lemmas db_sim = on_db_map [where b = abs_kv]
lemmas kv_sim = on_kv_map [where a = abs_db]

lemmas sys_sim = db_sim [OF insert_sim] db_sim [OF update_sim] db_sim [OF get_updates_sim [OF member]]
  db_sim [OF get_counts_sim [OF member]] db_sim [OF counts_sim] db_sim [OF clear_sim [OF member]]
  db_sim [OF disable_sim [OF member]] db_sim [OF is_disabled_sim [OF member]] db_sim [OF has_item_sim [OF member]]
  db_sim [OF server_call_sim]
  kv_sim [OF interim_sim] kv_sim [OF increment_sim] kv_sim [OF set_mtime_sim]
  kv_sim [OF is_updated_sim]

subsection \<open>GET\_UPDATES\<close>

lemma device_loop_sim:
  assumes "device_loop ds1 E c a s = Some y"
  shows "device_loop ds2 E c a (abs_sys s) = Some (apsnd abs_sys y)"
  using assms
  by (induction rule: device_loop_induct) (subst device_loop.simps, simp add: sys_sim)+

lemma device_loop_back:
  assumes "device_loop ds2 E c a t = Some y" and "t = abs_sys s"
  shows "\<exists>z. device_loop ds1 E c a s = Some z"
  using assms
proof (induction arbitrary: s rule: device_loop_induct)
  case (again a t es t1 b y)
  obtain q s1 where q: "on_db (ds_GetUpdatesForType ds1 E deviceInfoTypeID 0 False c (maxGUBatchSize E)) s = (q, s1)"
    by fastforce
  with again.hyps(1) again.prems have q': "q = Inr (True, es)" "t1 = abs_sys s1" by (simp_all add: sys_sim)
  with again.IH [OF q'(2)] again.hyps(2) q show ?case by (subst device_loop.simps) simp
qed (subst device_loop.simps; auto simp: sys_sim split: prod.splits)+

lemma device_loop_eq:
  "device_loop ds2 E c a (abs_sys s) = map_option (apsnd abs_sys) (device_loop ds1 E c a s)"
  using device_loop_sim device_loop_back by (cases "device_loop ds1 E c a s"; cases "device_loop ds2 E c a (abs_sys s)") force+

lemma admit_eq:
  "admit_new_client ds2 E c (abs_sys s) = map_option (apsnd abs_sys) (admit_new_client ds1 E c s)"
  by (simp add: admit_new_client_def device_loop_eq sys_sim split: results_split)

lemma finish_marker_eq:
  "finish_marker rc2 E c new i t tok again es rsp (abs_sys s)
     = apsnd abs_sys (finish_marker rc1 E c new i t tok again es rsp s)"
  by (simp add: finish_marker_def Let_def sys_sim split: results_split)

lemma gu_marker_eq:
  "gu_marker ds2 rc2 E c new poll ff i m rsp (abs_sys s)
     = apsnd abs_sys (gu_marker ds1 rc1 E c new poll ff i m rsp s)"
  by (simp add: gu_marker_def Let_def sys_sim finish_marker_eq split: results_split bool.split)

lemma gu_markers_eq:
  "gu_markers ds2 rc2 E c new poll ff i ms rsp (abs_sys s)
     = apsnd abs_sys (gu_markers ds1 rc1 E c new poll ff i ms rsp s)"
  by (induction ms arbitrary: i rsp s) (simp_all add: gu_marker_eq split: results_split)

lemma get_updates_eq:
  "handleGetUpdatesRequest ds2 rc2 E msg rsp c (abs_sys s)
     = map_option (apsnd abs_sys) (handleGetUpdatesRequest ds1 rc1 E msg rsp c s)"
  by (simp add: handleGetUpdatesRequest_def Let_def admit_eq gu_markers_eq split: results_split)

subsection \<open>COMMIT\<close>

text \<open>Results that carry the loop's record in the middle.\<close>

lemma interim_counts_eq:
  "getInterimItemCounts rc2 E c clr (abs_sys s) = apsnd abs_sys (getInterimItemCounts rc1 E c clr s)"
  by (simp add: getInterimItemCounts_def sys_sim split: results_split)

lemma item_counts_eq:
  "getItemCounts ds2 rc2 E c (abs_sys s) = apsnd abs_sys (getItemCounts ds1 rc1 E c s)"
  by (simp add: getItemCounts_def sys_sim interim_counts_eq split: results_split)

lemma item_counts_member:
  "getItemCounts ds1 rc1 E c s = (Inr (k, x), s') \<Longrightarrow> cnt_ClientID k \<in> members"
  using get_counts_member [OF member]
  by (auto simp: getItemCounts_def on_db_def split: sum.splits prod.splits)

lemma increment_count_eq:
  "increment_count rc2 E c hist sub l (abs_sys s) = apsnd (apsnd abs_sys) (increment_count rc1 E c hist sub l s)"
  by (simp add: increment_count_def sys_sim split: results_split)

lemma commit_create_eq:
  "ClientID e \<in> members \<Longrightarrow> commit_create ds2 rc2 E c q e hist l (abs_sys s)
     = apsnd (apsnd abs_sys) (commit_create ds1 rc1 E c q e hist l s)"
  by (simp add: commit_create_def Let_def sys_sim increment_count_eq split: results_split)

lemma commit_update_eq:
  "ClientID e \<in> members \<Longrightarrow> commit_update ds2 rc2 E c e v hist l (abs_sys s)
     = apsnd (apsnd abs_sys) (commit_update ds1 rc1 E c e v hist l s)"
  by (simp add: commit_update_def sys_sim increment_count_eq split: results_split)

lemma is_update_op_eq:
  "is_update_op ds2 E c e t v (abs_sys s) = apsnd abs_sys (is_update_op ds1 E c e t v s)"
  by (simp add: is_update_op_def sys_sim split: results_split)

lemma commit_converted_eq:
  "ClientID e \<in> members \<Longrightarrow> commit_converted ds2 rc2 E c q i e l (abs_sys s)
     = apsnd abs_sys (commit_converted ds1 rc1 E c q i e l s)"
  by (simp add: commit_converted_def Let_def is_update_op_eq commit_create_eq commit_update_eq
      split: results_split entry_end.split)

lemma commit_entry_eq:
  "commit_entry ds2 rc2 E c q g i v l (abs_sys s) = apsnd abs_sys (commit_entry ds1 rc1 E c q g i v l s)"
proof (cases "CreateDBSyncEntity E v g c (seq s)")
  case (Pair r n)
  have "ClientID e \<in> members" if "r = Return (Inr e)" for e
    using CreateDB_fields(1) [OF Pair [unfolded that]] member by simp
  with Pair show ?thesis by (simp add: commit_entry_def Let_def commit_converted_eq split: results_split)
qed

lemma commit_entries_eq:
  "commit_entries ds2 rc2 E c q g i vs l (abs_sys s) = apsnd abs_sys (commit_entries ds1 rc1 E c q g i vs l s)"
  by (induction vs arbitrary: i l s) (simp_all add: commit_entry_eq split: results_split)

lemma save_mtimes_eq:
  "save_mtimes rc2 E c m ts (abs_sys s) = abs_sys (save_mtimes rc1 E c m ts s)"
  by (induction ts arbitrary: s) (simp_all add: sys_sim split: results_split)

lemma finish_commit_eq:
  "cnt_ClientID k \<in> members \<Longrightarrow> finish_commit ds2 rc2 E c k l (abs_sys s)
     = apsnd abs_sys (finish_commit ds1 rc1 E c k l s)"
  by (simp add: finish_commit_def Let_def sys_sim interim_counts_eq save_mtimes_eq split: results_split)

lemma commit_eq:
  "handleCommitRequest ds2 rc2 E msg rsp c (abs_sys s) = apsnd abs_sys (handleCommitRequest ds1 rc1 E msg rsp c s)"
proof (cases "getItemCounts ds1 rc1 E c s")
  case (Pair r s1)
  have "cnt_ClientID k \<in> members" if "r = Inr (k, x)" for k x
    using item_counts_member [OF Pair [unfolded that]] .
  with Pair show ?thesis
    by (simp add: handleCommitRequest_def Let_def item_counts_eq commit_entries_eq finish_commit_eq
        split: results_split)
qed

subsection \<open>Clearing and dispatch\<close>

lemma type_mtime_keys_own:
  "\<forall>e \<in> set es. ClientID e \<in> members \<Longrightarrow> k \<in> set (type_mtime_keys es) \<Longrightarrow> \<exists>c \<in> members. own_key c k"
  by (induction es) (auto split: option.splits intro: bexI [rotated])

lemma clear_eq:
  "handleClearServerDataRequest ds2 rc2 E c (abs_sys s) = apsnd abs_sys (handleClearServerDataRequest ds1 rc1 E c s)"
proof -
  obtain r1 s1 where d: "on_db (ds_DisableSyncChain ds1 E c) s = (r1, s1)" by fastforce
  obtain r2 s2 where l: "on_db (ds_ClearServerData ds1 E c) s1 = (r2, s2)" by fastforce
  have "\<forall>k \<in> set (type_mtime_keys es). \<exists>c \<in> members. own_key c k" if "r2 = Inr es" for es
    using clear_members [OF member] on_db_db [OF l [unfolded that]] type_mtime_keys_own by blast
  then show ?thesis
    using d l by (simp add: handleClearServerDataRequest_def Let_def sys_sim kv_sim [OF del_sim] split: results_split)
qed

lemma request_eq:
  "HandleClientToServerMessage ds2 rc2 E pb rsp c (abs_sys s)
     = map_option (apsnd abs_sys) (HandleClientToServerMessage ds1 rc1 E pb rsp c s)"
  by (simp add: HandleClientToServerMessage_def Let_def get_updates_eq commit_eq clear_eq
      split: results_split ClientToServerMessage_Contents.split)

end

end
