(* ===== verification/Instrumented.thy ===== *)
theory Instrumented
  imports Simulation Memory_Cache
begin

section \<open>Metrics (datastore/instrumented\_datastore.go, cache/instrumented\_redis.go)\<close>

text \<open>
  \<open>DatastoreWithPrometheus\<close> and \<open>RedisClientWithPrometheus\<close> wrap every method of a store
  or a cache client: the call goes to the wrapped value, and a deferred function records
  the instance, the method and whether the method returned an error. The summary vector
  is a log beside the wrapped state; the measured duration, taken from the monotonic clock,
  is left out of it.
\<close>

record observation =
  obs_instance :: string
  obs_method :: string
  obs_result :: string

record 'd metered =
  inner :: 'd
  observations :: "observation list"

definition has_error :: "error option \<Rightarrow> bool" where
  "has_error err \<longleftrightarrow> err \<noteq> None"

definition observed :: "string \<Rightarrow> string \<Rightarrow> ('r \<Rightarrow> bool) \<Rightarrow> ('d, 'r) op \<Rightarrow> ('d metered, 'r) op" where
  "observed instanceName method failed f m n =
     (case f (inner m) n of
        (r, d, n) \<Rightarrow>
          (r, \<lparr>inner = d,
               observations = observations m @
                 [\<lparr>obs_instance = instanceName, obs_method = method,
                   obs_result = (if failed r then ''error'' else ''ok'')\<rparr>]\<rparr>, n))"

lemma observed_inner: "op_map inner (observed instanceName method failed f) f"
  by (auto simp: op_map_def observed_def split: prod.splits)

text \<open>Every call is recorded once, with its outcome.\<close>

lemma observed_log:
  "observed instanceName method failed f m n = (r, m', n') \<Longrightarrow>
   observations m' = observations m @
     [\<lparr>obs_instance = instanceName, obs_method = method, obs_result = (if failed r then ''error'' else ''ok'')\<rparr>]"
  by (auto simp: observed_def split: prod.splits)

subsection \<open>The data store\<close>

definition prom_ClearServerData ::
  "'d datastore \<Rightarrow> string \<Rightarrow> env \<Rightarrow> string
     \<Rightarrow> ('d metered, error + SyncEntity list) op" where
  "prom_ClearServerData base instanceName E clientID =
     observed instanceName ''ClearServerData'' isl (ds_ClearServerData base E clientID)"

definition prom_DisableSyncChain ::
  "'d datastore \<Rightarrow> string \<Rightarrow> env \<Rightarrow> string
     \<Rightarrow> ('d metered, error option) op" where
  "prom_DisableSyncChain base instanceName E clientID =
     observed instanceName ''DisableSyncChain'' has_error (ds_DisableSyncChain base E clientID)"

definition prom_GetClientItemCount ::
  "'d datastore \<Rightarrow> string \<Rightarrow> env \<Rightarrow> string
     \<Rightarrow> ('d metered, error + ClientItemCounts) op" where
  "prom_GetClientItemCount base instanceName E clientID =
     observed instanceName ''GetClientItemCount'' isl (ds_GetClientItemCount base E clientID)"

definition prom_GetUpdatesForType ::
  "'d datastore \<Rightarrow> string \<Rightarrow> env \<Rightarrow> int \<Rightarrow> int \<Rightarrow> bool \<Rightarrow> string \<Rightarrow> int
     \<Rightarrow> ('d metered, error + bool \<times> SyncEntity list) op" where
  "prom_GetUpdatesForType base instanceName E dataType clientToken fetchFolders clientID maxSize =
     observed instanceName ''GetUpdatesForType'' isl (ds_GetUpdatesForType base E dataType clientToken fetchFolders clientID maxSize)"

definition prom_HasItem ::
  "'d datastore \<Rightarrow> string \<Rightarrow> env \<Rightarrow> string \<Rightarrow> string
     \<Rightarrow> ('d metered, error + bool) op" where
  "prom_HasItem base instanceName E clientID i =
     observed instanceName ''HasItem'' isl (ds_HasItem base E clientID i)"

definition prom_HasServerDefinedUniqueTag ::
  "'d datastore \<Rightarrow> string \<Rightarrow> env \<Rightarrow> string \<Rightarrow> string
     \<Rightarrow> ('d metered, error + bool) op" where
  "prom_HasServerDefinedUniqueTag base instanceName E clientID tag =
     observed instanceName ''HasServerDefinedUniqueTag'' isl (ds_HasServerDefinedUniqueTag base E clientID tag)"

definition prom_InsertSyncEntitiesWithServerTags ::
  "'d datastore \<Rightarrow> string \<Rightarrow> env \<Rightarrow> SyncEntity list
     \<Rightarrow> ('d metered, error option) op" where
  "prom_InsertSyncEntitiesWithServerTags base instanceName E entities =
     observed instanceName ''InsertSyncEntitiesWithServerTags'' has_error (ds_InsertSyncEntitiesWithServerTags base E entities)"

definition prom_InsertSyncEntity ::
  "'d datastore \<Rightarrow> string \<Rightarrow> env \<Rightarrow> SyncEntity
     \<Rightarrow> ('d metered, bool \<times> error option) op" where
  "prom_InsertSyncEntity base instanceName E entity =
     observed instanceName ''InsertSyncEntity'' (has_error \<circ> snd) (ds_InsertSyncEntity base E entity)"

definition prom_IsSyncChainDisabled ::
  "'d datastore \<Rightarrow> string \<Rightarrow> env \<Rightarrow> string
     \<Rightarrow> ('d metered, error + bool) op" where
  "prom_IsSyncChainDisabled base instanceName E clientID =
     observed instanceName ''IsSyncChainDisabled'' isl (ds_IsSyncChainDisabled base E clientID)"

definition prom_UpdateClientItemCount ::
  "'d datastore \<Rightarrow> string \<Rightarrow> env \<Rightarrow> ClientItemCounts \<Rightarrow> int \<Rightarrow> int
     \<Rightarrow> ('d metered, error option) op" where
  "prom_UpdateClientItemCount base instanceName E counts newNormalItemCount newHistoryItemCount =
     observed instanceName ''UpdateClientItemCount'' has_error (ds_UpdateClientItemCount base E counts newNormalItemCount newHistoryItemCount)"

definition prom_UpdateSyncEntity ::
  "'d datastore \<Rightarrow> string \<Rightarrow> env \<Rightarrow> SyncEntity \<Rightarrow> int
     \<Rightarrow> ('d metered, bool \<times> bool \<times> error option) op" where
  "prom_UpdateSyncEntity base instanceName E entity oldVersion =
     observed instanceName ''UpdateSyncEntity'' (has_error \<circ> snd \<circ> snd) (ds_UpdateSyncEntity base E entity oldVersion)"

definition NewDatastoreWithPrometheus :: "'d datastore \<Rightarrow> string \<Rightarrow> 'd metered datastore" where
  "NewDatastoreWithPrometheus base instanceName =
     \<lparr> ds_InsertSyncEntity = prom_InsertSyncEntity base instanceName,
       ds_InsertSyncEntitiesWithServerTags = prom_InsertSyncEntitiesWithServerTags base instanceName,
       ds_UpdateSyncEntity = prom_UpdateSyncEntity base instanceName,
       ds_GetUpdatesForType = prom_GetUpdatesForType base instanceName,
       ds_HasServerDefinedUniqueTag = prom_HasServerDefinedUniqueTag base instanceName,
       ds_GetClientItemCount = prom_GetClientItemCount base instanceName,
       ds_UpdateClientItemCount = prom_UpdateClientItemCount base instanceName,
       ds_ClearServerData = prom_ClearServerData base instanceName,
       ds_DisableSyncChain = prom_DisableSyncChain base instanceName,
       ds_IsSyncChainDisabled = prom_IsSyncChainDisabled base instanceName,
       ds_HasItem = prom_HasItem base instanceName \<rparr>"

lemmas prom_datastore_defs = NewDatastoreWithPrometheus_def prom_InsertSyncEntity_def prom_InsertSyncEntitiesWithServerTags_def prom_UpdateSyncEntity_def
  prom_GetUpdatesForType_def prom_HasServerDefinedUniqueTag_def prom_GetClientItemCount_def
  prom_UpdateClientItemCount_def prom_ClearServerData_def prom_DisableSyncChain_def
  prom_IsSyncChainDisabled_def prom_HasItem_def

subsection \<open>The cache client\<close>

definition prom_redis_Del ::
  "'c redis_client \<Rightarrow> string \<Rightarrow> env \<Rightarrow> string list
     \<Rightarrow> ('c metered, error option) op" where
  "prom_redis_Del base instanceName E keys =
     observed instanceName ''Del'' has_error (rc_Del base E keys)"

definition prom_redis_FlushAll ::
  "'c redis_client \<Rightarrow> string \<Rightarrow> env
     \<Rightarrow> ('c metered, error option) op" where
  "prom_redis_FlushAll base instanceName E =
     observed instanceName ''FlushAll'' has_error (rc_FlushAll base E)"

definition prom_redis_Get ::
  "'c redis_client \<Rightarrow> string \<Rightarrow> env \<Rightarrow> string \<Rightarrow> bool
     \<Rightarrow> ('c metered, error + string) op" where
  "prom_redis_Get base instanceName E key deleteAfterGet =
     observed instanceName ''Get'' isl (rc_Get base E key deleteAfterGet)"

definition prom_redis_Incr ::
  "'c redis_client \<Rightarrow> string \<Rightarrow> env \<Rightarrow> string \<Rightarrow> bool
     \<Rightarrow> ('c metered, error + int) op" where
  "prom_redis_Incr base instanceName E key subtract =
     observed instanceName ''Incr'' isl (rc_Incr base E key subtract)"

definition prom_redis_Set ::
  "'c redis_client \<Rightarrow> string \<Rightarrow> env \<Rightarrow> string \<Rightarrow> string \<Rightarrow> int
     \<Rightarrow> ('c metered, error option) op" where
  "prom_redis_Set base instanceName E key val ttl =
     observed instanceName ''Set'' has_error (rc_Set base E key val ttl)"

definition NewRedisClientWithPrometheus :: "'c redis_client \<Rightarrow> string \<Rightarrow> 'c metered redis_client" where
  "NewRedisClientWithPrometheus base instanceName =
     \<lparr> rc_Set = prom_redis_Set base instanceName,
       rc_Incr = prom_redis_Incr base instanceName,
       rc_Get = prom_redis_Get base instanceName,
       rc_Del = prom_redis_Del base instanceName,
       rc_FlushAll = prom_redis_FlushAll base instanceName \<rparr>"

lemmas prom_redis_defs = NewRedisClientWithPrometheus_def prom_redis_Set_def prom_redis_Incr_def
  prom_redis_Get_def prom_redis_Del_def prom_redis_FlushAll_def

subsection \<open>The wrapped values behave like the values they wrap\<close>

interpretation prom_sim: server_simulation "NewDatastoreWithPrometheus ds i" ds inner
    "NewRedisClientWithPrometheus rc j" rc inner UNIV c for ds i rc j c
  by unfold_locales (simp_all add: prom_datastore_defs prom_redis_defs observed_inner)

text \<open>The contract of the cache client carries over to the wrapped one.\<close>

context redis_contract
begin

lemma observed_inner_result:
  "observed instanceName method failed f m n = (r, m', n') \<Longrightarrow> f (inner m) n = (r, inner m', n')"
  using op_mapD [OF observed_inner] .

lemma instrumented: "redis_contract (NewRedisClientWithPrometheus rc i) (\<lambda>m. live (inner m))"
  by (unfold_locales; unfold prom_redis_defs redis_client.simps; drule observed_inner_result;
      (rule get_value get_live set_ok set_live incr_result incr_other incr_live get_seq set_seq incr_seq
         del_seq del_live; assumption))

end

interpretation memory_prom: redis_contract "NewRedisClientWithPrometheus memory_redis i" "\<lambda>m. mem_live (inner m)" for i
  by (rule memory.instrumented)

end
