(* ===== verification/Instrumented_Props.thy ===== *)
theory Instrumented_Props
  imports Instrumented Http
begin

section \<open>Metrics do not change the server\<close>

text \<open>
  What the wrappers of the data store and the cache client do to whole requests: nothing
  but append to their logs.
\<close>

text \<open>
  C18: A server whose store and cache are wrapped with metrics does exactly what the server
  with the bare store and cache does: for every request, the same answer, error, panic or
  endless loop, and the wrapped states at the end are the states of the bare run.
\<close>

theorem instrumented_transparent:
  "HandleClientToServerMessage ds rc E pb rsp c (map_sys inner inner s) =
   map_option (apsnd (map_sys inner inner))
     (HandleClientToServerMessage (NewDatastoreWithPrometheus ds i) (NewRedisClientWithPrometheus rc j) E pb rsp c s)"
  by (rule prom_sim.request_eq)

text \<open>Putting observations in front of the log.\<close>

definition prepend :: "observation list \<Rightarrow> 'd metered \<Rightarrow> 'd metered" where
  "prepend past m = m\<lparr>observations := past @ observations m\<rparr>"

lemma observed_prepend:
  "op_map (prepend past) (observed instanceName method failed f) (observed instanceName method failed f)"
  by (auto simp: op_map_def observed_def prepend_def split: prod.splits)

interpretation prom_log: server_simulation "NewDatastoreWithPrometheus ds i" "NewDatastoreWithPrometheus ds i"
    "prepend p" "NewRedisClientWithPrometheus rc j" "NewRedisClientWithPrometheus rc j" "prepend q" UNIV c
    for ds i p rc j q c
  by unfold_locales (simp_all add: prom_datastore_defs prom_redis_defs observed_prepend)

text \<open>
  The logs are write-only: with other observations already in them, a request does the
  same, and the old observations stay in front of the new ones.
\<close>

theorem instrumented_log_appends:
  "HandleClientToServerMessage (NewDatastoreWithPrometheus ds i) (NewRedisClientWithPrometheus rc j) E pb rsp c
     (map_sys (prepend p) (prepend q) s) =
   map_option (apsnd (map_sys (prepend p) (prepend q)))
     (HandleClientToServerMessage (NewDatastoreWithPrometheus ds i) (NewRedisClientWithPrometheus rc j) E pb rsp c s)"
  by (rule prom_log.request_eq)

text \<open>The same for the HTTP handler of sync-lite, for any two servers in simulation.\<close>

context server_simulation
begin

lemma command_body_eq:
  "command_body W ds2 rc2 E c r (map_sys abs_db abs_kv s)
     = map_option (apsnd (map_sys abs_db abs_kv)) (command_body W ds1 rc1 E c r s)"
  by (simp add: command_body_def request_eq split: results_split)

lemma handler_eq:
  assumes "\<And>a n. Authorize A E (rq_Authorization r) (seq s) = (Return (Inr a), n) \<Longrightarrow> a \<noteq> '''' \<Longrightarrow> a = c"
  shows "commandHandler A W ds2 rc2 E r (map_sys abs_db abs_kv s)
     = map_option (apsnd (map_sys abs_db abs_kv)) (commandHandler A W ds1 rc1 E r s)"
proof (cases "\<exists>n. Authorize A E (rq_Authorization r) (seq s) = (Return (Inr c), n)")
  case True
  then show ?thesis by (auto simp: commandHandler_def command_body_eq sys_sim split: results_split)
next
  case False
  with assms show ?thesis by (auto simp: commandHandler_def split: results_split)
qed

end

theorem instrumented_handler:
  "commandHandler A W ds rc E r (map_sys inner inner s) =
   map_option (apsnd (map_sys inner inner))
     (commandHandler A W (NewDatastoreWithPrometheus ds i) (NewRedisClientWithPrometheus rc j) E r s)"
proof -
  obtain o1 n where a: "Authorize A E (rq_Authorization r) (seq s) = (o1, n)" by fastforce
  show ?thesis
    by (rule prom_sim.handler_eq [where c = "case o1 of Return (Inr c) \<Rightarrow> c | _ \<Rightarrow> ''''"]) (simp add: a)
qed

end
