(* ===== verification/Redis_Go.thy ===== *)
theory Redis_Go
  imports Redis_Client
begin

section \<open>The clients of a Redis server (cache/redis.go)\<close>

text \<open>
  \<open>redisSimpleClient\<close> and \<open>redisClusterClient\<close> put the \<open>RedisClient\<close> interface on top of
  a client of the go-redis library, a parameter here: one operation for each command the
  code sends. Its errors are \<open>redis.Nil\<close> for a missing key, or others.
\<close>

datatype redis_error = Nil_Reply | Redis_Failed error

definition redis_err :: "redis_error \<Rightarrow> error" where
  "redis_err e = (case e of Nil_Reply \<Rightarrow> ''redis: nil'' | Redis_Failed err \<Rightarrow> err)"

record 'c go_redis =
  gr_Set :: "string \<Rightarrow> string \<Rightarrow> int \<Rightarrow> ('c, redis_error option) op"
  gr_Incr :: "string \<Rightarrow> ('c, redis_error + int) op"
  gr_Decr :: "string \<Rightarrow> ('c, redis_error + int) op"
  gr_Get :: "string \<Rightarrow> ('c, redis_error + string) op"
  gr_GetDel :: "string \<Rightarrow> ('c, redis_error + string) op"
  gr_Del :: "string list \<Rightarrow> ('c, redis_error option) op"
  gr_FlushAll :: "('c, redis_error option) op"

subsection \<open>The methods\<close>

text \<open>The two clients have the same method bodies, over different go-redis clients.\<close>

definition redis_Set :: "'c go_redis \<Rightarrow> env \<Rightarrow> string \<Rightarrow> string \<Rightarrow> int \<Rightarrow> ('c, error option) op" where
  "redis_Set gr E key val ttl c n = (case gr_Set gr key val ttl c n of (err, c, n) \<Rightarrow> (map_option redis_err err, c, n))"

definition redis_Incr :: "'c go_redis \<Rightarrow> env \<Rightarrow> string \<Rightarrow> bool \<Rightarrow> ('c, error + int) op" where
  "redis_Incr gr E key subtract c n =
     (case (if subtract then gr_Decr gr key c n else gr_Incr gr key c n) of
        (Inl err, c, n) \<Rightarrow> (Inl (redis_err err), c, n)
      | (Inr val, c, n) \<Rightarrow> (Inr val, c, n))"

definition redis_Get :: "'c go_redis \<Rightarrow> env \<Rightarrow> string \<Rightarrow> bool \<Rightarrow> ('c, error + string) op" where
  "redis_Get gr E key deleteAfterGet c n =
     (case (if deleteAfterGet then gr_GetDel gr key c n else gr_Get gr key c n) of
        (Inl Nil_Reply, c, n) \<Rightarrow> (Inr '''', c, n)
      | (Inl err, c, n) \<Rightarrow> (Inl (redis_err err), c, n)
      | (Inr val, c, n) \<Rightarrow> (Inr val, c, n))"

definition redis_Del :: "'c go_redis \<Rightarrow> env \<Rightarrow> string list \<Rightarrow> ('c, error option) op" where
  "redis_Del gr E keys c n = (case gr_Del gr keys c n of (err, c, n) \<Rightarrow> (map_option redis_err err, c, n))"

definition redis_FlushAll :: "'c go_redis \<Rightarrow> env \<Rightarrow> ('c, error option) op" where
  "redis_FlushAll gr E c n = (case gr_FlushAll gr c n of (err, c, n) \<Rightarrow> (map_option redis_err err, c, n))"

definition redisSimpleClient :: "'c go_redis \<Rightarrow> 'c redis_client" where
  "redisSimpleClient gr = \<lparr>rc_Set = redis_Set gr, rc_Incr = redis_Incr gr, rc_Get = redis_Get gr,
     rc_Del = redis_Del gr, rc_FlushAll = redis_FlushAll gr\<rparr>"

definition redisClusterClient :: "'c go_redis \<Rightarrow> 'c redis_client" where
  "redisClusterClient gr = \<lparr>rc_Set = redis_Set gr, rc_Incr = redis_Incr gr, rc_Get = redis_Get gr,
     rc_Del = redis_Del gr, rc_FlushAll = redis_FlushAll gr\<rparr>"

subsection \<open>Which client is created\<close>

datatype redis_options =
    Options string
  | ClusterOptions "string list" int bool

definition NewRedisClient :: "(string \<Rightarrow> string) \<Rightarrow> redis_options" where
  "NewRedisClient getenv =
     (let addrs = split_on (CHR '','') (getenv ''REDIS_URL'');
          cluster = (getenv ''ENV'' \<noteq> ''local'' \<and> getenv ''ENV'' \<noteq> '''');
          poolSize = (case atoi (getenv ''REDIS_POOL_SIZE'') of Inl err \<Rightarrow> 100 | Inr k \<Rightarrow> k);
          fallback = (addrs = []);
          addrs = (if fallback then [''localhost:6397''] else addrs);
          cluster = (cluster \<and> \<not> fallback)
      in if cluster then ClusterOptions addrs poolSize True else Options (addrs ! 0))"

text \<open>
  The fallback to a local server is never taken: splitting yields at least one part. With
  no \<open>REDIS_URL\<close> the address is the empty string, and a cluster is still a cluster.
\<close>

theorem redis_fallback_unused:
  "NewRedisClient getenv =
     (if getenv ''ENV'' \<in> {''local'', ''''} then Options (hd (split_on (CHR '','') (getenv ''REDIS_URL'')))
      else ClusterOptions (split_on (CHR '','') (getenv ''REDIS_URL''))
        (case atoi (getenv ''REDIS_POOL_SIZE'') of Inl err \<Rightarrow> 100 | Inr k \<Rightarrow> k) True)"
proof -
  have "split_on (CHR '','') (getenv ''REDIS_URL'') \<noteq> []" by (rule split_on_not_Nil)
  then show ?thesis by (auto simp: NewRedisClient_def Let_def hd_conv_nth)
qed

text \<open>A missing key reads as the empty string, whichever command is sent.\<close>

lemma redis_Get_missing:
  "(if del then gr_GetDel gr k c n else gr_Get gr k c n) = (Inl Nil_Reply, c', n') \<Longrightarrow>
   redis_Get gr E k del c n = (Inr '''', c', n')"
  by (simp add: redis_Get_def)

end
