(* ===== verification/Dynamo.thy ===== *)
theory Dynamo
  imports Datastore
begin

section \<open>The DynamoDB store (datastore/dynamo.go, sync\_entity.go, item\_count.go)\<close>

text \<open>
  \<open>Dynamo\<close> implements the \<open>Datastore\<close> interface with requests to a DynamoDB table. The AWS
  SDK and the service behind it are a parameter: the record \<open>aws\<close> holds one operation for
  each SDK call the code makes. What the code itself decides is modelled: which requests it
  sends in which order, with which keys, conditions and updates (as terms of the builder
  functions it calls), how it reads the responses, and what it does with errors. All items
  live in one table with the key \<open>(ClientID, ID)\<close>: entities, tag items, the counters of a
  client and the marker of a disabled chain.
\<close>

subsection \<open>Requests\<close>

text \<open>An argument of \<open>expression.Value\<close>; a nil pointer or slice is \<open>GoNil\<close>.\<close>

datatype go_value = GoNil | GoInt int | GoString string | GoBytes bytes | GoBool bool

datatype condition =
    AttributeExists string
  | AttributeNotExists string
  | Name_Equal string go_value
  | Name_NotEqual string go_value
  | Name_In string "go_value list"
  | Cond_And "condition list"

datatype key_condition =
    Key_Equal string go_value
  | Key_Between string go_value go_value
  | Key_And key_condition key_condition

text \<open>What \<open>expression.NewBuilder()\<close> is given before \<open>Build\<close>.\<close>

record expr =
  e_Condition :: "condition option"
  e_KeyCondition :: "key_condition option"
  e_Filter :: "condition option"
  e_Update :: "(string \<times> go_value) list"

definition new_builder :: expr where
  "new_builder = \<lparr>e_Condition = None, e_KeyCondition = None, e_Filter = None, e_Update = []\<rparr>"

text \<open>An item is a Go map of attributes, here with values of any type.\<close>

type_synonym 'v item = "(string \<times> 'v) list"

datatype 'v transact_item =
    Put "'v item" "condition option"
  | Update "'v item" expr
  | Delete "'v item" "condition option"

record query_input =
  qi_IndexName :: "string option"
  qi_expr :: expr
  qi_ProjectionExpression :: "string option"
  qi_Limit :: "int option"
  qi_SelectCount :: bool

record 'v query_output =
  q_Items :: "'v item list"
  q_Count :: int
  q_LastEvaluatedKey :: "'v item"

text \<open>The errors the code distinguishes: of a cancelled transaction it reads the reasons' codes.\<close>

datatype dynamo_error =
    TransactionCanceled error "string option list"
  | ConditionalCheckFailed error
  | OtherError error

fun err_text :: "dynamo_error \<Rightarrow> error" where
  "err_text (TransactionCanceled msg codes) = msg"
| "err_text (ConditionalCheckFailed msg) = msg"
| "err_text (OtherError msg) = msg"

definition conditionalCheckFailed :: string where
  "conditionalCheckFailed = ''ConditionalCheckFailed''"

text \<open>\<open>errors.As\<close> and the loop over the reasons.\<close>

fun condition_failed :: "dynamo_error \<Rightarrow> bool" where
  "condition_failed (TransactionCanceled msg codes) = (Some conditionalCheckFailed \<in> set codes)"
| "condition_failed _ = False"

subsection \<open>Items\<close>

record ServerClientUniqueTagItem =
  tag_ClientID :: string
  tag_ID :: string
  tag_Mtime :: int
  tag_Ctime :: int

record DisabledMarkerItem =
  marker_ClientID :: string
  marker_ID :: string
  marker_Reason :: string
  marker_Mtime :: int
  marker_Ctime :: int

text \<open>
  The SDK: the expression builder's check, the conversion between structs and attribute
  maps, and the client's calls. A nil attribute map reads as the zero struct. The pages of
  a \<open>BatchGetItem\<close> paginator come as a list, with the error that ended it, if any.
\<close>

record ('t, 'v) aws =
  Build :: "expr \<Rightarrow> error option"
  marshal_key :: "string \<times> string \<Rightarrow> error + 'v item"
  marshal_entity :: "SyncEntity \<Rightarrow> error + 'v item"
  marshal_tag :: "ServerClientUniqueTagItem \<Rightarrow> error + 'v item"
  marshal_marker :: "DisabledMarkerItem \<Rightarrow> error + 'v item"
  marshal_counts :: "ClientItemCounts \<Rightarrow> error + 'v item"
  unmarshal_entity :: "'v item \<Rightarrow> error + SyncEntity"
  unmarshal_entities :: "'v item list \<Rightarrow> error + SyncEntity list"
  unmarshal_counts :: "'v item \<Rightarrow> error + ClientItemCounts"
  AttributeValueMemberS :: "string \<Rightarrow> 'v"
  PutItem :: "'v item \<Rightarrow> condition option \<Rightarrow> ('t, dynamo_error option) op"
  GetItem :: "'v item \<Rightarrow> string option \<Rightarrow> ('t, dynamo_error + 'v item option) op"
  UpdateItem :: "'v item \<Rightarrow> expr \<Rightarrow> ('t, dynamo_error + 'v item) op"
  TransactWriteItems :: "'v transact_item list \<Rightarrow> ('t, dynamo_error option) op"
  Query :: "query_input \<Rightarrow> ('t, dynamo_error + 'v query_output) op"
  BatchGetPages :: "'v item list \<Rightarrow> ('t, dynamo_error option \<times> 'v item list list) op"

definition pk :: string where "pk = ''ClientID''"
definition sk :: string where "sk = ''ID''"
definition projPk :: string where "projPk = ''ClientID, ID''"
definition clientIDDataTypeMtimeIdx :: string where "clientIDDataTypeMtimeIdx = ''ClientIDDataTypeMtimeIndex''"
definition clientIDDataTypeMtimeIdxPk :: string where "clientIDDataTypeMtimeIdxPk = ''ClientID''"
definition clientIDDataTypeMtimeIdxSk :: string where "clientIDDataTypeMtimeIdxSk = ''DataTypeMtime''"
definition maxBatchGetItemSize :: nat where "maxBatchGetItemSize = 100"
definition maxTransactDeleteItemSize :: nat where "maxTransactDeleteItemSize = 10"
definition dataTypeAttrName :: string where "dataTypeAttrName = ''DataType''"
definition deletedAttrName :: string where "deletedAttrName = ''Deleted''"

definition getTagPrefix :: "bool \<Rightarrow> string" where
  "getTagPrefix isServer = (if isServer then serverTagItemPrefix else clientTagItemPrefix)"

definition NewServerClientUniqueTagItem ::
  "env \<Rightarrow> string \<Rightarrow> string \<Rightarrow> bool \<Rightarrow> nat \<Rightarrow> ServerClientUniqueTagItem \<times> nat" where
  "NewServerClientUniqueTagItem E clientID tag isServer n =
     (\<lparr>tag_ClientID = clientID, tag_ID = getTagPrefix isServer @ tag,
       tag_Mtime = unix_milli E n, tag_Ctime = unix_milli E n\<rparr>, Suc n)"

definition NewServerClientUniqueTagItemQuery :: "string \<Rightarrow> string \<Rightarrow> bool \<Rightarrow> string \<times> string" where
  "NewServerClientUniqueTagItemQuery clientID tag isServer = (clientID, getTagPrefix isServer @ tag)"

subsection \<open>Insertion\<close>

definition insert_expr :: expr where
  "insert_expr = new_builder\<lparr>e_Condition := Some (AttributeNotExists pk)\<rparr>"

definition dynamo_InsertSyncEntity ::
  "('t, 'v) aws \<Rightarrow> env \<Rightarrow> SyncEntity \<Rightarrow> ('t, (bool \<times> error option) outcome) op" where
  "dynamo_InsertSyncEntity A E entity d n =
     (case Build A insert_expr of
        Some err \<Rightarrow> (Return (False, Some (''error building expression to insert sync entity: '' @ err)), d, n)
      | None \<Rightarrow>
     (case (case ClientDefinedUniqueTag entity of
              None \<Rightarrow> Return None
            | Some tag \<Rightarrow> (case DataType entity of
                 None \<Rightarrow> Panic
               | Some dataType \<Rightarrow> Return (if dataType \<noteq> HistoryTypeID then Some tag else None))) of
        Panic \<Rightarrow> (Panic, d, n)
      | Return (Some tag) \<Rightarrow>
          (case NewServerClientUniqueTagItem E (ClientID entity) tag False n of
             (item, n) \<Rightarrow>
          (case marshal_tag A item of
             Inl err \<Rightarrow> (Return (False, Some (''error marshalling unique tag item to insert sync entity: '' @ err)), d, n)
           | Inr tagAv \<Rightarrow>
          (case marshal_entity A entity of
             Inl err \<Rightarrow> (Return (False, Some (''error marshlling sync item to insert sync entity: '' @ err)), d, n)
           | Inr av \<Rightarrow>
          (case TransactWriteItems A [Put tagAv (e_Condition insert_expr), Put av (e_Condition insert_expr)] d n of
             (Some err, d, n) \<Rightarrow>
               (if condition_failed err
                then (Return (True, Some (''error inserting sync item with client tag: '' @ err_text err)), d, n)
                else (Return (False, Some (''error writing tag item and sync item in a transaction to insert sync entity: ''
                        @ err_text err)), d, n))
           | (None, d, n) \<Rightarrow> (Return (False, None), d, n)))))
      | Return None \<Rightarrow>
          (case marshal_entity A entity of
             Inl err \<Rightarrow> (Return (False, Some (''error marshalling sync item to insert sync entity: '' @ err)), d, n)
           | Inr av \<Rightarrow>
          (case PutItem A av (e_Condition insert_expr) d n of
             (Some err, d, n) \<Rightarrow>
               (Return (False, Some (''error calling PutItem to insert sync item: '' @ err_text err)), d, n)
           | (None, d, n) \<Rightarrow> (Return (False, None), d, n)))))"

text \<open>The items of the loop in \<open>InsertSyncEntitiesWithServerTags\<close>.\<close>

fun server_tag_items ::
  "('t, 'v) aws \<Rightarrow> env \<Rightarrow> SyncEntity list \<Rightarrow> nat \<Rightarrow> (error + 'v transact_item list) outcome \<times> nat" where
  "server_tag_items A E [] n = (Return (Inr []), n)"
| "server_tag_items A E (entity # entities) n =
     (case Build A insert_expr of
        Some err \<Rightarrow> (Return (Inl (''error building expression to insert sync entity with server tag: '' @ err)), n)
      | None \<Rightarrow>
     (case ServerDefinedUniqueTag entity of
        None \<Rightarrow> (Panic, n)
      | Some tag \<Rightarrow>
     (case NewServerClientUniqueTagItem E (ClientID entity) tag True n of
        (item, n) \<Rightarrow>
     (case marshal_tag A item of
        Inl err \<Rightarrow> (Return (Inl (''error marshalling tag item to insert sync entity with server tag: '' @ err)), n)
      | Inr tagAv \<Rightarrow>
     (case marshal_entity A entity of
        Inl err \<Rightarrow> (Return (Inl (''error marshalling sync item to insert sync entity with server tag: '' @ err)), n)
      | Inr av \<Rightarrow>
     (case server_tag_items A E entities n of
        (Return (Inr items), n) \<Rightarrow>
          (Return (Inr (Put tagAv (e_Condition insert_expr) # Put av (e_Condition insert_expr) # items)), n)
      | res \<Rightarrow> res))))))"

definition dynamo_InsertSyncEntitiesWithServerTags ::
  "('t, 'v) aws \<Rightarrow> env \<Rightarrow> SyncEntity list \<Rightarrow> ('t, error option outcome) op" where
  "dynamo_InsertSyncEntitiesWithServerTags A E entities d n =
     (case server_tag_items A E entities n of
        (Panic, n) \<Rightarrow> (Panic, d, n)
      | (Return (Inl err), n) \<Rightarrow> (Return (Some err), d, n)
      | (Return (Inr items), n) \<Rightarrow>
     (case TransactWriteItems A items d n of
        (Some err, d, n) \<Rightarrow>
          (Return (Some (''error writing sync entities with server tags in a transaction: '' @ err_text err)), d, n)
      | (None, d, n) \<Rightarrow> (Return None, d, n)))"

subsection \<open>Lookup\<close>

definition dynamo_HasServerDefinedUniqueTag ::
  "('t, 'v) aws \<Rightarrow> env \<Rightarrow> string \<Rightarrow> string \<Rightarrow> ('t, error + bool) op" where
  "dynamo_HasServerDefinedUniqueTag A E clientID tag d n =
     (case marshal_key A (NewServerClientUniqueTagItemQuery clientID tag True) of
        Inl err \<Rightarrow> (Inl (''error marshalling key to check if server tag existed: '' @ err), d, n)
      | Inr key \<Rightarrow>
     (case GetItem A key (Some projPk) d n of
        (Inl err, d, n) \<Rightarrow> (Inl (''error calling GetItem to check if server tag existed: '' @ err_text err), d, n)
      | (Inr out, d, n) \<Rightarrow> (Inr (out \<noteq> None), d, n)))"

definition dynamo_HasItem :: "('t, 'v) aws \<Rightarrow> env \<Rightarrow> string \<Rightarrow> string \<Rightarrow> ('t, error + bool) op" where
  "dynamo_HasItem A E clientID i d n =
     (case marshal_key A (clientID, i) of
        Inl err \<Rightarrow> (Inl (''error marshalling key to check if item existed: '' @ err), d, n)
      | Inr key \<Rightarrow>
     (case GetItem A key (Some projPk) d n of
        (Inl err, d, n) \<Rightarrow> (Inl (''error calling GetItem to check if item existed: '' @ err_text err), d, n)
      | (Inr out, d, n) \<Rightarrow> (Inr (out \<noteq> None), d, n)))"

definition dynamo_IsSyncChainDisabled :: "('t, 'v) aws \<Rightarrow> env \<Rightarrow> string \<Rightarrow> ('t, error + bool) op" where
  "dynamo_IsSyncChainDisabled A E clientID d n =
     (case marshal_key A (clientID, disabledChainID) of
        Inl err \<Rightarrow> (Inl (''error marshalling key to check if server tag existed: '' @ err), d, n)
      | Inr key \<Rightarrow>
     (case GetItem A key None d n of
        (Inl err, d, n) \<Rightarrow> (Inl (''error calling GetItem to check if sync chain disabled: '' @ err_text err), d, n)
      | (Inr out, d, n) \<Rightarrow> (Inr (case out of None \<Rightarrow> False | Some item \<Rightarrow> 0 < length item), d, n)))"

definition dynamo_DisableSyncChain :: "('t, 'v) aws \<Rightarrow> env \<Rightarrow> string \<Rightarrow> ('t, error option) op" where
  "dynamo_DisableSyncChain A E clientID d n =
     (let now = unix_milli E n; n = Suc n in
      case marshal_marker A \<lparr>marker_ClientID = clientID, marker_ID = disabledChainID,
             marker_Reason = reasonDeleted, marker_Mtime = now, marker_Ctime = now\<rparr> of
        Inl err \<Rightarrow> (Some (''error marshalling disabled marker: '' @ err), d, n)
      | Inr av \<Rightarrow>
     (case PutItem A av None d n of
        (Some err, d, n) \<Rightarrow> (Some (''error calling PutItem to insert sync item: '' @ err_text err), d, n)
      | (None, d, n) \<Rightarrow> (None, d, n)))"

end
