(* ===== verification/Dynamo_Store.thy ===== *)
theory Dynamo_Store
  imports Dynamo
begin

section \<open>Updates, queries and counters on DynamoDB\<close>

text \<open>
  The rest of the \<open>Dynamo\<close> methods: \<open>UpdateSyncEntity\<close>, \<open>GetUpdatesForType\<close>,
  \<open>ClearServerData\<close> (sync\_entity.go) and the counters (item\_count.go).
\<close>

subsection \<open>UpdateSyncEntity\<close>

definition go_int :: "int option \<Rightarrow> go_value" where
  "go_int v = (case v of None \<Rightarrow> GoNil | Some i \<Rightarrow> GoInt i)"

definition go_bytes :: "bytes option \<Rightarrow> go_value" where
  "go_bytes v = (case v of None \<Rightarrow> GoNil | Some b \<Rightarrow> GoBytes b)"

definition go_string :: "string option \<Rightarrow> go_value" where
  "go_string v = (case v of None \<Rightarrow> GoNil | Some s \<Rightarrow> GoString s)"

text \<open>A \<open>SET\<close> of an optional field, left out when the field is nil.\<close>

definition set_optional :: "string \<Rightarrow> ('a \<Rightarrow> go_value) \<Rightarrow> 'a option \<Rightarrow> (string \<times> go_value) list" where
  "set_optional name f v = (case v of None \<Rightarrow> [] | Some x \<Rightarrow> [(name, f x)])"

definition update_fields :: "SyncEntity \<Rightarrow> (string \<times> go_value) list" where
  "update_fields entity =
     [(''Version'', go_int (Version entity)), (''Mtime'', go_int (Mtime entity)),
      (''Specifics'', go_bytes (Specifics entity)), (''DataTypeMtime'', go_string (DataTypeMtime entity))]
     @ set_optional ''UniquePosition'' GoBytes (entity_UniquePosition entity)
     @ set_optional ''ParentID'' GoString (ParentID entity)
     @ set_optional ''Name'' GoString (Name entity)
     @ set_optional ''NonUniqueName'' GoString (NonUniqueName entity)
     @ set_optional ''Deleted'' GoBool (Deleted entity)
     @ set_optional ''Folder'' GoBool (Folder entity)"

definition update_condition :: "int \<Rightarrow> int \<Rightarrow> condition" where
  "update_condition dataType oldVersion =
     (if dataType \<noteq> HistoryTypeID
      then Cond_And [AttributeExists pk, Name_Equal ''Version'' (GoInt oldVersion)]
      else AttributeExists pk)"

definition update_expr :: "SyncEntity \<Rightarrow> int \<Rightarrow> int \<Rightarrow> expr" where
  "update_expr entity dataType oldVersion =
     new_builder\<lparr>e_Condition := Some (update_condition dataType oldVersion), e_Update := update_fields entity\<rparr>"

text \<open>Whether the update turned the item from not deleted to deleted.\<close>

definition newly_deleted :: "bool option \<Rightarrow> bool option \<Rightarrow> bool" where
  "newly_deleted new old =
     (case new of
        None \<Rightarrow> False
      | Some deleted \<Rightarrow> (case old of None \<Rightarrow> deleted | Some was_deleted \<Rightarrow> \<not> was_deleted \<and> deleted))"

definition dynamo_UpdateSyncEntity ::
  "('t, 'v) aws \<Rightarrow> env \<Rightarrow> SyncEntity \<Rightarrow> int \<Rightarrow> ('t, (bool \<times> bool \<times> error option) outcome) op" where
  "dynamo_UpdateSyncEntity A E entity oldVersion d n =
     (case marshal_key A (ClientID entity, ID entity) of
        Inl err \<Rightarrow> (Return (False, False, Some (''error marshalling key to update sync entity: '' @ err)), d, n)
      | Inr key \<Rightarrow>
     (case DataType entity of
        None \<Rightarrow> (Panic, d, n)
      | Some dataType \<Rightarrow>
     (let e = update_expr entity dataType oldVersion in
      case Build A e of
        Some err \<Rightarrow> (Return (False, False, Some (''error building expression to update sync entity: '' @ err)), d, n)
      | None \<Rightarrow>
     (case (if Deleted entity = Some True \<and> dataType \<noteq> HistoryTypeID then ClientDefinedUniqueTag entity else None) of
        Some tag \<Rightarrow>
          (case marshal_key A (ClientID entity, clientTagItemPrefix @ tag) of
             Inl err \<Rightarrow> (Return (False, False, Some (''error marshalling key to update sync entity: '' @ err)), d, n)
           | Inr tagItemKey \<Rightarrow>
          (case TransactWriteItems A [Update key e, Delete tagItemKey None] d n of
             (Some err, d, n) \<Rightarrow>
               (if condition_failed err then (Return (True, False, None), d, n)
                else (Return (False, False, Some (''error deleting sync item and tag item in a transaction: ''
                        @ err_text err)), d, n))
           | (None, d, n) \<Rightarrow> (Return (False, True, None), d, n)))
      | None \<Rightarrow>
          (case UpdateItem A key e d n of
             (Inl (ConditionalCheckFailed err), d, n) \<Rightarrow> (Return (True, False, None), d, n)
           | (Inl err, d, n) \<Rightarrow>
               (Return (False, False, Some (''error calling UpdateItem to update sync entity: '' @ err_text err)), d, n)
           | (Inr attributes, d, n) \<Rightarrow>
          (case unmarshal_entity A attributes of
             Inl err \<Rightarrow> (Return (False, False, Some (''error unmarshalling old sync entity: '' @ err)), d, n)
           | Inr oldEntity \<Rightarrow>
               (Return (False, newly_deleted (Deleted entity) (Deleted oldEntity), None), d, n)))))))"

subsection \<open>GetUpdatesForType\<close>

fun chunks :: "nat \<Rightarrow> 'a list \<Rightarrow> 'a list list" where
  "chunks k [] = []"
| "chunks k (x # xs) = take (Suc k) (x # xs) # chunks k (drop k xs)"

definition int32_of :: "int \<Rightarrow> int" where
  "int32_of x = (x + 2 ^ 31) mod 2 ^ 32 - 2 ^ 31"

definition lower_bound :: "int \<Rightarrow> int \<Rightarrow> string" where
  "lower_bound dataType clientToken = itoa dataType @ ''#'' @ itoa (wrap64 (clientToken + 1))"

definition upper_bound :: "int \<Rightarrow> string" where
  "upper_bound dataType = itoa (dataType + 1) @ ''#0''"

definition updates_expr :: "int \<Rightarrow> int \<Rightarrow> bool \<Rightarrow> string \<Rightarrow> expr" where
  "updates_expr dataType clientToken fetchFolders clientID =
     new_builder
       \<lparr> e_KeyCondition := Some (Key_And (Key_Equal clientIDDataTypeMtimeIdxPk (GoString clientID))
           (Key_Between clientIDDataTypeMtimeIdxSk (GoString (lower_bound dataType clientToken))
              (GoString (upper_bound dataType)))),
         e_Filter := (if fetchFolders then None else Some (Name_Equal ''Folder'' (GoBool False))) \<rparr>"

text \<open>The loop over the batches of keys.\<close>

fun batch_get ::
  "('t, 'v) aws \<Rightarrow> 'v item list list \<Rightarrow> 'v item list \<Rightarrow> ('t, dynamo_error + 'v item list) op" where
  "batch_get A [] outAv d n = (Inr outAv, d, n)"
| "batch_get A (ks # kss) outAv d n =
     (case BatchGetPages A ks d n of
        ((Some err, pages), d, n) \<Rightarrow> (Inl err, d, n)
      | ((None, pages), d, n) \<Rightarrow> batch_get A kss (outAv @ concat pages) d n)"

definition not_expired :: "int \<Rightarrow> SyncEntity \<Rightarrow> bool" where
  "not_expired nowUnix e = (case ExpirationTime e of None \<Rightarrow> True | Some t \<Rightarrow> \<not> (0 < t \<and> t < nowUnix))"

text \<open>
  \<open>sort.Sort\<close> with \<open>SyncEntityByMtime\<close>, which dereferences the times as soon as there are
  two elements. Go does not fix the order of equal times; here they keep their order.
\<close>

definition sort_by_mtime :: "SyncEntity list \<Rightarrow> SyncEntity list outcome" where
  "sort_by_mtime es =
     (if 1 < length es \<and> list_ex (\<lambda>e. Mtime e = None) es then Panic
      else Return (sort_key (\<lambda>e. case Mtime e of None \<Rightarrow> 0 | Some m \<Rightarrow> m) es))"

definition dynamo_GetUpdatesForType ::
  "('t, 'v) aws \<Rightarrow> env \<Rightarrow> int \<Rightarrow> int \<Rightarrow> bool \<Rightarrow> string \<Rightarrow> int
     \<Rightarrow> ('t, (error + bool \<times> SyncEntity list) outcome) op" where
  "dynamo_GetUpdatesForType A E dataType clientToken fetchFolders clientID maxSize d n =
     (let e = updates_expr dataType clientToken fetchFolders clientID in
      case Build A e of
        Some err \<Rightarrow> (Return (Inl (''error building expression to get updates: '' @ err)), d, n)
      | None \<Rightarrow>
     (case Query A \<lparr>qi_IndexName = Some clientIDDataTypeMtimeIdx, qi_expr = e,
             qi_ProjectionExpression = Some projPk, qi_Limit = Some (int32_of maxSize), qi_SelectCount = False\<rparr> d n of
        (Inl err, d, n) \<Rightarrow> (Return (Inl (''error doing query to get updates: '' @ err_text err)), d, n)
      | (Inr out, d, n) \<Rightarrow>
     (let hasChangesRemaining = (0 < length (q_LastEvaluatedKey out)) in
      if q_Count out = 0 then (Return (Inr (hasChangesRemaining, [])), d, n)
      else if int (length (q_Items out)) < q_Count out then (Panic, d, n)
      else
     (case batch_get A (chunks (maxBatchGetItemSize - 1) (take (nat (q_Count out)) (q_Items out))) [] d n of
        (Inl err, d, n) \<Rightarrow> (Return (Inl (''error getting update items in a batch: '' @ err_text err)), d, n)
      | (Inr outAv, d, n) \<Rightarrow>
     (case unmarshal_entities A outAv of
        Inl err \<Rightarrow> (Return (Inl (''error unmarshalling updated sync entities: '' @ err)), d, n)
      | Inr syncEntities \<Rightarrow>
     (case sort_by_mtime (filter (not_expired (unix_secs E n)) syncEntities) of
        Panic \<Rightarrow> (Panic, d, Suc n)
      | Return es \<Rightarrow> (Return (Inr (hasChangesRemaining, es)), d, Suc n)))))))"

subsection \<open>ClearServerData\<close>

definition clear_expr :: "string \<Rightarrow> expr" where
  "clear_expr clientID = new_builder\<lparr>e_KeyCondition := Some (Key_Equal pk (GoString clientID))\<rparr>"

text \<open>The items of one transaction; \<open>*item.Mtime\<close> is read when the item has a version.\<close>

fun delete_items ::
  "('t, 'v) aws \<Rightarrow> string \<Rightarrow> SyncEntity list \<Rightarrow> (error + 'v transact_item list) outcome" where
  "delete_items A clientID [] = Return (Inr [])"
| "delete_items A clientID (item # items) =
     (if ID item = disabledChainID then delete_items A clientID items
      else
     (let key = [(pk, AttributeValueMemberS A (ClientID item)), (sk, AttributeValueMemberS A (ID item))] in
      case (if Version item = None then Return (Inr None)
            else (case Mtime item of
                    None \<Rightarrow> Panic
                  | Some mtime \<Rightarrow>
                      (let cond = Name_Equal ''Mtime'' (GoInt mtime) in
                       case Build A (new_builder\<lparr>e_Condition := Some cond\<rparr>) of
                         Some err \<Rightarrow> Return (Inl (''error deleting sync entities for client '' @ clientID @ '': '' @ err))
                       | None \<Rightarrow> Return (Inr (Some cond))))) of
        Panic \<Rightarrow> Panic
      | Return (Inl err) \<Rightarrow> Return (Inl err)
      | Return (Inr cond) \<Rightarrow>
          (case delete_items A clientID items of
             Return (Inr rest) \<Rightarrow> Return (Inr (Delete key cond # rest))
           | res \<Rightarrow> res)))"

fun delete_batches ::
  "('t, 'v) aws \<Rightarrow> string \<Rightarrow> SyncEntity list list \<Rightarrow> ('t, error option outcome) op" where
  "delete_batches A clientID [] d n = (Return None, d, n)"
| "delete_batches A clientID (b # bs) d n =
     (case delete_items A clientID b of
        Panic \<Rightarrow> (Panic, d, n)
      | Return (Inl err) \<Rightarrow> (Return (Some err), d, n)
      | Return (Inr items) \<Rightarrow>
     (case TransactWriteItems A items d n of
        (Some err, d, n) \<Rightarrow>
          (Return (Some (''error deleting sync entities for client '' @ clientID @ '': '' @ err_text err)), d, n)
      | (None, d, n) \<Rightarrow> delete_batches A clientID bs d n))"

definition dynamo_ClearServerData ::
  "('t, 'v) aws \<Rightarrow> env \<Rightarrow> string \<Rightarrow> ('t, (error + SyncEntity list) outcome) op" where
  "dynamo_ClearServerData A E clientID d n =
     (case Build A (clear_expr clientID) of
        Some err \<Rightarrow> (Return (Inl (''error building expression to get updates: '' @ err)), d, n)
      | None \<Rightarrow>
     (case Query A \<lparr>qi_IndexName = None, qi_expr = clear_expr clientID, qi_ProjectionExpression = None,
             qi_Limit = None, qi_SelectCount = False\<rparr> d n of
        (Inl err, d, n) \<Rightarrow> (Return (Inl (''error doing query to get updates: '' @ err_text err)), d, n)
      | (Inr out, d, n) \<Rightarrow>
     (case unmarshal_entities A (q_Items out) of
        Inl err \<Rightarrow> (Return (Inl (''error unmarshalling updated sync entities: '' @ err)), d, n)
      | Inr syncEntities \<Rightarrow>
     (if int (length syncEntities) < q_Count out then (Panic, d, n)
      else
     (case delete_batches A clientID
             (chunks (maxTransactDeleteItemSize - 1) (take (nat (q_Count out)) syncEntities)) d n of
        (Panic, d, n) \<Rightarrow> (Panic, d, n)
      | (Return (Some err), d, n) \<Rightarrow> (Return (Inl err), d, n)
      | (Return None, d, n) \<Rightarrow> (Return (Inr syncEntities), d, n))))))"

subsection \<open>Counters\<close>

definition history_filter :: condition where
  "history_filter = Cond_And
     [Name_In dataTypeAttrName [GoInt HistoryTypeID, GoInt HistoryDeleteDirectiveTypeID],
      Name_Equal deletedAttrName (GoBool False)]"

definition normal_filter :: condition where
  "normal_filter = Cond_And
     [AttributeExists dataTypeAttrName,
      Name_NotEqual dataTypeAttrName (GoInt HistoryTypeID),
      Name_NotEqual dataTypeAttrName (GoInt HistoryDeleteDirectiveTypeID),
      Name_Equal deletedAttrName (GoBool False)]"

definition count_query :: "string \<Rightarrow> condition \<Rightarrow> query_input" where
  "count_query clientID filterCond =
     \<lparr> qi_IndexName = None,
       qi_expr = new_builder\<lparr>e_KeyCondition := Some (Key_Equal clientIDDataTypeMtimeIdxPk (GoString clientID)),
                             e_Filter := Some filterCond\<rparr>,
       qi_ProjectionExpression = None, qi_Limit = None, qi_SelectCount = True \<rparr>"

definition dynamo_initRealCounts ::
  "('t, 'v) aws \<Rightarrow> env \<Rightarrow> ClientItemCounts \<Rightarrow> ('t, error + ClientItemCounts) op" where
  "dynamo_initRealCounts A E counts d n =
     (let now = unix_secs E n; n = Suc n in
      if cnt_Version counts < CurrentCountVersion then
       (let finish = (\<lambda>counts. counts\<lparr>LastPeriodChangeTime := now, cnt_Version := CurrentCountVersion\<rparr>) in
        if 0 < ItemCount counts then
         (case Build A (qi_expr (count_query (cnt_ClientID counts) history_filter)) of
            Some err \<Rightarrow> (Inl (''error building history item count query: '' @ err), d, n)
          | None \<Rightarrow>
         (case Query A (count_query (cnt_ClientID counts) history_filter) d n of
            (Inl err, d, n) \<Rightarrow> (Inl (''error querying history item count: '' @ err_text err), d, n)
          | (Inr out, d, n) \<Rightarrow>
         (let counts = counts\<lparr>HistoryItemCountPeriod1 := 0, HistoryItemCountPeriod2 := 0,
                HistoryItemCountPeriod3 := 0, HistoryItemCountPeriod4 := q_Count out\<rparr> in
          case Build A (qi_expr (count_query (cnt_ClientID counts) normal_filter)) of
            Some err \<Rightarrow> (Inl (''error building normal item count query: '' @ err), d, n)
          | None \<Rightarrow>
         (case Query A (count_query (cnt_ClientID counts) normal_filter) d n of
            (Inl err, d, n) \<Rightarrow> (Inl (''error querying history item count: '' @ err_text err), d, n)
          | (Inr out, d, n) \<Rightarrow> (Inr (finish (counts\<lparr>ItemCount := q_Count out\<rparr>)), d, n)))))
        else (Inr (finish counts), d, n))
      else (Inr (roll_periods now counts), d, n))"

definition dynamo_GetClientItemCount ::
  "('t, 'v) aws \<Rightarrow> env \<Rightarrow> string \<Rightarrow> ('t, error + ClientItemCounts) op" where
  "dynamo_GetClientItemCount A E clientID d n =
     (case marshal_key A (clientID, clientID) of
        Inl err \<Rightarrow> (Inl (''error marshalling primary key to get item-count item: '' @ err), d, n)
      | Inr key \<Rightarrow>
     (case GetItem A key None d n of
        (Inl err, d, n) \<Rightarrow> (Inl (''error getting an item-count item: '' @ err_text err), d, n)
      | (Inr out, d, n) \<Rightarrow>
     (case unmarshal_counts A (case out of None \<Rightarrow> [] | Some item \<Rightarrow> item) of
        Inl err \<Rightarrow> (Inl (''error unmarshalling item-count item: '' @ err), d, n)
      | Inr counts \<Rightarrow>
          dynamo_initRealCounts A E
            (if cnt_ClientID counts = '''' then counts\<lparr>cnt_ClientID := clientID, cnt_ID := clientID\<rparr> else counts)
            d n)))"

definition dynamo_UpdateClientItemCount ::
  "('t, 'v) aws \<Rightarrow> env \<Rightarrow> ClientItemCounts \<Rightarrow> int \<Rightarrow> int \<Rightarrow> ('t, error option) op" where
  "dynamo_UpdateClientItemCount A E counts newNormalItemCount newHistoryItemCount d n =
     (case marshal_counts A (add_counts counts newNormalItemCount newHistoryItemCount) of
        Inl err \<Rightarrow> (Some (''error marshalling item counts: '' @ err), d, n)
      | Inr item \<Rightarrow>
     (case PutItem A item None d n of
        (Some err, d, n) \<Rightarrow> (Some (''error updating item-count item in dynamoDB: '' @ err_text err), d, n)
      | (None, d, n) \<Rightarrow> (None, d, n)))"

end
