(* ===== verification/Dynamo_Correct.thy ===== *)
theory Dynamo_Correct
  imports Dynamo_Store
begin

section \<open>What the DynamoDB store does to the table\<close>

text \<open>
  The documented behaviour of the service and the SDK that the code relies on, as
  predicates over the parameter: \<open>key\<close> is the primary key of an item and \<open>tbl d k\<close> the
  item that the table holds under a key. The lemmas follow the store's methods.
\<close>

subsection \<open>Documented behaviour\<close>

text \<open>Marshalling a struct keeps its key attributes.\<close>

definition sdk_keys :: "('t, 'v) aws \<Rightarrow> ('v item \<Rightarrow> string \<times> string) \<Rightarrow> bool" where
  "sdk_keys A key \<longleftrightarrow>
     (\<forall>k it. marshal_key A k = Inr it \<longrightarrow> key it = k) \<and>
     (\<forall>e it. marshal_entity A e = Inr it \<longrightarrow> key it = (ClientID e, ID e)) \<and>
     (\<forall>t it. marshal_tag A t = Inr it \<longrightarrow> key it = (tag_ClientID t, tag_ID t)) \<and>
     (\<forall>m it. marshal_marker A m = Inr it \<longrightarrow> key it = (marker_ClientID m, marker_ID m)) \<and>
     (\<forall>c it. marshal_counts A c = Inr it \<longrightarrow> key it = (cnt_ClientID c, cnt_ID c)) \<and>
     (\<forall>c i. key [(pk, AttributeValueMemberS A c), (sk, AttributeValueMemberS A i)] = (c, i))"

fun write_key :: "('v item \<Rightarrow> string \<times> string) \<Rightarrow> 'v transact_item \<Rightarrow> string \<times> string" where
  "write_key key (Put it c) = key it"
| "write_key key (Update it e) = key it"
| "write_key key (Delete it c) = key it"

text \<open>A call changes the items it names and no others; reads change nothing; a query for
  one partition returns items of that partition.\<close>

definition service_frame ::
  "('t, 'v) aws \<Rightarrow> ('v item \<Rightarrow> string \<times> string) \<Rightarrow> ('t \<Rightarrow> string \<times> string \<Rightarrow> 'v item option) \<Rightarrow> bool" where
  "service_frame A key tbl \<longleftrightarrow>
     (\<forall>it c d n r d' n' k. PutItem A it c d n = (r, d', n') \<longrightarrow> k \<noteq> key it \<longrightarrow> tbl d' k = tbl d k) \<and>
     (\<forall>it e d n r d' n' k. UpdateItem A it e d n = (r, d', n') \<longrightarrow> k \<noteq> key it \<longrightarrow> tbl d' k = tbl d k) \<and>
     (\<forall>ws d n r d' n' k. TransactWriteItems A ws d n = (r, d', n') \<longrightarrow> k \<notin> write_key key ` set ws \<longrightarrow>
        tbl d' k = tbl d k) \<and>
     (\<forall>it p d n r d' n'. GetItem A it p d n = (r, d', n') \<longrightarrow> tbl d' = tbl d) \<and>
     (\<forall>q d n r d' n'. Query A q d n = (r, d', n') \<longrightarrow> tbl d' = tbl d) \<and>
     (\<forall>ks d n r d' n'. BatchGetPages A ks d n = (r, d', n') \<longrightarrow> tbl d' = tbl d) \<and>
     (\<forall>q c d n out d' n' es. Query A q d n = (Inr out, d', n') \<longrightarrow>
        e_KeyCondition (qi_expr q) = Some (Key_Equal pk (GoString c)) \<longrightarrow>
        unmarshal_entities A (q_Items out) = Inr es \<longrightarrow> (\<forall>e \<in> set es. ClientID e = c))"

definition dynamo_ok ::
  "('t, 'v) aws \<Rightarrow> ('v item \<Rightarrow> string \<times> string) \<Rightarrow> ('t \<Rightarrow> string \<times> string \<Rightarrow> 'v item option) \<Rightarrow> bool" where
  "dynamo_ok A key tbl \<longleftrightarrow> sdk_keys A key \<and> service_frame A key tbl"

lemma dynamo_okD:
  assumes "dynamo_ok A key tbl"
  shows "marshal_key A k = Inr it \<Longrightarrow> key it = k"
    and "marshal_entity A e = Inr it \<Longrightarrow> key it = (ClientID e, ID e)"
    and "marshal_tag A t = Inr it \<Longrightarrow> key it = (tag_ClientID t, tag_ID t)"
    and "marshal_marker A m = Inr it \<Longrightarrow> key it = (marker_ClientID m, marker_ID m)"
    and "marshal_counts A c = Inr it \<Longrightarrow> key it = (cnt_ClientID c, cnt_ID c)"
    and "key [(pk, AttributeValueMemberS A x), (sk, AttributeValueMemberS A i)] = (x, i)"
  using assms unfolding dynamo_ok_def sdk_keys_def by blast+

lemma dynamo_ok_frame:
  assumes "dynamo_ok A key tbl"
  shows "PutItem A it cd d n = (r1, d', n') \<Longrightarrow> k \<noteq> key it \<Longrightarrow> tbl d' k = tbl d k"
    and "UpdateItem A it e d n = (r2, d', n') \<Longrightarrow> k \<noteq> key it \<Longrightarrow> tbl d' k = tbl d k"
    and "TransactWriteItems A ws d n = (r1, d', n') \<Longrightarrow> k \<notin> write_key key ` set ws \<Longrightarrow> tbl d' k = tbl d k"
    and "GetItem A it p d n = (r3, d', n') \<Longrightarrow> tbl d' = tbl d"
    and "Query A q d n = (r4, d', n') \<Longrightarrow> tbl d' = tbl d"
    and "BatchGetPages A ks d n = (r5, d', n') \<Longrightarrow> tbl d' = tbl d"
    and "Query A q d n = (Inr out, d', n') \<Longrightarrow> e_KeyCondition (qi_expr q) = Some (Key_Equal pk (GoString c)) \<Longrightarrow>
        unmarshal_entities A (q_Items out) = Inr es \<Longrightarrow> x \<in> set es \<Longrightarrow> ClientID x = c"
  using assms unfolding dynamo_ok_def service_frame_def by meson+

subsection \<open>One client's items\<close>

text \<open>Another client's items, as a step leaves them.\<close>

definition others_kept ::
  "('t \<Rightarrow> string \<times> string \<Rightarrow> 'v item option) \<Rightarrow> string \<Rightarrow> 't \<Rightarrow> 't \<Rightarrow> bool" where
  "others_kept tbl c d d' \<longleftrightarrow> (\<forall>c' i. c' \<noteq> c \<longrightarrow> tbl d' (c', i) = tbl d (c', i))"

lemma others_kept_refl [simp]: "others_kept tbl c d d"
  by (simp add: others_kept_def)

lemma others_kept_trans: "others_kept tbl c d d1 \<Longrightarrow> others_kept tbl c d1 d2 \<Longrightarrow> others_kept tbl c d d2"
  by (simp add: others_kept_def)

lemma others_kept_same: "tbl d' = tbl d \<Longrightarrow> others_kept tbl c d d'"
  by (simp add: others_kept_def)

lemma put_others:
  "dynamo_ok A key tbl \<Longrightarrow> PutItem A it cd d n = (r, d', n') \<Longrightarrow> fst (key it) = c \<Longrightarrow> others_kept tbl c d d'"
  using dynamo_ok_frame(1) unfolding others_kept_def by (metis fst_conv)

lemma update_others:
  "dynamo_ok A key tbl \<Longrightarrow> UpdateItem A it e d n = (r, d', n') \<Longrightarrow> fst (key it) = c \<Longrightarrow> others_kept tbl c d d'"
  using dynamo_ok_frame(2) unfolding others_kept_def by (metis fst_conv)

lemma transact_others:
  assumes "dynamo_ok A key tbl" and "TransactWriteItems A ws d n = (r, d', n')"
    and "\<forall>w \<in> set ws. fst (write_key key w) = c"
  shows "others_kept tbl c d d'"
  unfolding others_kept_def
proof (intro allI impI)
  fix c' i assume "c' \<noteq> c"
  then have "(c', i) \<notin> write_key key ` set ws" using assms(3) by (metis fst_conv imageE)
  then show "tbl d' (c', i) = tbl d (c', i)" by (rule dynamo_ok_frame(3) [OF assms(1,2)])
qed

subsection \<open>The methods\<close>

lemma insert_others:
  assumes ok: "dynamo_ok A key tbl" and run: "dynamo_InsertSyncEntity A E e d n = (r, d', n')"
  shows "others_kept tbl (ClientID e) d d'"
proof (cases "d' = d")
  case False
  note keys = dynamo_okD [OF ok]
  consider (put) av where "marshal_entity A e = Inr av"
      "\<exists>q n1. PutItem A av (e_Condition insert_expr) d n = (q, d', n1)"
    | (both) item n1 tagAv av tag where "NewServerClientUniqueTagItem E (ClientID e) tag False n = (item, n1)"
      "marshal_tag A item = Inr tagAv" "marshal_entity A e = Inr av"
      "\<exists>q n2. TransactWriteItems A [Put tagAv (e_Condition insert_expr), Put av (e_Condition insert_expr)] d n1
        = (q, d', n2)"
    using run False
    by (auto simp: dynamo_InsertSyncEntity_def split: option.splits outcome.splits sum.splits prod.splits if_splits)
  then show ?thesis
  proof cases
    case put
    then show ?thesis using put_others [OF ok] keys(2) by (metis fst_conv)
  next
    case both
    then have "fst (key tagAv) = ClientID e" "fst (key av) = ClientID e"
      using keys(2,3) by (auto simp: NewServerClientUniqueTagItem_def)
    then show ?thesis using both transact_others [OF ok, where c = "ClientID e"] by force
  qed
qed simp

lemma server_tag_items_keys:
  "dynamo_ok A key tbl \<Longrightarrow> server_tag_items A E es n = (Return (Inr ws), n') \<Longrightarrow> \<forall>e \<in> set es. ClientID e = c \<Longrightarrow>
   \<forall>w \<in> set ws. fst (write_key key w) = c"
proof (induction es arbitrary: n ws n')
  case (Cons e es)
  then show ?case
    using dynamo_okD(2,3) [OF Cons.prems(1)]
    by (auto simp: NewServerClientUniqueTagItem_def
        split: option.splits sum.splits prod.splits outcome.splits)
qed simp

lemma insert_tags_others:
  assumes "dynamo_ok A key tbl" and "dynamo_InsertSyncEntitiesWithServerTags A E es d n = (r, d', n')"
    and "\<forall>e \<in> set es. ClientID e = c"
  shows "others_kept tbl c d d'"
  using assms(2) server_tag_items_keys [OF assms(1) _ assms(3)] transact_others [OF assms(1)]
  by (auto simp: dynamo_InsertSyncEntitiesWithServerTags_def split: prod.splits outcome.splits sum.splits option.splits)

lemma disable_others:
  assumes "dynamo_ok A key tbl" and "dynamo_DisableSyncChain A E c d n = (r, d', n')"
  shows "others_kept tbl c d d'"
  using assms(2) dynamo_okD(4) [OF assms(1)] put_others [OF assms(1)]
  by (auto simp: dynamo_DisableSyncChain_def Let_def split: sum.splits prod.splits option.splits)

lemma counts_others:
  assumes "dynamo_ok A key tbl" and "dynamo_UpdateClientItemCount A E k a b d n = (r, d', n')"
  shows "others_kept tbl (cnt_ClientID k) d d'"
  using assms(2) dynamo_okD(5) [OF assms(1)] put_others [OF assms(1)]
  by (auto simp: dynamo_UpdateClientItemCount_def add_counts_def split: sum.splits prod.splits option.splits)

lemma update_method_others:
  assumes ok: "dynamo_ok A key tbl" and run: "dynamo_UpdateSyncEntity A E e v d n = (r, d', n')"
  shows "others_kept tbl (ClientID e) d d'"
proof (cases "d' = d")
  case False
  note keys = dynamo_okD(1) [OF ok]
  obtain kk where kk: "marshal_key A (ClientID e, ID e) = Inr kk"
    using run False by (auto simp: dynamo_UpdateSyncEntity_def split: sum.splits)
  have "(\<exists>ex q n1. UpdateItem A kk ex d n = (q, d', n1)) \<or>
    (\<exists>tag tk ex q n1. marshal_key A (ClientID e, clientTagItemPrefix @ tag) = Inr tk \<and>
       TransactWriteItems A [Update kk ex, Delete tk None] d n = (q, d', n1))"
    using run False kk
    by (auto simp: dynamo_UpdateSyncEntity_def Let_def
        split: option.splits sum.splits prod.splits if_splits dynamo_error.splits)
  then consider (upd) ex q n1 where "UpdateItem A kk ex d n = (q, d', n1)"
    | (both) tag tk ex q n1 where "marshal_key A (ClientID e, clientTagItemPrefix @ tag) = Inr tk"
      "TransactWriteItems A [Update kk ex, Delete tk None] d n = (q, d', n1)" by blast
  then show ?thesis
  proof cases
    case upd
    then show ?thesis using update_others [OF ok] keys [OF kk] by (metis fst_conv)
  next
    case both
    then have "fst (key kk) = ClientID e" "fst (key tk) = ClientID e" using keys kk by auto
    then show ?thesis using both transact_others [OF ok, where c = "ClientID e"] by force
  qed
qed simp

lemma delete_items_keys:
  "dynamo_ok A key tbl \<Longrightarrow> delete_items A cl es = Return (Inr ws) \<Longrightarrow> \<forall>e \<in> set es. ClientID e = c \<Longrightarrow>
   \<forall>w \<in> set ws. fst (write_key key w) = c"
proof (induction es arbitrary: ws)
  case (Cons e es)
  then show ?case
    using dynamo_okD(6) [OF Cons.prems(1)]
    by (auto simp: Let_def split: option.splits sum.splits outcome.splits if_splits)
qed simp

lemma delete_batches_others:
  "dynamo_ok A key tbl \<Longrightarrow> delete_batches A cl bs d n = (r, d', n') \<Longrightarrow>
   \<forall>b \<in> set bs. \<forall>e \<in> set b. ClientID e = c \<Longrightarrow> others_kept tbl c d d'"
proof (induction bs arbitrary: d n)
  case (Cons b bs)
  show ?case
  proof (cases "\<exists>ws. delete_items A cl b = Return (Inr ws)")
    case False
    then show ?thesis using Cons.prems(2) by (auto split: outcome.splits sum.splits)
  next
    case True
    then obtain ws where ws: "delete_items A cl b = Return (Inr ws)" by blast
    obtain q d1 n1 where t: "TransactWriteItems A ws d n = (q, d1, n1)" by (metis prod_cases3)
    have k: "\<forall>w \<in> set ws. fst (write_key key w) = c"
      by (rule delete_items_keys [OF Cons.prems(1) ws]) (use Cons.prems(3) in auto)
    have "others_kept tbl c d d1" by (rule transact_others [OF Cons.prems(1) t k])
    moreover have "others_kept tbl c d1 d'"
      using Cons.IH [OF Cons.prems(1), of d1 n1] Cons.prems(2,3) ws t by (auto split: option.splits)
    ultimately show ?thesis by (rule others_kept_trans)
  qed
qed simp

lemma chunks_set: "b \<in> set (chunks k xs) \<Longrightarrow> set b \<subseteq> set xs"
proof (induction k xs rule: chunks.induct)
  case (2 k x xs)
  then show ?case using set_take_subset [of k xs] set_drop_subset [of k xs] by auto
qed simp

lemma clear_others:
  assumes ok: "dynamo_ok A key tbl" and run: "dynamo_ClearServerData A E c d n = (r, d', n')"
  shows "others_kept tbl c d d'"
proof (cases "Build A (clear_expr c)")
  case (Some err)
  then show ?thesis using run by (simp add: dynamo_ClearServerData_def)
next
  case None
  let ?q = "\<lparr>qi_IndexName = None, qi_expr = clear_expr c, qi_ProjectionExpression = None,
    qi_Limit = None, qi_SelectCount = False\<rparr>"
  obtain q d1 n1 where q: "Query A ?q d n = (q, d1, n1)" by (metis prod_cases3)
  have same: "others_kept tbl c d d1" by (rule others_kept_same [OF dynamo_ok_frame(5) [OF ok q]])
  have "others_kept tbl c d1 d'"
  proof (cases "\<exists>out es. q = Inr out \<and> unmarshal_entities A (q_Items out) = Inr es \<and> \<not> int (length es) < q_Count out")
    case False
    then have "d' = d1" using run None q
      by (auto simp: dynamo_ClearServerData_def split: sum.splits if_splits)
    then show ?thesis by simp
  next
    case True
    then obtain out es where o: "q = Inr out" "unmarshal_entities A (q_Items out) = Inr es"
        "\<not> int (length es) < q_Count out" by blast
    let ?bs = "chunks (maxTransactDeleteItemSize - 1) (take (nat (q_Count out)) es)"
    obtain q2 d2 n2 where b: "delete_batches A c ?bs d1 n1 = (q2, d2, n2)" by (metis prod_cases3)
    have "d' = d2" using run None q o b
      by (auto simp: dynamo_ClearServerData_def split: outcome.splits option.splits)
    moreover have "\<forall>e \<in> set es. ClientID e = c"
      using dynamo_ok_frame(7) [OF ok q [unfolded o(1)] _ o(2)] by (simp add: clear_expr_def)
    then have "\<forall>b \<in> set ?bs. \<forall>e \<in> set b. ClientID e = c"
      using chunks_set set_take_subset by (metis subsetD)
    ultimately show ?thesis using delete_batches_others [OF ok b] by simp
  qed
  with same show ?thesis by (rule others_kept_trans)
qed

end
