(* ===== verification/Dynamo_Props.thy ===== *)
theory Dynamo_Props
  imports "HOL-Library.AList" Dynamo_Correct Sqlite_Correct Sample_Env
begin

section \<open>Properties of the DynamoDB store\<close>

text \<open>
  Isolation of the clients under every interleaving of the methods, what an insertion
  leaves behind, and where clearing a chain fails. The theorems are about every service
  and SDK with the documented behaviour; the witnesses use a table in memory.
\<close>

subsection \<open>A table in memory\<close>

datatype cell = Cell_S string | Cell_Entity SyncEntity | Cell_Counts ClientItemCounts

type_synonym table = "((string \<times> string) \<times> cell item) list"

definition key_item :: "string \<times> string \<Rightarrow> cell item" where
  "key_item k = [(pk, Cell_S (fst k)), (sk, Cell_S (snd k))]"

definition cell_key :: "cell item \<Rightarrow> string \<times> string" where
  "cell_key it =
     (case (map_of it pk, map_of it sk) of (Some (Cell_S c), Some (Cell_S i)) \<Rightarrow> (c, i) | _ \<Rightarrow> ('''', ''''))"

lemma cell_key_item [simp]: "cell_key (key_item k @ rest) = k" "cell_key (key_item k) = k"
  by (simp_all add: cell_key_def key_item_def pk_def sk_def)

definition blank_entity :: SyncEntity where
  "blank_entity = \<lparr> ClientID = '''', ID = '''', ParentID = None, Version = None, Mtime = None, Ctime = None,
     Name = None, NonUniqueName = None, ServerDefinedUniqueTag = None, Deleted = None, OriginatorCacheGUID = None,
     OriginatorClientItemID = None, Specifics = None, DataType = None, Folder = None, ClientDefinedUniqueTag = None,
     entity_UniquePosition = None, DataTypeMtime = None, ExpirationTime = None \<rparr>"

text \<open>Unmarshalling sets the fields for which the item has an attribute of that name.\<close>

definition read_entity :: "cell item \<Rightarrow> SyncEntity" where
  "read_entity it =
     (case map_of it ''Entity'' of
        Some (Cell_Entity e) \<Rightarrow> e
      | Some (Cell_Counts k) \<Rightarrow> blank_entity\<lparr>Version := Some (cnt_Version k)\<rparr>
      | _ \<Rightarrow> blank_entity)\<lparr>ClientID := fst (cell_key it), ID := snd (cell_key it)\<rparr>"

definition put_blocked :: "table \<Rightarrow> cell transact_item \<Rightarrow> bool" where
  "put_blocked d w =
     (case w of Put it (Some (AttributeNotExists a)) \<Rightarrow> map_of d (cell_key it) \<noteq> None | _ \<Rightarrow> False)"

definition apply_write :: "cell transact_item \<Rightarrow> table \<Rightarrow> table" where
  "apply_write w d =
     (case w of
        Put it c \<Rightarrow> AList.update (cell_key it) it d
      | Update it e \<Rightarrow> d
      | Delete it c \<Rightarrow> AList.delete (cell_key it) d)"

definition sample_aws :: "(table, cell) aws" where
  "sample_aws =
     \<lparr> Build = (\<lambda>_. None),
       marshal_key = (\<lambda>k. Inr (key_item k)),
       marshal_entity = (\<lambda>e. Inr (key_item (ClientID e, ID e) @ [(''Entity'', Cell_Entity e)])),
       marshal_tag = (\<lambda>t. Inr (key_item (tag_ClientID t, tag_ID t))),
       marshal_marker = (\<lambda>m. Inr (key_item (marker_ClientID m, marker_ID m))),
       marshal_counts = (\<lambda>k. Inr (key_item (cnt_ClientID k, cnt_ID k) @ [(''Entity'', Cell_Counts k)])),
       unmarshal_entity = (\<lambda>it. Inr (read_entity it)),
       unmarshal_entities = (\<lambda>its. Inr (map read_entity its)),
       unmarshal_counts = (\<lambda>it. case map_of it ''Entity'' of
          Some (Cell_Counts k) \<Rightarrow> Inr k
        | _ \<Rightarrow> Inr \<lparr>cnt_ClientID = '''', cnt_ID = '''', ItemCount = 0, HistoryItemCountPeriod1 = 0,
            HistoryItemCountPeriod2 = 0, HistoryItemCountPeriod3 = 0, HistoryItemCountPeriod4 = 0,
            LastPeriodChangeTime = 0, cnt_Version = 0\<rparr>),
       AttributeValueMemberS = Cell_S,
       PutItem = (\<lambda>it c d n.
          if put_blocked d (Put it c) then (Some (ConditionalCheckFailed ''condition''), d, n)
          else (None, AList.update (cell_key it) it d, n)),
       GetItem = (\<lambda>it p d n. (Inr (map_of d (cell_key it)), d, n)),
       UpdateItem = (\<lambda>it e d n. case map_of d (cell_key it) of
          None \<Rightarrow> (Inl (ConditionalCheckFailed ''condition''), d, n)
        | Some old \<Rightarrow> (Inr old, d, n)),
       TransactWriteItems = (\<lambda>ws d n.
          if \<exists>w \<in> set ws. put_blocked d w
          then (Some (TransactionCanceled ''cancelled''
                  (map (\<lambda>w. if put_blocked d w then Some conditionalCheckFailed else None) ws)), d, n)
          else (None, fold apply_write ws d, n)),
       Query = (\<lambda>q d n.
          let its = (case e_KeyCondition (qi_expr q) of
                Some (Key_Equal a (GoString c)) \<Rightarrow> filter (\<lambda>it. fst (cell_key it) = c) (map snd d)
              | _ \<Rightarrow> [])
          in (Inr \<lparr>q_Items = its, q_Count = int (length its), q_LastEvaluatedKey = []\<rparr>, d, n)),
       BatchGetPages = (\<lambda>ks d n. ((None, [List.map_filter (\<lambda>k. map_of d (cell_key k)) ks]), d, n)) \<rparr>"

definition cell_at :: "table \<Rightarrow> string \<times> string \<Rightarrow> cell item option" where
  "cell_at d k = map_of d k"

lemma apply_write_frame:
  "k \<noteq> write_key cell_key w \<Longrightarrow> map_of (apply_write w d) k = map_of d k"
  by (cases w) (simp_all add: apply_write_def update_conv' delete_conv')

lemma apply_writes_frame:
  "k \<notin> write_key cell_key ` set ws \<Longrightarrow> map_of (fold apply_write ws d) k = map_of d k"
  by (induction ws arbitrary: d) (simp_all add: apply_write_frame)

lemma sample_aws_ok: "dynamo_ok sample_aws cell_key cell_at"
proof -
  have "sdk_keys sample_aws cell_key"
    by (auto simp: sdk_keys_def sample_aws_def key_item_def cell_key_def pk_def sk_def)
  moreover have "service_frame sample_aws cell_key cell_at"
    by (auto simp: service_frame_def sample_aws_def cell_at_def update_conv' apply_writes_frame read_entity_def Let_def
        split: if_splits option.splits)
  ultimately show ?thesis by (simp add: dynamo_ok_def)
qed

subsection \<open>Isolation\<close>

text \<open>A step is one method for one client, whatever it returns.\<close>

inductive dynamo_step :: "('t, 'v) aws \<Rightarrow> string \<Rightarrow> 't \<Rightarrow> 't \<Rightarrow> bool" for A where
  dynamo_insert: "dynamo_InsertSyncEntity A E e d n = (r1, d', n') \<Longrightarrow> dynamo_step A (ClientID e) d d'"
| dynamo_insert_tags: "\<forall>e \<in> set es. ClientID e = c \<Longrightarrow>
    dynamo_InsertSyncEntitiesWithServerTags A E es d n = (r2, d', n') \<Longrightarrow> dynamo_step A c d d'"
| dynamo_update: "dynamo_UpdateSyncEntity A E e v d n = (r3, d', n') \<Longrightarrow> dynamo_step A (ClientID e) d d'"
| dynamo_counts: "dynamo_UpdateClientItemCount A E k a b d n = (r4, d', n') \<Longrightarrow> dynamo_step A (cnt_ClientID k) d d'"
| dynamo_clear: "dynamo_ClearServerData A E c d n = (r5, d', n') \<Longrightarrow> dynamo_step A c d d'"
| dynamo_disable: "dynamo_DisableSyncChain A E c d n = (r6, d', n') \<Longrightarrow> dynamo_step A c d d'"

inductive dynamo_run :: "('t, 'v) aws \<Rightarrow> string list \<Rightarrow> 't \<Rightarrow> 't \<Rightarrow> bool" for A where
  "dynamo_run A [] d d"
| "dynamo_step A c d d1 \<Longrightarrow> dynamo_run A cs d1 d2 \<Longrightarrow> dynamo_run A (c # cs) d d2"

inductive_simps dynamo_run_Cons: "dynamo_run A (c # cs) d d2"
inductive_simps dynamo_run_Nil [simp]: "dynamo_run A [] d d2"

lemma dynamo_step_others:
  "dynamo_step A c d d' \<Longrightarrow> dynamo_ok A key tbl \<Longrightarrow> others_kept tbl c d d'"
  by (induction rule: dynamo_step.induct)
    (blast intro: insert_others insert_tags_others update_method_others counts_others clear_others disable_others)+

lemma dynamo_run_others:
  "dynamo_run A cs d d' \<Longrightarrow> dynamo_ok A key tbl \<Longrightarrow> c \<notin> set cs \<Longrightarrow> tbl d' (c, i) = tbl d (c, i)"
proof (induction rule: dynamo_run.induct)
  case (2 c0 d d1 cs d2)
  then show ?case using dynamo_step_others [OF 2(1,4)] by (auto simp: others_kept_def)
qed simp

text \<open>
  C20: On a DynamoDB table, with a service and an SDK that behave as documented, the items of
  a client (entities, tags, counters and the marker of a disabled chain) change only
  through methods called for that client: any interleaving of the methods for other
  clients leaves them as they were, whatever the service answers.
\<close>

theorem dynamo_isolation:
  "dynamo_run A cs d d' \<Longrightarrow> dynamo_ok A key tbl \<Longrightarrow> c \<notin> set cs \<Longrightarrow> tbl d' (c, i) = tbl d (c, i)"
  by (rule dynamo_run_others)

text \<open>A table with a bookmark and another client's step.\<close>

definition one_bookmark :: table where
  "one_bookmark = [((''chain'', ''a''), key_item (''chain'', ''a'') @ [(''Entity'', Cell_Entity (sample_row ''a'' 3 5))])]"

lemma dynamo_isolation_witness:
  "\<exists>d. dynamo_run sample_aws [''other''] one_bookmark d \<and> d \<noteq> one_bookmark \<and>
     cell_at d (''chain'', ''a'') = cell_at one_bookmark (''chain'', ''a'')"
proof -
  obtain r d n where run: "dynamo_DisableSyncChain sample_aws sample_env ''other'' one_bookmark 0 = (r, d, n)"
    and d: "d \<noteq> one_bookmark"
    by (simp add: dynamo_DisableSyncChain_def sample_aws_def Let_def put_blocked_def one_bookmark_def)
  from dynamo_disable [OF run] have "dynamo_run sample_aws [''other''] one_bookmark d"
    by (simp add: dynamo_run_Cons)
  with dynamo_isolation [OF this sample_aws_ok, of "''chain''" "''a''"] d show ?thesis by auto
qed

subsection \<open>Insertion\<close>

text \<open>
  Documented: a conditional put that succeeds found no item with its key and has stored its
  item; a transaction of two puts writes both or none. A call that is answered with an
  error usually had no effect, but may have written all the same: the service's internal
  errors (HTTP 500) leave it open, and the SDK repeats a call whose answer was lost, so that the
  repetition finds the item of the first attempt. Only a transaction, which carries an
  idempotency token, names a failed condition for certain: then nothing was written and one
  of the keys is taken.
\<close>

definition puts_applied ::
  "('t \<Rightarrow> string \<times> string \<Rightarrow> 'v item option) \<Rightarrow> ('v item \<Rightarrow> string \<times> string) \<Rightarrow> 'v item list \<Rightarrow> 't \<Rightarrow> 't \<Rightarrow> bool" where
  "puts_applied tbl key its d d' \<longleftrightarrow>
     (\<forall>it \<in> set its. tbl d (key it) = None) \<and> tbl d' = fold (\<lambda>it t. t(key it \<mapsto> it)) its (tbl d)"

definition put_semantics ::
  "('t, 'v) aws \<Rightarrow> ('v item \<Rightarrow> string \<times> string) \<Rightarrow> ('t \<Rightarrow> string \<times> string \<Rightarrow> 'v item option) \<Rightarrow> bool" where
  "put_semantics A key tbl \<longleftrightarrow>
     (\<forall>it d n r d' n'. PutItem A it (Some (AttributeNotExists pk)) d n = (r, d', n') \<longrightarrow>
        puts_applied tbl key [it] d d' \<or> r \<noteq> None \<and> tbl d' = tbl d) \<and>
     (\<forall>x y d n r d' n'.
        TransactWriteItems A [Put x (Some (AttributeNotExists pk)), Put y (Some (AttributeNotExists pk))] d n
          = (r, d', n') \<longrightarrow>
        (case r of
           None \<Rightarrow> puts_applied tbl key [x, y] d d'
         | Some err \<Rightarrow>
             if condition_failed err
             then tbl d' = tbl d \<and> (tbl d (key x) \<noteq> None \<or> tbl d (key y) \<noteq> None)
             else tbl d' = tbl d \<or> puts_applied tbl key [x, y] d d'))"

text \<open>
  The entity is stored whole: its key was free and has the marshalled item, so has its tag
  item if it has a client tag, and nothing else has changed.
\<close>

definition entity_stored ::
  "('t, 'v) aws \<Rightarrow> SyncEntity \<Rightarrow> (string \<times> string \<Rightarrow> 'v item option) \<Rightarrow> (string \<times> string \<Rightarrow> 'v item option) \<Rightarrow> bool" where
  "entity_stored A e before after \<longleftrightarrow>
     before (ClientID e, ID e) = None \<and>
     (\<exists>av. marshal_entity A e = Inr av \<and> after (ClientID e, ID e) = Some av) \<and>
     (\<forall>tag. client_tag e = Some tag \<longrightarrow> before (ClientID e, tag) = None \<and> after (ClientID e, tag) \<noteq> None) \<and>
     (\<forall>k. k \<noteq> (ClientID e, ID e) \<longrightarrow> (\<forall>tag. client_tag e = Some tag \<longrightarrow> k \<noteq> (ClientID e, tag)) \<longrightarrow> after k = before k)"

text \<open>What an insertion promises of the table before and after.\<close>

definition insert_outcome ::
  "('t, 'v) aws \<Rightarrow> SyncEntity \<Rightarrow> (string \<times> string \<Rightarrow> 'v item option) \<Rightarrow> (string \<times> string \<Rightarrow> 'v item option)
     \<Rightarrow> bool \<Rightarrow> error option \<Rightarrow> bool" where
  "insert_outcome A e before after conflict err \<longleftrightarrow>
     (err = None \<longrightarrow> \<not> conflict \<and> entity_stored A e before after) \<and>
     (err \<noteq> None \<longrightarrow> after = before \<or> entity_stored A e before after) \<and>
     (conflict \<longrightarrow> err \<noteq> None \<and> after = before \<and>
        (\<exists>tag. client_tag e = Some tag \<and>
           (before (ClientID e, ID e) \<noteq> None \<or> before (ClientID e, tag) \<noteq> None)))"

lemma insert_outcome_unchanged: "insert_outcome A e t t False (Some err)"
  by (simp add: insert_outcome_def)

lemma dynamo_insert_untagged:
  assumes ok: "dynamo_ok A key tbl" and sem: "put_semantics A key tbl"
    and run: "dynamo_InsertSyncEntity A E e d n = (Return (conflict, err), d', n')"
    and build: "Build A insert_expr = None" and tag: "client_tag e = None"
  shows "insert_outcome A e (tbl d) (tbl d') conflict err"
proof -
  have "ClientDefinedUniqueTag e = None \<or> (\<exists>dt. DataType e = Some dt \<and> dt = HistoryTypeID)"
    using run build tag
    by (auto simp: dynamo_InsertSyncEntity_def client_tag_def split: option.splits if_splits)
  then have one: "dynamo_InsertSyncEntity A E e d n =
      (case marshal_entity A e of
         Inl err \<Rightarrow> (Return (False, Some (''error marshalling sync item to insert sync entity: '' @ err)), d, n)
       | Inr av \<Rightarrow>
      (case PutItem A av (e_Condition insert_expr) d n of
         (Some err, d, n) \<Rightarrow> (Return (False, Some (''error calling PutItem to insert sync item: '' @ err_text err)), d, n)
       | (None, d, n) \<Rightarrow> (Return (False, None), d, n)))"
    using build by (auto simp: dynamo_InsertSyncEntity_def split: option.splits)
  show ?thesis
  proof (cases "marshal_entity A e")
    case (Inl msg)
    with run one show ?thesis by (auto simp: insert_outcome_unchanged)
  next
    case (Inr av)
    obtain r d1 n1 where p: "PutItem A av (Some (AttributeNotExists pk)) d n = (r, d1, n1)" by (metis prod_cases3)
    have "puts_applied tbl key [av] d d1 \<or> r \<noteq> None \<and> tbl d1 = tbl d"
      using sem p unfolding put_semantics_def by blast
    with run one Inr p dynamo_okD(2) [OF ok Inr] tag show ?thesis
      by (cases r)
        (auto simp: insert_expr_def new_builder_def insert_outcome_def entity_stored_def puts_applied_def)
  qed
qed

lemma dynamo_insert_tagged:
  assumes ok: "dynamo_ok A key tbl" and sem: "put_semantics A key tbl"
    and run: "dynamo_InsertSyncEntity A E e d n = (Return (conflict, err), d', n')"
    and build: "Build A insert_expr = None" and tag: "client_tag e = Some tag"
  shows "insert_outcome A e (tbl d) (tbl d') conflict err"
proof -
  obtain t dt where t: "ClientDefinedUniqueTag e = Some t" "tag = clientTagItemPrefix @ t"
      "DataType e = Some dt" "dt \<noteq> HistoryTypeID"
    using tag by (auto simp: client_tag_def split: option.splits if_splits)
  obtain item where item: "NewServerClientUniqueTagItem E (ClientID e) t False n = (item, Suc n)"
    "tag_ClientID item = ClientID e" "tag_ID item = tag"
    using t(2) by (simp add: NewServerClientUniqueTagItem_def getTagPrefix_def)
  consider (fail) msg where "err = Some msg" "\<not> conflict" "d' = d" | (go) x y where "marshal_tag A item = Inr x"
      "marshal_entity A e = Inr y"
    using run build t item(1)
    by (cases "marshal_tag A item"; cases "marshal_entity A e") (auto simp: dynamo_InsertSyncEntity_def)
  then show ?thesis
  proof cases
    case fail
    then show ?thesis by (simp add: insert_outcome_unchanged)
  next
    case go
    let ?ws = "[Put x (Some (AttributeNotExists pk)), Put y (Some (AttributeNotExists pk))]"
    obtain r d1 n1 where w: "TransactWriteItems A ?ws d (Suc n) = (r, d1, n1)" by (metis prod_cases3)
    have res: "case r of
         None \<Rightarrow> puts_applied tbl key [x, y] d d1
       | Some err \<Rightarrow>
           if condition_failed err
           then tbl d1 = tbl d \<and> (tbl d (key x) \<noteq> None \<or> tbl d (key y) \<noteq> None)
           else tbl d1 = tbl d \<or> puts_applied tbl key [x, y] d d1"
      using sem w unfolding put_semantics_def by blast
    have k: "key x = (ClientID e, tag)" "key y = (ClientID e, ID e)"
      using dynamo_okD(2,3) [OF ok] go item(2,3) by simp_all
    have "d' = d1 \<and> (\<forall>er. r = Some er \<longrightarrow> err \<noteq> None \<and> conflict = condition_failed er) \<and>
        (r = None \<longrightarrow> err = None \<and> \<not> conflict)"
      using run build t item(1) go w
      by (auto simp: dynamo_InsertSyncEntity_def insert_expr_def new_builder_def split: option.splits if_splits)
    moreover have "entity_stored A e (tbl d) (tbl d1)" if "puts_applied tbl key [x, y] d d1"
      using that k tag go(2) by (auto simp: puts_applied_def entity_stored_def)
    ultimately show ?thesis using res k tag by (cases r) (auto simp: insert_outcome_def split: if_splits)
  qed
qed

text \<open>
  C23: An insertion into DynamoDB is all or nothing. Without an error the key was free and
  the marshalled entity is stored, and if it has a client tag (and is not a history
  entity), its tag item too, and nothing else has changed. After an error the table is as it
  was or all of that is stored (an error does not tell which, since the service may have
  applied a write it answers with an error), never one of the two items alone; if the key
  or the tag is taken, nothing is written and there is an error. Unlike the SQLite store, a
  conflict comes with an error, which the commit handler looks at; it is signalled only
  for an entity with a client tag whose ID or tag is taken, and then the table is unchanged.
\<close>

theorem dynamo_insert_atomic:
  assumes "dynamo_ok A key tbl" and "put_semantics A key tbl"
    and "dynamo_InsertSyncEntity A E e d n = (Return (conflict, err), d', n')"
  shows "(err = None \<longrightarrow> \<not> conflict \<and> entity_stored A e (tbl d) (tbl d')) \<and>
    (err \<noteq> None \<longrightarrow> tbl d' = tbl d \<or> entity_stored A e (tbl d) (tbl d')) \<and>
    (tbl d (ClientID e, ID e) \<noteq> None \<or> (\<exists>tag. client_tag e = Some tag \<and> tbl d (ClientID e, tag) \<noteq> None) \<longrightarrow>
       tbl d' = tbl d \<and> err \<noteq> None) \<and>
    (conflict \<longrightarrow> err \<noteq> None \<and> tbl d' = tbl d \<and>
      (\<exists>tag. client_tag e = Some tag \<and> (tbl d (ClientID e, ID e) \<noteq> None \<or> tbl d (ClientID e, tag) \<noteq> None)))"
proof -
  have "insert_outcome A e (tbl d) (tbl d') conflict err"
  proof (cases "Build A insert_expr")
    case (Some msg)
    with assms(3) have "d' = d" "\<not> conflict" "err \<noteq> None" by (auto simp: dynamo_InsertSyncEntity_def)
    then show ?thesis by (auto simp: insert_outcome_def)
  next
    case None
    then show ?thesis
      using dynamo_insert_untagged [OF assms None] dynamo_insert_tagged [OF assms None]
      by (cases "client_tag e") auto
  qed
  moreover from this have "tbl d' = tbl d \<and> err \<noteq> None"
    if "tbl d (ClientID e, ID e) \<noteq> None \<or> (\<exists>tag. client_tag e = Some tag \<and> tbl d (ClientID e, tag) \<noteq> None)"
    using that by (cases err) (auto simp: insert_outcome_def entity_stored_def)
  ultimately show ?thesis unfolding insert_outcome_def by blast
qed

text \<open>
  The table in memory satisfies it, and so does one whose service fails after it has
  stored the item of a single put.
\<close>

lemma sample_puts: "put_semantics sample_aws cell_key cell_at"
  by (auto simp: put_semantics_def puts_applied_def sample_aws_def put_blocked_def apply_write_def cell_at_def fun_eq_iff
      update_conv conditionalCheckFailed_def split: if_splits)

definition failing_aws :: "(table, cell) aws" where
  "failing_aws = sample_aws\<lparr>PutItem := (\<lambda>it c d n.
     if put_blocked d (Put it c) then (Some (ConditionalCheckFailed ''condition''), d, n)
     else (Some (OtherError ''internal server error''), AList.update (cell_key it) it d, n))\<rparr>"

lemma failing_puts: "put_semantics failing_aws cell_key cell_at"
proof -
  have "TransactWriteItems failing_aws = TransactWriteItems sample_aws" by (simp add: failing_aws_def)
  moreover have "PutItem failing_aws it (Some (AttributeNotExists pk)) d n = (r, d', n') \<Longrightarrow>
      puts_applied cell_at cell_key [it] d d' \<or> r \<noteq> None \<and> cell_at d' = cell_at d" for it d n r d' n'
    by (auto simp: failing_aws_def puts_applied_def put_blocked_def cell_at_def fun_eq_iff update_conv split: if_splits)
  ultimately show ?thesis using sample_puts unfolding put_semantics_def by auto
qed

lemma failing_aws_ok: "dynamo_ok failing_aws cell_key cell_at"
proof -
  have "sdk_keys failing_aws cell_key" using sample_aws_ok by (simp add: dynamo_ok_def sdk_keys_def failing_aws_def)
  moreover have "service_frame failing_aws cell_key cell_at"
    using sample_aws_ok by (auto simp: dynamo_ok_def service_frame_def failing_aws_def cell_at_def update_conv'
        split: if_splits)
  ultimately show ?thesis by (simp add: dynamo_ok_def)
qed

lemma dynamo_insert_atomic_witness:
  "(\<exists>err d n. dynamo_InsertSyncEntity sample_aws sample_env
      ((sample_row ''a'' 3 5)\<lparr>ClientDefinedUniqueTag := Some ''t''\<rparr>) one_bookmark 0 = (Return (True, Some err), d, n) \<and>
    cell_at d = cell_at one_bookmark) \<and>
   (\<exists>err d n. dynamo_InsertSyncEntity failing_aws sample_env (sample_row ''b'' 3 5) one_bookmark 0
      = (Return (False, Some err), d, n) \<and>
    entity_stored failing_aws (sample_row ''b'' 3 5) (cell_at one_bookmark) (cell_at d))"
proof -
  let ?e = "(sample_row ''a'' 3 5)\<lparr>ClientDefinedUniqueTag := Some ''t''\<rparr>"
  obtain err d n where run: "dynamo_InsertSyncEntity sample_aws sample_env ?e one_bookmark 0 = (Return (True, Some err), d, n)"
    by (simp add: dynamo_InsertSyncEntity_def sample_aws_def sample_row_def HistoryTypeID_def
        NewServerClientUniqueTagItem_def put_blocked_def insert_expr_def new_builder_def one_bookmark_def)
  obtain err2 d2 n2 where run2: "dynamo_InsertSyncEntity failing_aws sample_env (sample_row ''b'' 3 5) one_bookmark 0
      = (Return (False, Some err2), d2, n2)" and "cell_at d2 (''chain'', ''b'') \<noteq> cell_at one_bookmark (''chain'', ''b'')"
    by (auto simp: dynamo_InsertSyncEntity_def failing_aws_def sample_aws_def sample_row_def cell_at_def
        put_blocked_def insert_expr_def new_builder_def one_bookmark_def)
  from dynamo_insert_atomic [OF failing_aws_ok failing_puts run2] this
  have "entity_stored failing_aws (sample_row ''b'' 3 5) (cell_at one_bookmark) (cell_at d2)" by auto
  with dynamo_insert_atomic [OF sample_aws_ok sample_puts run] run run2 show ?thesis by auto
qed

subsection \<open>Clearing a chain\<close>

text \<open>
  Documented: unmarshalling into another struct sets the fields that have an attribute of
  their name and leaves the others zero; the counters' item has a \<open>Version\<close> but no
  \<open>Mtime\<close>. Lists are unmarshalled element by element.
\<close>

definition counts_read :: "('t, 'v) aws \<Rightarrow> bool" where
  "counts_read A \<longleftrightarrow>
     (\<forall>k it e. marshal_counts A k = Inr it \<longrightarrow> unmarshal_entity A it = Inr e \<longrightarrow>
        ID e = cnt_ID k \<and> Version e = Some (cnt_Version k) \<and> Mtime e = None) \<and>
     (\<forall>its es. unmarshal_entities A its = Inr es \<longrightarrow> list_all2 (\<lambda>it e. unmarshal_entity A it = Inr e) its es)"

lemma delete_items_times:
  "delete_items A c es = Return (Inr ws) \<Longrightarrow> e \<in> set es \<Longrightarrow> ID e \<noteq> disabledChainID \<Longrightarrow> Version e \<noteq> None \<Longrightarrow>
   Mtime e \<noteq> None"
  by (induction es arbitrary: ws)
    (auto simp: Let_def split: option.splits sum.splits outcome.splits if_splits)

lemma delete_batches_done:
  "delete_batches A c bs d n = (Return None, d', n') \<Longrightarrow> b \<in> set bs \<Longrightarrow> \<exists>ws. delete_items A c b = Return (Inr ws)"
  by (induction bs arbitrary: d n) (auto split: outcome.splits sum.splits prod.splits option.splits)

lemma concat_chunks: "concat (chunks k xs) = xs"
proof (induction k xs rule: chunks.induct)
  case (2 k x xs)
  then show ?case by (metis append_take_drop_id chunks.simps(2) concat.simps(2) drop_Suc_Cons)
qed simp

text \<open>
  C24: On DynamoDB, clearing a chain never succeeds once the counters of the client are
  stored and the query returns them: reading the counters' item as an entity gives one
  with a version and without a modification time, which the loop dereferences. The request
  panics, or a transaction failed before.
\<close>

theorem dynamo_clear_fails:
  assumes "counts_read A"
    and "Query A \<lparr>qi_IndexName = None, qi_expr = clear_expr c, qi_ProjectionExpression = None,
      qi_Limit = None, qi_SelectCount = False\<rparr> d n = (Inr out, d1, n1)"
    and "q_Count out = int (length (q_Items out))"
    and "it \<in> set (q_Items out)" and "marshal_counts A k = Inr it" and "cnt_ID k \<noteq> disabledChainID"
  shows "fst (dynamo_ClearServerData A E c d n) \<noteq> Return (Inr es)"
proof
  assume ok: "fst (dynamo_ClearServerData A E c d n) = Return (Inr es)"
  have un: "unmarshal_entities A (q_Items out) = Inr es"
    using ok assms(2)
    by (auto simp: dynamo_ClearServerData_def split: option.splits sum.splits if_splits prod.splits outcome.splits)
  have each: "list_all2 (\<lambda>it e. unmarshal_entity A it = Inr e) (q_Items out) es"
    using assms(1) un by (simp add: counts_read_def)
  then have len: "length es = length (q_Items out)" by (simp add: list_all2_lengthD)
  let ?bs = "chunks (maxTransactDeleteItemSize - 1) es"
  obtain d2 n2 where run: "delete_batches A c ?bs d1 n1 = (Return None, d2, n2)"
    using ok assms(2,3) un len
    by (auto simp: dynamo_ClearServerData_def split: option.splits if_splits prod.splits outcome.splits)
  obtain i where i: "i < length (q_Items out)" "it = q_Items out ! i"
    using assms(4) by (auto simp: in_set_conv_nth)
  define e where "e = es ! i"
  have e: "e \<in> set es" "unmarshal_entity A it = Inr e"
    using i len list_all2_nthD [OF each i(1)] by (simp_all add: e_def)
  then have "e \<in> set (concat ?bs)" by (simp add: concat_chunks)
  then obtain b where b: "b \<in> set ?bs" "e \<in> set b" by auto
  have "ID e = cnt_ID k" "Version e = Some (cnt_Version k)" "Mtime e = None"
    using assms(1,5) e(2) by (auto simp: counts_read_def)
  with delete_batches_done [OF run b(1)] delete_items_times [OF _ b(2)] assms(6) show False by auto
qed

lemma sample_counts_read: "counts_read sample_aws"
  by (auto simp: counts_read_def sample_aws_def read_entity_def key_item_def cell_key_def pk_def sk_def
      blank_entity_def list_all2_conv_all_nth)

definition chain_counts :: ClientItemCounts where
  "chain_counts = \<lparr>cnt_ClientID = ''chain'', cnt_ID = ''chain'', ItemCount = 1, HistoryItemCountPeriod1 = 0,
     HistoryItemCountPeriod2 = 0, HistoryItemCountPeriod3 = 0, HistoryItemCountPeriod4 = 0,
     LastPeriodChangeTime = 1700000000, cnt_Version = 2\<rparr>"

definition counted_table :: table where
  "counted_table = one_bookmark @
     [((''chain'', ''chain''), key_item (''chain'', ''chain'') @ [(''Entity'', Cell_Counts chain_counts)])]"

lemma dynamo_clear_fails_witness:
  "fst (dynamo_ClearServerData sample_aws sample_env ''chain'' counted_table 0) \<noteq> Return (Inr [])"
proof -
  let ?q = "\<lparr>qi_IndexName = None, qi_expr = clear_expr ''chain'', qi_ProjectionExpression = None,
      qi_Limit = None, qi_SelectCount = False\<rparr>"
  obtain out where q: "Query sample_aws ?q counted_table 0 = (Inr out, counted_table, 0)"
    and items: "q_Items out = map snd counted_table" "q_Count out = int (length (q_Items out))"
    by (simp add: sample_aws_def clear_expr_def new_builder_def counted_table_def one_bookmark_def Let_def)
  have m: "marshal_counts sample_aws chain_counts
      = Inr (key_item (''chain'', ''chain'') @ [(''Entity'', Cell_Counts chain_counts)])" (is "_ = Inr ?it")
    by (simp add: sample_aws_def chain_counts_def)
  have "?it \<in> set (q_Items out)" by (simp add: items counted_table_def)
  from dynamo_clear_fails [OF sample_counts_read q items(2) this m] show ?thesis
    by (simp add: chain_counts_def disabledChainID_def)
qed

subsection \<open>Counters\<close>

text \<open>Documented: an unconditional put stores the item, a get reads it, and unmarshalling a
  marshalled struct gives it back.\<close>

definition counts_semantics ::
  "('t, 'v) aws \<Rightarrow> ('v item \<Rightarrow> string \<times> string) \<Rightarrow> ('t \<Rightarrow> string \<times> string \<Rightarrow> 'v item option) \<Rightarrow> bool" where
  "counts_semantics A key tbl \<longleftrightarrow>
     (\<forall>it d n d' n'. PutItem A it None d n = (None, d', n') \<longrightarrow> tbl d' = (tbl d)(key it \<mapsto> it)) \<and>
     (\<forall>k d n out d' n'. GetItem A k None d n = (Inr out, d', n') \<longrightarrow> out = tbl d (key k)) \<and>
     (\<forall>k it. marshal_counts A k = Inr it \<longrightarrow> unmarshal_counts A it = Inr k)"

lemma dynamo_init_current:
  "\<not> cnt_Version k < CurrentCountVersion \<Longrightarrow>
   dynamo_initRealCounts A E k d n = (Inr (roll_periods (unix_secs E n) k), d, Suc n)"
  by (simp add: dynamo_initRealCounts_def Let_def)

lemma dynamo_counts_stored:
  assumes "dynamo_ok A key tbl" "counts_semantics A key tbl"
    and "dynamo_UpdateClientItemCount A E k a b d n = (None, d1, n1)"
  obtains it where "marshal_counts A (add_counts k a b) = Inr it"
    "tbl d1 (cnt_ClientID k, cnt_ID k) = Some it"
proof -
  obtain it where it: "marshal_counts A (add_counts k a b) = Inr it"
    using assms(3) by (auto simp: dynamo_UpdateClientItemCount_def split: sum.splits)
  then have "PutItem A it None d n = (None, d1, n1)"
    using assms(3) by (auto simp: dynamo_UpdateClientItemCount_def split: prod.splits option.splits)
  moreover have "key it = (cnt_ClientID k, cnt_ID k)"
    using dynamo_okD(5) [OF assms(1) it] by (simp add: add_counts_def)
  ultimately have "tbl d1 (cnt_ClientID k, cnt_ID k) = Some it"
    using assms(2) unfolding counts_semantics_def by (metis fun_upd_same)
  with it show ?thesis by (rule that)
qed

text \<open>
  The counters of a client survive in DynamoDB: once an update of them returned no error,
  a later read, after any calls for other clients, returns the updated counters, with the
  periods that have passed since rolled out of the history count.
\<close>

theorem dynamo_counts_round_trip:
  assumes "dynamo_ok A key tbl" and "counts_semantics A key tbl"
    and "dynamo_UpdateClientItemCount A E k a b d n = (None, d1, n1)"
    and "dynamo_run A cs d1 d2" and "cnt_ClientID k \<notin> set cs"
    and "cnt_ID k = cnt_ClientID k" and "cnt_ClientID k \<noteq> ''''"
    and "\<not> cnt_Version k < CurrentCountVersion"
    and "dynamo_GetClientItemCount A E' (cnt_ClientID k) d2 m = (Inr counts, d3, m')"
  shows "\<exists>t. counts = roll_periods (unix_secs E' t) (add_counts k a b) \<and> tbl d3 = tbl d2"
proof -
  let ?k = "add_counts k a b"
  obtain it where it: "marshal_counts A ?k = Inr it" "tbl d1 (cnt_ClientID k, cnt_ClientID k) = Some it"
    using dynamo_counts_stored [OF assms(1-3)] assms(6) by metis
  have stored: "tbl d2 (cnt_ClientID k, cnt_ClientID k) = Some it"
    using dynamo_run_others [OF assms(4,1,5)] it(2) by simp
  obtain key_av where kav: "marshal_key A (cnt_ClientID k, cnt_ClientID k) = Inr key_av"
    using assms(9) by (auto simp: dynamo_GetClientItemCount_def split: sum.splits)
  obtain out d4 n4 where g: "GetItem A key_av None d2 m = (Inr out, d4, n4)"
    using assms(9) kav by (auto simp: dynamo_GetClientItemCount_def split: prod.splits sum.splits)
  have "out = tbl d2 (key key_av)" using assms(2) g unfolding counts_semantics_def by blast
  with stored dynamo_okD(1) [OF assms(1) kav] have out: "out = Some it" by simp
  have "unmarshal_counts A it = Inr ?k" using assms(2) it(1) unfolding counts_semantics_def by blast
  with assms(7,9) kav g out have "dynamo_initRealCounts A E' ?k d4 n4 = (Inr counts, d3, m')"
    by (simp add: dynamo_GetClientItemCount_def add_counts_def split: if_splits)
  moreover have "\<not> cnt_Version ?k < CurrentCountVersion" using assms(8) by (simp add: add_counts_def)
  ultimately have "counts = roll_periods (unix_secs E' n4) ?k \<and> d3 = d4" by (simp add: dynamo_init_current)
  with dynamo_ok_frame(4) [OF assms(1) g] show ?thesis by auto
qed

lemma sample_counts_semantics: "counts_semantics sample_aws cell_key cell_at"
  by (auto simp: counts_semantics_def sample_aws_def put_blocked_def cell_at_def fun_eq_iff update_conv'
      key_item_def pk_def sk_def)

text \<open>One more bookmark and two more history entities, read by the same client.\<close>

lemma dynamo_counts_round_trip_witness:
  "\<exists>counts d n. dynamo_GetClientItemCount sample_aws sample_env ''chain''
       (fst (snd (dynamo_UpdateClientItemCount sample_aws sample_env chain_counts 1 2 counted_table 0))) 0
     = (Inr counts, d, n) \<and>
     (\<exists>t. counts = roll_periods (unix_secs sample_env t) (add_counts chain_counts 1 2))"
proof -
  obtain d1 n1 where up: "dynamo_UpdateClientItemCount sample_aws sample_env chain_counts 1 2 counted_table 0
      = (None, d1, n1)"
    by (simp add: dynamo_UpdateClientItemCount_def sample_aws_def put_blocked_def)
  have id: "cnt_ID chain_counts = cnt_ClientID chain_counts" "cnt_ClientID chain_counts \<noteq> ''''"
    "\<not> cnt_Version chain_counts < CurrentCountVersion"
    by (simp_all add: chain_counts_def CurrentCountVersion_def)
  obtain r d n where get: "dynamo_GetClientItemCount sample_aws sample_env ''chain'' d1 0 = (r, d, n)"
    by (metis prod_cases3)
  have "\<exists>counts. r = Inr counts"
    using get by (auto simp: dynamo_GetClientItemCount_def sample_aws_def dynamo_initRealCounts_def Let_def
        split: option.splits if_splits cell.splits)
  then obtain counts where "r = Inr counts" by blast
  with get have get': "dynamo_GetClientItemCount sample_aws sample_env (cnt_ClientID chain_counts) d1 0
      = (Inr counts, d, n)" by (simp add: chain_counts_def)
  from dynamo_counts_round_trip [OF sample_aws_ok sample_counts_semantics up dynamo_run.intros(1) _ id get']
  show ?thesis using up get' by (auto simp: chain_counts_def)
qed

end
