(* ===== verification/Dynamo_Range.thy ===== *)
theory Dynamo_Range
  imports Dynamo_Store
begin

section \<open>The range of an update query on DynamoDB\<close>

text \<open>
  \<open>GetUpdatesForType\<close> finds the updates of one data type with a range over strings: the
  index is sorted by \<open>DataTypeMtime\<close>, the text \<open>type#mtime\<close>, and the range goes from
  \<open>type#(token + 1)\<close> to \<open>(type + 1)#0\<close>. DynamoDB compares strings byte by byte. The theory
  shows that this selects exactly the wanted type and times.
\<close>

subsection \<open>Strings, byte by byte\<close>

fun str_le :: "string \<Rightarrow> string \<Rightarrow> bool" where
  "str_le [] ys = True"
| "str_le (x # xs) [] = False"
| "str_le (x # xs) (y # ys) = (if x = y then str_le xs ys else (of_char x :: nat) < of_char y)"

text \<open>Two strings whose order is decided by a byte, whatever follows.\<close>

fun decided_less :: "string \<Rightarrow> string \<Rightarrow> bool" where
  "decided_less (x # xs) (y # ys) = (if x = y then decided_less xs ys else (of_char x :: nat) < of_char y)"
| "decided_less _ _ = False"

lemma decided_le: "decided_less x y \<Longrightarrow> str_le (x @ s) (y @ t)"
  by (induction x y rule: decided_less.induct) (auto split: if_splits)

lemma decided_not_ge: "decided_less x y \<Longrightarrow> \<not> str_le (y @ t) (x @ s)"
  by (induction x y rule: decided_less.induct) (auto split: if_splits)

lemma decided_trans: "decided_less x y \<Longrightarrow> decided_less y z \<Longrightarrow> decided_less x z"
proof (induction x y arbitrary: z rule: decided_less.induct)
  case (1 x xs y ys)
  then show ?case by (cases z) (auto split: if_splits)
qed simp_all

lemma str_le_append: "str_le (p @ x) (p @ y) = str_le x y"
  by (induction p) simp_all

lemma str_le_snoc:
  "length xs = length ys \<Longrightarrow> str_le (xs @ [c]) (ys @ [d]) \<longleftrightarrow>
     (if xs = ys then c = d \<or> (of_char c :: nat) < of_char d else str_le xs ys)"
proof (induction xs ys rule: list_induct2)
  case (Cons x xs y ys)
  then show ?case by auto
qed auto

subsection \<open>Times of equal length\<close>

lemma digit_char_code: "d < 10 \<Longrightarrow> (of_char (digit_char d) :: nat) = 48 + d"
  by (simp add: digit_char_def)

lemma nat_digits_eq_iff: "nat_digits a = nat_digits b \<longleftrightarrow> a = b"
proof (induction a arbitrary: b rule: nat_digits.induct)
  case (1 a)
  show ?case
  proof
    assume eq: "nat_digits a = nat_digits b"
    have pos: "nat_digits n \<noteq> []" for n by simp
    have dig: "x < 10 \<Longrightarrow> y < 10 \<Longrightarrow> digit_char x = digit_char y \<Longrightarrow> x = y" for x y
      using digit_char_code by (metis add_left_cancel)
    show "a = b"
    proof (cases "a < 10 \<or> b < 10")
      case True
      then have "a < 10 \<and> b < 10"
        using eq pos [of "a div 10"] pos [of "b div 10"] nat_digits.simps [of a] nat_digits.simps [of b]
        by (cases "a < 10"; cases "b < 10") (simp_all add: eq_commute)
      then show ?thesis using eq nat_digits.simps [of a] nat_digits.simps [of b] dig by simp
    next
      case False
      then have "nat_digits (a div 10) = nat_digits (b div 10)" "digit_char (a mod 10) = digit_char (b mod 10)"
        using eq nat_digits.simps [of a] nat_digits.simps [of b] by simp_all
      then have "a div 10 = b div 10" "a mod 10 = b mod 10" using 1 [of "b div 10"] False dig by simp_all
      then show ?thesis by (metis div_mult_mod_eq)
    qed
  qed simp
qed

lemma div_mod_le:
  fixes q p r s :: nat
  assumes "r < 10" "s < 10"
  shows "(if q = p then r \<le> s else q \<le> p) \<longleftrightarrow> q * 10 + r \<le> p * 10 + s"
  using assms by (cases q p rule: linorder_cases) auto

lemma digits_le:
  "length (nat_digits a) = length (nat_digits b) \<Longrightarrow> str_le (nat_digits a) (nat_digits b) \<longleftrightarrow> a \<le> b"
proof (induction a arbitrary: b rule: nat_digits.induct)
  case (1 a)
  note sa = nat_digits.simps [of a] and sb = nat_digits.simps [of b]
  have pos: "nat_digits n \<noteq> []" for n by simp
  show ?case
  proof (cases "a < 10")
    case True
    then have "b < 10" using 1(2) sa sb pos by (auto split: if_splits)
    with True show ?thesis using sa sb digit_char_code nat_digits_eq_iff [of a b]
      by (auto simp: digit_char_code)
  next
    case False
    then have b: "\<not> b < 10" using 1(2) sa sb pos by (auto split: if_splits)
    have len: "length (nat_digits (a div 10)) = length (nat_digits (b div 10))" using 1(2) False b sa sb by simp
    have "str_le (nat_digits a) (nat_digits b) \<longleftrightarrow>
        (if a div 10 = b div 10 then a mod 10 \<le> b mod 10 else a div 10 \<le> b div 10)"
      using sa sb False b str_le_snoc [OF len] 1(1) [OF False len] digit_char_code [of "a mod 10"]
        digit_char_code [of "b mod 10"] nat_digits_eq_iff by (auto simp: le_less)
    also have "\<dots> \<longleftrightarrow> a \<le> b"
      using div_mod_le [of "a mod 10" "b mod 10" "a div 10" "b div 10"] by simp
    finally show ?thesis .
  qed
qed

lemma one_le_digits: "0 < m \<Longrightarrow> str_le ''1'' (nat_digits m)"
proof (induction m rule: nat_digits.induct)
  case (1 m)
  show ?case
  proof (cases "m < 10")
    case True
    moreover have "m = 1 \<or> 1 < m" using 1(2) by linarith
    ultimately show ?thesis
      using digit_char_code [of m] nat_digits.simps [of m] by (auto simp: digit_char_def char_of_def)
  next
    case False
    then have "str_le ''1'' (nat_digits (m div 10))" using 1 by simp
    then show ?thesis using nat_digits.simps [of m] False
      by (cases "nat_digits (m div 10)") (auto split: if_splits)
  qed
qed

subsection \<open>The ranges of the data types do not overlap\<close>

text \<open>The data types in the order of their identifiers as texts.\<close>

definition types_by_text :: "specifics_variant list" where
  "types_by_text =
    [V_SavedTabGroup, V_Segmentation, V_AutofillWalletUsage, V_ContactInfo, V_AppSetting,
     V_PowerBookmark, V_WebApk, V_IncomingPasswordSharingInvitation,
     V_OutgoingPasswordSharingInvitation, V_AutofillWalletCredential, V_SharedTabGroupData,
     V_CollaborationGroup, V_PlusAddress, V_Compare, V_HistoryDeleteDirective,
     V_SyncedNotification, V_DeviceInfo, V_Experiments, V_PriorityPreference, V_Dictionary,
     V_FaviconTracking, V_FaviconImage, V_ManagedUserSetting, V_ManagedUser,
     V_ManagedUserSharedSetting, V_AppList, V_SyncedNotificationAppInfo, V_ManagedUserAllowlist,
     V_AutofillWallet, V_Autofill, V_Bookmark, V_WalletMetadata, V_ArcPackage, V_Preference,
     V_TypedUrl, V_Printer, V_ReadingList, V_Theme, V_AppNotification, V_UserEvent, V_Password,
     V_Nigori, V_Extension, V_App, V_Session, V_UserConsent, V_SecurityEvent, V_SendTabToSelf,
     V_AutofillProfile, V_WifiConfiguration, V_WebApp, V_OsPreference, V_OsPriorityPreference,
     V_SharingMessage, V_AutofillOffer, V_WorkspaceDesk, V_SearchEngine, V_WebauthnCredential,
     V_ExtensionSetting, V_History, V_PrintersAuthorizationServer]"

definition range_start :: "specifics_variant \<Rightarrow> string" where
  "range_start v = itoa (data_type_id v) @ ''#''"

lemma types_by_text_all: "v \<in> set types_by_text"
  by (cases v) (simp_all add: types_by_text_def)

lemmas range_eval = range_start_def upper_bound_def itoa_def nat_digits.simps digit_char_def char_of_def

lemma range_nonempty: "decided_less (range_start v) (upper_bound (data_type_id v))"
  by (cases v) (simp_all add: range_eval)

lemma ranges_in_order:
  "successively (\<lambda>v w. decided_less (upper_bound (data_type_id v)) (range_start w)) types_by_text"
  by (simp add: types_by_text_def range_eval)

definition range_before :: "specifics_variant \<Rightarrow> specifics_variant \<Rightarrow> bool" where
  "range_before v w = decided_less (upper_bound (data_type_id v)) (range_start w)"

lemma range_before_trans: "range_before u v \<Longrightarrow> range_before v w \<Longrightarrow> range_before u w"
  unfolding range_before_def by (meson decided_trans range_nonempty)

lemma ranges_sorted: "sorted_wrt range_before types_by_text"
proof -
  have "transp range_before" using range_before_trans by (rule transpI)
  moreover have "successively range_before types_by_text"
    using ranges_in_order by (simp add: range_before_def [abs_def])
  ultimately show ?thesis by (simp add: successively_conv_sorted_wrt)
qed

lemma ranges_apart:
  assumes "v \<noteq> w"
  shows "range_before v w \<or> range_before w v"
proof -
  obtain i j where "i < length types_by_text" "types_by_text ! i = v"
    "j < length types_by_text" "types_by_text ! j = w"
    using types_by_text_all [of v] types_by_text_all [of w] by (auto simp: in_set_conv_nth)
  with assms ranges_sorted show ?thesis
    by (cases i j rule: linorder_cases) (auto simp: sorted_wrt_iff_nth_less)
qed

subsection \<open>What the range selects\<close>

text \<open>The sort key of an entity, as \<open>CreateDBSyncEntity\<close> and \<open>handleCommitRequest\<close> write it.\<close>

definition in_range :: "specifics_variant \<Rightarrow> int \<Rightarrow> string \<Rightarrow> bool" where
  "in_range v clientToken key \<longleftrightarrow>
     str_le (lower_bound (data_type_id v) clientToken) key \<and> str_le key (upper_bound (data_type_id v))"

definition sort_key_of :: "specifics_variant \<Rightarrow> int \<Rightarrow> string" where
  "sort_key_of w mtime = itoa (data_type_id w) @ ''#'' @ itoa mtime"

lemma sort_key_start: "sort_key_of w m = range_start w @ itoa m"
  by (simp add: sort_key_of_def range_start_def)

lemma lower_bound_start: "lower_bound (data_type_id v) tok = range_start v @ itoa (wrap64 (tok + 1))"
  by (simp add: lower_bound_def range_start_def)

lemma in_range_other:
  assumes "v \<noteq> w"
  shows "\<not> in_range v tok (sort_key_of w m)"
proof -
  from ranges_apart [OF assms] show ?thesis
  proof
    assume "range_before v w"
    then have "\<not> str_le (sort_key_of w m) (upper_bound (data_type_id v))"
      using decided_not_ge [of "upper_bound (data_type_id v)" "range_start w" "itoa m" "[]"]
      by (simp add: range_before_def sort_key_start)
    then show ?thesis by (simp add: in_range_def)
  next
    assume "range_before w v"
    then have "decided_less (range_start w) (range_start v)"
      using range_nonempty decided_trans by (auto simp: range_before_def)
    then have "\<not> str_le (lower_bound (data_type_id v) tok) (sort_key_of w m)"
      by (simp add: decided_not_ge lower_bound_start sort_key_start)
    then show ?thesis by (simp add: in_range_def)
  qed
qed

lemma in_range_same:
  "in_range v tok (sort_key_of v m) \<longleftrightarrow> str_le (itoa (wrap64 (tok + 1))) (itoa m)"
  using decided_le [OF range_nonempty, of v "itoa m" "[]"]
  by (simp add: in_range_def lower_bound_start sort_key_start str_le_append)

text \<open>Times and tokens the bounds handle: positive, and of the same number of digits.\<close>

definition comparable :: "int \<Rightarrow> int \<Rightarrow> bool" where
  "comparable tok m \<longleftrightarrow>
     0 \<le> tok \<and> tok + 1 < 2 ^ 63 \<and> 0 < m \<and> (tok = 0 \<or> length (itoa (tok + 1)) = length (itoa m))"

lemma comparable_le:
  assumes "comparable tok m"
  shows "str_le (itoa (wrap64 (tok + 1))) (itoa m) \<longleftrightarrow> tok < m"
proof -
  have wrap: "wrap64 (tok + 1) = tok + 1"
    using assms by (intro wrap64_id) (simp add: comparable_def in_int64_def)
  show ?thesis
  proof (cases "tok = 0")
    case True
    moreover have "itoa 1 = ''1''" by (simp add: itoa_def nat_digits.simps digit_char_def char_of_def bit_0)
    moreover have "str_le ''1'' (itoa m)"
      using assms one_le_digits [of "nat m"] by (simp add: comparable_def itoa_def)
    ultimately show ?thesis using assms wrap by (simp add: comparable_def)
  next
    case False
    then show ?thesis
      using assms wrap digits_le [of "nat (tok + 1)" "nat m"] by (auto simp: comparable_def itoa_def)
  qed
qed

text \<open>The documented meaning of a key condition, on the attributes of an item.\<close>

fun key_holds :: "(string \<Rightarrow> go_value) \<Rightarrow> key_condition \<Rightarrow> bool" where
  "key_holds it (Key_Equal name x) = (it name = x)"
| "key_holds it (Key_Between name lo hi) =
     (case (lo, it name, hi) of
        (GoString a, GoString s, GoString b) \<Rightarrow> str_le a s \<and> str_le s b
      | _ \<Rightarrow> False)"
| "key_holds it (Key_And a b) = (key_holds it a \<and> key_holds it b)"

definition index_attributes :: "SyncEntity \<Rightarrow> string \<Rightarrow> go_value" where
  "index_attributes e name =
     (if name = clientIDDataTypeMtimeIdxPk then GoString (ClientID e)
      else if name = clientIDDataTypeMtimeIdxSk then go_string (DataTypeMtime e)
      else GoNil)"

text \<open>
  C21: The key condition of \<open>GetUpdatesForType\<close>, a range of strings that DynamoDB compares byte
  by byte, selects of the entities of any client, any data type and any time exactly those
  of the client, of the wanted type and newer than the token: no neighbouring type's
  identifier falls between the bounds, and the bounds order times as numbers as long as the
  time has as many digits as the token plus one (or the token is 0).
\<close>

theorem dynamo_updates_range:
  assumes "DataTypeMtime e = Some (sort_key_of w m)" "comparable tok m"
  shows "\<exists>cond. e_KeyCondition (updates_expr (data_type_id v) tok folders clientID) = Some cond \<and>
    (key_holds (index_attributes e) cond \<longleftrightarrow> ClientID e = clientID \<and> w = v \<and> tok < m)"
proof (cases "w = v")
  case True
  then show ?thesis
    using assms in_range_same [of v tok m] comparable_le
    by (simp add: updates_expr_def index_attributes_def clientIDDataTypeMtimeIdxPk_def
        clientIDDataTypeMtimeIdxSk_def go_string_def in_range_def)
next
  case False
  then show ?thesis
    using assms in_range_other [of v w tok m]
    by (simp add: updates_expr_def index_attributes_def clientIDDataTypeMtimeIdxPk_def
        clientIDDataTypeMtimeIdxSk_def go_string_def in_range_def)
qed

text \<open>A bookmark, and a token of the millisecond before it.\<close>

definition range_entity :: SyncEntity where
  "range_entity = \<lparr> ClientID = ''c'', ID = ''b'', ParentID = None, Version = Some 1, Mtime = Some 1700000000000,
     Ctime = None, Name = None, NonUniqueName = None, ServerDefinedUniqueTag = None, Deleted = Some False,
     OriginatorCacheGUID = None, OriginatorClientItemID = None, Specifics = None, DataType = Some 32904,
     Folder = Some False, ClientDefinedUniqueTag = None, entity_UniquePosition = None,
     DataTypeMtime = Some ''32904#1700000000000'', ExpirationTime = None \<rparr>"

lemma range_entity_key: "DataTypeMtime range_entity = Some (sort_key_of V_Bookmark 1700000000000)"
  by (simp add: range_entity_def sort_key_of_def itoa_def nat_digits.simps digit_char_def char_of_def bit_0)

lemma range_entity_comparable: "comparable 1699999999999 1700000000000"
  by (simp add: comparable_def itoa_def)

theorem dynamo_updates_range_witness:
  "\<exists>cond. e_KeyCondition (updates_expr (data_type_id V_Bookmark) 1699999999999 True ''c'') = Some cond \<and>
    key_holds (index_attributes range_entity) cond"
  using dynamo_updates_range [OF range_entity_key range_entity_comparable, of V_Bookmark True "''c''"]
  by (simp add: range_entity_def)

end
