(* ===== verification/Dynamo_Update.thy ===== *)
theory Dynamo_Update
  imports Dynamo_Props Dynamo_Range
begin

section \<open>Updates on DynamoDB\<close>

text \<open>
  What \<open>UpdateSyncEntity\<close> does to the table, for every service whose conditional updates
  behave as documented: an update is applied to the attributes it names when the condition
  holds of the stored item, and rejected without an effect otherwise.
\<close>

subsection \<open>Documented behaviour\<close>

type_synonym attributes = "string \<rightharpoonup> go_value"

fun holds :: "attributes \<Rightarrow> condition \<Rightarrow> bool" where
  "holds it (AttributeExists a) = (it a \<noteq> None)"
| "holds it (AttributeNotExists a) = (it a = None)"
| "holds it (Name_Equal a x) = (it a = Some x)"
| "holds it (Name_NotEqual a x) = (it a \<noteq> Some x)"
| "holds it (Name_In a xs) = (it a \<in> Some ` set xs)"
| "holds it (Cond_And cs) = (\<forall>c \<in> set cs. holds it c)"

text \<open>An item before and after an update: the named attributes are set, the others stay.\<close>

definition item_updated :: "attributes \<Rightarrow> expr \<Rightarrow> attributes \<Rightarrow> bool" where
  "item_updated old e new \<longleftrightarrow>
     (case e_Condition e of None \<Rightarrow> True | Some cond \<Rightarrow> holds old cond) \<and> new = old ++ map_of (e_Update e)"

text \<open>The update's condition rules out that the call creates an item.\<close>

definition updates_only :: "expr \<Rightarrow> bool" where
  "updates_only e \<longleftrightarrow> (\<exists>cond. e_Condition e = Some cond \<and> \<not> holds Map.empty cond)"

text \<open>
  \<open>attr it\<close> are the attributes of an item. An update is applied when the stored item met its
  condition and has the attributes set, nothing else having changed but the keys in
  \<open>gone\<close>, which are deleted.
\<close>

definition update_applied ::
  "('t \<Rightarrow> string \<times> string \<Rightarrow> 'v item option) \<Rightarrow> ('v item \<Rightarrow> attributes) \<Rightarrow> string \<times> string \<Rightarrow> expr
     \<Rightarrow> (string \<times> string) set \<Rightarrow> 't \<Rightarrow> 't \<Rightarrow> bool" where
  "update_applied tbl attr k e gone d d' \<longleftrightarrow> k \<notin> gone \<and>
     (\<exists>old new. tbl d k = Some old \<and> tbl d' k = Some new \<and> item_updated (attr old) e (attr new) \<and>
        (\<forall>k'. k' \<noteq> k \<longrightarrow> tbl d' k' = (if k' \<in> gone then None else tbl d k')))"

text \<open>An item with the attributes of the one stored before the call, or of the one stored after it.\<close>

definition item_returned ::
  "('v item \<Rightarrow> attributes) \<Rightarrow> string \<times> string \<Rightarrow> (string \<times> string \<Rightarrow> 'v item option)
     \<Rightarrow> (string \<times> string \<Rightarrow> 'v item option) \<Rightarrow> 'v item \<Rightarrow> bool" where
  "item_returned attr k before after ret \<longleftrightarrow>
     Some (attr ret) \<in> {map_option attr (before k), map_option attr (after k)}"

text \<open>
  A single update that succeeds has been applied and returns the item as it was, or, when
  the SDK repeated a call whose answer was lost, as its first attempt left it; a transaction that
  succeeds has applied both writes, of different items. An answer that is an error, a failed
  condition included, does not say that nothing was written: an internal error of the service
  (HTTP 500) leaves it open, and a repeated call may fail on what its first attempt wrote. Either the
  table is unchanged or the whole call has been applied, its condition having held.
  This describes one call without other writes to the same item during it.
\<close>

definition update_semantics ::
  "('t, 'v) aws \<Rightarrow> ('v item \<Rightarrow> string \<times> string) \<Rightarrow> ('t \<Rightarrow> string \<times> string \<Rightarrow> 'v item option)
     \<Rightarrow> ('v item \<Rightarrow> attributes) \<Rightarrow> bool" where
  "update_semantics A key tbl attr \<longleftrightarrow>
     (\<forall>k e d n r d' n'. updates_only e \<longrightarrow> UpdateItem A k e d n = (r, d', n') \<longrightarrow>
        (case r of
           Inl err \<Rightarrow> tbl d' = tbl d \<or> update_applied tbl attr (key k) e {} d d'
         | Inr ret \<Rightarrow> update_applied tbl attr (key k) e {} d d' \<and>
             item_returned attr (key k) (tbl d) (tbl d') ret)) \<and>
     (\<forall>k e k2 d n r d' n'. updates_only e \<longrightarrow> TransactWriteItems A [Update k e, Delete k2 None] d n = (r, d', n') \<longrightarrow>
        update_applied tbl attr (key k) e {key k2} d d' \<or> r \<noteq> None \<and> tbl d' = tbl d)"

lemma update_semanticsD:
  assumes "update_semantics A key tbl attr" "updates_only e"
  shows "UpdateItem A k e d n = (Inl err, d', n') \<Longrightarrow>
      tbl d' = tbl d \<or> update_applied tbl attr (key k) e {} d d'"
    and "UpdateItem A k e d n = (Inr ret, d', n') \<Longrightarrow> update_applied tbl attr (key k) e {} d d' \<and>
      item_returned attr (key k) (tbl d) (tbl d') ret"
    and "TransactWriteItems A [Update k e, Delete k2 None] d n = (r, d', n') \<Longrightarrow>
      update_applied tbl attr (key k) e {key k2} d d' \<or> r \<noteq> None \<and> tbl d' = tbl d"
proof -
  have one: "case r of
      Inl err \<Rightarrow> tbl d' = tbl d \<or> update_applied tbl attr (key k) e {} d d'
    | Inr ret \<Rightarrow> update_applied tbl attr (key k) e {} d d' \<and>
        item_returned attr (key k) (tbl d) (tbl d') ret"
    if "UpdateItem A k e d n = (r, d', n')" for r
    using assms that unfolding update_semantics_def by blast
  show "UpdateItem A k e d n = (Inl err, d', n') \<Longrightarrow>
      tbl d' = tbl d \<or> update_applied tbl attr (key k) e {} d d'"
    and "UpdateItem A k e d n = (Inr ret, d', n') \<Longrightarrow> update_applied tbl attr (key k) e {} d d' \<and>
      item_returned attr (key k) (tbl d) (tbl d') ret"
    using one by force+
  show "TransactWriteItems A [Update k e, Delete k2 None] d n = (r, d', n') \<Longrightarrow>
      update_applied tbl attr (key k) e {key k2} d d' \<or> r \<noteq> None \<and> tbl d' = tbl d"
    using assms unfolding update_semantics_def by blast
qed

lemma update_expr_only: "updates_only (update_expr e dt v)"
  by (simp add: updates_only_def update_expr_def update_condition_def)

subsection \<open>One update\<close>

text \<open>The tag item that goes with a soft deletion.\<close>

definition soft_deleted_tag :: "SyncEntity \<Rightarrow> string option" where
  "soft_deleted_tag e = (if Deleted e = Some True then client_tag e else None)"

text \<open>The method up to its call: the key, the data type and the expression.\<close>

lemma dynamo_update_started:
  assumes run: "dynamo_UpdateSyncEntity A E e v d n = (Return (conflict, deleted, err), d', n')"
  obtains (early) "d' = d" "\<not> conflict" "err \<noteq> None"
  | (request) k dt where "marshal_key A (ClientID e, ID e) = Inr k" "DataType e = Some dt"
      "Build A (update_expr e dt v) = None"
proof (cases "\<exists>k dt. marshal_key A (ClientID e, ID e) = Inr k \<and> DataType e = Some dt \<and>
    Build A (update_expr e dt v) = None")
  case True
  then show ?thesis using request by blast
next
  case False
  show ?thesis
    by (rule early) (use run False in
      \<open>auto simp: dynamo_UpdateSyncEntity_def Let_def split: sum.splits option.splits\<close>)
qed

text \<open>The tag whose item a soft deletion removes, as the code tests for it.\<close>

definition removed_tag :: "SyncEntity \<Rightarrow> int \<Rightarrow> string option" where
  "removed_tag e dt = (if Deleted e = Some True \<and> dt \<noteq> HistoryTypeID then ClientDefinedUniqueTag e else None)"

lemma soft_deleted_tag_eq:
  "DataType e = Some dt \<Longrightarrow> soft_deleted_tag e = map_option (\<lambda>tag. clientTagItemPrefix @ tag) (removed_tag e dt)"
  by (auto simp: soft_deleted_tag_def removed_tag_def client_tag_def split: option.splits)

lemma dynamo_update_plain:
  assumes k: "marshal_key A (ClientID e, ID e) = Inr k" and dt: "DataType e = Some dt"
    and build: "Build A (update_expr e dt v) = None" and plain: "removed_tag e dt = None"
  shows "dynamo_UpdateSyncEntity A E e v d n =
    (case UpdateItem A k (update_expr e dt v) d n of
       (Inl (ConditionalCheckFailed err), d, n) \<Rightarrow> (Return (True, False, None), d, n)
     | (Inl err, d, n) \<Rightarrow>
         (Return (False, False, Some (''error calling UpdateItem to update sync entity: '' @ err_text err)), d, n)
     | (Inr attributes, d, n) \<Rightarrow>
    (case unmarshal_entity A attributes of
       Inl err \<Rightarrow> (Return (False, False, Some (''error unmarshalling old sync entity: '' @ err)), d, n)
     | Inr oldEntity \<Rightarrow>
         (Return (False, newly_deleted (Deleted e) (Deleted oldEntity), None), d, n)))"
  unfolding dynamo_UpdateSyncEntity_def k sum.case dt option.case Let_def build plain [unfolded removed_tag_def] ..

lemma dynamo_update_soft:
  assumes k: "marshal_key A (ClientID e, ID e) = Inr k" and dt: "DataType e = Some dt"
    and build: "Build A (update_expr e dt v) = None" and soft: "removed_tag e dt = Some tag"
  shows "dynamo_UpdateSyncEntity A E e v d n =
    (case marshal_key A (ClientID e, clientTagItemPrefix @ tag) of
       Inl err \<Rightarrow> (Return (False, False, Some (''error marshalling key to update sync entity: '' @ err)), d, n)
     | Inr tagItemKey \<Rightarrow>
    (case TransactWriteItems A [Update k (update_expr e dt v), Delete tagItemKey None] d n of
       (Some err, d, n) \<Rightarrow>
         (if condition_failed err then (Return (True, False, None), d, n)
          else (Return (False, False, Some (''error deleting sync item and tag item in a transaction: ''
                  @ err_text err)), d, n))
     | (None, d, n) \<Rightarrow> (Return (False, True, None), d, n)))"
  unfolding dynamo_UpdateSyncEntity_def k sum.case dt option.case Let_def build soft [unfolded removed_tag_def] ..

text \<open>The ways through the method, by the call they make.\<close>

lemma dynamo_update_cases:
  assumes run: "dynamo_UpdateSyncEntity A E e v d n = (Return (conflict, deleted, err), d', n')"
  obtains (early) "d' = d" "\<not> conflict" "err \<noteq> None"
  | (rejected) k dt q n1 where "marshal_key A (ClientID e, ID e) = Inr k" "DataType e = Some dt"
      "soft_deleted_tag e = None" "UpdateItem A k (update_expr e dt v) d n = (Inl q, d', n1)"
      "\<not> deleted" "conflict \<longleftrightarrow> err = None"
  | (updated) k dt old n1 where "marshal_key A (ClientID e, ID e) = Inr k" "DataType e = Some dt"
      "UpdateItem A k (update_expr e dt v) d n = (Inr old, d', n1)" "soft_deleted_tag e = None" "\<not> conflict"
      "case unmarshal_entity A old of
         Inl msg \<Rightarrow> err \<noteq> None
       | Inr old_e \<Rightarrow> err = None \<and> deleted = newly_deleted (Deleted e) (Deleted old_e)"
  | (cancelled) k dt tag k2 q n1 where "marshal_key A (ClientID e, ID e) = Inr k" "DataType e = Some dt"
      "soft_deleted_tag e = Some tag" "marshal_key A (ClientID e, tag) = Inr k2"
      "TransactWriteItems A [Update k (update_expr e dt v), Delete k2 None] d n = (Some q, d', n1)"
      "\<not> deleted" "conflict \<longleftrightarrow> err = None"
  | (soft_deleted) k dt tag k2 n1 where "marshal_key A (ClientID e, ID e) = Inr k" "DataType e = Some dt"
      "soft_deleted_tag e = Some tag" "marshal_key A (ClientID e, tag) = Inr k2"
      "TransactWriteItems A [Update k (update_expr e dt v), Delete k2 None] d n = (None, d', n1)"
      "\<not> conflict" "deleted" "err = None"
  using run
proof (cases rule: dynamo_update_started)
  case (request k dt)
  note start = request
  show ?thesis
  proof (cases "removed_tag e dt")
    case None
    obtain q d1 n1 where u: "UpdateItem A k (update_expr e dt v) d n = (q, d1, n1)" by (metis prod_cases3)
    note step = run [unfolded dynamo_update_plain [OF start None] u]
    show ?thesis
    proof (cases q)
      case (Inl er)
      show ?thesis
        by (rule rejected [OF start(1,2), of er n1])
          (use u step Inl None start(2) in \<open>auto simp: soft_deleted_tag_eq split: dynamo_error.splits\<close>)
    next
      case (Inr old)
      show ?thesis
        by (rule updated [OF start(1,2)])
          (use u step Inr None start(2) in \<open>auto simp: soft_deleted_tag_eq split: sum.splits\<close>)
    qed
  next
    case (Some tag)
    note soft = soft_deleted_tag_eq [OF start(2), unfolded Some option.map]
    note step = run [unfolded dynamo_update_soft [OF start Some]]
    show ?thesis
    proof (cases "marshal_key A (ClientID e, clientTagItemPrefix @ tag)")
      case (Inl msg)
      show ?thesis by (rule early) (use step Inl in auto)
    next
      case (Inr k2)
      obtain q d1 n1 where t: "TransactWriteItems A [Update k (update_expr e dt v), Delete k2 None] d n = (q, d1, n1)"
        by (metis prod_cases3)
      show ?thesis
      proof (cases q)
        case None
        show ?thesis by (rule soft_deleted [OF start(1,2) soft Inr]) (use step Inr t None in auto)
      next
        case (Some er)
        show ?thesis
          by (rule cancelled [OF start(1,2) soft Inr]) (use step Inr t Some in \<open>auto split: if_splits\<close>)
      qed
    qed
  qed
qed (rule early)

text \<open>
  The update of an entity as a change of the table: the attributes the code sets are
  replaced in the stored item of the entity's key, which had the version given (for data
  types other than history), the tag item of a soft-deleted entity is gone, and nothing else
  has changed.
\<close>

definition tag_keys :: "SyncEntity \<Rightarrow> (string \<times> string) set" where
  "tag_keys e = {(ClientID e, tag) |tag. soft_deleted_tag e = Some tag}"

definition entity_replaced ::
  "('v item \<Rightarrow> attributes) \<Rightarrow> SyncEntity \<Rightarrow> int \<Rightarrow> (string \<times> string \<Rightarrow> 'v item option)
     \<Rightarrow> (string \<times> string \<Rightarrow> 'v item option) \<Rightarrow> bool" where
  "entity_replaced attr e v before after \<longleftrightarrow>
     (\<exists>old new. before (ClientID e, ID e) = Some old \<and> after (ClientID e, ID e) = Some new \<and>
        attr new = attr old ++ map_of (update_fields e) \<and>
        (DataType e \<noteq> Some HistoryTypeID \<longrightarrow> attr old ''Version'' = Some (GoInt v))) \<and>
     (\<forall>k. k \<noteq> (ClientID e, ID e) \<longrightarrow> after k = (if k \<in> tag_keys e then None else before k))"

lemma item_updated_iff:
  "item_updated old (update_expr e dt v) new \<longleftrightarrow>
     old pk \<noteq> None \<and> (dt \<noteq> HistoryTypeID \<longrightarrow> old ''Version'' = Some (GoInt v)) \<and>
     new = old ++ map_of (update_fields e)"
  by (auto simp: item_updated_def update_expr_def update_condition_def new_builder_def)

lemma update_applied_replaced:
  "update_applied tbl attr (ClientID e, ID e) (update_expr e dt v) (tag_keys e) d d' \<Longrightarrow> DataType e = Some dt \<Longrightarrow>
   entity_replaced attr e v (tbl d) (tbl d')"
  by (auto simp: update_applied_def entity_replaced_def item_updated_iff)

lemma update_fields_version: "map_of (update_fields e) ''Version'' = Some (go_int (Version e))"
  by (simp add: update_fields_def)

lemma entity_replaced_version:
  "entity_replaced attr e v before after \<Longrightarrow>
   \<exists>new. after (ClientID e, ID e) = Some new \<and> attr new ''Version'' = Some (go_int (Version e))"
  by (auto simp: entity_replaced_def map_add_def update_fields_version)

text \<open>The calls with a tag item and without one, in these terms.\<close>

lemma tag_keys_simps:
  "soft_deleted_tag e = None \<Longrightarrow> tag_keys e = {}"
  "soft_deleted_tag e = Some tag \<Longrightarrow> tag_keys e = {(ClientID e, tag)}"
  by (auto simp: tag_keys_def)

lemma dynamo_update_one:
  assumes ok: "dynamo_ok A key tbl" and sem: "update_semantics A key tbl attr"
    and k: "marshal_key A (ClientID e, ID e) = Inr k" and dt: "DataType e = Some dt"
    and plain: "soft_deleted_tag e = None"
    and call: "UpdateItem A k (update_expr e dt v) d n = (r, d', n')"
  shows "entity_replaced attr e v (tbl d) (tbl d') \<or> (\<exists>err. r = Inl err) \<and> tbl d' = tbl d"
    and "r = Inr ret \<Longrightarrow> item_returned attr (ClientID e, ID e) (tbl d) (tbl d') ret"
proof -
  have key: "key k = (ClientID e, ID e)" using dynamo_okD(1) [OF ok k] by simp
  note applied = update_applied_replaced [OF _ dt, of tbl attr v d d', unfolded tag_keys_simps(1) [OF plain]]
  show "entity_replaced attr e v (tbl d) (tbl d') \<or> (\<exists>err. r = Inl err) \<and> tbl d' = tbl d"
    using update_semanticsD(1,2) [OF sem update_expr_only, of k e dt v d n] call applied key by (cases r) force+
  show "item_returned attr (ClientID e, ID e) (tbl d) (tbl d') ret"
    if "r = Inr ret"
    using update_semanticsD(2) [OF sem update_expr_only, of k e dt v d n ret] call key that by simp
qed

lemma dynamo_update_two:
  assumes ok: "dynamo_ok A key tbl" and sem: "update_semantics A key tbl attr"
    and k: "marshal_key A (ClientID e, ID e) = Inr k" and dt: "DataType e = Some dt"
    and soft: "soft_deleted_tag e = Some tag" and k2: "marshal_key A (ClientID e, tag) = Inr k2"
    and call: "TransactWriteItems A [Update k (update_expr e dt v), Delete k2 None] d n = (r, d', n')"
  shows "entity_replaced attr e v (tbl d) (tbl d') \<or> r \<noteq> None \<and> tbl d' = tbl d"
proof -
  have key: "key k = (ClientID e, ID e)" "key k2 = (ClientID e, tag)"
    using dynamo_okD(1) [OF ok] k k2 by simp_all
  show ?thesis
    using update_semanticsD(3) [OF sem update_expr_only call] key
      update_applied_replaced [OF _ dt, of tbl attr v d d', unfolded tag_keys_simps(2) [OF soft]] by auto
qed

text \<open>What each answer of the method says.\<close>

definition update_outcome ::
  "('t, 'v) aws \<Rightarrow> ('v item \<Rightarrow> attributes) \<Rightarrow> SyncEntity \<Rightarrow> int \<Rightarrow> (string \<times> string \<Rightarrow> 'v item option)
     \<Rightarrow> (string \<times> string \<Rightarrow> 'v item option) \<Rightarrow> bool \<Rightarrow> bool \<Rightarrow> error option \<Rightarrow> bool" where
  "update_outcome A attr e v before after conflict deleted err \<longleftrightarrow>
     (conflict \<longrightarrow> \<not> deleted \<and> err = None) \<and>
     (after = before \<and> (conflict \<or> err \<noteq> None) \<or> entity_replaced attr e v before after) \<and>
     (\<not> conflict \<longrightarrow> err = None \<longrightarrow>
        (case soft_deleted_tag e of
           Some tag \<Rightarrow> deleted
         | None \<Rightarrow> (\<exists>ret old_e. item_returned attr (ClientID e, ID e) before after ret \<and>
           unmarshal_entity A ret = Inr old_e \<and>
             deleted = newly_deleted (Deleted e) (Deleted old_e))))"

lemma dynamo_update_outcome:
  assumes ok: "dynamo_ok A key tbl" and sem: "update_semantics A key tbl attr"
    and run: "dynamo_UpdateSyncEntity A E e v d n = (Return (conflict, deleted, err), d', n')"
  shows "update_outcome A attr e v (tbl d) (tbl d') conflict deleted err"
  using run
proof (cases rule: dynamo_update_cases)
  case early
  then show ?thesis by (auto simp: update_outcome_def)
next
  case (rejected k dt q n1)
  from dynamo_update_one(1) [OF ok sem rejected(1-4)] rejected(5,6) show ?thesis
    by (auto simp: update_outcome_def)
next
  case (updated k dt ret n1)
  have "entity_replaced attr e v (tbl d) (tbl d')"
    using dynamo_update_one(1) [OF ok sem updated(1,2,4,3)] by simp
  moreover have "item_returned attr (ClientID e, ID e) (tbl d) (tbl d') ret"
    by (rule dynamo_update_one(2) [OF ok sem updated(1,2,4,3)]) simp
  ultimately show ?thesis using updated(4-6) by (auto simp: update_outcome_def split: sum.splits)
next
  case (cancelled k dt tag k2 q n1)
  from dynamo_update_two [OF ok sem cancelled(1-5)] cancelled(6,7) show ?thesis
    by (auto simp: update_outcome_def)
next
  case (soft_deleted k dt tag k2 n1)
  from dynamo_update_two [OF ok sem soft_deleted(1-5)] soft_deleted show ?thesis
    by (auto simp: update_outcome_def)
qed


subsection \<open>Concurrent writers\<close>

text \<open>
  C19: Two devices read version \<open>v\<close> of an entity stored in DynamoDB and both write it back, the
  first with success and giving it another version; calls for other clients may come in between. For
  every data type but history no update is lost: the second changes nothing and returns
  a conflict or an error. For a history entity the expression has no condition on the version:
  when the second returns neither, its attributes have replaced those of the first.
\<close>

theorem dynamo_no_lost_update:
  assumes "dynamo_ok A key tbl" and "update_semantics A key tbl attr"
    and "dynamo_UpdateSyncEntity A E e1 v d n = (Return (False, del, None), d1, n1)"
    and "dynamo_run A cs d1 d2" and "ClientID e1 \<notin> set cs"
    and "ClientID e2 = ClientID e1" and "ID e2 = ID e1" and "Version e1 \<noteq> Some v"
    and "dynamo_UpdateSyncEntity A E' e2 v d2 m = (Return (conflict, del2, err), d3, m')"
  shows "\<exists>new. tbl d2 (ClientID e1, ID e1) = Some new \<and> attr new ''Version'' = Some (go_int (Version e1)) \<and>
    (if DataType e2 \<noteq> Some HistoryTypeID then tbl d3 = tbl d2 \<and> (conflict \<or> err \<noteq> None)
     else \<not> conflict \<and> err = None \<longrightarrow>
       (\<exists>newer. tbl d3 (ClientID e1, ID e1) = Some newer \<and> attr newer = attr new ++ map_of (update_fields e2)))"
proof -
  have others: "tbl d2 (ClientID e1, i) = tbl d1 (ClientID e1, i)" for i
    by (rule dynamo_run_others [OF assms(4,1,5)])
  have "entity_replaced attr e1 v (tbl d) (tbl d1)"
    using dynamo_update_outcome [OF assms(1-3)] by (simp add: update_outcome_def)
  then obtain new where new: "tbl d2 (ClientID e1, ID e1) = Some new" "attr new ''Version'' = Some (go_int (Version e1))"
    using entity_replaced_version others by metis
  have "attr new ''Version'' \<noteq> Some (GoInt v)"
    using new(2) assms(8) by (auto simp: go_int_def split: option.splits)
  with dynamo_update_outcome [OF assms(1,2,9)] new assms(6,7) show ?thesis
    by (auto simp: update_outcome_def entity_replaced_def)
qed

subsection \<open>A table of attributes\<close>

text \<open>A service on a table in memory whose items are attributes, with conditional writes.\<close>

type_synonym attribute_table = "((string \<times> string) \<times> go_value item) list"

definition text_of :: "go_value option \<Rightarrow> string" where
  "text_of x = (case x of Some (GoString s) \<Rightarrow> s | _ \<Rightarrow> '''')"

definition attr_key :: "go_value item \<Rightarrow> string \<times> string" where
  "attr_key it = (text_of (map_of it pk), text_of (map_of it sk))"

definition attr_key_item :: "string \<times> string \<Rightarrow> go_value item" where
  "attr_key_item k = [(pk, GoString (fst k)), (sk, GoString (snd k))]"

lemma attr_key_item [simp]: "attr_key (attr_key_item k @ rest) = k" "attr_key (attr_key_item k) = k"
  by (simp_all add: attr_key_def attr_key_item_def text_of_def pk_def sk_def)

definition attr_entity :: "go_value item \<Rightarrow> SyncEntity" where
  "attr_entity it = blank_entity
     \<lparr>ClientID := fst (attr_key it), ID := snd (attr_key it),
      Version := (case map_of it ''Version'' of Some (GoInt v) \<Rightarrow> Some v | _ \<Rightarrow> None),
      Deleted := (case map_of it ''Deleted'' of Some (GoBool b) \<Rightarrow> Some b | _ \<Rightarrow> None)\<rparr>"

definition stored_attributes :: "attribute_table \<Rightarrow> string \<times> string \<Rightarrow> attributes" where
  "stored_attributes d k = (case map_of d k of None \<Rightarrow> Map.empty | Some it \<Rightarrow> map_of it)"

definition holds_opt :: "attributes \<Rightarrow> condition option \<Rightarrow> bool" where
  "holds_opt it c = (case c of None \<Rightarrow> True | Some cond \<Rightarrow> holds it cond)"

fun attr_allowed :: "attribute_table \<Rightarrow> go_value transact_item \<Rightarrow> bool" where
  "attr_allowed d (Put it c) = holds_opt (stored_attributes d (attr_key it)) c"
| "attr_allowed d (Update it e) = holds_opt (stored_attributes d (attr_key it)) (e_Condition e)"
| "attr_allowed d (Delete it c) = holds_opt (stored_attributes d (attr_key it)) c"

fun attr_write :: "go_value transact_item \<Rightarrow> attribute_table \<Rightarrow> attribute_table" where
  "attr_write (Put it c) d = AList.update (attr_key it) it d"
| "attr_write (Update it e) d = AList.update (attr_key it)
     (e_Update e @ (case map_of d (attr_key it) of None \<Rightarrow> it | Some old \<Rightarrow> old)) d"
| "attr_write (Delete it c) d = AList.delete (attr_key it) d"

definition attr_aws :: "(attribute_table, go_value) aws" where
  "attr_aws =
     \<lparr> Build = (\<lambda>_. None),
       marshal_key = (\<lambda>k. Inr (attr_key_item k)),
       marshal_entity = (\<lambda>e. Inr (attr_key_item (ClientID e, ID e) @ update_fields e)),
       marshal_tag = (\<lambda>t. Inr (attr_key_item (tag_ClientID t, tag_ID t))),
       marshal_marker = (\<lambda>m. Inr (attr_key_item (marker_ClientID m, marker_ID m))),
       marshal_counts = (\<lambda>k. Inr (attr_key_item (cnt_ClientID k, cnt_ID k))),
       unmarshal_entity = (\<lambda>it. Inr (attr_entity it)),
       unmarshal_entities = (\<lambda>its. Inr (map attr_entity its)),
       unmarshal_counts = (\<lambda>it. Inl ''not used''),
       AttributeValueMemberS = GoString,
       PutItem = (\<lambda>it c d n.
          if attr_allowed d (Put it c) then (None, attr_write (Put it c) d, n)
          else (Some (ConditionalCheckFailed ''condition''), d, n)),
       GetItem = (\<lambda>it p d n. (Inr (map_of d (attr_key it)), d, n)),
       UpdateItem = (\<lambda>it e d n.
          if attr_allowed d (Update it e)
          then (Inr (case map_of d (attr_key it) of None \<Rightarrow> [] | Some old \<Rightarrow> old), attr_write (Update it e) d, n)
          else (Inl (ConditionalCheckFailed ''condition''), d, n)),
       TransactWriteItems = (\<lambda>ws d n.
          if \<not> distinct (map (write_key attr_key) ws) then (Some (OtherError ''one item twice''), d, n)
          else if list_all (attr_allowed d) ws then (None, fold attr_write ws d, n)
          else (Some (TransactionCanceled ''cancelled''
                  (map (\<lambda>w. if attr_allowed d w then None else Some conditionalCheckFailed) ws)), d, n)),
       Query = (\<lambda>q d n.
          let its = (case e_KeyCondition (qi_expr q) of
                Some (Key_Equal a (GoString c)) \<Rightarrow> filter (\<lambda>it. fst (attr_key it) = c) (map snd d)
              | _ \<Rightarrow> [])
          in (Inr \<lparr>q_Items = its, q_Count = int (length its), q_LastEvaluatedKey = []\<rparr>, d, n)),
       BatchGetPages = (\<lambda>ks d n. ((None, [List.map_filter (\<lambda>k. map_of d (attr_key k)) ks]), d, n)) \<rparr>"

lemma attr_write_frame:
  "k \<noteq> write_key attr_key w \<Longrightarrow> map_of (attr_write w d) k = map_of d k"
  by (cases w) (simp_all add: update_conv' delete_conv')

lemma attr_writes_frame:
  "k \<notin> write_key attr_key ` set ws \<Longrightarrow> map_of (fold attr_write ws d) k = map_of d k"
  by (induction ws arbitrary: d) (simp_all add: attr_write_frame)

lemma attr_aws_ok: "dynamo_ok attr_aws attr_key map_of"
proof -
  have "attr_key [(pk, GoString c), (sk, GoString i)] = (c, i)" for c i
    by (simp add: attr_key_def text_of_def pk_def sk_def)
  then have "sdk_keys attr_aws attr_key" by (auto simp: sdk_keys_def attr_aws_def)
  moreover have "service_frame attr_aws attr_key map_of"
    by (auto simp: service_frame_def attr_aws_def update_conv' attr_writes_frame attr_entity_def blank_entity_def
        Let_def split: if_splits option.splits)
  ultimately show ?thesis by (simp add: dynamo_ok_def)
qed

lemma attr_stored:
  "holds_opt (stored_attributes d k) (Some cond) \<Longrightarrow> \<not> holds Map.empty cond \<Longrightarrow>
   \<exists>old. map_of d k = Some old \<and> holds (map_of old) cond"
  by (cases "map_of d k") (auto simp: holds_opt_def stored_attributes_def)

lemma attr_update_applied:
  assumes "updates_only e" and "holds_opt (stored_attributes d k) (e_Condition e)"
  shows "\<exists>old. map_of d k = Some old \<and> (k \<notin> gone \<longrightarrow>
     map_of d' = (\<lambda>k'. if k' = k then Some (e_Update e @ old) else if k' \<in> gone then None else map_of d k') \<longrightarrow>
     update_applied map_of map_of k e gone d d')"
proof -
  obtain cond where cond: "e_Condition e = Some cond" "\<not> holds Map.empty cond"
    using assms(1) by (auto simp: updates_only_def)
  then obtain old where "map_of d k = Some old" "holds (map_of old) cond"
    using attr_stored [of d k cond] assms(2) by auto
  with cond show ?thesis by (auto simp: update_applied_def item_updated_def)
qed

lemma attr_update_semantics: "update_semantics attr_aws attr_key map_of map_of"
proof -
  have "case r of
      Inl err \<Rightarrow> map_of d' = map_of d \<or> update_applied map_of map_of (attr_key k) e {} d d'
    | Inr ret \<Rightarrow> update_applied map_of map_of (attr_key k) e {} d d' \<and>
        item_returned map_of (attr_key k) (map_of d) (map_of d') ret"
    if "updates_only e" "UpdateItem attr_aws k e d n = (r, d', n')" for k e d n r d' n'
  proof (cases "holds_opt (stored_attributes d (attr_key k)) (e_Condition e)")
    case True
    with that attr_update_applied [OF that(1) True, of "{}" d'] show ?thesis
      by (auto simp: attr_aws_def update_conv' fun_eq_iff item_returned_def)
  next
    case False
    with that(2) show ?thesis by (auto simp: attr_aws_def)
  qed
  moreover have "update_applied map_of map_of (attr_key k) e {attr_key k2} d d' \<or> r \<noteq> None \<and> map_of d' = map_of d"
    if "updates_only e" "TransactWriteItems attr_aws [Update k e, Delete k2 None] d n = (r, d', n')" for k e k2 d n r d' n'
  proof (cases "attr_key k \<noteq> attr_key k2 \<and> holds_opt (stored_attributes d (attr_key k)) (e_Condition e)")
    case True
    with that attr_update_applied [OF that(1), of d "attr_key k" "{attr_key k2}" d'] show ?thesis
      by (auto simp: attr_aws_def update_conv' delete_conv' holds_opt_def fun_eq_iff)
  next
    case False
    with that(2) show ?thesis by (auto simp: attr_aws_def split: if_splits)
  qed
  ultimately show ?thesis unfolding update_semantics_def by blast
qed

text \<open>A bookmark of version 3 and two updates from that version.\<close>

definition attr_bookmark :: attribute_table where
  "attr_bookmark = [((''chain'', ''a''), attr_key_item (''chain'', ''a'') @ update_fields (sample_row ''a'' 3 5))]"

definition attr_bookmark_8 :: attribute_table where
  "attr_bookmark_8 = [((''chain'', ''a''), update_fields (sample_row ''a'' 8 8)
     @ attr_key_item (''chain'', ''a'') @ update_fields (sample_row ''a'' 3 5))]"

lemmas attr_eval =
  dynamo_UpdateSyncEntity_def attr_aws_def sample_row_def update_expr_def update_condition_def
  holds_opt_def stored_attributes_def update_fields_def new_builder_def attr_entity_def
  newly_deleted_def set_optional_def go_int_def go_string_def go_bytes_def pk_def sk_def HistoryTypeID_def
  attr_key_item_def attr_key_def text_of_def attr_bookmark_def attr_bookmark_8_def

lemma attr_first:
  "dynamo_UpdateSyncEntity attr_aws sample_env (sample_row ''a'' 8 8) 3 attr_bookmark 0
     = (Return (False, False, None), attr_bookmark_8, 0)"
  by (simp add: attr_eval Let_def)

lemma attr_second:
  "dynamo_UpdateSyncEntity attr_aws sample_env (sample_row ''a'' 9 9) 3 attr_bookmark_8 7
     = (Return (True, False, None), attr_bookmark_8, 7)"
  by (simp add: attr_eval Let_def)

lemma attr_third:
  "\<exists>d. dynamo_UpdateSyncEntity attr_aws sample_env ((sample_row ''a'' 9 9)\<lparr>DataType := Some HistoryTypeID\<rparr>) 3
     attr_bookmark_8 7 = (Return (False, False, None), d, 7)"
  by (simp add: attr_eval Let_def)


text \<open>A bookmark refused the second time, and a history entity overwritten.\<close>

lemma dynamo_no_lost_update_witness:
  "(\<exists>d m. dynamo_UpdateSyncEntity attr_aws sample_env (sample_row ''a'' 9 9) 3 attr_bookmark_8 7
       = (Return (True, False, None), d, m) \<and>
     map_of d = map_of attr_bookmark_8) \<and>
   (\<exists>d m newer. dynamo_UpdateSyncEntity attr_aws sample_env ((sample_row ''a'' 9 9)\<lparr>DataType := Some HistoryTypeID\<rparr>) 3
       attr_bookmark_8 7 = (Return (False, False, None), d, m) \<and>
     map_of d (''chain'', ''a'') = Some newer \<and> map_of newer ''Version'' = Some (GoInt 9))"
proof -
  let ?h = "(sample_row ''a'' 9 9)\<lparr>DataType := Some HistoryTypeID\<rparr>"
  note stale = dynamo_no_lost_update [OF attr_aws_ok attr_update_semantics attr_first dynamo_run.intros(1)]
  obtain d where third: "dynamo_UpdateSyncEntity attr_aws sample_env ?h 3 attr_bookmark_8 7
      = (Return (False, False, None), d, 7)" using attr_third by blast
  have "map_of attr_bookmark_8 = map_of attr_bookmark_8 \<and> (True \<or> (None :: error option) \<noteq> None)"
    using stale [OF _ _ _ _ attr_second] by (simp add: HistoryTypeID_def)
  moreover obtain newer new where "map_of d (''chain'', ''a'') = Some newer"
    "map_of newer = map_of new ++ map_of (update_fields ?h)"
    using stale [OF _ _ _ _ third] by auto
  moreover from this have "map_of newer ''Version'' = Some (GoInt 9)"
    by (simp add: map_add_def update_fields_version go_int_def)
  ultimately show ?thesis using attr_second third by blast
qed

end
