(* ===== verification/Dynamo_Admin.thy ===== *)
theory Dynamo_Admin
  imports Dynamo_Update
begin

section \<open>Setup and inspection of the DynamoDB table (datastore/dynamo.go, datastoretest/dynamo.go)\<close>

text \<open>
  \<open>NewDynamo\<close> and the functions with which the test suites reset the table and read it back.
  The calls they add to the SDK's are fields of an extension of the parameter \<open>aws\<close>; the
  lemmas say what a reset leaves and which of the stored kinds of items each scan returns.
\<close>

subsection \<open>NewDynamo\<close>

text \<open>\<open>LoadDefaultConfig\<close> and \<open>NewFromConfig\<close> are parameters; the endpoint is an option for the latter.\<close>

record http_client =
  Timeout_seconds :: nat
  MaxIdleConns :: nat
  MaxIdleConnsPerHost :: nat

definition NewDynamo ::
  "(string \<Rightarrow> http_client \<Rightarrow> error + 'cfg) \<Rightarrow> ('cfg \<Rightarrow> string option \<Rightarrow> 'db) \<Rightarrow> (string \<Rightarrow> string) \<Rightarrow> error + 'db" where
  "NewDynamo LoadDefaultConfig NewFromConfig getenv =
     (let httpClient = \<lparr>Timeout_seconds = 30, MaxIdleConns = 200, MaxIdleConnsPerHost = 50\<rparr> in
      case LoadDefaultConfig (getenv ''AWS_REGION'') httpClient of
        Inl err \<Rightarrow> Inl (''error loading AWS config: '' @ err)
      | Inr cfg \<Rightarrow>
          let endpoint = getenv ''AWS_ENDPOINT'' in
          Inr (NewFromConfig cfg (if endpoint \<noteq> '''' then Some endpoint else None)))"

subsection \<open>The table\<close>

datatype delete_error = ResourceNotFound error | DeleteError error

text \<open>
  The further SDK calls; \<open>table_json\<close> is the outcome of reading the file. A scan returns its
  first page.
\<close>

record ('t, 'v, 'i) aws_admin = "('t, 'v) aws" +
  sdk_DeleteTable :: "('t, delete_error option) op"
  WaitTableNotExists :: "('t, error option) op"
  table_json :: "error + bytes"
  unmarshal_CreateTableInput :: "bytes \<Rightarrow> error + 'i"
  sdk_CreateTable :: "'i \<Rightarrow> ('t, dynamo_error option) op"
  WaitTableExists :: "('t, error option) op"
  Scan :: "condition \<Rightarrow> ('t, dynamo_error + 'v item list) op"
  unmarshal_tags :: "'v item list \<Rightarrow> error + ServerClientUniqueTagItem list"
  unmarshal_counts_list :: "'v item list \<Rightarrow> error + ClientItemCounts list"

definition DeleteTable :: "('t, 'v, 'i) aws_admin \<Rightarrow> ('t, error option) op" where
  "DeleteTable A d n =
     (case sdk_DeleteTable A d n of
        (Some (ResourceNotFound err), d, n) \<Rightarrow> (None, d, n)
      | (Some (DeleteError err), d, n) \<Rightarrow> (Some (''error deleting table: '' @ err), d, n)
      | (None, d, n) \<Rightarrow> WaitTableNotExists A d n)"

definition CreateTable :: "('t, 'v, 'i) aws_admin \<Rightarrow> ('t, error option) op" where
  "CreateTable A d n =
     (case table_json A of
        Inl err \<Rightarrow> (Some (''error reading table.json: '' @ err), d, n)
      | Inr raw \<Rightarrow>
     (case unmarshal_CreateTableInput A raw of
        Inl err \<Rightarrow> (Some (''error unmarshalling raw data from table.json: '' @ err), d, n)
      | Inr inp \<Rightarrow>
     (case sdk_CreateTable A inp d n of
        (Some err, d, n) \<Rightarrow> (Some (''error creating table: '' @ err_text err), d, n)
      | (None, d, n) \<Rightarrow> WaitTableExists A d n)))"

definition ResetTable :: "('t, 'v, 'i) aws_admin \<Rightarrow> ('t, error option) op" where
  "ResetTable A d n =
     (case DeleteTable A d n of
        (Some err, d, n) \<Rightarrow> (Some (''error deleting table to reset table: '' @ err), d, n)
      | (None, d, n) \<Rightarrow> CreateTable A d n)"

subsection \<open>The scans\<close>

definition sync_filter :: condition where
  "sync_filter = AttributeExists ''Version''"

definition ScanSyncEntities :: "('t, 'v, 'i) aws_admin \<Rightarrow> ('t, error + SyncEntity list) op" where
  "ScanSyncEntities A d n =
     (case Build A (new_builder\<lparr>e_Filter := Some sync_filter\<rparr>) of
        Some err \<Rightarrow> (Inl (''error building expression to scan sync entitites: '' @ err), d, n)
      | None \<Rightarrow>
     (case Scan A sync_filter d n of
        (Inl err, d, n) \<Rightarrow> (Inl (''error doing scan for sync entities: '' @ err_text err), d, n)
      | (Inr items, d, n) \<Rightarrow>
     (case unmarshal_entities A items of
        Inl err \<Rightarrow> (Inl (''error unmarshalling sync entitites: '' @ err), d, n)
      | Inr syncItems \<Rightarrow> (Inr syncItems, d, n))))"

definition tag_filter :: condition where
  "tag_filter = Cond_And [AttributeNotExists ''ExpireAt'', AttributeNotExists ''Version'']"

definition ScanTagItems :: "('t, 'v, 'i) aws_admin \<Rightarrow> ('t, error + ServerClientUniqueTagItem list) op" where
  "ScanTagItems A d n =
     (case Build A (new_builder\<lparr>e_Filter := Some tag_filter\<rparr>) of
        Some err \<Rightarrow> (Inl (''error building expression to scan tag items: '' @ err), d, n)
      | None \<Rightarrow>
     (case Scan A tag_filter d n of
        (Inl err, d, n) \<Rightarrow> (Inl (''error doing scan for tag items: '' @ err_text err), d, n)
      | (Inr items, d, n) \<Rightarrow>
     (case unmarshal_tags A items of
        Inl err \<Rightarrow> (Inl (''error unmarshalling tag items: '' @ err), d, n)
      | Inr tagItems \<Rightarrow> (Inr tagItems, d, n))))"

definition counts_filter :: condition where
  "counts_filter = AttributeExists ''ItemCount''"

definition ScanClientItemCounts :: "('t, 'v, 'i) aws_admin \<Rightarrow> ('t, error + ClientItemCounts list) op" where
  "ScanClientItemCounts A d n =
     (case Build A (new_builder\<lparr>e_Filter := Some counts_filter\<rparr>) of
        Some err \<Rightarrow> (Inl (''error building expression to scan item counts: '' @ err), d, n)
      | None \<Rightarrow>
     (case Scan A counts_filter d n of
        (Inl err, d, n) \<Rightarrow> (Inl (''error doing scan for item counts: '' @ err_text err), d, n)
      | (Inr items, d, n) \<Rightarrow>
     (case unmarshal_counts_list A items of
        Inl err \<Rightarrow> (Inl (''error unmarshalling item counts: '' @ err), d, n)
      | Inr clientItemCounts \<Rightarrow> (Inr clientItemCounts, d, n))))"

subsection \<open>The order of the results in the tests\<close>

text \<open>
  The \<open>Less\<close> of \<open>SyncEntityByClientIDID\<close>, \<open>TagItemByClientIDID\<close> and
  \<open>ClientItemCountByClientID\<close>; strings compare by bytes.
\<close>

definition less_by_client_id_id :: "SyncEntity \<Rightarrow> SyncEntity \<Rightarrow> bool" where
  "less_by_client_id_id a b \<longleftrightarrow> \<not> str_le (ClientID b @ ID b) (ClientID a @ ID a)"

definition less_tags_by_client_id_id :: "ServerClientUniqueTagItem \<Rightarrow> ServerClientUniqueTagItem \<Rightarrow> bool" where
  "less_tags_by_client_id_id a b \<longleftrightarrow> \<not> str_le (tag_ClientID b @ tag_ID b) (tag_ClientID a @ tag_ID a)"

definition less_counts_by_client_id :: "ClientItemCounts \<Rightarrow> ClientItemCounts \<Rightarrow> bool" where
  "less_counts_by_client_id a b \<longleftrightarrow> \<not> str_le (cnt_ClientID b) (cnt_ClientID a)"

text \<open>Two entities with different keys can be equal in this order, which joins client ID and ID.\<close>

lemma str_le_antisym: "str_le x y \<Longrightarrow> str_le y x \<Longrightarrow> x = y"
proof (induction x y rule: str_le.induct)
  case (1 ys)
  then show ?case by (cases ys) simp_all
qed (auto split: if_splits)

lemma less_by_client_id_id_incomparable:
  "\<not> less_by_client_id_id a b \<Longrightarrow> \<not> less_by_client_id_id b a \<Longrightarrow> ClientID a @ ID a = ClientID b @ ID b"
  by (simp add: less_by_client_id_id_def str_le_antisym)

subsection \<open>What a reset leaves\<close>

text \<open>A successful \<open>CreateTable\<close> has made a new table; waiting changes nothing.\<close>

definition table_semantics :: "('t, 'v, 'i) aws_admin \<Rightarrow> ('t \<Rightarrow> string \<times> string \<Rightarrow> 'v item option) \<Rightarrow> bool" where
  "table_semantics A tbl \<longleftrightarrow>
     (\<forall>inp d n d' n'. sdk_CreateTable A inp d n = (None, d', n') \<longrightarrow> tbl d' = Map.empty) \<and>
     (\<forall>d n r d' n'. WaitTableExists A d n = (r, d', n') \<longrightarrow> tbl d' = tbl d)"

lemma reset_leaves_empty:
  assumes "table_semantics A tbl" and "ResetTable A d n = (None, d', n')"
  shows "tbl d' = Map.empty"
proof -
  obtain inp d1 n1 d2 n2 where "sdk_CreateTable A inp d1 n1 = (None, d2, n2)" "WaitTableExists A d2 n2 = (None, d', n')"
    using assms(2) by (auto simp: ResetTable_def CreateTable_def split: prod.splits option.splits sum.splits)
  with assms(1) show ?thesis by (fastforce simp: table_semantics_def)
qed

text \<open>Without the file no reset succeeds, whatever the service does.\<close>

lemma reset_needs_file:
  assumes "table_json A = Inl err"
  shows "\<exists>msg d' n'. ResetTable A d n = (Some msg, d', n')"
  using assms by (auto simp: ResetTable_def CreateTable_def split: prod.split option.split)

subsection \<open>What the scans return\<close>

text \<open>
  The attributes of the four kinds of items: one for each field of the struct, except for
  empty fields that are tagged \<open>omitempty\<close>.
\<close>

definition entity_required :: "string set" where
  "entity_required = {''ClientID'', ''ID'', ''Version'', ''Mtime'', ''Ctime'', ''Deleted'', ''Specifics'', ''DataType'',
     ''Folder'', ''DataTypeMtime'', ''ExpirationTime''}"

definition entity_optional :: "string set" where
  "entity_optional = {''ParentID'', ''Name'', ''NonUniqueName'', ''ServerDefinedUniqueTag'', ''OriginatorCacheGUID'',
     ''OriginatorClientItemID'', ''ClientDefinedUniqueTag'', ''UniquePosition''}"

definition entity_item :: "attributes \<Rightarrow> bool" where
  "entity_item it \<longleftrightarrow> entity_required \<subseteq> dom it \<and> dom it \<subseteq> entity_required \<union> entity_optional"

definition tag_item :: "attributes \<Rightarrow> bool" where
  "tag_item it \<longleftrightarrow> dom it = {''ClientID'', ''ID'', ''Mtime'', ''Ctime''}"

definition marker_item :: "attributes \<Rightarrow> bool" where
  "marker_item it \<longleftrightarrow> dom it = {''ClientID'', ''ID'', ''Reason'', ''Mtime'', ''Ctime''}"

definition counts_item :: "attributes \<Rightarrow> bool" where
  "counts_item it \<longleftrightarrow> dom it = {''ClientID'', ''ID'', ''ItemCount'', ''HistoryItemCountPeriod1'',
     ''HistoryItemCountPeriod2'', ''HistoryItemCountPeriod3'', ''HistoryItemCountPeriod4'',
     ''LastPeriodChangeTime'', ''Version''}"

text \<open>An update of the store keeps an entity an entity.\<close>

lemma set_optional_names: "fst ` set (set_optional name f v) \<subseteq> {name}"
  by (cases v) (simp_all add: set_optional_def)

lemma updated_names: "fst ` set (update_fields e) \<subseteq> entity_required \<union> entity_optional"
proof -
  let ?all = "entity_required \<union> entity_optional"
  have known: "{''Version'', ''Mtime'', ''Specifics'', ''DataTypeMtime''} \<subseteq> ?all" "''UniquePosition'' \<in> ?all"
    "''ParentID'' \<in> ?all" "''Name'' \<in> ?all" "''NonUniqueName'' \<in> ?all" "''Deleted'' \<in> ?all" "''Folder'' \<in> ?all"
    by (simp_all add: entity_required_def entity_optional_def)
  have opt: "fst ` set (set_optional name f v) \<subseteq> ?all" if "name \<in> ?all"
    for name v and f :: "'x \<Rightarrow> go_value"
    using set_optional_names [of name f v] that by blast
  have fixed: "fst ` set [(''Version'', go_int (Version e)), (''Mtime'', go_int (Mtime e)),
      (''Specifics'', go_bytes (Specifics e)), (''DataTypeMtime'', go_string (DataTypeMtime e))] \<subseteq> ?all"
    using known(1) by simp
  show ?thesis
    unfolding update_fields_def set_append image_Un
    by (intro Un_least fixed opt known)
qed

lemma update_keeps_entity:
  assumes "entity_item old" and "item_updated old (update_expr e dt v) new"
  shows "entity_item new"
proof -
  have "dom new = fst ` set (update_fields e) \<union> dom old"
    using assms(2) by (simp add: item_updated_def update_expr_def new_builder_def dom_map_of_conv_image_fst)
  then show ?thesis using assms(1) updated_names [of e] unfolding entity_item_def by blast
qed

lemma holds_by_attributes:
  "holds it sync_filter \<longleftrightarrow> ''Version'' \<in> dom it"
  "holds it tag_filter \<longleftrightarrow> ''ExpireAt'' \<notin> dom it \<and> ''Version'' \<notin> dom it"
  "holds it counts_filter \<longleftrightarrow> ''ItemCount'' \<in> dom it"
  by (auto simp: sync_filter_def tag_filter_def counts_filter_def)

lemma kinds_by_filter:
  "entity_item it \<Longrightarrow> holds it sync_filter \<and> \<not> holds it tag_filter \<and> \<not> holds it counts_filter"
  "tag_item it \<Longrightarrow> \<not> holds it sync_filter \<and> holds it tag_filter \<and> \<not> holds it counts_filter"
  "marker_item it \<Longrightarrow> \<not> holds it sync_filter \<and> holds it tag_filter \<and> \<not> holds it counts_filter"
  "counts_item it \<Longrightarrow> holds it sync_filter \<and> \<not> holds it tag_filter \<and> holds it counts_filter"
  unfolding holds_by_attributes
proof -
  assume it: "entity_item it"
  have "''Version'' \<in> entity_required" "''ItemCount'' \<notin> entity_required \<union> entity_optional"
    by (simp_all add: entity_required_def entity_optional_def)
  with it show "''Version'' \<in> dom it \<and> \<not> (''ExpireAt'' \<notin> dom it \<and> ''Version'' \<notin> dom it) \<and> ''ItemCount'' \<notin> dom it"
    unfolding entity_item_def by blast
qed (simp_all add: tag_item_def marker_item_def counts_item_def)

text \<open>
  A scan with a filter returns the stored items it holds of (the table fitting on a page).
  So the scan for entities also returns the counters, and the scan for tag items also the
  markers of disabled chains, read as structs of the wrong kind.
\<close>

definition scan_semantics ::
  "('t, 'v, 'i) aws_admin \<Rightarrow> ('t \<Rightarrow> string \<times> string \<Rightarrow> 'v item option) \<Rightarrow> ('v item \<Rightarrow> attributes) \<Rightarrow> bool" where
  "scan_semantics A tbl attr \<longleftrightarrow>
     (\<forall>cond d n items d' n'. Scan A cond d n = (Inr items, d', n') \<longrightarrow>
        d' = d \<and> set items = {it. it \<in> ran (tbl d) \<and> holds (attr it) cond})"

definition known_kind :: "attributes \<Rightarrow> bool" where
  "known_kind it \<longleftrightarrow> entity_item it \<or> tag_item it \<or> marker_item it \<or> counts_item it"

lemma scan_items:
  assumes "scan_semantics A tbl attr" and "\<forall>it \<in> ran (tbl d). known_kind (attr it)"
    and "Scan A cond d n = (Inr items, d', n')"
  shows "cond = sync_filter \<Longrightarrow> set items = {it \<in> ran (tbl d). entity_item (attr it) \<or> counts_item (attr it)}"
    and "cond = tag_filter \<Longrightarrow> set items = {it \<in> ran (tbl d). tag_item (attr it) \<or> marker_item (attr it)}"
    and "cond = counts_filter \<Longrightarrow> set items = {it \<in> ran (tbl d). counts_item (attr it)}"
proof -
  have items: "set items = {it \<in> ran (tbl d). holds (attr it) cond}"
    using assms(1,3) unfolding scan_semantics_def by blast
  have kind: "known_kind (attr it)" if "it \<in> ran (tbl d)" for it using assms(2) that by blast
  show "set items = {it \<in> ran (tbl d). entity_item (attr it) \<or> counts_item (attr it)}" if "cond = sync_filter"
    using kind kinds_by_filter unfolding items that known_kind_def by blast
  show "set items = {it \<in> ran (tbl d). tag_item (attr it) \<or> marker_item (attr it)}" if "cond = tag_filter"
    using kind kinds_by_filter unfolding items that known_kind_def by blast
  show "set items = {it \<in> ran (tbl d). counts_item (attr it)}" if "cond = counts_filter"
    using kind kinds_by_filter unfolding items that known_kind_def by blast
qed

lemma ScanSyncEntities_returns:
  assumes "scan_semantics A tbl attr" and "\<forall>it \<in> ran (tbl d). known_kind (attr it)"
    and "ScanSyncEntities A d n = (Inr es, d', n')"
  shows "d' = d \<and> (\<exists>items. unmarshal_entities A items = Inr es \<and>
    set items = {it \<in> ran (tbl d). entity_item (attr it) \<or> counts_item (attr it)})"
proof -
  obtain items n1 where s: "Scan A sync_filter d n = (Inr items, d', n1)" "unmarshal_entities A items = Inr es"
    using assms(3) by (auto simp: ScanSyncEntities_def split: prod.splits option.splits sum.splits)
  from scan_items(1) [OF assms(1,2) s(1)] s assms(1) show ?thesis unfolding scan_semantics_def by blast
qed

lemma ScanTagItems_returns:
  assumes "scan_semantics A tbl attr" and "\<forall>it \<in> ran (tbl d). known_kind (attr it)"
    and "ScanTagItems A d n = (Inr ts, d', n')"
  shows "d' = d \<and> (\<exists>items. unmarshal_tags A items = Inr ts \<and>
    set items = {it \<in> ran (tbl d). tag_item (attr it) \<or> marker_item (attr it)})"
proof -
  obtain items n1 where s: "Scan A tag_filter d n = (Inr items, d', n1)" "unmarshal_tags A items = Inr ts"
    using assms(3) by (auto simp: ScanTagItems_def split: prod.splits option.splits sum.splits)
  from scan_items(2) [OF assms(1,2) s(1)] s assms(1) show ?thesis unfolding scan_semantics_def by blast
qed

lemma ScanClientItemCounts_returns:
  assumes "scan_semantics A tbl attr" and "\<forall>it \<in> ran (tbl d). known_kind (attr it)"
    and "ScanClientItemCounts A d n = (Inr ks, d', n')"
  shows "d' = d \<and> (\<exists>items. unmarshal_counts_list A items = Inr ks \<and>
    set items = {it \<in> ran (tbl d). counts_item (attr it)})"
proof -
  obtain items n1 where s: "Scan A counts_filter d n = (Inr items, d', n1)" "unmarshal_counts_list A items = Inr ks"
    using assms(3) by (auto simp: ScanClientItemCounts_def split: prod.splits option.splits sum.splits)
  from scan_items(3) [OF assms(1,2) s(1)] s assms(1) show ?thesis unfolding scan_semantics_def by blast
qed

text \<open>The hypotheses hold of scans of the table in memory.\<close>

definition attr_admin :: "(attribute_table, go_value, unit) aws_admin" where
  "attr_admin = aws.extend attr_aws
     \<lparr> sdk_DeleteTable = (\<lambda>d n. (None, [], n)),
       WaitTableNotExists = (\<lambda>d n. (None, d, n)),
       table_json = Inr [],
       unmarshal_CreateTableInput = (\<lambda>_. Inr ()),
       sdk_CreateTable = (\<lambda>_ d n. if d = [] then (None, [], n) else (Some (OtherError ''table exists''), d, n)),
       WaitTableExists = (\<lambda>d n. (None, d, n)),
       Scan = (\<lambda>cond d n. (Inr (filter (\<lambda>it. holds (map_of it) cond) (map snd (AList.clearjunk d))), d, n)),
       unmarshal_tags = (\<lambda>items. Inr (map (\<lambda>it. \<lparr>tag_ClientID = fst (attr_key it), tag_ID = snd (attr_key it),
         tag_Mtime = 0, tag_Ctime = 0\<rparr>) items)),
       unmarshal_counts_list = (\<lambda>_. Inl ''not used'') \<rparr>"

lemma attr_table_semantics: "table_semantics attr_admin map_of"
  by (auto simp: table_semantics_def attr_admin_def aws.defs split: if_splits)

lemma attr_scan_semantics: "scan_semantics attr_admin map_of map_of"
proof -
  have "set (map snd (AList.clearjunk d)) = ran (map_of d)" for d :: attribute_table
    using ran_distinct [OF distinct_clearjunk [of d]] by (simp add: map_of_clearjunk)
  then show ?thesis by (simp add: scan_semantics_def attr_admin_def aws.defs set_filter del: set_map)
qed

lemma reset_example:
  "ResetTable attr_admin [((''chain'', ''disabled_chain''), attr_key_item (''chain'', ''disabled_chain''))] 0 = (None, [], 0)"
  by (simp add: ResetTable_def DeleteTable_def CreateTable_def attr_admin_def aws.defs)

text \<open>A table with the marker of a disabled chain: the scan for tag items returns it.\<close>

lemma marker_scanned:
  "ScanTagItems attr_admin [((''chain'', ''disabled_chain''), attr_key_item (''chain'', ''disabled_chain''))] 0
     = (Inr [\<lparr>tag_ClientID = ''chain'', tag_ID = ''disabled_chain'', tag_Mtime = 0, tag_Ctime = 0\<rparr>],
        [((''chain'', ''disabled_chain''), attr_key_item (''chain'', ''disabled_chain''))], 0)"
  by (simp add: ScanTagItems_def attr_admin_def aws.defs attr_aws_def tag_filter_def attr_key_item_def attr_key_def
      text_of_def pk_def sk_def)

end
