(* ===== verification/Interference.thy ===== *)
theory Interference
  imports Simulation
begin

section \<open>One chain's part of the server\<close>

text \<open>
  The rows of one client, and the cache entries under its keys. Every operation of the
  SQLite store for a client, and every operation of the in-memory cache on its keys, does
  on this part alone exactly what it does on the whole: it reads nothing else, and answers
  the same. With the laws of Simulation this carries over to whole requests.
\<close>

definition own_rows :: "string \<Rightarrow> SQLiteStore \<Rightarrow> SQLiteStore" where
  "own_rows c s =
     \<lparr> sync_entities = filter (\<lambda>r. c_client_id r = c) (sync_entities s),
       unique_tags = filter (\<lambda>r. t_client_id r = c) (unique_tags s),
       client_item_counts = filter (\<lambda>r. n_client_id r = c) (client_item_counts s) \<rparr>"

lemma own_rows_simps [simp]:
  "sync_entities (own_rows c s) = filter (\<lambda>r. c_client_id r = c) (sync_entities s)"
  "unique_tags (own_rows c s) = filter (\<lambda>r. t_client_id r = c) (unique_tags s)"
  "client_item_counts (own_rows c s) = filter (\<lambda>r. n_client_id r = c) (client_item_counts s)"
  by (simp_all add: own_rows_def)

lemma own_rows_view: "own_rows c s = own_rows c s' \<longleftrightarrow> client_view s c = client_view s' c"
  by (auto simp: own_rows_def client_view_def)

subsection \<open>Statements\<close>

text \<open>A list operation that only looks at elements which a filter keeps.\<close>

lemma find_kept [simp]: "find (\<lambda>x. P x \<and> Q x) (filter P xs) = find (\<lambda>x. P x \<and> Q x) xs"
  by (induction xs) auto

lemma find_kept_all [simp]: "find P (filter P xs) = find P xs"
  by (induction xs) auto

lemma list_ex_filter [simp]: "list_ex (\<lambda>x. P x \<and> Q x) (filter P xs) = list_ex (\<lambda>x. P x \<and> Q x) xs"
  by (induction xs) auto

lemma filter_map_same: "(\<And>x. Q (f x) = Q x) \<Longrightarrow> filter Q (map f xs) = map f (filter Q xs)"
  by (induction xs) auto

lemma own_find_row [simp]: "find_row c i (own_rows c s) = find_row c i s"
  by (simp add: find_row_def entity_key_def)

lemma own_find_counts [simp]: "find_counts c (own_rows c s) = find_counts c s"
  by (simp add: find_counts_def)

lemma own_has_tag [simp]: "has_tag c i (own_rows c s) = has_tag c i s"
  by (simp add: has_tag_def tag_key_def)

lemma own_select_updates [simp]: "select_updates t tok ff c now (own_rows c s) = select_updates t tok ff c now s"
  by (auto simp: select_updates_def is_update_def intro!: arg_cong [where f = "sort_key row_mtime"] filter_cong)

lemma own_count_history [simp]: "count_history c now (own_rows c s) = count_history c now s"
  by (auto simp: count_history_def intro!: arg_cong [where f = length] filter_cong)

lemma own_count_normal [simp]: "count_normal c (own_rows c s) = count_normal c s"
  by (auto simp: count_normal_def intro!: arg_cong [where f = length] filter_cong)

lemma own_insert_tag_row:
  "insert_tag_row E c i now (own_rows c s) = map_sum id (own_rows c) (insert_tag_row E c i now s)"
  by (auto simp: insert_tag_row_def own_rows_def tag_key_def)

lemma own_insert_entity_row:
  "c_client_id row = c \<Longrightarrow> insert_entity_row E row (own_rows c s) = map_sum id (own_rows c) (insert_entity_row E row s)"
  by (auto simp: insert_entity_row_def own_rows_def entity_key_def)

lemma own_update_row: "ClientID e = c \<Longrightarrow> update_entity_row e (own_rows c s) = own_rows c (update_entity_row e s)"
  by (auto simp: update_entity_row_def own_rows_def filter_map_same update_columns_def)

lemma own_delete_tag: "delete_tag c i (own_rows c s) = own_rows c (delete_tag c i s)"
  by (auto simp: delete_tag_def own_rows_def conj_commute)

lemma own_upsert_counts: "n_client_id row = c \<Longrightarrow> upsert_counts row (own_rows c s) = own_rows c (upsert_counts row s)"
  by (auto simp: upsert_counts_def own_rows_def filter_map_same find_counts_def)

lemma own_upsert_marker: "upsert_marker c now (own_rows c s) = own_rows c (upsert_marker c now s)"
  by (auto simp: upsert_marker_def own_rows_def filter_map_same disabled_marker_def find_row_def entity_key_def)

lemma own_clear:
  "clear_tags c (own_rows c s) = own_rows c (clear_tags c s)"
  "clear_counts c (own_rows c s) = own_rows c (clear_counts c s)"
  "clear_entities c (own_rows c s) = own_rows c (clear_entities c s)"
  by (simp_all add: clear_tags_def clear_counts_def clear_entities_def own_rows_def conj_commute)

lemma stmt_map: "stmt E n (map_sum id f r) = apfst (map_sum id f) (stmt E n r)"
  by (simp add: stmt_def split: option.split)

lemma stmt_own: "stmt E n (Inr (own_rows c s)) = apfst (map_sum id (own_rows c)) (stmt E n (Inr s))"
  by (simp add: stmt_def split: option.split)

subsection \<open>Operations of the store\<close>

lemmas run_split = prod.split sum.split option.split

lemma own_insert_client_tag:
  "ClientID e = c \<Longrightarrow>
   insert_client_tag E e (own_rows c s) n = apfst (map_sum id (own_rows c)) (insert_client_tag E e s n)"
  by (auto simp: insert_client_tag_def own_insert_tag_row stmt_map split: option.split)

lemma own_insertSyncEntity:
  "ClientID e = c \<Longrightarrow>
   insertSyncEntity E e (own_rows c s) n = apfst (map_sum id (own_rows c)) (insertSyncEntity E e s n)"
  by (simp add: insertSyncEntity_def own_insert_entity_row stmt_map row_of_entity_def)

lemma own_insert:
  "ClientID e = c \<Longrightarrow> op_map (own_rows c) (sql_InsertSyncEntity E e) (sql_InsertSyncEntity E e)"
  by (rule op_map_eqI)
    (simp add: sql_InsertSyncEntity_def own_insert_client_tag own_insertSyncEntity split: run_split)

lemma own_insert_with_tags:
  "\<forall>e \<in> set es. ClientID e = c \<Longrightarrow>
   insert_with_server_tags E now es (own_rows c s) n
     = apfst (map_sum id (own_rows c)) (insert_with_server_tags E now es s n)"
  by (induction es arbitrary: s n)
    (simp_all add: own_insert_tag_row stmt_map own_insertSyncEntity split: run_split)

lemma own_insert_tags:
  "\<forall>e \<in> set es. ClientID e = c \<Longrightarrow>
   op_map (own_rows c) (sql_InsertSyncEntitiesWithServerTags E es) (sql_InsertSyncEntitiesWithServerTags E es)"
  by (rule op_map_eqI)
    (simp add: sql_InsertSyncEntitiesWithServerTags_def own_insert_with_tags split: run_split)

lemma own_delete_client_tag:
  "ClientID e = c \<Longrightarrow>
   delete_client_tag E e (own_rows c s) n = apfst (map_sum id (own_rows c)) (delete_client_tag E e s n)"
  by (auto simp: delete_client_tag_def own_delete_tag stmt_own split: option.split bool.split)

lemma own_update:
  "ClientID e = c \<Longrightarrow> op_map (own_rows c) (sql_UpdateSyncEntity E e v) (sql_UpdateSyncEntity E e v)"
  by (rule op_map_eqI)
    (simp add: sql_UpdateSyncEntity_def own_update_row own_delete_client_tag stmt_own Let_def split: run_split)

lemma own_get_updates:
  "op_map (own_rows c) (sql_GetUpdatesForType E t tok ff c m) (sql_GetUpdatesForType E t tok ff c m)"
  by (rule op_map_eqI) (simp add: sql_GetUpdatesForType_def Let_def split: run_split)

lemma own_has_server_tag:
  "op_map (own_rows c) (sql_HasServerDefinedUniqueTag E c tag) (sql_HasServerDefinedUniqueTag E c tag)"
  by (rule op_map_eqI) (simp add: sql_HasServerDefinedUniqueTag_def split: run_split)

lemma own_has_item: "op_map (own_rows c) (sql_HasItem E c i) (sql_HasItem E c i)"
  by (rule op_map_eqI) (simp add: sql_HasItem_def split: run_split)

lemma own_is_disabled: "op_map (own_rows c) (sql_IsSyncChainDisabled E c) (sql_IsSyncChainDisabled E c)"
  by (rule op_map_eqI) (simp add: sql_IsSyncChainDisabled_def split: run_split)

lemma own_init_counts:
  "cnt_ClientID k = c \<Longrightarrow>
   op_map (own_rows c) (initRealCountsAndUpdateHistoryCounts E k) (initRealCountsAndUpdateHistoryCounts E k)"
  by (rule op_map_eqI) (simp add: initRealCountsAndUpdateHistoryCounts_def Let_def split: run_split)

lemma find_counts_client: "find_counts c s = Some r \<Longrightarrow> n_client_id r = c"
  by (auto simp: find_counts_def find_Some_iff)

lemma own_get_counts: "op_map (own_rows c) (sql_GetClientItemCount E c) (sql_GetClientItemCount E c)"
proof (rule op_map_eqI)
  fix s n
  have "cnt_ClientID (case find_counts c s of None \<Rightarrow> zero_counts c | Some r \<Rightarrow> counts_of_row r) = c"
    by (auto simp: zero_counts_def counts_of_row_def dest: find_counts_client split: option.split)
  from op_map_eq [OF own_init_counts [OF this]]
  show "sql_GetClientItemCount E c (own_rows c s) n
      = (case sql_GetClientItemCount E c s n of (r, s', n') \<Rightarrow> (r, own_rows c s', n'))"
    by (simp add: sql_GetClientItemCount_def stmt_def split: option.splits)
qed

lemma own_counts:
  "cnt_ClientID k = c \<Longrightarrow>
   op_map (own_rows c) (sql_UpdateClientItemCount E k a b) (sql_UpdateClientItemCount E k a b)"
  by (rule op_map_eqI)
    (simp add: sql_UpdateClientItemCount_def own_upsert_counts row_of_counts_def add_counts_def stmt_own split: run_split)

lemma own_clear_data: "op_map (own_rows c) (sql_ClearServerData E c) (sql_ClearServerData E c)"
  by (rule op_map_eqI) (simp add: sql_ClearServerData_def own_clear stmt_own split: run_split)

lemma own_disable: "op_map (own_rows c) (sql_DisableSyncChain E c) (sql_DisableSyncChain E c)"
  by (rule op_map_eqI) (simp add: sql_DisableSyncChain_def own_upsert_marker stmt_own split: run_split)

lemma clear_data_client:
  "sql_ClearServerData E c s n = (Inr es, s', n') \<Longrightarrow> e \<in> set es \<Longrightarrow> ClientID e = c"
  by (auto simp: sql_ClearServerData_def stmt_def scanEntity_def split: run_split option.splits)

interpretation own_store: datastore_simulation sqlite sqlite "own_rows c" "{c}" for c
proof unfold_locales
  fix c' E d n k d' n'
  assume "c' \<in> {c}" "ds_GetClientItemCount sqlite E c' d n = (Inr k, d', n')"
  then show "cnt_ClientID k \<in> {c}" using sqlite_frame.get_counts_client by auto
qed (auto simp: own_insert own_insert_tags own_update own_get_updates own_has_server_tag own_get_counts own_counts
    own_clear_data own_disable own_is_disabled own_has_item dest: clear_data_client)

subsection \<open>Operations of the cache\<close>

definition own_entries :: "string \<Rightarrow> MemoryRedis \<Rightarrow> MemoryRedis" where
  "own_entries c m = m\<lparr>mr_kv := mr_kv m |` {k. own_key c k}\<rparr>"

lemma own_entries_kv [simp]: "mr_kv (own_entries c m) k = (if own_key c k then mr_kv m k else None)"
  by (simp add: own_entries_def restrict_map_def)

lemma own_entries_upd [simp]:
  "own_key c k \<Longrightarrow> own_entries c (m\<lparr>mr_kv := (mr_kv m)(k := v)\<rparr>)
     = (own_entries c m)\<lparr>mr_kv := (mr_kv (own_entries c m))(k := v)\<rparr>"
  by (auto simp: own_entries_def restrict_map_def fun_eq_iff intro!: arg_cong [where f = "\<lambda>f. m\<lparr>mr_kv := f\<rparr>"])

lemma own_drop:
  "own_key c k \<Longrightarrow>
   dropIfExpiredLocked E k (own_entries c m) n = apfst (own_entries c) (dropIfExpiredLocked E k m n)"
  by (simp add: dropIfExpiredLocked_def split: option.split)

lemma own_set: "own_key c k \<Longrightarrow> op_map (own_entries c) (mem_Set E k v ttl) (mem_Set E k v ttl)"
  by (rule op_map_eqI) (simp add: mem_Set_def)

lemma own_incr: "own_key c k \<Longrightarrow> op_map (own_entries c) (mem_Incr E k b) (mem_Incr E k b)"
  by (rule op_map_eqI) (simp add: mem_Incr_def own_drop Let_def split: run_split)

lemma own_get: "own_key c k \<Longrightarrow> op_map (own_entries c) (mem_Get E k del) (mem_Get E k del)"
  by (rule op_map_eqI) (simp add: mem_Get_def own_drop split: run_split)

lemma own_del_fold:
  "\<forall>k \<in> set ks. own_key c k \<Longrightarrow>
   foldl (\<lambda>m key. m\<lparr>mr_kv := (mr_kv m)(key := None)\<rparr>) (own_entries c m) ks
     = own_entries c (foldl (\<lambda>m key. m\<lparr>mr_kv := (mr_kv m)(key := None)\<rparr>) m ks)"
  by (induction ks arbitrary: m) (simp_all flip: own_entries_upd)

lemma own_del: "\<forall>k \<in> set ks. own_key c k \<Longrightarrow> op_map (own_entries c) (mem_Del E ks) (mem_Del E ks)"
  by (rule op_map_eqI) (simp add: mem_Del_def own_del_fold)

interpretation own_cache: redis_simulation memory_redis memory_redis "own_entries c" "{c}" for c
  by unfold_locales (simp_all add: own_set own_incr own_get own_del)

interpretation own_part: server_simulation sqlite sqlite "own_rows c" memory_redis memory_redis "own_entries c" "{c}" c
  for c
  by unfold_locales simp

end
