(* ===== verification/Interference_Props.thy ===== *)
theory Interference_Props
  imports Interference Instrumented_Props Http_Props
begin

section \<open>Concurrent requests of different chains\<close>

text \<open>
  A server handles its requests concurrently: between any two operations of one request on
  the store or the cache, other requests run theirs. The operations themselves are atomic
  (a transaction, or a method under the mutex of the cache). The theory states that a chain
  does not notice the others.
\<close>

subsection \<open>Operations with others in between\<close>

text \<open>What others did to the state before the operation at step \<open>n\<close>.\<close>

definition between :: "(nat \<Rightarrow> 's \<Rightarrow> 's) \<Rightarrow> ('s, 'r) op \<Rightarrow> ('s, 'r) op" where
  "between others f s n = f (others n s) n"

definition concurrent_store :: "(nat \<Rightarrow> 'd \<Rightarrow> 'd) \<Rightarrow> 'd datastore \<Rightarrow> 'd datastore" where
  "concurrent_store others ds =
     \<lparr> ds_InsertSyncEntity = (\<lambda>E e. between others (ds_InsertSyncEntity ds E e)),
       ds_InsertSyncEntitiesWithServerTags = (\<lambda>E es. between others (ds_InsertSyncEntitiesWithServerTags ds E es)),
       ds_UpdateSyncEntity = (\<lambda>E e v. between others (ds_UpdateSyncEntity ds E e v)),
       ds_GetUpdatesForType = (\<lambda>E t tok ff c m. between others (ds_GetUpdatesForType ds E t tok ff c m)),
       ds_HasServerDefinedUniqueTag = (\<lambda>E c tag. between others (ds_HasServerDefinedUniqueTag ds E c tag)),
       ds_GetClientItemCount = (\<lambda>E c. between others (ds_GetClientItemCount ds E c)),
       ds_UpdateClientItemCount = (\<lambda>E k a b. between others (ds_UpdateClientItemCount ds E k a b)),
       ds_ClearServerData = (\<lambda>E c. between others (ds_ClearServerData ds E c)),
       ds_DisableSyncChain = (\<lambda>E c. between others (ds_DisableSyncChain ds E c)),
       ds_IsSyncChainDisabled = (\<lambda>E c. between others (ds_IsSyncChainDisabled ds E c)),
       ds_HasItem = (\<lambda>E c i. between others (ds_HasItem ds E c i)) \<rparr>"

definition concurrent_cache :: "(nat \<Rightarrow> 'c \<Rightarrow> 'c) \<Rightarrow> 'c redis_client \<Rightarrow> 'c redis_client" where
  "concurrent_cache others rc =
     \<lparr> rc_Set = (\<lambda>E k v ttl. between others (rc_Set rc E k v ttl)),
       rc_Incr = (\<lambda>E k b. between others (rc_Incr rc E k b)),
       rc_Get = (\<lambda>E k del. between others (rc_Get rc E k del)),
       rc_Del = (\<lambda>E ks. between others (rc_Del rc E ks)),
       rc_FlushAll = (\<lambda>E. between others (rc_FlushAll rc E)) \<rparr>"

text \<open>Others only run operations for their own clients: on the store, and on the cache.\<close>

inductive cache_step :: "string \<Rightarrow> MemoryRedis \<Rightarrow> MemoryRedis \<Rightarrow> bool" where
  cache_set: "own_key c k \<Longrightarrow> mem_Set E k v ttl m n = (r1, m', n') \<Longrightarrow> cache_step c m m'"
| cache_incr: "own_key c k \<Longrightarrow> mem_Incr E k b m n = (r2, m', n') \<Longrightarrow> cache_step c m m'"
| cache_get: "own_key c k \<Longrightarrow> mem_Get E k del m n = (r3, m', n') \<Longrightarrow> cache_step c m m'"
| cache_del: "\<forall>k \<in> set ks. own_key c k \<Longrightarrow> mem_Del E ks m n = (r4, m', n') \<Longrightarrow> cache_step c m m'"

inductive cache_run :: "string list \<Rightarrow> MemoryRedis \<Rightarrow> MemoryRedis \<Rightarrow> bool" where
  cache_run_empty: "cache_run [] m m"
| cache_run_step: "cache_step c m m' \<Longrightarrow> cache_run cs m' m'' \<Longrightarrow> cache_run (c # cs) m m''"

definition store_of_others :: "string \<Rightarrow> (nat \<Rightarrow> SQLiteStore \<Rightarrow> SQLiteStore) \<Rightarrow> bool" where
  "store_of_others c others \<longleftrightarrow> (\<forall>n s. \<exists>cs. c \<notin> set cs \<and> db_run cs s (others n s))"

text \<open>Client IDs are hexadecimal, in particular without \<open>#\<close>.\<close>

definition cache_of_others :: "string \<Rightarrow> (nat \<Rightarrow> MemoryRedis \<Rightarrow> MemoryRedis) \<Rightarrow> bool" where
  "cache_of_others c others \<longleftrightarrow> CHR ''#'' \<notin> set c \<and>
     (\<forall>n m. \<exists>cs. c \<notin> set cs \<and> (\<forall>c' \<in> set cs. CHR ''#'' \<notin> set c') \<and> cache_run cs m (others n m))"

subsection \<open>They leave the chain's part alone\<close>

lemma own_key_one:
  assumes "own_key c k" "own_key c' k" "CHR ''#'' \<notin> set c" "CHR ''#'' \<notin> set c'"
  shows "c = c'"
proof -
  have "k = c @ CHR ''#'' # drop (length c + 1) k" "k = c' @ CHR ''#'' # drop (length c' + 1) k"
    using assms(1,2) append_take_drop_id [of "length c + 1" k] append_take_drop_id [of "length c' + 1" k]
    by (auto simp: own_key_def simp del: append_take_drop_id)
  then show ?thesis using key_split [OF assms(3,4)] by metis
qed

lemma own_entries_eqI: "(\<And>k. own_key c k \<Longrightarrow> mr_kv m k = mr_kv m' k) \<Longrightarrow> own_entries c m = own_entries c m'"
  by (auto simp: own_entries_def restrict_map_def fun_eq_iff intro!: MemoryRedis.equality)

lemma cache_step_other:
  assumes "cache_step c' m m'" "c \<noteq> c'" "CHR ''#'' \<notin> set c" "CHR ''#'' \<notin> set c'"
  shows "own_entries c m' = own_entries c m"
proof (rule own_entries_eqI)
  fix j assume j: "own_key c j"
  then have other: "j \<noteq> k" if "own_key c' k" for k using own_key_one that assms(2-4) by blast
  from assms(1) show "mr_kv m' j = mr_kv m j"
  proof cases
    case (cache_del ks E n r4 n')
    then have "j \<notin> set ks" using other by blast
    with cache_del show ?thesis by (auto simp: mem_Del_def del_fold)
  qed (use other in \<open>auto simp: mem_Set_def mem_Incr_def mem_Get_def dropIfExpiredLocked_def Let_def
      split: if_splits option.splits sum.splits\<close>)
qed

lemma cache_run_other:
  "cache_run cs m m' \<Longrightarrow> c \<notin> set cs \<Longrightarrow> CHR ''#'' \<notin> set c \<Longrightarrow> \<forall>c' \<in> set cs. CHR ''#'' \<notin> set c' \<Longrightarrow>
   own_entries c m' = own_entries c m"
  by (induction rule: cache_run.induct) (auto dest: cache_step_other)

lemma quiet_store: "store_of_others c others \<Longrightarrow> own_rows c (others n s) = own_rows c s"
  unfolding store_of_others_def own_rows_view using interleaved_view by blast

lemma quiet_cache: "cache_of_others c others \<Longrightarrow> own_entries c (others n m) = own_entries c m"
proof -
  assume others: "cache_of_others c others"
  then have c: "CHR ''#'' \<notin> set c" by (simp add: cache_of_others_def)
  from others obtain cs where "c \<notin> set cs \<and> (\<forall>c' \<in> set cs. CHR ''#'' \<notin> set c') \<and> cache_run cs m (others n m)"
    unfolding cache_of_others_def by metis
  then show ?thesis using cache_run_other [of cs m "others n m" c] c by simp
qed

lemma between_sim:
  assumes "\<And>n s. part (others n s) = part s" and "op_map part f g"
  shows "op_map part (between others f) g"
proof (rule op_mapI)
  fix s n r s' n'
  assume "between others f s n = (r, s', n')"
  then have "f (others n s) n = (r, s', n')" by (simp add: between_def)
  from op_mapD [OF assms(2) this] show "g (part s) n = (r, part s', n')" by (simp add: assms(1))
qed

lemma concurrent_sim:
  assumes "store_of_others c I" and "cache_of_others c J"
  shows "server_simulation (concurrent_store I sqlite) sqlite (own_rows c)
    (concurrent_cache J memory_redis) memory_redis (own_entries c) {c} c"
proof unfold_locales
  fix c' E d n k d' n'
  assume "c' \<in> {c}" "ds_GetClientItemCount (concurrent_store I sqlite) E c' d n = (Inr k, d', n')"
  then show "cnt_ClientID k \<in> {c}"
    using sqlite_frame.get_counts_client by (auto simp: concurrent_store_def between_def)
next
  fix c' E d n es d' n' e
  assume "c' \<in> {c}" "ds_ClearServerData (concurrent_store I sqlite) E c' d n = (Inr es, d', n')" "e \<in> set es"
  then show "ClientID e \<in> {c}"
    using clear_data_client by (auto simp: concurrent_store_def between_def)
qed (simp_all add: concurrent_store_def concurrent_cache_def
    between_sim [where part = "own_rows c" and others = I, OF quiet_store [OF assms(1)]]
    between_sim [where part = "own_entries c" and others = J, OF quiet_cache [OF assms(2)]]
    own_insert own_insert_tags own_update own_get_updates own_has_server_tag own_get_counts own_counts
    own_clear_data own_disable own_is_disabled own_has_item own_set own_incr own_get own_del)

subsection \<open>A chain does not notice the others\<close>

text \<open>
  C4: Concurrent requests of different chains do not affect each other. Whatever operations
  for other chains run between any two operations of a request on the SQLite store and the
  in-memory cache, the HTTP handler answers the request of a chain exactly as if it ran
  alone (with the same response, or the same panic, or without ever returning), and leaves
  the chain's rows and cache entries exactly as it would alone.
\<close>

theorem concurrent_as_alone:
  assumes "requester A E r (seq s) = Some c" and "store_of_others c I" and "cache_of_others c J"
  shows "map_option (apsnd (map_sys (own_rows c) (own_entries c)))
      (commandHandler A W (concurrent_store I sqlite) (concurrent_cache J memory_redis) E r s)
    = map_option (apsnd (map_sys (own_rows c) (own_entries c)))
      (commandHandler A W sqlite memory_redis E r s)"
proof -
  have one: "a = c" if "Authorize A E (rq_Authorization r) (seq s) = (Return (Inr a), n)" for a n
    using assms(1) that unfolding requester_authorized by simp
  show ?thesis
    using server_simulation.handler_eq [OF concurrent_sim [OF assms(2,3)] one]
      server_simulation.handler_eq [OF own_part.server_simulation_axioms one] by simp
qed

text \<open>
  The same below the HTTP layer, for any message of the chain.
\<close>

theorem concurrent_request_as_alone:
  assumes "store_of_others c I" and "cache_of_others c J"
  shows "map_option (apsnd (map_sys (own_rows c) (own_entries c)))
      (HandleClientToServerMessage (concurrent_store I sqlite) (concurrent_cache J memory_redis) E pb rsp c s)
    = map_option (apsnd (map_sys (own_rows c) (own_entries c)))
      (HandleClientToServerMessage sqlite memory_redis E pb rsp c s)"
  using server_simulation.request_eq [OF concurrent_sim [OF assms]] own_part.request_eq by simp

text \<open>Another chain is disabled, and its cached times set, before every operation.\<close>

definition other_disables :: "nat \<Rightarrow> SQLiteStore \<Rightarrow> SQLiteStore" where
  "other_disables n s = fst (snd (sql_DisableSyncChain sample_env ''other'' s n))"

definition other_caches :: "nat \<Rightarrow> MemoryRedis \<Rightarrow> MemoryRedis" where
  "other_caches n m = fst (snd (mem_Set sample_env (GetTypeMtimeKey ''other'' 32904) ''7'' 0 m n))"

lemma other_disables_ok: "c \<noteq> ''other'' \<Longrightarrow> store_of_others c other_disables"
  unfolding store_of_others_def
proof (intro allI exI [of _ "[''other'']"] conjI)
  fix n s
  obtain r s' n' where d: "sql_DisableSyncChain sample_env ''other'' s n = (r, s', n')" by (metis prod_cases3)
  from step_disable [OF this] have "db_step ''other'' s (other_disables n s)"
    by (simp add: other_disables_def d)
  then show "db_run [''other''] s (other_disables n s)" by (simp add: db_run_Cons)
qed simp

lemma other_caches_ok: "c \<noteq> ''other'' \<Longrightarrow> CHR ''#'' \<notin> set c \<Longrightarrow> cache_of_others c other_caches"
  unfolding cache_of_others_def
proof (intro conjI allI exI [of _ "[''other'']"])
  fix n m
  obtain r m' n' where d: "mem_Set sample_env (GetTypeMtimeKey ''other'' 32904) ''7'' 0 m n = (r, m', n')"
    by (metis prod_cases3)
  from cache_set [OF own_keys(1) this] have "cache_step ''other'' m (other_caches n m)"
    by (simp add: other_caches_def d)
  then show "cache_run [''other''] m (other_caches n m)" by (auto intro: cache_run.intros)
qed auto

lemma sample_client_no_hash: "CHR ''#'' \<notin> set (hex_encode sample_key)" "hex_encode sample_key \<noteq> ''other''"
proof -
  have "list_all (\<lambda>x. hex_val x \<noteq> None) (hex_encode sample_key)"
    using sample_key_facts(1) by (auto simp: is_hex_def list_all_iff)
  moreover have "hex_val (CHR ''#'') = None" "hex_val (CHR ''o'') = None" by (simp_all add: hex_val_def)
  ultimately show "CHR ''#'' \<notin> set (hex_encode sample_key)" "hex_encode sample_key \<noteq> ''other''"
    by (auto simp: list_all_iff)
qed

lemma concurrent_as_alone_witness:
  "\<exists>out s1 s2.
     commandHandler sample_auth sample_wire (concurrent_store other_disables sqlite)
       (concurrent_cache other_caches memory_redis) sample_env sample_request (sys_of sample_store) = Some (out, s1) \<and>
     commandHandler sample_auth sample_wire sqlite memory_redis sample_env sample_request (sys_of sample_store)
       = Some (out, s2) \<and>
     own_rows (hex_encode sample_key) (db s1) = own_rows (hex_encode sample_key) (db s2)"
proof -
  let ?c = "hex_encode sample_key"
  have req: "requester sample_auth sample_env sample_request (seq (sys_of sample_store)) = Some ?c"
    using sample_requester by (simp add: sys_of_def)
  obtain out s2 where alone: "commandHandler sample_auth sample_wire sqlite memory_redis sample_env sample_request
      (sys_of sample_store) = Some (out, s2)" using sample_served by blast
  from concurrent_as_alone [OF req other_disables_ok other_caches_ok, of sample_wire] alone
  show ?thesis by (auto simp: sample_client_no_hash map_sys_def)
qed

end
