(* ===== verification/Sqlite_Open.thy ===== *)
theory Sqlite_Open
  imports Sqlite_Correct Sample_Env
begin

section \<open>Opening the SQLite store (sync-lite/sqlite\_store.go)\<close>

text \<open>
  \<open>NewSQLiteStore\<close>: opening the file, creating what is missing of the schema, and a first
  checkpoint of the write-ahead log. A database file may hold any of the tables, for
  instance when an earlier opening failed between two statements.
\<close>

record db_file =
  f_entities :: "entity_row list option"
  f_updates_index :: bool
  f_tags :: "tag_row list option"
  f_counts :: "count_row list option"

definition new_file :: db_file where
  "new_file = \<lparr>f_entities = None, f_updates_index = False, f_tags = None, f_counts = None\<rparr>"

definition create_if_not_exists :: "'a list option \<Rightarrow> 'a list option" where
  "create_if_not_exists t = (case t of None \<Rightarrow> Some [] | Some rows \<Rightarrow> Some rows)"

definition schema_stmts :: "(db_file \<Rightarrow> db_file) list" where
  "schema_stmts =
     [\<lambda>f. f\<lparr>f_entities := create_if_not_exists (f_entities f)\<rparr>,
      \<lambda>f. f\<lparr>f_updates_index := True\<rparr>,
      \<lambda>f. f\<lparr>f_tags := create_if_not_exists (f_tags f)\<rparr>,
      \<lambda>f. f\<lparr>f_counts := create_if_not_exists (f_counts f)\<rparr>]"

text \<open>The loop over the statements, which stops at the first error.\<close>

fun exec_stmts :: "env \<Rightarrow> (db_file \<Rightarrow> db_file) list \<Rightarrow> (db_file, error option) op" where
  "exec_stmts E [] f n = (None, f, n)"
| "exec_stmts E (st # sts) f n =
     (case db_fault E n of
        Some err \<Rightarrow> (Some err, f, Suc n)
      | None \<Rightarrow> exec_stmts E sts (st f) (Suc n))"

definition init_schema :: "env \<Rightarrow> (db_file, error option) op" where
  "init_schema E = exec_stmts E schema_stmts"

definition CheckpointTruncate :: "env \<Rightarrow> (db_file, error option) op" where
  "CheckpointTruncate E f n = (db_fault E n, f, Suc n)"

text \<open>The rows of a file; a missing table has none.\<close>

definition rows_of :: "'a list option \<Rightarrow> 'a list" where
  "rows_of t = (case t of None \<Rightarrow> [] | Some rows \<Rightarrow> rows)"

definition file_rows :: "db_file \<Rightarrow> SQLiteStore" where
  "file_rows f =
     \<lparr>sync_entities = rows_of (f_entities f), unique_tags = rows_of (f_tags f),
      client_item_counts = rows_of (f_counts f)\<rparr>"

text \<open>
  \<open>sql_open\<close> is the answer of \<open>sql.Open\<close> for the data source name. With an error after it
  the handle is closed again (the flag of the result), and the file stays as it is then.
\<close>

definition NewSQLiteStore ::
  "(string \<Rightarrow> error option) \<Rightarrow> env \<Rightarrow> string \<Rightarrow> (db_file, (error + SQLiteStore) \<times> bool) op" where
  "NewSQLiteStore sql_open E path f n =
     (case sql_open (''file:'' @ path @ ''?_pragma=busy_timeout(5000)&_pragma=journal_mode(WAL)'') of
        Some err \<Rightarrow> ((Inl err, False), f, n)
      | None \<Rightarrow>
     (case init_schema E f n of
        (Some err, f, n) \<Rightarrow> ((Inl err, True), f, n)
      | (None, f, n) \<Rightarrow>
     (case CheckpointTruncate E f n of
        (Some err, f, n) \<Rightarrow> ((Inl err, True), f, n)
      | (None, f, n) \<Rightarrow> ((Inr (file_rows f), False), f, n))))"

subsection \<open>No opening loses data\<close>

lemma schema_stmts_rows: "st \<in> set schema_stmts \<Longrightarrow> file_rows (st f) = file_rows f"
  by (auto simp: schema_stmts_def file_rows_def rows_of_def create_if_not_exists_def split: option.split)

lemma exec_stmts_rows:
  "exec_stmts E sts f n = (r, f', n') \<Longrightarrow> set sts \<subseteq> set schema_stmts \<Longrightarrow> file_rows f' = file_rows f"
  by (induction sts arbitrary: f n) (auto simp: schema_stmts_rows split: option.splits)

text \<open>All tables and the index are there.\<close>

definition complete_file :: "db_file \<Rightarrow> bool" where
  "complete_file f \<longleftrightarrow> f_entities f \<noteq> None \<and> f_updates_index f \<and> f_tags f \<noteq> None \<and> f_counts f \<noteq> None"

lemma init_schema_complete: "init_schema E f n = (None, f', n') \<Longrightarrow> complete_file f'"
  by (auto simp: init_schema_def schema_stmts_def complete_file_def create_if_not_exists_def
      split: option.splits)

lemma opened_rows:
  assumes "NewSQLiteStore sql_open E path f n = ((res, closed), f', n')"
  shows "file_rows f' = file_rows f" and "res = Inr s \<Longrightarrow> s = file_rows f"
proof -
  obtain r f1 n1 where i: "init_schema E f n = (r, f1, n1)" by (metis prod_cases3)
  have rows: "file_rows f1 = file_rows f"
    using exec_stmts_rows [of E schema_stmts] i by (simp add: init_schema_def)
  show "file_rows f' = file_rows f" and "res = Inr s \<Longrightarrow> s = file_rows f"
    using assms i rows by (auto simp: NewSQLiteStore_def CheckpointTruncate_def split: option.splits)
qed

lemma opened_handle:
  assumes "NewSQLiteStore sql_open E path f n = ((res, closed), f', n')"
  shows "res = Inr s \<Longrightarrow> complete_file f' \<and> \<not> closed"
    and "res = Inl err \<Longrightarrow> closed \<or> sql_open (''file:'' @ path @ ''?_pragma=busy_timeout(5000)&_pragma=journal_mode(WAL)'') = Some err"
proof -
  obtain r f1 n1 where i: "init_schema E f n = (r, f1, n1)" by (metis prod_cases3)
  show "res = Inr s \<Longrightarrow> complete_file f' \<and> \<not> closed"
    and "res = Inl err \<Longrightarrow> closed \<or> sql_open (''file:'' @ path @ ''?_pragma=busy_timeout(5000)&_pragma=journal_mode(WAL)'') = Some err"
    using assms i init_schema_complete [of E f n f1 n1]
    by (auto simp: NewSQLiteStore_def CheckpointTruncate_def split: option.splits)
qed

text \<open>
  C32: Opening the store, at any file: no opening, failed halfway or not, changes the rows of
  the file. A success returns a store with exactly these rows (none for a new file), on a
  file that then has all tables and the index, with an open handle; and a failure after
  \<open>sql.Open\<close> closes the handle. So an opening that failed can be repeated.
\<close>

theorem open_keeps_rows:
  assumes "NewSQLiteStore sql_open E path f n = ((res, closed), f', n')"
  shows "file_rows f' = file_rows f \<and>
    (case res of
       Inr s \<Rightarrow> s = file_rows f \<and> complete_file f' \<and> \<not> closed
     | Inl err \<Rightarrow> closed \<or> sql_open (''file:'' @ path @ ''?_pragma=busy_timeout(5000)&_pragma=journal_mode(WAL)'') = Some err)"
  using opened_rows [OF assms] opened_handle [OF assms] by (cases res) auto

lemma open_keeps_rows_witness:
  "\<exists>f n. NewSQLiteStore (\<lambda>_. None) (sample_env\<lparr>db_fault := \<lambda>n. if n = 2 then Some ''disk full'' else None\<rparr>)
      ''sync-lite.db'' new_file 0 = ((Inl ''disk full'', True), f, n) \<and> file_rows f = file_rows new_file \<and> f \<noteq> new_file"
proof -
  let ?E = "sample_env\<lparr>db_fault := \<lambda>n. if n = 2 then Some ''disk full'' else None\<rparr>"
  obtain f n where run: "NewSQLiteStore (\<lambda>_. None) ?E ''sync-lite.db'' new_file 0 = ((Inl ''disk full'', True), f, n)"
    and new: "f \<noteq> new_file"
    by (simp add: NewSQLiteStore_def init_schema_def schema_stmts_def new_file_def create_if_not_exists_def)
  from open_keeps_rows [OF run] run new show ?thesis by auto
qed

end
