(* ===== verification/Lifecycle.thy ===== *)
theory Lifecycle
  imports Http Sqlite_Open
begin

section \<open>The life of a sync-lite process (sync-lite/main.go)\<close>

text \<open>
  \<open>main\<close> and the goroutine it starts for the shutdown, as one step relation. The main
  goroutine opens the store, checks the TLS settings, starts the other goroutine, and
  serves until \<open>ListenAndServe\<close> returns; then it waits for the other goroutine. That one
  waits for a signal, shuts the HTTP server down with a time limit, checkpoints the
  database and closes it. Requests run in goroutines of their own.

  Of \<open>http.Server\<close> the relation has the documented behaviour: \<open>Shutdown\<close> closes the
  listener and the idle connections at once, waits until no connection is in use or its
  context ends, and makes \<open>ListenAndServe\<close> return \<open>ErrServerClosed\<close>. A connection that was
  accepted and is not idle counts as a request in flight. Some requests never end (the
  device loop, a client that does not send its body). \<open>log.Fatal\<close> ends the process where it
  stands. Errors of the checkpoint and of closing the database are only logged, so what the
  two returned is recorded and nothing else depends on it; \<open>Close\<close> of a \<open>sql.DB\<close> ends its use
  whatever it returns.
\<close>

datatype main_at =
    At_open | At_tls | At_listen | At_wait | Stopped_cleanly | Fatal error

datatype shutdown_at =
    Not_started | Await_signal | In_Shutdown | At_checkpoint | At_close | Shutdown_done

datatype db_state = Db_unopened | Db_open | Db_closed

record life =
  l_main :: main_at
  l_shutdown :: shutdown_at
  l_signal :: bool
  l_listening :: bool
  l_closed :: bool
  l_in_flight :: nat
  l_hung :: nat
  l_timed_out :: bool
  l_checkpoint :: "error option option"
  l_close :: "error option option"
  l_db :: db_state

definition life_start :: life where
  "life_start =
     \<lparr>l_main = At_open, l_shutdown = Not_started, l_signal = False, l_listening = False, l_closed = False,
      l_in_flight = 0, l_hung = 0, l_timed_out = False, l_checkpoint = None, l_close = None, l_db = Db_unopened\<rparr>"

text \<open>The process has not ended.\<close>

definition alive :: "life \<Rightarrow> bool" where
  "alive s \<longleftrightarrow> (case l_main s of Stopped_cleanly \<Rightarrow> False | Fatal err \<Rightarrow> False | _ \<Rightarrow> True)"

inductive life_step :: "(string \<Rightarrow> string) \<Rightarrow> life \<Rightarrow> life \<Rightarrow> bool" for getenv where
  open_ok: "l_main s = At_open \<Longrightarrow>
    NewSQLiteStore sql_open E (getenvDefault getenv ''SQLITE_PATH'' ''./sync-lite.db'') f n
      = ((Inr store, closed), f', n') \<Longrightarrow>
    life_step getenv s (s\<lparr>l_main := At_tls, l_db := Db_open\<rparr>)"
| open_failed: "l_main s = At_open \<Longrightarrow>
    NewSQLiteStore sql_open E (getenvDefault getenv ''SQLITE_PATH'' ''./sync-lite.db'') f n
      = ((Inl err, closed), f', n') \<Longrightarrow>
    life_step getenv s (s\<lparr>l_main := Fatal (''init sqlite store failed: '' @ err)\<rparr>)"
| tls_bad: "l_main s = At_tls \<Longrightarrow> load_config getenv = Inl err \<Longrightarrow>
    life_step getenv s (s\<lparr>l_main := Fatal err\<rparr>)"
| tls_ok: "l_main s = At_tls \<Longrightarrow> load_config getenv = Inr cfg \<Longrightarrow>
    life_step getenv s (s\<lparr>l_main := At_listen, l_shutdown := Await_signal\<rparr>)"
| listen: "l_main s = At_listen \<Longrightarrow> \<not> l_closed s \<Longrightarrow> \<not> l_listening s \<Longrightarrow>
    life_step getenv s (s\<lparr>l_listening := True\<rparr>)"
| listen_failed: "l_main s = At_listen \<Longrightarrow>
    life_step getenv s (s\<lparr>l_main := Fatal (''server stopped: '' @ err)\<rparr>)"
| server_closed: "l_main s = At_listen \<Longrightarrow> l_closed s \<Longrightarrow>
    life_step getenv s (s\<lparr>l_main := At_wait\<rparr>)"
| stopped: "l_main s = At_wait \<Longrightarrow> l_shutdown s = Shutdown_done \<Longrightarrow>
    life_step getenv s (s\<lparr>l_main := Stopped_cleanly\<rparr>)"
| signal_comes: "alive s \<Longrightarrow> l_shutdown s \<noteq> Not_started \<Longrightarrow> \<not> l_signal s \<Longrightarrow>
    life_step getenv s (s\<lparr>l_signal := True\<rparr>)"
| request_comes: "alive s \<Longrightarrow> l_listening s \<Longrightarrow>
    life_step getenv s (s\<lparr>l_in_flight := Suc (l_in_flight s)\<rparr>)"
| hanging_comes: "alive s \<Longrightarrow> l_listening s \<Longrightarrow>
    life_step getenv s (s\<lparr>l_in_flight := Suc (l_in_flight s), l_hung := Suc (l_hung s)\<rparr>)"
| request_ends: "alive s \<Longrightarrow> l_hung s < l_in_flight s \<Longrightarrow>
    life_step getenv s (s\<lparr>l_in_flight := l_in_flight s - 1\<rparr>)"
| hanging_fails: "alive s \<Longrightarrow> l_db s = Db_closed \<Longrightarrow> 0 < l_hung s \<Longrightarrow>
    life_step getenv s (s\<lparr>l_in_flight := l_in_flight s - 1, l_hung := l_hung s - 1\<rparr>)"
| signal_read: "alive s \<Longrightarrow> l_shutdown s = Await_signal \<Longrightarrow> l_signal s \<Longrightarrow>
    life_step getenv s (s\<lparr>l_shutdown := In_Shutdown, l_signal := False, l_closed := True, l_listening := False\<rparr>)"
| shutdown_idle: "alive s \<Longrightarrow> l_shutdown s = In_Shutdown \<Longrightarrow> l_in_flight s = 0 \<Longrightarrow>
    life_step getenv s (s\<lparr>l_shutdown := At_checkpoint\<rparr>)"
| shutdown_timeout: "alive s \<Longrightarrow> l_shutdown s = In_Shutdown \<Longrightarrow>
    life_step getenv s (s\<lparr>l_shutdown := At_checkpoint, l_timed_out := True\<rparr>)"
| checkpoint: "alive s \<Longrightarrow> l_shutdown s = At_checkpoint \<Longrightarrow> CheckpointTruncate E f n = (res, f', n') \<Longrightarrow>
    life_step getenv s (s\<lparr>l_shutdown := At_close, l_checkpoint := Some res\<rparr>)"
| close_db: "alive s \<Longrightarrow> l_shutdown s = At_close \<Longrightarrow>
    life_step getenv s (s\<lparr>l_shutdown := Shutdown_done, l_close := Some err, l_db := Db_closed\<rparr>)"

inductive life_reachable :: "(string \<Rightarrow> string) \<Rightarrow> life \<Rightarrow> bool" for getenv where
  life_init: "life_reachable getenv life_start"
| life_next: "life_reachable getenv s \<Longrightarrow> life_step getenv s s' \<Longrightarrow> life_reachable getenv s'"

inductive_cases life_stepE: "life_step getenv s s'"

text \<open>Runs of a given length.\<close>

inductive life_run :: "(string \<Rightarrow> string) \<Rightarrow> nat \<Rightarrow> life \<Rightarrow> life \<Rightarrow> bool" for getenv where
  run_none: "life_run getenv 0 s s"
| run_more: "life_step getenv s s' \<Longrightarrow> life_run getenv k s' s'' \<Longrightarrow> life_run getenv (Suc k) s s''"

lemma run_reachable: "life_run getenv k s s' \<Longrightarrow> life_reachable getenv s \<Longrightarrow> life_reachable getenv s'"
  by (induction rule: life_run.induct) (blast intro: life_reachable.life_next)+

subsection \<open>The invariant\<close>

text \<open>
  What each program point of the shutdown says about the main goroutine, the server and the
  database. The main goroutine is before, in, or after \<open>ListenAndServe\<close>, or has ended.
\<close>

definition serving :: "main_at \<Rightarrow> bool" where
  "serving p = (case p of At_listen \<Rightarrow> True | Fatal err \<Rightarrow> True | _ \<Rightarrow> False)"

definition stopping :: "main_at \<Rightarrow> bool" where
  "stopping p = (case p of At_listen \<Rightarrow> True | At_wait \<Rightarrow> True | Fatal err \<Rightarrow> True | _ \<Rightarrow> False)"

definition drained :: "life \<Rightarrow> bool" where
  "drained s \<longleftrightarrow> l_closed s \<and> \<not> l_listening s \<and> (l_in_flight s = 0 \<or> l_timed_out s)"

definition not_closing :: "life \<Rightarrow> bool" where
  "not_closing s \<longleftrightarrow> l_checkpoint s = None \<and> l_close s = None"

fun phase_inv :: "shutdown_at \<Rightarrow> life \<Rightarrow> bool" where
  "phase_inv Not_started s \<longleftrightarrow> \<not> l_closed s \<and> \<not> l_listening s \<and> not_closing s \<and>
     (case l_main s of
        At_open \<Rightarrow> l_db s = Db_unopened
      | At_tls \<Rightarrow> l_db s = Db_open
      | Fatal err \<Rightarrow> l_db s \<noteq> Db_closed
      | _ \<Rightarrow> False)"
| "phase_inv Await_signal s \<longleftrightarrow> \<not> l_closed s \<and> not_closing s \<and> l_db s = Db_open \<and> serving (l_main s)"
| "phase_inv In_Shutdown s \<longleftrightarrow> l_closed s \<and> \<not> l_listening s \<and> not_closing s \<and> l_db s = Db_open \<and>
     stopping (l_main s)"
| "phase_inv At_checkpoint s \<longleftrightarrow> drained s \<and> not_closing s \<and> l_db s = Db_open \<and> stopping (l_main s)"
| "phase_inv At_close s \<longleftrightarrow> drained s \<and> l_checkpoint s \<noteq> None \<and> l_close s = None \<and> l_db s = Db_open \<and>
     stopping (l_main s)"
| "phase_inv Shutdown_done s \<longleftrightarrow> drained s \<and> l_checkpoint s \<noteq> None \<and> l_close s \<noteq> None \<and> l_db s = Db_closed \<and>
     (stopping (l_main s) \<or> l_main s = Stopped_cleanly)"

definition life_inv :: "life \<Rightarrow> bool" where
  "life_inv s \<longleftrightarrow> phase_inv (l_shutdown s) s \<and> l_hung s \<le> l_in_flight s"

lemma main_phase [simp]:
  "\<not> serving At_open" "\<not> serving At_tls" "serving At_listen" "\<not> serving At_wait"
  "\<not> serving Stopped_cleanly" "serving (Fatal err)"
  "\<not> stopping At_open" "\<not> stopping At_tls" "stopping At_listen" "stopping At_wait"
  "\<not> stopping Stopped_cleanly" "stopping (Fatal err)"
  by (simp_all add: serving_def stopping_def)

lemma serving_stopping: "serving p \<Longrightarrow> stopping p"
  by (cases p) simp_all

lemma life_inv_step: "life_step getenv s s' \<Longrightarrow> life_inv s \<Longrightarrow> life_inv s'"
  by (erule life_stepE; cases "l_shutdown s")
     (simp_all add: life_inv_def not_closing_def drained_def alive_def serving_stopping split: main_at.splits)

lemma reachable_inv: "life_reachable getenv s \<Longrightarrow> life_inv s"
proof (induction rule: life_reachable.induct)
  case life_init
  show ?case by (simp add: life_inv_def not_closing_def life_start_def)
next
  case (life_next s s')
  then show ?case by (simp add: life_inv_step)
qed

subsection \<open>How the process ends\<close>

text \<open>
  C30: The order of the shutdown, in every reachable state: the checkpoint is run, and the
  database closed after it, only when the server no longer listens and no request is in
  flight, unless the ten seconds of the shutdown ran out; until then the database is open;
  and the process stops cleanly only after both were called. What they returned is only
  logged, so a clean stop does not mean that they succeeded (the witness stops cleanly after
  a checkpoint that failed and with a request in flight).
\<close>

theorem clean_exit:
  assumes "life_reachable getenv s"
  shows "(l_checkpoint s \<noteq> None \<longrightarrow>
           l_closed s \<and> \<not> l_listening s \<and> (l_in_flight s = 0 \<or> l_timed_out s)) \<and>
         (l_close s \<noteq> None \<longrightarrow> l_checkpoint s \<noteq> None) \<and>
         (l_main s = Stopped_cleanly \<longrightarrow> l_close s \<noteq> None) \<and>
         (l_db s = Db_closed \<longleftrightarrow> l_close s \<noteq> None) \<and>
         (l_shutdown s \<in> {At_checkpoint, At_close} \<longrightarrow> l_db s = Db_open) \<and>
         (l_listening s \<longrightarrow> l_db s = Db_open)"
proof -
  have inv: "life_inv s" by (rule reachable_inv [OF assms])
  show ?thesis
    by (cases "l_shutdown s")
      (use inv in \<open>auto simp: life_inv_def not_closing_def drained_def split: main_at.splits\<close>)
qed

text \<open>
  A run of a server that is stopped with a request that never ends: with no settings in the
  environment, and a new database file.
\<close>

abbreviation (input) no_settings :: "string \<Rightarrow> string" where
  "no_settings \<equiv> \<lambda>_. []"

definition serving_state :: life where
  "serving_state = life_start\<lparr>l_main := At_listen, l_shutdown := Await_signal, l_db := Db_open\<rparr>"

definition closing_state :: life where
  "closing_state =
     serving_state\<lparr>l_shutdown := In_Shutdown, l_closed := True, l_in_flight := 1, l_hung := 1\<rparr>"

lemma serving_reachable: "life_reachable no_settings serving_state"
proof -
  have "\<exists>store f n. NewSQLiteStore (\<lambda>_. None) sample_env
      (getenvDefault no_settings ''SQLITE_PATH'' ''./sync-lite.db'') new_file 0 = ((Inr store, False), f, n)"
    by (simp add: NewSQLiteStore_def CheckpointTruncate_def init_schema_def schema_stmts_def sample_env_def)
  then have "life_step no_settings life_start (life_start\<lparr>l_main := At_tls, l_db := Db_open\<rparr>)"
    using life_step.open_ok [of life_start] by (auto simp: life_start_def)
  moreover have "\<exists>cfg. load_config no_settings = Inr cfg"
    by (simp add: load_config_def getenvDefault_def)
  then have "life_step no_settings (life_start\<lparr>l_main := At_tls, l_db := Db_open\<rparr>) serving_state"
    using life_step.tls_ok [of "life_start\<lparr>l_main := At_tls, l_db := Db_open\<rparr>" no_settings]
    by (auto simp: serving_state_def life_start_def)
  ultimately show ?thesis by (blast intro: life_reachable.intros)
qed

lemma closing_reachable: "life_reachable no_settings closing_state"
proof -
  let ?up = "serving_state\<lparr>l_listening := True\<rparr>"
  let ?busy = "?up\<lparr>l_in_flight := 1, l_hung := 1\<rparr>"
  have "life_step no_settings serving_state ?up"
    by (rule life_step.listen) (simp_all add: serving_state_def life_start_def)
  moreover have "life_step no_settings ?up ?busy"
    using life_step.hanging_comes [of ?up no_settings] by (simp add: serving_state_def life_start_def alive_def)
  moreover have "life_step no_settings ?busy (?busy\<lparr>l_signal := True\<rparr>)"
    by (rule life_step.signal_comes) (simp_all add: serving_state_def life_start_def alive_def)
  moreover have "life_step no_settings (?busy\<lparr>l_signal := True\<rparr>) closing_state"
    using life_step.signal_read [of "?busy\<lparr>l_signal := True\<rparr>" no_settings]
    by (simp add: closing_state_def serving_state_def life_start_def alive_def)
  ultimately show ?thesis using serving_reachable by (blast intro: life_reachable.life_next)
qed

text \<open>The steps of the shutdown after the time limit, with a checkpoint that fails.\<close>

definition late_checkpoint :: life where
  "late_checkpoint = closing_state\<lparr>l_shutdown := At_checkpoint, l_timed_out := True\<rparr>"

definition late_close :: life where
  "late_close = late_checkpoint\<lparr>l_shutdown := At_close, l_checkpoint := Some (Some ''disk I/O error'')\<rparr>"

definition late_closed :: life where
  "late_closed = late_close\<lparr>l_shutdown := Shutdown_done, l_close := Some None, l_db := Db_closed\<rparr>"

definition late_stopped :: life where
  "late_stopped = late_closed\<lparr>l_main := Stopped_cleanly\<rparr>"

lemmas late_defs = late_stopped_def late_closed_def late_close_def late_checkpoint_def closing_state_def
  serving_state_def life_start_def alive_def

lemma late_run:
  "life_step no_settings closing_state late_checkpoint"
  "life_step no_settings late_checkpoint late_close"
  "life_step no_settings late_close late_closed"
proof -
  show "life_step no_settings closing_state late_checkpoint"
    unfolding late_checkpoint_def by (rule life_step.shutdown_timeout) (simp_all add: late_defs)
  have "CheckpointTruncate (sample_env\<lparr>db_fault := \<lambda>n. Some ''disk I/O error''\<rparr>) new_file 0
      = (Some ''disk I/O error'', new_file, Suc 0)"
    by (simp add: CheckpointTruncate_def)
  then show "life_step no_settings late_checkpoint late_close"
    unfolding late_close_def by (rule life_step.checkpoint [rotated 2]) (simp_all add: late_defs)
  show "life_step no_settings late_close late_closed"
    unfolding late_closed_def by (rule life_step.close_db) (simp_all add: late_defs)
qed

lemma late_end: "life_step no_settings late_closed (late_closed\<lparr>l_main := At_wait\<rparr>)"
    "life_step no_settings (late_closed\<lparr>l_main := At_wait\<rparr>) late_stopped"
proof -
  show "life_step no_settings late_closed (late_closed\<lparr>l_main := At_wait\<rparr>)"
    by (rule life_step.server_closed) (simp_all add: late_defs)
  show "life_step no_settings (late_closed\<lparr>l_main := At_wait\<rparr>) late_stopped"
    using life_step.stopped [of "late_closed\<lparr>l_main := At_wait\<rparr>" no_settings] by (simp add: late_defs)
qed

lemma late_stop: "life_run no_settings 5 closing_state late_stopped"
proof -
  have "life_run no_settings (Suc (Suc (Suc (Suc (Suc 0))))) closing_state late_stopped"
    by (rule run_more [OF late_run(1)], rule run_more [OF late_run(2)], rule run_more [OF late_run(3)],
      rule run_more [OF late_end(1)], rule run_more [OF late_end(2)], rule run_none)
  then show ?thesis by (simp add: numeral_eq_Suc)
qed

lemma late_stopped_reachable: "life_reachable no_settings late_stopped"
  by (rule run_reachable [OF late_stop closing_reachable])

lemma clean_exit_witness:
  "\<exists>s. life_reachable no_settings s \<and> l_main s = Stopped_cleanly \<and> l_close s \<noteq> None \<and>
     l_checkpoint s = Some (Some ''disk I/O error'') \<and> l_in_flight s = 1 \<and> l_timed_out s"
  using clean_exit [OF late_stopped_reachable] late_stopped_reachable
  by (auto simp: late_stopped_def late_closed_def late_close_def late_checkpoint_def closing_state_def)

subsection \<open>The shutdown ends\<close>

definition shutdown_rank :: "shutdown_at \<Rightarrow> nat" where
  "shutdown_rank p = (case p of In_Shutdown \<Rightarrow> 3 | At_checkpoint \<Rightarrow> 2 | At_close \<Rightarrow> 1 | _ \<Rightarrow> 0)"

definition main_rank :: "main_at \<Rightarrow> nat" where
  "main_rank p = (case p of At_listen \<Rightarrow> 2 | At_wait \<Rightarrow> 1 | _ \<Rightarrow> 0)"

text \<open>The steps that are left, once the server is told to shut down.\<close>

definition steps_left :: "life \<Rightarrow> nat" where
  "steps_left s =
     shutdown_rank (l_shutdown s) + main_rank (l_main s) + l_in_flight s + (if l_signal s then 0 else 1)"

lemma steps_left_decreases:
  "life_step getenv s s' \<Longrightarrow> life_inv s \<Longrightarrow> l_closed s \<Longrightarrow> steps_left s' < steps_left s \<and> l_closed s'"
  by (erule life_stepE; cases "l_shutdown s")
     (simp_all add: steps_left_def shutdown_rank_def main_rank_def life_inv_def not_closing_def drained_def split: main_at.split)

lemma closing_not_stuck:
  assumes inv: "life_inv s" and closed: "l_closed s" and alive: "alive s"
  shows "\<exists>s'. life_step getenv s s'"
proof (cases "l_main s = At_listen")
  case True
  then show ?thesis using closed by (blast intro: life_step.server_closed)
next
  case False
  from inv closed consider "l_shutdown s = In_Shutdown" | "l_shutdown s = At_checkpoint"
    | "l_shutdown s = At_close" | "l_shutdown s = Shutdown_done"
    by (cases "l_shutdown s") (auto simp: life_inv_def)
  then show ?thesis
  proof cases
    case 4
    with False inv closed alive have "l_main s = At_wait"
      by (cases "l_main s") (auto simp: life_inv_def alive_def)
    with 4 show ?thesis by (blast intro: life_step.stopped)
  next
    case 2
    then show ?thesis using alive life_step.checkpoint [OF _ _ CheckpointTruncate_def] by blast
  qed (use alive in \<open>blast intro: life_step.shutdown_timeout life_step.close_db\<close>)+
qed

lemma run_bounded:
  "life_run getenv k s s' \<Longrightarrow> life_inv s \<Longrightarrow> l_closed s \<Longrightarrow>
     k + steps_left s' \<le> steps_left s \<and> life_inv s' \<and> l_closed s'"
proof (induction rule: life_run.induct)
  case (run_more s s' k s'')
  with steps_left_decreases [OF run_more.hyps(1)] life_inv_step [OF run_more.hyps(1)] show ?case by auto
qed simp

text \<open>
  C31: The shutdown ends, even with requests that never do. From any reachable state in which
  the server has been told to shut down, whatever the two goroutines and the requests do and
  in whatever order: every run has at most one step for each request in flight and six more;
  and a state in which no step is left is one in which the process has ended, cleanly after
  the database was closed, or by the fatal error of \<open>ListenAndServe\<close>. It never waits for a
  request that hangs, because the shutdown goes on without it when its time is up.
\<close>

theorem shutdown_ends:
  assumes "life_reachable getenv s" and "l_closed s" and "life_run getenv k s s'"
  shows "k \<le> l_in_flight s + 6 \<and>
    ((\<nexists>s''. life_step getenv s' s'') \<longrightarrow>
       (case l_main s' of Stopped_cleanly \<Rightarrow> l_close s' \<noteq> None | Fatal err \<Rightarrow> True | _ \<Rightarrow> False))"
proof -
  have inv: "life_inv s" by (rule reachable_inv [OF assms(1)])
  have after: "k + steps_left s' \<le> steps_left s" "life_inv s'" "l_closed s'"
    using run_bounded [OF assms(3) inv assms(2)] by auto
  have "steps_left s \<le> l_in_flight s + 6"
    by (simp add: steps_left_def shutdown_rank_def main_rank_def split: shutdown_at.split main_at.split)
  moreover have "alive s' \<Longrightarrow> Ex (life_step getenv s')"
    using closing_not_stuck [OF after(2,3)] by blast
  moreover have "l_close s' \<noteq> None" if "l_main s' = Stopped_cleanly"
    using after(2) that by (cases "l_shutdown s'") (simp_all add: life_inv_def)
  ultimately show ?thesis using after(1) by (cases "l_main s'") (auto simp: alive_def)
qed

text \<open>Five steps from a shutdown with a request that hangs to the end of the process.\<close>

lemma shutdown_ends_witness:
  "\<exists>s. life_run no_settings 5 closing_state s \<and> l_hung closing_state = 1 \<and>
     5 \<le> l_in_flight closing_state + 6 \<and> l_main s = Stopped_cleanly"
proof -
  have "l_closed closing_state" by (simp add: closing_state_def)
  from shutdown_ends [OF closing_reachable this late_stop] late_stop show ?thesis
    by (auto simp: late_stopped_def closing_state_def)
qed

end
