(* ===== verification/Server.thy ===== *)
theory Server
  imports Http_Props Lifecycle
begin

section \<open>The whole server, across restarts (sync-lite/main.go)\<close>

text \<open>
  \<open>main\<close> from the opening of the database to the mux, and the history of a host: a server is
  started on a database file, answers requests, stops, or is killed with requests running,
  and is started again with an empty cache on what the file holds.
\<close>

subsection \<open>Start and routing\<close>

definition start_server ::
  "(string \<Rightarrow> error option) \<Rightarrow> env \<Rightarrow> (string \<Rightarrow> string) \<Rightarrow> (db_file, error + (SQLiteStore, MemoryRedis) sys) op" where
  "start_server sql_open E getenv f n =
     (case NewSQLiteStore sql_open E (getenvDefault getenv ''SQLITE_PATH'' ''./sync-lite.db'') f n of
        ((Inl err, closed), f, n) \<Rightarrow> (Inl (''init sqlite store failed: '' @ err), f, n)
      | ((Inr store, closed), f, n) \<Rightarrow>
     (case load_config getenv of
        Inl err \<Rightarrow> (Inl err, f, n)
      | Inr cfg \<Rightarrow> (Inr \<lparr>db = store, kv = NewMemoryRedis, seq = n\<rparr>, f, n)))"

definition mux_patterns :: "string list" where
  "mux_patterns = [''/command/'', ''/v2/command/'']"

text \<open>
  The mux, for the cleaned path of a request: a pattern that ends with a slash stands for
  all paths below it. What \<open>ServeMux\<close> answers by itself (not found, or a redirect) is a
  parameter.
\<close>

definition serve_mux ::
  "(string \<Rightarrow> http_response) \<Rightarrow> auth_env \<Rightarrow> wire_env \<Rightarrow> 'd datastore \<Rightarrow> 'c redis_client \<Rightarrow> env
     \<Rightarrow> string \<Rightarrow> http_request \<Rightarrow> ('d, 'c) sys \<Rightarrow> ('d, 'c) served" where
  "serve_mux unmatched A W ds rc E path r s =
     (if list_ex (\<lambda>pattern. has_prefix pattern path) mux_patterns then commandHandler A W ds rc E r s
      else Some (Return (unmatched path), s))"

subsection \<open>The history of a host\<close>

text \<open>Committed transactions are in the file at once (and in its write-ahead log).\<close>

definition save :: "SQLiteStore \<Rightarrow> db_file \<Rightarrow> db_file" where
  "save d f = f\<lparr>f_entities := Some (sync_entities d), f_tags := Some (unique_tags d),
     f_counts := Some (client_item_counts d)\<rparr>"

lemma file_rows_save [simp]: "file_rows (save d f) = d"
  by (simp add: file_rows_def rows_of_def save_def)

record host =
  h_file :: db_file
  h_server :: "(SQLiteStore, MemoryRedis) sys option"

datatype event = Request string http_request | Overlapped "http_request list" | Started | Start_failed | Stopped
  | Killed "http_request list"

fun requests_of :: "event \<Rightarrow> http_request set" where
  "requests_of (Request path r) = {r}"
| "requests_of (Overlapped rs) = set rs"
| "requests_of (Killed rs) = set rs"
| "requests_of _ = {}"

text \<open>
  Requests that overlap run their operations on the store in any order among each other, each
  operation for the client of one of the requests, and leave any cache. A kill leaves the
  file wherever the requests that were running got: they had run some of their operations.
  That a request runs operations of its own client only, and none after it was killed, is
  what Interleaved shows of the handler.
\<close>

text \<open>An operation's client is one that some of the requests are let in for.\<close>

definition clients_of :: "auth_env \<Rightarrow> http_request list \<Rightarrow> string \<Rightarrow> bool" where
  "clients_of A rs c \<longleftrightarrow> (\<exists>r \<in> set rs. \<exists>E n. requester A E r n = Some c)"

inductive host_step ::
  "(string \<Rightarrow> http_response) \<Rightarrow> auth_env \<Rightarrow> wire_env \<Rightarrow> host \<Rightarrow> event \<Rightarrow> host \<Rightarrow> bool"
  for unmatched A W where
  host_start: "h_server h = None \<Longrightarrow> start_server sql_open E getenv (h_file h) n = (Inr s, f', n') \<Longrightarrow>
    host_step unmatched A W h Started \<lparr>h_file = f', h_server = Some s\<rparr>"
| host_start_failed: "h_server h = None \<Longrightarrow> start_server sql_open E getenv (h_file h) n = (Inl err, f', n') \<Longrightarrow>
    host_step unmatched A W h Start_failed \<lparr>h_file = f', h_server = None\<rparr>"
| host_request: "h_server h = Some s \<Longrightarrow>
    serve_mux unmatched A W sqlite memory_redis E path r s = Some (out, s') \<Longrightarrow>
    host_step unmatched A W h (Request path r) \<lparr>h_file = save (db s') (h_file h), h_server = Some s'\<rparr>"
| host_stop: "h_server h = Some s \<Longrightarrow> host_step unmatched A W h Stopped (h\<lparr>h_server := None\<rparr>)"
| host_overlap: "h_server h = Some s \<Longrightarrow> db_run cs (db s) (db s') \<Longrightarrow> \<forall>c \<in> set cs. clients_of A rs c \<Longrightarrow>
    host_step unmatched A W h (Overlapped rs) \<lparr>h_file = save (db s') (h_file h), h_server = Some s'\<rparr>"
| host_kill: "h_server h = Some s \<Longrightarrow> db_run cs (db s) d \<Longrightarrow> \<forall>c \<in> set cs. clients_of A rs c \<Longrightarrow>
    host_step unmatched A W h (Killed rs) \<lparr>h_file = save d (h_file h), h_server = None\<rparr>"

inductive host_run ::
  "(string \<Rightarrow> http_response) \<Rightarrow> auth_env \<Rightarrow> wire_env \<Rightarrow> host \<Rightarrow> event list \<Rightarrow> host \<Rightarrow> bool"
  for unmatched A W where
  host_idle: "host_run unmatched A W h [] h"
| host_next: "host_step unmatched A W h ev h' \<Longrightarrow> host_run unmatched A W h' evs h'' \<Longrightarrow>
    host_run unmatched A W h (ev # evs) h''"

text \<open>A running server and its file agree.\<close>

definition in_sync :: "host \<Rightarrow> bool" where
  "in_sync h \<longleftrightarrow> (\<forall>s. h_server h = Some s \<longrightarrow> db s = file_rows (h_file h))"

subsection \<open>What a start and a request do\<close>

lemma start_server_rows:
  assumes "start_server sql_open E getenv f n = (res, f', n')"
  shows "file_rows f' = file_rows f" and "res = Inr s \<Longrightarrow> db s = file_rows f \<and> kv s = NewMemoryRedis"
proof -
  let ?path = "getenvDefault getenv ''SQLITE_PATH'' ''./sync-lite.db''"
  obtain r closed f1 n1 where o: "NewSQLiteStore sql_open E ?path f n = ((r, closed), f1, n1)"
    by (metis prod.exhaust)
  note rows = opened_rows [OF o]
  show "file_rows f' = file_rows f"
    using assms o rows by (auto simp: start_server_def split: sum.splits)
  show "db s = file_rows f \<and> kv s = NewMemoryRedis" if "res = Inr s"
    using assms o rows that by (auto simp: start_server_def split: sum.splits)
qed

lemma mux_keeps:
  assumes "serve_mux unmatched A W sqlite rc E path r s = Some (out, s')" and "store_inv (db s)"
  shows "store_inv (db s')" and "\<not> signed_for A c r \<Longrightarrow> client_view (db s') c = client_view (db s) c"
    and "chain_disabled (db s) x \<Longrightarrow> chain_disabled (db s') x"
  using assms handler_keeps [of A W rc E r s out s'] requester_signed [of A E r "seq s" c]
  by (auto simp: serve_mux_def split: if_splits)

lemma db_run_disabled: "db_run cs d d' \<Longrightarrow> chain_disabled d c \<Longrightarrow> chain_disabled d' c"
  by (induction rule: db_run.induct) (auto intro: db_step_disabled)

lemma overlap_keeps:
  assumes "db_run cs d d'" and "\<forall>c \<in> set cs. clients_of A rs c" and "store_inv d"
  shows "store_inv d'" and "chain_disabled d x \<Longrightarrow> chain_disabled d' x"
    and "\<forall>r \<in> set rs. \<not> signed_for A c r \<Longrightarrow> client_view d' c = client_view d c"
  using assms db_run_inv db_run_disabled interleaved_view requester_signed unfolding clients_of_def by metis+

lemma host_step_safe:
  assumes "host_step unmatched A W h ev h'" and "in_sync h" and "store_inv (file_rows (h_file h))"
  shows "in_sync h' \<and> store_inv (file_rows (h_file h')) \<and>
    ((\<forall>r \<in> requests_of ev. \<not> signed_for A c r) \<longrightarrow>
       client_view (file_rows (h_file h')) c = client_view (file_rows (h_file h)) c) \<and>
    (chain_disabled (file_rows (h_file h)) x \<longrightarrow> chain_disabled (file_rows (h_file h')) x)"
  using assms(1)
proof cases
  case (host_request s E path r out s')
  with assms(2,3) have "db s = file_rows (h_file h)" "store_inv (db s)" by (simp_all add: in_sync_def)
  with host_request mux_keeps [OF host_request(4)] show ?thesis by (auto simp: in_sync_def)
next
  case (host_start sql_open E getenv n s f' n')
  with assms(3) start_server_rows [OF host_start(4)] show ?thesis by (simp add: in_sync_def)
next
  case (host_start_failed sql_open E getenv n err f' n')
  with assms(3) start_server_rows(1) [OF host_start_failed(4)] show ?thesis by (simp add: in_sync_def)
next
  case (host_stop s)
  with assms(3) show ?thesis by (simp add: in_sync_def)
next
  case (host_overlap s cs s' rs)
  with assms(2,3) have s: "db s = file_rows (h_file h)" "store_inv (db s)" by (simp_all add: in_sync_def)
  from overlap_keeps [OF host_overlap(4,5) s(2)] host_overlap(1,2) s(1) show ?thesis by (auto simp: in_sync_def)
next
  case (host_kill s cs d rs)
  with assms(2,3) have s: "db s = file_rows (h_file h)" "store_inv (db s)" by (simp_all add: in_sync_def)
  from overlap_keeps [OF host_kill(4,5) s(2)] host_kill(1,2) s(1) show ?thesis by (auto simp: in_sync_def)
qed

text \<open>
  C2: Safety of the whole server, across restarts. Take any history of a host from a database
  file with a sound store: servers started with any settings, clock and faults of the
  database, starts that fail, requests on any path, requests that overlap, stops, and kills
  with requests running, in any order. The store in the file stays sound, a chain's data changes only if some
  request carried a token signed by its key, and a disabled chain stays disabled; and a
  running server always works on exactly what the file holds.
\<close>

theorem server_history_safe:
  assumes "host_run unmatched A W h evs h'" and "in_sync h" and "store_inv (file_rows (h_file h))"
    and "\<forall>ev \<in> set evs. \<forall>r \<in> requests_of ev. \<not> signed_for A c r"
  shows "in_sync h' \<and> store_inv (file_rows (h_file h')) \<and>
    client_view (file_rows (h_file h')) c = client_view (file_rows (h_file h)) c \<and>
    (chain_disabled (file_rows (h_file h)) x \<longrightarrow> chain_disabled (file_rows (h_file h')) x)"
  using assms
proof (induction rule: host_run.induct)
  case (host_next h ev h' evs h'')
  have "\<forall>r \<in> requests_of ev. \<not> signed_for A c r" using host_next.prems(3) by simp
  with host_step_safe [OF host_next.hyps(1) host_next.prems(1,2), of c x] host_next.IH host_next.prems(3)
  show ?case by auto
qed simp

text \<open>A request that clears the chain of its key, then a stop and a start on the same file.\<close>

definition not_found :: "string \<Rightarrow> http_response" where
  "not_found path = http_error ''404 page not found'' 404"

lemma sample_start: "\<exists>s f n. start_server (\<lambda>_. None) sample_env no_settings f0 0 = (Inr s, f, n)"
  by (simp add: start_server_def NewSQLiteStore_def CheckpointTruncate_def init_schema_def schema_stmts_def
      load_config_def getenvDefault_def sample_env_def)

lemma server_history_safe_witness:
  "\<exists>h. host_run not_found sample_auth sample_wire
       \<lparr>h_file = save sample_store new_file, h_server = Some (sys_of sample_store)\<rparr>
       [Request ''/command/'' sample_request, Stopped, Started] h \<and>
     h_server h \<noteq> None \<and> client_view (file_rows (h_file h)) ''chain'' = client_view sample_store ''chain''"
proof -
  let ?h0 = "\<lparr>h_file = save sample_store new_file, h_server = Some (sys_of sample_store)\<rparr>"
  obtain out s1 where "commandHandler sample_auth sample_wire sqlite memory_redis sample_env sample_request
      (sys_of sample_store) = Some (out, s1)" using sample_served by blast
  then have "serve_mux not_found sample_auth sample_wire sqlite memory_redis sample_env ''/command/'' sample_request
      (sys_of sample_store) = Some (out, s1)"
    by (simp add: serve_mux_def mux_patterns_def has_prefix_def)
  note req = host_request [where h = ?h0, OF _ this, simplified]
  let ?f1 = "save (db s1) (save sample_store new_file)"
  have stop: "host_step not_found sample_auth sample_wire \<lparr>h_file = ?f1, h_server = Some s1\<rparr> Stopped
      \<lparr>h_file = ?f1, h_server = None\<rparr>"
    using host_stop [where h = "\<lparr>h_file = ?f1, h_server = Some s1\<rparr>"] by simp
  obtain s2 f2 n where "start_server (\<lambda>_. None) sample_env no_settings ?f1 0 = (Inr s2, f2, n)"
    using sample_start by blast
  then have start: "host_step not_found sample_auth sample_wire \<lparr>h_file = ?f1, h_server = None\<rparr> Started
      \<lparr>h_file = f2, h_server = Some s2\<rparr>"
    using host_start [where h = "\<lparr>h_file = ?f1, h_server = None\<rparr>"] by simp
  have run: "host_run not_found sample_auth sample_wire ?h0 [Request ''/command/'' sample_request, Stopped, Started]
      \<lparr>h_file = f2, h_server = Some s2\<rparr>"
    by (intro host_next [OF req] host_next [OF stop] host_next [OF start] host_idle)
  have "in_sync ?h0" "store_inv (file_rows (h_file ?h0))"
    using sample_store_inv by (simp_all add: in_sync_def sys_of_def)
  moreover have "hex_decode ''chain'' \<noteq> Inr key" for key by (simp add: hex_val_def)
  then have "\<forall>ev \<in> set [Request ''/command/'' sample_request, Stopped, Started].
      \<forall>r \<in> requests_of ev. \<not> signed_for sample_auth ''chain'' r"
    by (auto simp: signed_for_def token_signed_def)
  ultimately show ?thesis using server_history_safe [OF run, of "''chain''"] run by fastforce
qed

end
