(* ===== verification/Interleaved.thy ===== *)
theory Interleaved
  imports Interference_Props Server
begin

section \<open>Overlapping requests, and requests that are cut off\<close>

text \<open>
  A request whose operations run in any order among those of any other requests, of its own
  chain too, and that stops for good before any of its operations (the process is killed, or
  the request never gets to it): what it has done to the store by then is a run of
  operations, each for its own client or one of the others. So a killed server left its file
  where the history of a host says.
\<close>

subsection \<open>A request that is cut off\<close>

definition cut_off :: error where
  "cut_off = ''cut off''"

text \<open>
  From step \<open>k\<close> on (with \<open>limit = Some k\<close>) an operation does nothing. Whatever it returns
  has no effect then, so it is an error.
\<close>

definition before :: "nat option \<Rightarrow> 'r \<Rightarrow> ('s, 'r) op \<Rightarrow> ('s, 'r) op" where
  "before limit err f s n =
     (if (case limit of None \<Rightarrow> True | Some k \<Rightarrow> n < k) then f s n else (err, s, Suc n))"

definition stopped_store :: "nat option \<Rightarrow> 'd datastore \<Rightarrow> 'd datastore" where
  "stopped_store limit ds =
     \<lparr> ds_InsertSyncEntity = (\<lambda>E e. before limit (False, Some cut_off) (ds_InsertSyncEntity ds E e)),
       ds_InsertSyncEntitiesWithServerTags = (\<lambda>E es.
         before limit (Some cut_off) (ds_InsertSyncEntitiesWithServerTags ds E es)),
       ds_UpdateSyncEntity = (\<lambda>E e v. before limit (False, False, Some cut_off) (ds_UpdateSyncEntity ds E e v)),
       ds_GetUpdatesForType = (\<lambda>E t tok ff c m.
         before limit (Inl cut_off) (ds_GetUpdatesForType ds E t tok ff c m)),
       ds_HasServerDefinedUniqueTag = (\<lambda>E c tag.
         before limit (Inl cut_off) (ds_HasServerDefinedUniqueTag ds E c tag)),
       ds_GetClientItemCount = (\<lambda>E c. before limit (Inl cut_off) (ds_GetClientItemCount ds E c)),
       ds_UpdateClientItemCount = (\<lambda>E k a b. before limit (Some cut_off) (ds_UpdateClientItemCount ds E k a b)),
       ds_ClearServerData = (\<lambda>E c. before limit (Inl cut_off) (ds_ClearServerData ds E c)),
       ds_DisableSyncChain = (\<lambda>E c. before limit (Some cut_off) (ds_DisableSyncChain ds E c)),
       ds_IsSyncChainDisabled = (\<lambda>E c. before limit (Inl cut_off) (ds_IsSyncChainDisabled ds E c)),
       ds_HasItem = (\<lambda>E c i. before limit (Inl cut_off) (ds_HasItem ds E c i)) \<rparr>"

subsection \<open>Runs of operations\<close>

definition runs_for :: "string set \<Rightarrow> SQLiteStore \<Rightarrow> SQLiteStore \<Rightarrow> bool" where
  "runs_for C d d' \<longleftrightarrow> (\<exists>cs. set cs \<subseteq> C \<and> db_run cs d d')"

text \<open>Other requests, for clients in \<open>C\<close>: what they do before the operation at any step.\<close>

definition interferes :: "string set \<Rightarrow> (nat \<Rightarrow> SQLiteStore \<Rightarrow> SQLiteStore) \<Rightarrow> bool" where
  "interferes C others \<longleftrightarrow> (\<forall>n d. runs_for C d (others n d))"

lemma db_run_append: "db_run cs d d' \<Longrightarrow> db_run cs' d' d'' \<Longrightarrow> db_run (cs @ cs') d d''"
  by (induction rule: db_run.induct) (auto simp: db_run_Cons)

lemma runs_refl [simp]: "runs_for C d d"
  unfolding runs_for_def by (rule exI [of _ "[]"]) simp

lemma runs_trans: "runs_for C d d' \<Longrightarrow> runs_for C d' d'' \<Longrightarrow> runs_for C d d''"
  unfolding runs_for_def by (metis db_run_append set_append Un_least)

lemma runs_step: "db_step c d d' \<Longrightarrow> c \<in> C \<Longrightarrow> runs_for C d d'"
  unfolding runs_for_def by (rule exI [of _ "[c]"]) (simp add: db_run_Cons)

lemma runs_mono: "runs_for C d d' \<Longrightarrow> C \<subseteq> C' \<Longrightarrow> runs_for C' d d'"
  unfolding runs_for_def by blast

lemma runs_keep:
  assumes "runs_for C d d'" and "store_inv d"
  shows "store_inv d'" and "c \<notin> C \<Longrightarrow> client_view d' c = client_view d c"
    and "chain_disabled d x \<Longrightarrow> chain_disabled d' x"
  using assms db_run_inv db_run_disabled interleaved_view unfolding runs_for_def by blast+

text \<open>An operation that is a run, with others before it and possibly cut off.\<close>

lemma interleaved_op:
  assumes "between others (before limit err f) d n = (r, d', n')" and "interferes C others"
    and "\<And>d n r d' n'. f d n = (r, d', n') \<Longrightarrow> runs_for C d d'"
  shows "runs_for C d d'"
proof -
  have "runs_for C (others n d) d'"
    using assms(1,3) by (auto simp: between_def before_def split: if_splits)
  moreover have "runs_for C d (others n d)" using assms(2) by (simp add: interferes_def)
  ultimately show ?thesis using runs_trans by blast
qed

text \<open>So each operation of the SQLite store is a step for its client.\<close>

lemmas sqlite_reads = sqlite_frame.get_updates_reads [simplified] sqlite_frame.has_tag_reads [simplified]
  sqlite_frame.get_counts_reads [simplified] sqlite_frame.is_disabled_reads [simplified]
  sqlite_frame.has_item_reads [simplified]

lemmas sqlite_steps = runs_step [OF step_insert] runs_step [OF step_insert_tags] runs_step [OF step_update]
  runs_step [OF step_counts] runs_step [OF step_clear] runs_step [OF step_disable]

lemma interleaved_steps:
  assumes "interferes C others" and "c \<in> C"
  shows "datastore_steps (concurrent_store others (stopped_store limit sqlite)) E c (runs_for C)"
proof (unfold_locales, goal_cases)
  case (2 d d' d'') then show ?case by (rule runs_trans)
next
  case (6 d n k d' n')
  then show ?case using sqlite_frame.get_counts_client
    by (auto simp: concurrent_store_def stopped_store_def between_def before_def split: if_splits)
qed (use assms in \<open>auto simp: concurrent_store_def stopped_store_def elim!: interleaved_op
    intro: sqlite_steps dest!: sqlite_reads\<close>)

interpretation sqlite_runs: datastore_steps sqlite E c "runs_for {c}" for E c
proof (unfold_locales, goal_cases)
  case (6 d n k d' n')
  then show ?case by (rule sqlite_frame.get_counts_client)
qed (auto intro: runs_trans sqlite_steps dest!: sqlite_reads)

subsection \<open>A cut-off request ends\<close>

text \<open>
  The only loop that need not end reads the store in every round, so it ends when the store
  fails from some step on.
\<close>

lemma device_loop_returns:
  assumes advances: "\<And>d n r d' n'.
      ds_GetUpdatesForType ds E deviceInfoTypeID 0 False c (maxGUBatchSize E) d n = (r, d', n') \<Longrightarrow> n < n'"
    and stops: "\<And>d n. k \<le> n \<Longrightarrow>
      \<exists>err d' n'. ds_GetUpdatesForType ds E deviceInfoTypeID 0 False c (maxGUBatchSize E) d n = (Inl err, d', n')"
  shows "device_loop ds E c a s \<noteq> None"
proof (induction "k - seq s" arbitrary: a s rule: less_induct)
  case less
  let ?read = "ds_GetUpdatesForType ds E deviceInfoTypeID 0 False c (maxGUBatchSize E)"
  obtain q s1 where g: "on_db ?read s = (q, s1)" by fastforce
  from g have op: "?read (db s) (seq s) = (q, db s1, seq s1)" by (auto simp: on_db_def split: prod.splits)
  show ?case
  proof (cases q)
    case (Inl err)
    then show ?thesis by (subst device_loop.simps) (simp add: g)
  next
    case (Inr x)
    obtain again es where x: "x = (again, es)" by fastforce
    have "seq s < k" using stops [of "seq s" "db s"] op Inr by fastforce
    moreover have "seq s < seq s1" by (rule advances [OF op])
    ultimately have "device_loop ds E c b s1 \<noteq> None" for b by (intro less.hyps) simp
    then show ?thesis
      by (subst device_loop.simps) (auto simp: g Inr x split: outcome.split sum.split)
  qed
qed

lemma request_returns:
  fixes s :: "('d, 'c) sys"
  assumes "\<And>a (s :: ('d, 'c) sys). device_loop ds E c a s \<noteq> None"
  shows "HandleClientToServerMessage ds rc E pb rsp c s \<noteq> None"
proof -
  have admit: "admit_new_client ds E c t \<noteq> None" for t :: "('d, 'c) sys"
    using assms [of 0 t] by (auto simp: admit_new_client_def split: option.split outcome.split prod.split)
  have "handleGetUpdatesRequest ds rc E guMsg guRsp c t \<noteq> None" for guMsg guRsp and t :: "('d, 'c) sys"
    using admit [of t] by (auto simp: handleGetUpdatesRequest_def Let_def split: option.split outcome.split prod.split)
  then obtain res t where "handleGetUpdatesRequest ds rc E (csm_GetUpdates pb) empty_GetUpdatesResponse c s = Some (res, t)"
    by fastforce
  then show ?thesis
    by (auto simp: HandleClientToServerMessage_def Let_def
        split: option.split ClientToServerMessage_Contents.split prod.split outcome.split)
qed

lemma handler_returns:
  fixes s :: "('d, 'c) sys"
  assumes "\<And>c a (s :: ('d, 'c) sys). device_loop ds E c a s \<noteq> None"
  shows "commandHandler A W ds rc E r s \<noteq> None"
proof -
  have "command_body W ds rc E c r t \<noteq> None" for c and t :: "('d, 'c) sys"
  proof
    assume "command_body W ds rc E c r t = None"
    then obtain pb where "HandleClientToServerMessage ds rc E pb empty_ClientToServerResponse c t = None"
      by (auto simp: command_body_def split: sum.splits option.splits outcome.splits prod.splits)
    with request_returns [OF assms] show False by blast
  qed
  then show ?thesis
    unfolding commandHandler_def by (auto split: outcome.split sum.split prod.split)
qed

lemma get_updates_advances: "sql_GetUpdatesForType E t tok ff c m d n = (r, d', n') \<Longrightarrow> n < n'"
  by (auto simp: sql_GetUpdatesForType_def stmt_def Let_def split: option.splits sum.splits prod.splits)

lemma cut_off_returns:
  "commandHandler A W (concurrent_store others (stopped_store (Some k) sqlite)) rc E r s \<noteq> None"
  by (intro handler_returns device_loop_returns [where k = k])
    (auto simp: concurrent_store_def stopped_store_def between_def before_def dest: get_updates_advances
      split: if_splits)

subsection \<open>What it has done\<close>

lemma interleaved_request_run:
  assumes "interferes C others"
    and "commandHandler A W (concurrent_store others (stopped_store limit sqlite)) rc E r s = Some (out, s')"
  shows "runs_for (C \<union> set_option (requester A E r (seq s))) (db s) (db s')"
proof (cases "requester A E r (seq s)")
  case None
  from handler_stranger [OF None assms(2)] show ?thesis by simp
next
  case (Some c)
  have "interferes (insert c C) others" using assms(1) runs_mono unfolding interferes_def by blast
  from datastore_steps.handler_steps [OF interleaved_steps [OF this] assms(2)] Some show ?thesis by simp
qed

text \<open>
  C5: Safety under any interleaving. Let other requests, for clients in \<open>C\<close> (the chain of
  this one may be among them), run any of their operations between any two operations of an
  HTTP request, with any cache, and let the request stop at any step, or not at all. What
  happened to the SQLite store is then a run of operations, each for its own client: the
  store is sound, disabled chains are still disabled, and a chain that none of the others
  is for, and for which this request carries no signed token, has not changed.
\<close>

theorem interleaved_request_safe:
  assumes "interferes C others" and "store_inv (db s)"
    and "commandHandler A W (concurrent_store others (stopped_store limit sqlite)) rc E r s = Some (out, s')"
  shows "runs_for (C \<union> set_option (requester A E r (seq s))) (db s) (db s') \<and> store_inv (db s') \<and>
    (chain_disabled (db s) x \<longrightarrow> chain_disabled (db s') x) \<and>
    (c \<notin> C \<and> \<not> signed_for A c r \<longrightarrow> client_view (db s') c = client_view (db s) c)"
proof -
  note run = interleaved_request_run [OF assms(1,3)]
  have "c \<notin> C \<union> set_option (requester A E r (seq s))" if "c \<notin> C" "\<not> signed_for A c r"
    using that requester_signed by auto
  with run runs_keep [OF run assms(2)] show ?thesis by blast
qed

text \<open>Another request of the same chain disables it, before every operation.\<close>

definition same_chain_disables :: "nat \<Rightarrow> SQLiteStore \<Rightarrow> SQLiteStore" where
  "same_chain_disables n d = fst (snd (sql_DisableSyncChain sample_env (hex_encode sample_key) d n))"

lemma same_chain_interferes: "interferes {hex_encode sample_key} same_chain_disables"
  unfolding interferes_def
proof (intro allI)
  fix n d
  obtain r d' n' where d: "sql_DisableSyncChain sample_env (hex_encode sample_key) d n = (r, d', n')"
    by (metis prod_cases3)
  from runs_step [OF step_disable [OF this]] show "runs_for {hex_encode sample_key} d (same_chain_disables n d)"
    by (simp add: same_chain_disables_def d)
qed

lemma chain_is_no_key: "\<not> signed_for A ''chain'' r"
proof -
  have "hex_decode ''chain'' \<noteq> Inr key" for key by (simp add: hex_val_def)
  then show ?thesis by (auto simp: signed_for_def token_signed_def)
qed

lemma interleaved_request_safe_witness:
  "\<exists>out s'. commandHandler sample_auth sample_wire
       (concurrent_store same_chain_disables (stopped_store (Some 7) sqlite)) memory_redis sample_env sample_request
       (sys_of sample_store) = Some (out, s') \<and>
     store_inv (db s') \<and> client_view (db s') ''chain'' = client_view sample_store ''chain''"
proof -
  obtain out s' where run: "commandHandler sample_auth sample_wire
       (concurrent_store same_chain_disables (stopped_store (Some 7) sqlite)) memory_redis sample_env sample_request
       (sys_of sample_store) = Some (out, s')"
    using cut_off_returns by fast
  have "hex_val (CHR ''h'') = None" by (simp add: hex_val_def)
  moreover have "\<forall>x \<in> set (hex_encode sample_key). hex_val x \<noteq> None"
    using sample_key_facts(1) by (simp add: is_hex_def)
  ultimately have "''chain'' \<noteq> hex_encode sample_key"
    by (metis list.set_intros)
  with interleaved_request_safe [OF same_chain_interferes _ run, of x "''chain''" for x] run sample_store_inv
  show ?thesis by (auto simp: sys_of_def chain_is_no_key)
qed

subsection \<open>Overlapping and killed requests in the history of a host\<close>

lemma before_never: "before None err f = f"
  by (simp add: before_def fun_eq_iff)

lemma stopped_never: "stopped_store None ds = ds"
  by (rule datastore.equality) (simp_all add: stopped_store_def before_never)

text \<open>
  The history of a host has a step for what really happens to requests that overlap,
  and for a kill. Let other requests, of any chains, run any of their operations between
  those of a request: when it ends, the host with the store as it is then is after a step of
  overlapping requests; and if the server is killed at any step \<open>k\<close> of it (also if it would
  never end), it has left a store, and the host with that store in its file and no server is
  after a kill.
\<close>

theorem overlapping_requests_in_history:
  assumes "h_server h = Some s" and "interferes C others" and "\<forall>c \<in> C. clients_of A rs c"
  shows "(commandHandler A W (concurrent_store others sqlite) rc E r s = Some (out, s') \<longrightarrow>
      host_step unmatched A W h (Overlapped (r # rs)) \<lparr>h_file = save (db s') (h_file h), h_server = Some s'\<rparr>) \<and>
    (\<exists>out s'. commandHandler A W (concurrent_store others (stopped_store (Some k) sqlite)) rc E r s = Some (out, s') \<and>
      host_step unmatched A W h (Killed (r # rs)) \<lparr>h_file = save (db s') (h_file h), h_server = None\<rparr>)"
proof -
  have run: "\<exists>cs. db_run cs (db s) (db t) \<and> (\<forall>c \<in> set cs. clients_of A (r # rs) c)"
    if "commandHandler A W (concurrent_store others (stopped_store limit sqlite)) rc E r s = Some (q, t)" for limit q t
  proof -
    from interleaved_request_run [OF assms(2) that] obtain cs where
      cs: "set cs \<subseteq> C \<union> set_option (requester A E r (seq s))" "db_run cs (db s) (db t)"
      unfolding runs_for_def by blast
    have "\<forall>c \<in> set cs. clients_of A (r # rs) c" using cs(1) assms(3) by (fastforce simp: clients_of_def)
    with cs(2) show ?thesis by blast
  qed
  obtain q t where killed: "commandHandler A W (concurrent_store others (stopped_store (Some k) sqlite)) rc E r s
      = Some (q, t)" using cut_off_returns by fast
  show ?thesis
    using run [of None out s'] run [OF killed] killed host_overlap [OF assms(1)] host_kill [OF assms(1)]
    unfolding stopped_never by blast
qed

text \<open>A request that clears its chain, overlapped by another of the same chain.\<close>

lemma overlapping_requests_in_history_witness:
  "\<exists>d. host_step not_found sample_auth sample_wire
     \<lparr>h_file = save sample_store new_file, h_server = Some (sys_of sample_store)\<rparr>
     (Killed [sample_request, sample_request]) \<lparr>h_file = save d (save sample_store new_file), h_server = None\<rparr>"
proof -
  have "requester sample_auth sample_env sample_request (seq (sys_of sample_store)) = Some (hex_encode sample_key)"
    using sample_requester by (simp add: sys_of_def)
  then have req: "\<forall>c \<in> {hex_encode sample_key}. clients_of sample_auth [sample_request] c"
    unfolding clients_of_def by auto
  let ?h = "\<lparr>h_file = save sample_store new_file, h_server = Some (sys_of sample_store)\<rparr>"
  have "h_server ?h = Some (sys_of sample_store)" by simp
  from overlapping_requests_in_history [OF this same_chain_interferes req, of sample_wire memory_redis sample_env sample_request
      _ _ not_found 7] show ?thesis by auto
qed

end
