(* ===== verification/Commit_Overlap.thy ===== *)
theory Commit_Overlap
  imports Commit_Props
begin

section \<open>Overlapping commits of one chain\<close>

text \<open>
  A commit reads the stored counters when it starts and, when it ends, writes them back
  with the interim counts added that are in the cache at that time. Two commits of a chain
  that overlap share the interim counts: the first to end takes those of both, and the
  second writes the counters over with what it read before either had counted anything.
\<close>

lemma take_interim:
  assumes "interim_is m (GetInterimCountKey c ty) a"
  shows "\<exists>n'. GetInterimCount memory_redis E c ty True m n
      = (Inr a, m\<lparr>mr_kv := (mr_kv m)(GetInterimCountKey c ty := None)\<rparr>, n')"
proof (cases "mr_kv m (GetInterimCountKey c ty)")
  case None
  then have "m\<lparr>mr_kv := (mr_kv m)(GetInterimCountKey c ty := None)\<rparr> = m"
    by (intro MemoryRedis.equality) (auto simp: fun_eq_iff)
  with None assms show ?thesis
    by (simp add: GetInterimCount_def mem_Get_def dropIfExpiredLocked_def interim_is_def)
next
  case (Some v)
  then have "atoi (mv_value v) = Inr a" "\<not> hasExpiry v" using assms by (simp_all add: interim_is_def)
  moreover from this have "mv_value v \<noteq> ''''" by (auto simp: atoi_def parse_int_def)
  ultimately show ?thesis using Some
    by (simp add: GetInterimCount_def mem_Get_def dropIfExpiredLocked_def)
qed

definition interim_counts :: "string \<Rightarrow> MemoryRedis \<Rightarrow> int \<Rightarrow> int \<Rightarrow> bool" where
  "interim_counts c m a b \<longleftrightarrow> interim_is m (GetInterimCountKey c normalCountTypeStr) a \<and>
     interim_is m (GetInterimCountKey c historyCountTypeStr) b"

lemma take_interims:
  assumes "interim_counts c (kv s) a b"
  shows "\<exists>s'. getInterimItemCounts memory_redis E c True s = (Inr (a, b), s') \<and> db s' = db s \<and>
    interim_counts c (kv s') 0 0"
proof -
  let ?n = "GetInterimCountKey c normalCountTypeStr" and ?h = "GetInterimCountKey c historyCountTypeStr"
  let ?m = "(kv s)\<lparr>mr_kv := (mr_kv (kv s))(?n := None)\<rparr>"
  obtain n1 where 1: "GetInterimCount memory_redis E c normalCountTypeStr True (kv s) (seq s) = (Inr a, ?m, n1)"
    using take_interim assms unfolding interim_counts_def by blast
  have "interim_is ?m ?h b" using assms interim_keys [of c] by (simp add: interim_counts_def interim_is_def)
  then obtain n2 where 2: "GetInterimCount memory_redis E c historyCountTypeStr True ?m n1
      = (Inr b, ?m\<lparr>mr_kv := (mr_kv ?m)(?h := None)\<rparr>, n2)"
    using take_interim by blast
  show ?thesis
    by (simp add: getInterimItemCounts_def on_kv_def 1 2 [simplified] interim_counts_def interim_is_def)
qed

lemma save_mtimes_interim:
  assumes "CHR ''#'' \<notin> set c" and "interim_counts c (kv s) a b"
  shows "interim_counts c (kv (save_mtimes memory_redis E c mt ts s)) a b"
  using assms(2)
proof (induction ts arbitrary: s)
  case (Cons t ts)
  have "interim_counts c (kv s1) a b" if "on_kv (SetTypeMtime memory_redis E c t x) s = (u, s1)" for x u s1
    using that Cons.prems type_key_not_interim [OF assms(1,1), symmetric]
    by (auto simp: interim_counts_def interim_is_def on_kv_def SetTypeMtime_def mem_Set_def split: if_splits)
  with Cons show ?case by (auto split: option.split prod.split)
qed simp

lemma upsert_counts_find: "find_counts (n_client_id row) (upsert_counts row d) = Some row"
proof -
  have "find (\<lambda>r. n_client_id r = n_client_id row)
      (map (\<lambda>r. if n_client_id r = n_client_id row then row else r) rs) = Some row"
    if "find (\<lambda>r. n_client_id r = n_client_id row) rs \<noteq> None" for rs
    using that by (induction rs) auto
  moreover have "find P (rs @ [row]) = Some row" if "find P rs = None" "P row" for P rs
    using that by (induction rs) (auto split: if_splits)
  ultimately show ?thesis by (auto simp: upsert_counts_def find_counts_def)
qed

text \<open>The end of a commit sets the counters from what it read at its start, whatever is stored.\<close>

lemma finish_commit_overwrites:
  assumes "no_faults E" and "CHR ''#'' \<notin> set c" and "cnt_ClientID k = c" and "interim_counts c (kv s) a b"
    and "finish_commit sqlite memory_redis E c k l s = (rep, s')"
  shows "rep = (Some SyncEnums_SUCCESS, None)" and "interim_counts c (kv s') 0 0"
    and "find_counts c (db s') = Some (row_of_counts (add_counts k a b))"
proof -
  obtain s1 where 1: "getInterimItemCounts memory_redis E c True s = (Inr (a, b), s1)" "interim_counts c (kv s1) 0 0"
    using take_interims [OF assms(4)] by blast
  let ?s = "save_mtimes memory_redis E c (typeMtimeMap l) (order_types E (map fst (typeMtimeMap l))) s1"
  have ok: "db_fault E n = None" for n using assms(1) by (simp add: no_faults_def)
  have fin: "(rep, s') = ((Some SyncEnums_SUCCESS, None),
      ?s\<lparr>db := upsert_counts (row_of_counts (add_counts k a b)) (db ?s), seq := Suc (seq ?s)\<rparr>)"
    using assms(5) 1(1)
    by (simp add: finish_commit_def Let_def on_db_def sql_UpdateClientItemCount_def stmt_def ok)
  have "n_client_id (row_of_counts (add_counts k a b)) = c"
    using assms(3) by (simp add: row_of_counts_def add_counts_def)
  with fin upsert_counts_find [of "row_of_counts (add_counts k a b)"]
  show "find_counts c (db s') = Some (row_of_counts (add_counts k a b))" by simp
  show "rep = (Some SyncEnums_SUCCESS, None)" using fin by simp
  show "interim_counts c (kv s') 0 0" using fin save_mtimes_interim [OF assms(2) 1(2)] by simp
qed

subsection \<open>A commit up to its end\<close>

text \<open>
  What a commit has done when its loop is over: read the counters \<open>k\<close> and the interim counts
  \<open>a\<close> and \<open>b\<close>, and run over its entries. The handler goes on with \<open>finish_commit\<close>.
\<close>

definition start_loop :: "nat \<Rightarrow> int \<Rightarrow> int \<Rightarrow> commit_loop" where
  "start_loop m a b = \<lparr>entry_responses = replicate m None, idMap = Map.empty, typeMtimeMap = [],
     newNormalCount = a, newHistoryCount = b\<rparr>"

definition quota_of :: "env \<Rightarrow> ClientItemCounts \<Rightarrow> commit_quota" where
  "quota_of E k = \<lparr>currentNormalItemCount = ItemCount k, currentHistoryItemCount = SumHistoryCounts k,
     boostedQuotaAddition = boosted_quota_addition E (SumHistoryCounts k)\<rparr>"

definition commit_before_end ::
  "env \<Rightarrow> CommitMessage \<Rightarrow> string \<Rightarrow> (SQLiteStore, MemoryRedis) sys \<Rightarrow> ClientItemCounts \<Rightarrow> int \<Rightarrow> int
     \<Rightarrow> commit_loop \<Rightarrow> (SQLiteStore, MemoryRedis) sys \<Rightarrow> bool" where
  "commit_before_end E msg c s k a b l s' \<longleftrightarrow>
     (\<exists>entries s1. cm_Entries msg = Some entries \<and>
        getItemCounts sqlite memory_redis E c s = (Inr (k, a, b), s1) \<and>
        commit_entries sqlite memory_redis E c (quota_of E k) (CacheGuid msg) 0 entries
          (start_loop (length entries) a b) s1 = (Return (l, None), s'))"

lemma commit_after_loop:
  "commit_before_end E msg c s k a b l s' \<Longrightarrow>
   handleCommitRequest sqlite memory_redis E (Some msg) rsp0 c s =
     (case finish_commit sqlite memory_redis E c k l s' of
        (rep, s'') \<Rightarrow> (Return (rsp0\<lparr>Entryresponse := entry_responses l\<rparr>, rep), s''))"
  by (auto simp: commit_before_end_def handleCommitRequest_def quota_of_def start_loop_def Let_def)

text \<open>The loop leaves the stored counters alone: no operation it uses writes them.\<close>

lemma insert_client_tag_counts:
  "insert_client_tag E e s n = (Inr s', n') \<Longrightarrow> client_item_counts s' = client_item_counts s"
  by (auto simp: insert_client_tag_def insert_tag_row_def stmt_def split: option.splits if_splits sum.splits prod.splits)

interpretation sqlite_entries: entry_steps sqlite E c "\<lambda>d d'. client_item_counts d' = client_item_counts d" for E c
proof (unfold_locales, unfold sqlite_simps)
  fix e d n ires d' n'
  assume "sql_InsertSyncEntity E e d n = (ires, d', n')"
  then show "client_item_counts d' = client_item_counts d"
    by (rule sql_Insert_cases)
      (auto simp: insert_entity_row_def dest!: insert_client_tag_counts split: if_splits)
next
  fix e v d n ures d' n'
  assume "sql_UpdateSyncEntity E e v d n = (ures, d', n')"
  then show "client_item_counts d' = client_item_counts d"
    by (rule sql_Update_cases)
      (auto simp: untag_deleted_def update_entity_row_def delete_tag_def split: option.splits)
qed (auto simp: sql_HasItem_def split: prod.splits)

text \<open>Reading the counters: as stored, with the periods that are over at time \<open>t\<close> rolled out.\<close>

definition counts_at :: "int \<Rightarrow> string \<Rightarrow> SQLiteStore \<Rightarrow> ClientItemCounts" where
  "counts_at t c d =
     (case find_counts c d of
        None \<Rightarrow> (zero_counts c)\<lparr>LastPeriodChangeTime := t, cnt_Version := CurrentCountVersion\<rparr>
      | Some row \<Rightarrow> roll_periods t (counts_of_row row))"

definition stored_item_count :: "string \<Rightarrow> SQLiteStore \<Rightarrow> int" where
  "stored_item_count c d = (case find_counts c d of None \<Rightarrow> 0 | Some row \<Rightarrow> n_item_count row)"

text \<open>The stored counters, if any, are in the current format (others are counted anew).\<close>

definition counters_current :: "string \<Rightarrow> SQLiteStore \<Rightarrow> bool" where
  "counters_current c d \<longleftrightarrow> (\<forall>row. find_counts c d = Some row \<longrightarrow> CurrentCountVersion \<le> n_version row)"

lemma roll_periods_keeps [simp]:
  "ItemCount (roll_periods t k) = ItemCount k" "cnt_ClientID (roll_periods t k) = cnt_ClientID k"
  by (simp_all add: roll_periods_def Let_def)

lemma counts_at_simps:
  "ItemCount (counts_at t c d) = stored_item_count c d" "cnt_ClientID (counts_at t c d) = c"
  by (auto simp: counts_at_def stored_item_count_def zero_counts_def counts_of_row_def find_counts_def
      dest: find_Some_set split: option.split)

lemma read_interim:
  assumes "interim_is m (GetInterimCountKey c ty) a"
  shows "GetInterimCount memory_redis E c ty False m n = (Inr a, m, n)"
proof (cases "mr_kv m (GetInterimCountKey c ty)")
  case None
  with assms show ?thesis by (simp add: GetInterimCount_def mem_Get_def dropIfExpiredLocked_def interim_is_def)
next
  case (Some v)
  then have "atoi (mv_value v) = Inr a" "\<not> hasExpiry v" using assms by (simp_all add: interim_is_def)
  moreover from this have "mv_value v \<noteq> []" by (auto simp: atoi_def parse_int_def)
  ultimately show ?thesis using Some
    by (simp add: GetInterimCount_def mem_Get_def dropIfExpiredLocked_def)
qed

lemma getItemCounts_value:
  assumes "no_faults E" and "counters_current c (db s)" and "interim_counts c (kv s) a0 b0"
    and "getItemCounts sqlite memory_redis E c s = (Inr (k, a, b), s')"
  shows "(\<exists>t. k = counts_at t c (db s)) \<and> a = a0 \<and> b = b0 \<and> db s' = db s \<and> kv s' = kv s"
proof -
  have ok: "db_fault E n = None" for n using assms(1) by (simp add: no_faults_def)
  have "\<exists>t n'. sql_GetClientItemCount E c (db s) (seq s) = (Inr (counts_at t c (db s)), db s, n')"
    using assms(2)
    by (auto simp: sql_GetClientItemCount_def stmt_def ok counts_at_def counters_current_def
        initRealCountsAndUpdateHistoryCounts_def Let_def zero_counts_def counts_of_row_def CurrentCountVersion_def
        split: option.split)
  then obtain t n' where "sql_GetClientItemCount E c (db s) (seq s) = (Inr (counts_at t c (db s)), db s, n')" by blast
  moreover have "getInterimItemCounts memory_redis E c False (s\<lparr>seq := n'\<rparr>) = (Inr (a0, b0), s\<lparr>seq := n'\<rparr>)"
    using assms(3)
    by (simp add: getInterimItemCounts_def on_kv_def interim_counts_def read_interim [where a = a0]
        read_interim [where a = b0])
  ultimately show ?thesis using assms(4) by (auto simp: getItemCounts_def on_db_def)
qed

lemma in_step_interim: "in_step c l m \<longleftrightarrow> interim_counts c m (newNormalCount l) (newHistoryCount l)"
  by (simp add: in_step_def interim_counts_def)

lemma commit_before_end_counts:
  assumes "no_faults E" and "counters_current c (db s)" and "interim_counts c (kv s) a0 b0"
    and "commit_before_end E msg c s k a b l s'"
    and "roomy (length (the (cm_Entries msg))) (start_loop 0 a0 b0)"
  shows "(\<exists>t. k = counts_at t c (db s)) \<and> a = a0 \<and> b = b0 \<and>
    find_counts c (db s') = find_counts c (db s) \<and>
    interim_counts c (kv s') (newNormalCount l) (newHistoryCount l)"
proof -
  obtain entries s1 where e: "cm_Entries msg = Some entries"
    and g: "getItemCounts sqlite memory_redis E c s = (Inr (k, a, b), s1)"
    and run: "commit_entries sqlite memory_redis E c (quota_of E k) (CacheGuid msg) 0 entries
        (start_loop (length entries) a b) s1 = (Return (l, None), s')"
    using assms(4) unfolding commit_before_end_def by blast
  note read = getItemCounts_value [OF assms(1-3) g]
  have "client_item_counts (db s') = client_item_counts (db s1)"
    by (rule sqlite_entries.commit_entries_steps [OF run]) (simp add: start_loop_def)
  moreover have "within_quota E c (quota_of E k) (counted_total (quota_of E k) (start_loop (length entries) a b))
      0 l (kv s')"
    by (rule commit_entries_quota [OF run])
      (use read assms(3,5) e in \<open>simp_all add: within_quota_def in_step_interim start_loop_def roomy_def\<close>)
  ultimately show ?thesis using read by (simp add: within_quota_def in_step_interim find_counts_def)
qed

subsection \<open>Lost counts\<close>

text \<open>
  C15: Two overlapping commits of one chain lose each other's counts. Commit A reads the stored
  counters and runs over its entries; then commit B is handled from its start to its end; then A
  ends (the driver does not fail, the counters are in the current format and no 64-bit
  counter wraps). B read the same stored counters as A had, and A's interim counts. When
  B ends, the stored item count is the one at the start plus all that A and B have counted. When A
  ends, the counters it had read at its start are written back: the item count is again what it was
  before both commits, and the history periods are those stored then, rolled to the time of
  A's start, though both commits have succeeded and their entities are stored. The chain's
  quota, a soft limit by the code's comment, is then checked against counters that are too low.
\<close>

theorem overlapping_commits_lose_counts:
  assumes "no_faults E" and "CHR ''#'' \<notin> set c"
    and "counters_current c (db s0)" and "interim_counts c (kv s0) a0 b0"
    and "in_int64 (stored_item_count c (db s0))" and "\<forall>t. in_int64 (HistoryItemCountPeriod4 (counts_at t c (db s0)))"
    and "commit_before_end E msgA c s0 kA a b lA s1" and "roomy (length (the (cm_Entries msgA))) (start_loop 0 a0 b0)"
    and "commit_before_end E msgB c s1 kB a' b' lB s2" and "roomy (length (the (cm_Entries msgB))) lA"
    and "handleCommitRequest sqlite memory_redis E (Some msgB) rsp0 c s1 = (Return (rspB, repB), s3)"
    and "finish_commit sqlite memory_redis E c kA lA s3 = (repA, s4)"
  shows "(\<exists>t. kA = counts_at t c (db s0)) \<and> (\<exists>t. kB = counts_at t c (db s0)) \<and>
    a' = newNormalCount lA \<and> b' = newHistoryCount lA \<and>
    find_counts c (db s3) = Some (row_of_counts (add_counts kB (newNormalCount lB) (newHistoryCount lB))) \<and>
    stored_item_count c (db s3) = wrap64 (stored_item_count c (db s0) + newNormalCount lB) \<and>
    find_counts c (db s4) = Some (row_of_counts kA) \<and>
    stored_item_count c (db s4) = stored_item_count c (db s0) \<and>
    repA = (Some SyncEnums_SUCCESS, None) \<and> repB = (Some SyncEnums_SUCCESS, None)"
proof -
  note A = commit_before_end_counts [OF assms(1,3,4,7,8)]
  then have cur: "counters_current c (db s1)" and at: "counts_at t c (db s1) = counts_at t c (db s0)" for t
    using assms(3) by (simp_all add: counters_current_def counts_at_def)
  have room: "roomy (length (the (cm_Entries msgB))) (start_loop 0 (newNormalCount lA) (newHistoryCount lA))"
    using assms(10) by (simp add: roomy_def start_loop_def)
  note B = commit_before_end_counts [OF assms(1) cur _ assms(9) room, OF conjunct2 [OF conjunct2 [OF conjunct2 [OF conjunct2 [OF A]]]]]
  obtain tA tB where k: "kA = counts_at tA c (db s0)" "kB = counts_at tB c (db s0)"
    using A B at by auto
  then have own: "cnt_ClientID kA = c" "cnt_ClientID kB = c" and items: "ItemCount kA = stored_item_count c (db s0)"
      "ItemCount kB = stored_item_count c (db s0)" by (simp_all add: counts_at_simps)
  have fin: "finish_commit sqlite memory_redis E c kB lB s2 = (repB, s3)"
    using assms(11) commit_after_loop [OF assms(9), of rsp0] by (auto split: prod.splits)
  have interim: "interim_counts c (kv s2) (newNormalCount lB) (newHistoryCount lB)" using B by blast
  note endB = finish_commit_overwrites [OF assms(1,2) own(2) interim fin]
  note endA = finish_commit_overwrites [OF assms(1,2) own(1) endB(2) assms(12)]
  have "in_int64 (ItemCount kA)" "in_int64 (HistoryItemCountPeriod4 kA)" using assms(5,6) items k by simp_all
  then have "add_counts kA 0 0 = kA" by (simp add: add_counts_def wrap64_id)
  moreover have "n_item_count (row_of_counts k) = ItemCount k" for k by (simp add: row_of_counts_def)
  moreover have "ItemCount (add_counts k x y) = wrap64 (ItemCount k + x)" for k x y by (simp add: add_counts_def)
  ultimately show ?thesis using A B k items endA(1,3) endB(1,3) by (auto simp: stored_item_count_def)
qed

text \<open>Two bookmarks committed by two devices of a new chain.\<close>

definition other_commit :: CommitMessage where
  "other_commit = sample_commit\<lparr>cm_Entries := Some [Some (sample_bookmark\<lparr>pb_IdString := Some ''item-2''\<rparr>)]\<rparr>"

lemmas counts_run = getItemCounts_def sql_GetClientItemCount_def stmt_def on_db_def on_kv_def
  initRealCountsAndUpdateHistoryCounts_def find_counts_def zero_counts_def Let_def unix_secs_def
  getInterimItemCounts_def GetInterimCount_def mem_Get_def sys_of_def NewMemoryRedis_def dropIfExpiredLocked_def
  CurrentCountVersion_def

lemmas loop_run = conversion_run commit_run start_loop_def quota_of_def SumHistoryCounts_def boosted_quota_addition_def

lemma wrap64_small [simp]: "wrap64 1 = 1" "wrap64 2 = 2"
  by (simp_all add: wrap64_id in_int64_def)

definition one_stored :: "(SQLiteStore, MemoryRedis) sys \<Rightarrow> bool" where
  "one_stored s \<longleftrightarrow> seq s = 6 \<and> kv s = \<lparr>mr_kv = [GetInterimCountKey ''chain'' normalCountTypeStr \<mapsto>
       \<lparr>mv_value = itoa 1, expiresAt = 0, hasExpiry = False\<rparr>]\<rparr> \<and>
     (\<exists>row. db s = \<lparr>sync_entities = [row], unique_tags = [], client_item_counts = []\<rparr> \<and> entity_key row = (''chain'', ''item-1''))"

lemma first_commit:
  "\<exists>k l s1. commit_before_end sample_env sample_commit ''chain'' (sys_of (initSchema None)) k 0 0 l s1 \<and>
     newNormalCount l = 1 \<and> newHistoryCount l = 0 \<and> one_stored s1"
  by (simp add: commit_before_end_def sample_commit_def initSchema_def counts_run,
      simp add: loop_run one_stored_def entity_key_def)

lemma second_commit:
  assumes "one_stored s1"
  shows "\<exists>k l s2. commit_before_end sample_env other_commit ''chain'' s1 k 1 0 l s2 \<and> newNormalCount l = 2"
proof -
  obtain row where s1: "s1 = \<lparr>db = \<lparr>sync_entities = [row], unique_tags = [], client_item_counts = []\<rparr>,
      kv = \<lparr>mr_kv = [GetInterimCountKey ''chain'' normalCountTypeStr \<mapsto>
         \<lparr>mv_value = itoa 1, expiresAt = 0, hasExpiry = False\<rparr>]\<rparr>, seq = 6\<rparr>"
      "entity_key row = (''chain'', ''item-1'')"
    using assms unfolding one_stored_def by (metis sys.surjective old.unit.exhaust)
  have "atoi (itoa 1) = Inr 1" by (simp add: atoi_itoa in_int64_def)
  moreover have "entity_key (row_of_entity e) = (ClientID e, ID e)" for e by (simp add: entity_key_def)
  moreover have "isConstraintErr ''UNIQUE constraint failed''" using sample_no_faults by (simp add: no_faults_def)
  ultimately show ?thesis unfolding s1(1)
    using s1(2) interim_keys [of "''chain''"]
    by (simp add: commit_before_end_def other_commit_def sample_commit_def counts_run,
        simp add: loop_run)
qed

lemma overlapping_commits_lose_counts_witness:
  "\<exists>kA lA s1 rspB s3 s4.
     commit_before_end sample_env sample_commit ''chain'' (sys_of (initSchema None)) kA 0 0 lA s1 \<and>
     handleCommitRequest sqlite memory_redis sample_env (Some other_commit) \<lparr>Entryresponse = []\<rparr> ''chain'' s1
       = (Return (rspB, (Some SyncEnums_SUCCESS, None)), s3) \<and>
     finish_commit sqlite memory_redis sample_env ''chain'' kA lA s3 = ((Some SyncEnums_SUCCESS, None), s4) \<and>
     stored_item_count ''chain'' (db s3) = 2 \<and> stored_item_count ''chain'' (db s4) = 0"
proof -
  let ?s0 = "sys_of (initSchema None)" and ?rsp = "\<lparr>Entryresponse = []\<rparr> :: CommitResponse"
  obtain kA lA s1 where A: "commit_before_end sample_env sample_commit ''chain'' ?s0 kA 0 0 lA s1"
    "newNormalCount lA = 1" "newHistoryCount lA = 0" "one_stored s1" using first_commit by blast
  obtain kB lB s2 where B: "commit_before_end sample_env other_commit ''chain'' s1 kB 1 0 lB s2"
    "newNormalCount lB = 2" using second_commit [OF A(4)] by blast
  obtain repB s3 where finB: "finish_commit sqlite memory_redis sample_env ''chain'' kB lB s2 = (repB, s3)" by fastforce
  have run: "handleCommitRequest sqlite memory_redis sample_env (Some other_commit) ?rsp ''chain'' s1
      = (Return (?rsp\<lparr>Entryresponse := entry_responses lB\<rparr>, repB), s3)"
    unfolding commit_after_loop [OF B(1)] finB by simp
  obtain repA s4 where fin: "finish_commit sqlite memory_redis sample_env ''chain'' kA lA s3 = (repA, s4)" by fastforce
  have none: "find_counts ''chain'' (db ?s0) = None" by (simp add: find_counts_def sys_of_def initSchema_def)
  then have start: "counters_current ''chain'' (db ?s0)" "interim_counts ''chain'' (kv ?s0) 0 0"
    "stored_item_count ''chain'' (db ?s0) = 0" "\<forall>t. in_int64 (HistoryItemCountPeriod4 (counts_at t ''chain'' (db ?s0)))"
    by (simp_all add: counters_current_def interim_counts_def interim_is_def sys_of_def NewMemoryRedis_def
        stored_item_count_def counts_at_def zero_counts_def in_int64_def)
  have "stored_item_count ''chain'' (db s3) = 2 \<and> stored_item_count ''chain'' (db s4) = 0 \<and>
      repA = (Some SyncEnums_SUCCESS, None) \<and> repB = (Some SyncEnums_SUCCESS, None)"
    using overlapping_commits_lose_counts [OF sample_no_faults _ start(1,2) _ start(4) A(1) _ B(1) _ run fin]
      start(3) A(2,3) B(2)
    by (simp add: roomy_def start_loop_def in_int64_def sample_commit_def other_commit_def)
  with A(1) run fin show ?thesis by blast
qed

end
