(* ===== verification/Mock_Datastore.thy ===== *)
theory Mock_Datastore
  imports Datastore
begin

section \<open>The mock of the store (datastore/datastoretest/mock\_datastore.go)\<close>

text \<open>
  \<open>MockDatastore\<close> embeds testify's \<open>mock.Mock\<close>. A method hands its name and arguments to
  \<open>Called\<close> and reads its results off what that returns, position by position. \<open>Called\<close> and the
  readers \<open>Bool\<close>, \<open>Error\<close> and \<open>Get\<close> are testify's, so they are parameters; each may panic (a
  call that was not expected, a position or a type that is not there). The type assertion
  on what \<open>Get\<close> returns is Go's.
\<close>

datatype mock_arg =
    Arg_Entity SyncEntity
  | Arg_Entities "SyncEntity list"
  | Arg_Counts ClientItemCounts
  | Arg_Int int
  | Arg_Bool bool
  | Arg_String string

text \<open>A value of an interface type: a slice of entities, or of some other dynamic type.\<close>

datatype any_value = Entities_value "SyncEntity list" | Other_value

record ('m, 'a) testify =
  tf_Called :: "string \<Rightarrow> mock_arg list \<Rightarrow> ('m, 'a outcome) op"
  tf_Bool :: "'a \<Rightarrow> nat \<Rightarrow> bool outcome"
  tf_Error :: "'a \<Rightarrow> nat \<Rightarrow> error option outcome"
  tf_Get :: "'a \<Rightarrow> nat \<Rightarrow> any_value outcome"

fun and_then :: "'a outcome \<Rightarrow> ('a \<Rightarrow> 'b outcome) \<Rightarrow> 'b outcome" where
  "and_then Panic f = Panic"
| "and_then (Return x) f = f x"

definition assert_entities :: "any_value \<Rightarrow> SyncEntity list outcome" where
  "assert_entities v = (case v of Entities_value es \<Rightarrow> Return es | Other_value \<Rightarrow> Panic)"

text \<open>The call, and what is made of its result.\<close>

definition mock_call ::
  "('m, 'a) testify \<Rightarrow> string \<Rightarrow> mock_arg list \<Rightarrow> ('a \<Rightarrow> 'r outcome) \<Rightarrow> ('m, 'r outcome) op" where
  "mock_call T method args read m n =
     (case tf_Called T method args m n of (res, m, n) \<Rightarrow> (and_then res read, m, n))"

definition read_bool_error :: "('m, 'a) testify \<Rightarrow> 'a \<Rightarrow> (bool \<times> error option) outcome" where
  "read_bool_error T a = and_then (tf_Bool T a 0) (\<lambda>b. and_then (tf_Error T a 1) (\<lambda>err. Return (b, err)))"

subsection \<open>The methods\<close>

definition mock_InsertSyncEntity ::
  "('m, 'a) testify \<Rightarrow> SyncEntity \<Rightarrow> ('m, (bool \<times> error option) outcome) op" where
  "mock_InsertSyncEntity T entity = mock_call T ''InsertSyncEntity'' [Arg_Entity entity] (read_bool_error T)"

definition mock_InsertSyncEntitiesWithServerTags ::
  "('m, 'a) testify \<Rightarrow> SyncEntity list \<Rightarrow> ('m, error option outcome) op" where
  "mock_InsertSyncEntitiesWithServerTags T entities =
     mock_call T ''InsertSyncEntitiesWithServerTags'' [Arg_Entities entities] (\<lambda>a. tf_Error T a 0)"

definition mock_UpdateSyncEntity ::
  "('m, 'a) testify \<Rightarrow> SyncEntity \<Rightarrow> int \<Rightarrow> ('m, (bool \<times> bool \<times> error option) outcome) op" where
  "mock_UpdateSyncEntity T entity oldVersion =
     mock_call T ''UpdateSyncEntity'' [Arg_Entity entity, Arg_Int oldVersion] (\<lambda>a.
       and_then (tf_Bool T a 0) (\<lambda>conflict.
       and_then (tf_Bool T a 1) (\<lambda>deleted.
       and_then (tf_Error T a 2) (\<lambda>err. Return (conflict, deleted, err)))))"

definition mock_GetUpdatesForType ::
  "('m, 'a) testify \<Rightarrow> int \<Rightarrow> int \<Rightarrow> bool \<Rightarrow> string \<Rightarrow> int
     \<Rightarrow> ('m, (bool \<times> SyncEntity list \<times> error option) outcome) op" where
  "mock_GetUpdatesForType T dataType clientToken fetchFolders clientID maxSize =
     mock_call T ''GetUpdatesForType''
       [Arg_Int dataType, Arg_Int clientToken, Arg_Bool fetchFolders, Arg_String clientID, Arg_Int maxSize] (\<lambda>a.
       and_then (tf_Bool T a 0) (\<lambda>again.
       and_then (and_then (tf_Get T a 1) assert_entities) (\<lambda>es.
       and_then (tf_Error T a 2) (\<lambda>err. Return (again, es, err)))))"

definition mock_HasServerDefinedUniqueTag ::
  "('m, 'a) testify \<Rightarrow> string \<Rightarrow> string \<Rightarrow> ('m, (bool \<times> error option) outcome) op" where
  "mock_HasServerDefinedUniqueTag T clientID tag =
     mock_call T ''HasServerDefinedUniqueTag'' [Arg_String clientID, Arg_String tag] (read_bool_error T)"

definition mock_HasItem ::
  "('m, 'a) testify \<Rightarrow> string \<Rightarrow> string \<Rightarrow> ('m, (bool \<times> error option) outcome) op" where
  "mock_HasItem T clientID i = mock_call T ''HasItem'' [Arg_String clientID, Arg_String i] (read_bool_error T)"

text \<open>The counts are built here: of what the test programmed, only the error is read.\<close>

definition mock_GetClientItemCount ::
  "('m, 'a) testify \<Rightarrow> string \<Rightarrow> ('m, (ClientItemCounts \<times> error option) outcome) op" where
  "mock_GetClientItemCount T clientID =
     mock_call T ''GetClientItemCount'' [Arg_String clientID] (\<lambda>a.
       and_then (tf_Error T a 1) (\<lambda>err. Return
         (\<lparr>cnt_ClientID = clientID, cnt_ID = clientID, ItemCount = 0, HistoryItemCountPeriod1 = 0,
           HistoryItemCountPeriod2 = 0, HistoryItemCountPeriod3 = 0, HistoryItemCountPeriod4 = 0,
           LastPeriodChangeTime = 0, cnt_Version = 0\<rparr>, err)))"

definition mock_UpdateClientItemCount ::
  "('m, 'a) testify \<Rightarrow> ClientItemCounts \<Rightarrow> int \<Rightarrow> int \<Rightarrow> ('m, error option outcome) op" where
  "mock_UpdateClientItemCount T counts newNormalItemCount newHistoryItemCount =
     mock_call T ''UpdateClientItemCount''
       [Arg_Counts counts, Arg_Int newNormalItemCount, Arg_Int newHistoryItemCount] (\<lambda>a. tf_Error T a 0)"

definition mock_ClearServerData ::
  "('m, 'a) testify \<Rightarrow> string \<Rightarrow> ('m, (SyncEntity list \<times> error option) outcome) op" where
  "mock_ClearServerData T clientID =
     mock_call T ''ClearServerData'' [Arg_String clientID] (\<lambda>a.
       and_then (and_then (tf_Get T a 0) assert_entities) (\<lambda>es.
       and_then (tf_Error T a 1) (\<lambda>err. Return (es, err))))"

definition mock_DisableSyncChain :: "('m, 'a) testify \<Rightarrow> string \<Rightarrow> ('m, error option outcome) op" where
  "mock_DisableSyncChain T clientID =
     mock_call T ''DisableSyncChain'' [Arg_String clientID] (\<lambda>a. tf_Error T a 0)"

definition mock_IsSyncChainDisabled ::
  "('m, 'a) testify \<Rightarrow> string \<Rightarrow> ('m, (bool \<times> error option) outcome) op" where
  "mock_IsSyncChainDisabled T clientID =
     mock_call T ''IsSyncChainDisabled'' [Arg_String clientID] (read_bool_error T)"

subsection \<open>What a test sees\<close>

lemma and_then_Return: "and_then x f = Return y \<longleftrightarrow> (\<exists>z. x = Return z \<and> f z = Return y)"
  by (cases x) auto

text \<open>
  A test that programs the counters of a client does not get them: whatever was programmed,
  an answer has zero counts for the client that was asked about.
\<close>

lemma mock_counts_not_programmed:
  assumes "mock_GetClientItemCount T c m n = (Return (counts, err), m', n')"
  shows "cnt_ClientID counts = c \<and> ItemCount counts = 0 \<and> SumHistoryCounts counts = 0"
  using assms
  by (auto simp: mock_GetClientItemCount_def mock_call_def and_then_Return SumHistoryCounts_def split: prod.splits)

text \<open>
  An error that is programmed alone is not enough for the methods that return entities: a
  \<open>nil\<close> in their place, of no type, makes them panic.
\<close>

lemma mock_untyped_nil_panics:
  assumes "tf_Called T ''ClearServerData'' [Arg_String c] m n = (Return a, m', n')" and "tf_Get T a 0 = Return Other_value"
  shows "mock_ClearServerData T c m n = (Panic, m', n')"
  using assms by (simp add: mock_ClearServerData_def mock_call_def assert_entities_def)

end
