(* ===== verification/Sqlite_Typed.thy ===== *)
theory Sqlite_Typed
  imports Http_Props
begin

section \<open>The types of the stored rows\<close>

text \<open>
  The binary columns hold marshalled messages. Every operation that a request runs keeps it
  so, which is a second instance of the contract of the data store, and with it every row
  can be sent to a client.
\<close>

definition row_typed :: "env \<Rightarrow> entity_row \<Rightarrow> bool" where
  "row_typed E r \<longleftrightarrow> encoded E (scanEntity r)"

definition rows_typed :: "env \<Rightarrow> SQLiteStore \<Rightarrow> bool" where
  "rows_typed E d \<longleftrightarrow> (\<forall>r \<in> set (sync_entities d). row_typed E r)"

definition typed_inv :: "env \<Rightarrow> SQLiteStore \<Rightarrow> bool" where
  "typed_inv E d \<longleftrightarrow> store_inv d \<and> rows_typed E d"

subsection \<open>Preservation\<close>

lemma rows_typed_sub: "set (sync_entities d') \<subseteq> set (sync_entities d) \<Longrightarrow> rows_typed E d \<Longrightarrow> rows_typed E d'"
  by (auto simp: rows_typed_def)

lemma row_typed_entity: "row_typed E (row_of_entity e) = encoded E e"
  by (simp add: row_typed_def scan_row_of_entity)

lemma row_typed_update: "encoded E e \<Longrightarrow> row_typed E r \<Longrightarrow> row_typed E (update_columns e r)"
  by (auto simp: row_typed_def encoded_def scanEntity_def update_columns_def)

lemma insert_entity_row_typed:
  "insert_entity_row F row d = Inr d' \<Longrightarrow> row_typed E row \<Longrightarrow> rows_typed E d \<Longrightarrow> rows_typed E d'"
  by (auto simp: insert_entity_row_def rows_typed_def split: if_splits)

lemma insert_tag_row_typed: "insert_tag_row F c i now d = Inr d' \<Longrightarrow> rows_typed E d \<Longrightarrow> rows_typed E d'"
  by (auto simp: insert_tag_row_def rows_typed_def split: if_splits)

lemma update_row_typed: "encoded E e \<Longrightarrow> rows_typed E d \<Longrightarrow> rows_typed E (update_entity_row e d)"
  by (auto simp: rows_typed_def update_entity_row_def row_typed_update)

lemma untag_typed: "rows_typed E d \<Longrightarrow> rows_typed E (untag_deleted e d)"
  by (rule rows_typed_sub) (simp_all add: untag_deleted_def delete_tag_def split: option.split)

lemma marker_typed: "rows_typed E d \<Longrightarrow> rows_typed E (upsert_marker c now d)"
  by (auto simp: rows_typed_def upsert_marker_def row_typed_def encoded_def scanEntity_def disabled_marker_def)

lemma sql_Insert_typed:
  assumes "sql_InsertSyncEntity F e d n = (r, d', n')" and "encoded E e" and "rows_typed E d"
  shows "rows_typed E d'"
  using assms(1)
proof (rule sql_Insert_cases)
  fix d1 m m'
  assume tag: "insert_client_tag F e d m = (Inr d1, m')" and row: "insert_entity_row F (row_of_entity e) d1 = Inr d'"
  have "rows_typed E d1" using insert_client_tag_Inr [OF tag] assms(3) insert_tag_row_typed by auto
  then show ?thesis using insert_entity_row_typed [OF row] assms(2) by (simp add: row_typed_entity)
qed (use assms(3) in simp)

lemma sql_InsertTags_typed:
  assumes "sql_InsertSyncEntitiesWithServerTags F es d n = (r, d', n')"
    and "\<forall>e \<in> set es. encoded E e" and "rows_typed E d"
  shows "rows_typed E d'"
  using assms(1)
proof (rule sql_InsertTags_cases)
  fix now m m'
  assume ins: "insert_with_server_tags F now es d m = (Inr d', m')"
  show ?thesis
    by (rule insert_with_server_tags_pres [OF ins, where P = "rows_typed E"])
      (use assms(2,3) in \<open>auto intro: insert_entity_row_typed insert_tag_row_typed simp: row_typed_entity\<close>)
qed (use assms(3) in simp)

lemma sql_Update_typed:
  assumes "sql_UpdateSyncEntity F e v d n = (r, d', n')" and "encoded E e" and "rows_typed E d"
  shows "rows_typed E d'"
  using assms(1) by (rule sql_Update_cases) (use assms(2,3) in \<open>auto intro: untag_typed update_row_typed\<close>)

lemma sql_Counts_typed:
  "sql_UpdateClientItemCount F k a b d n = (r, d', n') \<Longrightarrow> rows_typed E d \<Longrightarrow> rows_typed E d'"
  by (erule sql_Counts_cases) (auto simp: upsert_counts_def elim: rows_typed_sub [rotated])

lemma sql_Clear_typed: "sql_ClearServerData F c d n = (r, d', n') \<Longrightarrow> rows_typed E d \<Longrightarrow> rows_typed E d'"
  by (erule sql_Clear_cases)
    (auto simp: clear_tags_def clear_counts_def clear_entities_def elim: rows_typed_sub [rotated])

lemma sql_Disable_typed: "sql_DisableSyncChain F c d n = (r, d', n') \<Longrightarrow> rows_typed E d \<Longrightarrow> rows_typed E d'"
  by (erule sql_Disable_cases) (auto simp: marker_typed)

lemmas sqlite_frames =
  sqlite_frame.insert_frame sqlite_frame.insert_tags_frame sqlite_frame.update_frame sqlite_frame.counts_frame
  sqlite_frame.clear_frame sqlite_frame.disable_frame

lemmas sqlite_keeps_inv =
  sqlite_frame.insert_inv sqlite_frame.insert_tags_inv sqlite_frame.update_inv sqlite_frame.counts_inv
  sqlite_frame.clear_inv sqlite_frame.disable_inv

lemmas sqlite_keeps_typed =
  sql_Insert_typed sql_InsertTags_typed sql_Update_typed sql_Counts_typed sql_Clear_typed sql_Disable_typed

lemmas sqlite_only_reads =
  sqlite_frame.get_updates_reads sqlite_frame.has_tag_reads sqlite_frame.get_counts_reads
  sqlite_frame.get_counts_client sqlite_frame.is_disabled_reads sqlite_frame.has_item_reads

interpretation sqlite_typed: datastore_contract sqlite E "typed_inv E" client_view for E
proof (unfold_locales, goal_cases)
  case 19
  then show ?case using sqlite_contract.updates_batch unfolding typed_inv_def by blast
qed (auto simp: typed_inv_def
    intro: sqlite_frames [unfolded sqlite_simps]
    dest: sqlite_keeps_inv [unfolded sqlite_simps] sqlite_only_reads [unfolded sqlite_simps] sqlite_keeps_typed)

subsection \<open>Every stored row can be sent\<close>

lemma handler_typed:
  assumes "commandHandler A W sqlite rc E r s = Some (out, s')" and "typed_inv E (db s)"
  shows "typed_inv E (db s')"
  using assms(1)
proof (cases rule: handler_cases)
  case nothing
  with assms(2) show ?thesis by simp
next
  case (request c0 s1 pb res)
  with assms(2) sqlite_typed.request_keeps [OF request(3)] show ?thesis by (simp add: sqlite_typed.keeps_def)
qed

lemma run_typed: "http_run A W E s rs s' \<Longrightarrow> typed_inv E (db s) \<Longrightarrow> typed_inv E (db s')"
  by (induction rule: http_run.induct) (blast intro: handler_typed)+

lemma encoded_converts: "codec_ok E \<Longrightarrow> encoded E e \<Longrightarrow> \<exists>pb. CreatePBSyncEntity E e = Inr pb"
  by (auto simp: CreatePBSyncEntity_def encoded_def codec_ok_def Let_def split: option.split)

lemma typed_row_converts:
  assumes "typed_inv E d" and "codec_ok E" and "r \<in> set (sync_entities d)"
  shows "\<exists>pb. CreatePBSyncEntity E (scanEntity r) = Inr pb"
  using assms encoded_converts by (simp add: typed_inv_def rows_typed_def row_typed_def)

text \<open>
  C6: Type soundness of the store. Whatever requests are served, by whomever they are sent
  and however they are answered: if the rows were well typed before, every row is well
  typed after. Its binary columns hold marshalled messages, a row with a data type has a
  modification time, and a deletion flag unless it is history. So the conversion for a
  download succeeds on every stored row, and the mtime and flag that the code dereferences
  are never nil.
\<close>

theorem stored_rows_convert:
  assumes "http_run A W E s rs s'" and "typed_inv E (db s)" and "codec_ok E"
  shows "typed_inv E (db s') \<and>
    (\<forall>r \<in> set (sync_entities (db s')).
       (\<exists>pb. CreatePBSyncEntity E (scanEntity r) = Inr pb) \<and>
       (\<forall>t. DataType (scanEntity r) = Some t \<longrightarrow> Mtime (scanEntity r) \<noteq> None \<and>
          (t \<noteq> HistoryTypeID \<longrightarrow> Deleted (scanEntity r) \<noteq> None)))"
proof -
  have typed: "typed_inv E (db s')" by (rule run_typed [OF assms(1,2)])
  then have "row_ok r" if "r \<in> set (sync_entities (db s'))" for r
    using that by (simp add: typed_inv_def store_inv_def)
  then show ?thesis
    using typed typed_row_converts [OF typed assms(3)]
    by (auto simp: row_ok_def scanEntity_def nullBoolToPtr_def split: option.splits)
qed

lemma sample_store_typed: "typed_inv sample_env sample_store"
proof -
  have "sample_marshal \<lparr>Encrypted = None, SpecificsVariant = None\<rparr> = Inr []" by (simp add: sample_marshal_def)
  then have "encoded sample_env (sample_row i v m)" for i v m by (auto simp: encoded_def sample_row_def)
  then show ?thesis
    using sample_store_inv by (simp add: typed_inv_def rows_typed_def sample_store_def row_typed_entity)
qed

lemma stored_rows_convert_witness:
  "\<exists>s'. http_run sample_auth sample_wire sample_env (sys_of sample_store) [sample_request] s' \<and>
     client_view (db s') ''chain'' = client_view sample_store ''chain'' \<and>
     (\<forall>r \<in> set (sync_entities (db s')). \<exists>pb. CreatePBSyncEntity sample_env (scanEntity r) = Inr pb)"
proof -
  obtain out s' where served: "commandHandler sample_auth sample_wire sqlite memory_redis sample_env sample_request
      (sys_of sample_store) = Some (out, s')" using sample_served by blast
  from http_run.serve [OF http_run.idle this]
  have run: "http_run sample_auth sample_wire sample_env (sys_of sample_store) [sample_request] s'" by simp
  have db: "db (sys_of sample_store) = sample_store" by (simp add: sys_of_def)
  have "hex_decode ''chain'' \<noteq> Inr key" for key by (simp add: hex_val_def)
  then have "\<not> signed_for sample_auth ''chain'' sample_request" by (auto simp: signed_for_def token_signed_def)
  then have "client_view (db s') ''chain'' = client_view sample_store ''chain''"
    using handler_keeps(2) [OF served, of "''chain''"] sample_store_inv
      requester_signed [of sample_auth sample_env sample_request _ "''chain''"] db by metis
  with stored_rows_convert [OF run _ sample_env_ok(1)] sample_store_typed run db show ?thesis by auto
qed

end
