(* ===== verification/Spec2Isabelle.thy ===== *)
theory Spec2Isabelle
  imports Core_Props Device_Limit Command_Props Auth_Props Http_Props Instrumented_Props Redis_Go
    Dynamo_Admin Interleaved Commit_Overlap Mock_Datastore Sqlite_Typed
begin

text \<open>
  This library models the Brave sync server as \<open>src/go-sync\<close> has it, with the single-binary
  server sync-lite on top: a SQLite store, an in-memory cache, the request handlers, token
  authentication and the HTTP handler; and the DynamoDB store of the hosted server.

  The program. A client belongs to a sync chain; its client ID is the hexadecimal public
  key of the chain. An HTTP request carries a bearer token (auth/auth.go) and a protobuf
  message. \<open>commandHandler\<close> (sync-lite/main.go) authorizes it, refuses disabled chains, and
  calls \<open>HandleClientToServerMessage\<close> (command/command.go), which dispatches to GET\_UPDATES,
  COMMIT or CLEAR\_SERVER\_DATA. The handlers read and write through two interfaces, the
  \<open>Datastore\<close> (datastore/datastore.go) and the \<open>RedisClient\<close> behind the \<open>Cache\<close> (cache/).

  Theories and the code they model.

  \<^item> Prelude, Go\_Std, Varint: outcomes (\<open>Return\<close> or \<open>Panic\<close>), 64-bit wrap-around, and what is
  used of Go's standard library (strconv, strings, encoding/binary).
  \<^item> Sync\_Proto: the messages of schema/protobuf/sync\_pb as records and enumerations, with
  the struct tags that the code reflects on.
  \<^item> Environment: package variables, clock, UUIDs, driver failures, codec and map iteration
  order, as an argument of every operation that consults them; the state \<open>sys\<close> of a running
  server; operations on the store and on the cache.
  \<^item> Entity, Item\_Count: datastore/sync\_entity.go (the entity type, validation and the two
  conversions) and datastore/item\_count.go (counters and rolling history periods).
  \<^item> Datastore, Redis\_Client: the two interfaces as method tables, with their contracts as
  locales.
  \<^item> Sqlite\_Store: sync-lite/sqlite\_store.go, three tables as lists of rows, one function for
  each method, transactions as functions that return either the new tables or the old.
  Sqlite\_Correct interprets the contracts on it and has the interleaving of operations
  (\<open>db_step\<close>, \<open>db_run\<close>); Sqlite\_Props has its properties, and Sqlite\_Typed the types of what
  is in the columns, as a second interpretation of the contract.
  \<^item> Memory\_Cache, Type\_Cache, Redis\_Go: sync-lite/memory\_cache.go with expiry, the wrapper
  cache/cache.go, and the go-redis clients of cache/redis.go.
  \<^item> Device\_Limit, Server\_Tags, Get\_Updates: command/device\_limit.go,
  command/server\_defined\_unique\_entity.go and \<open>handleGetUpdatesRequest\<close>; with
  Get\_Updates\_Correct and Get\_Updates\_Props.
  \<^item> Commit: \<open>handleCommitRequest\<close>; with Commit\_Correct, Commit\_Quota, Commit\_Props, and
  Commit\_Overlap on the counters of two commits that overlap.
  \<^item> Command: \<open>handleClearServerDataRequest\<close> and the dispatch; with Command\_Correct and
  Command\_Props.
  \<^item> Auth: auth/auth.go and auth/authtest/token.go; with Auth\_Correct and Auth\_Props.
  \<^item> Http: the handler and the configuration of sync-lite/main.go, middleware/ and
  synccontext/; with Http\_Props.
  \<^item> Sqlite\_Open: \<open>NewSQLiteStore\<close> with its schema statements and the checkpoint, on a database
  file that may hold any of the tables. Lifecycle: \<open>main\<close> and its shutdown goroutine as a
  step relation (\<open>life_step\<close>), with an invariant by program point and a measure. Server: the
  start of a server, its mux, and the history of a host with requests, also overlapping ones,
  stops, kills and restarts.
  \<^item> Simulation: one store and cache representing another on the operations of some clients,
  as locales, and the request handling that commutes with the abstraction. Instrumented:
  datastore/instrumented\_datastore.go and cache/instrumented\_redis.go as such a simulation,
  with Instrumented\_Props. Interference: the part of one chain as an abstraction of the
  SQLite store and of the in-memory cache; Interference\_Props: operations of other requests
  in between. Interleaved: requests that overlap with any others, of the same chain too, and
  requests that are cut off.
  \<^item> Dynamo, Dynamo\_Store: datastore/dynamo.go (keys and types) and the methods of \<open>Dynamo\<close> in sync\_entity.go
  and item\_count.go. The AWS SDK with the service behind it is the parameter \<open>aws\<close>, one
  operation for each SDK call; requests are terms of the builder functions the code calls.
  Dynamo\_Correct, Dynamo\_Props and Dynamo\_Update state the documented behaviour of SDK and service that
  the properties need as named hypotheses (\<open>dynamo_ok\<close>, \<open>put_semantics\<close>, \<open>update_semantics\<close>,
  \<open>counts_semantics\<close>, \<open>counts_read\<close>), which tables in memory satisfy in the witnesses; an
  error of a write is not taken to mean that nothing was written, since the service may have
  applied a call that it answers with an error.
  Dynamo\_Props, Dynamo\_Update and Dynamo\_Range have the properties: isolation, insertion,
  counters, clearing, updates with concurrent writers, and the string range of a query.
  Dynamo\_Admin: \<open>NewDynamo\<close>, and the table setup and scans of datastore/datastoretest/dynamo.go.
  \<^item> Mock\_Datastore: datastore/datastoretest/mock\_datastore.go, over testify as a parameter.
  \<^item> Sample\_Env: a concrete environment in which the witnesses run. Core\_Props: properties
  of tokens, conversions, cache keys and counters.

  How they connect. The handlers take the method tables as arguments. \<open>datastore_frame\<close>,
  \<open>datastore_contract\<close> and \<open>datastore_disable\<close> say what they rely on, for operations in one
  environment: an invariant is kept, an operation touches its own client only, reads do not
  write, a batch of updates is what was asked for, and a disabled chain stays disabled.
  \<open>datastore_steps\<close>, which extends \<open>entry_steps\<close> for the loop of a commit, is what a request of one
  client is built from: every operation it runs is a step of a relation \<open>R\<close>; its lemmas follow the handlers once (\<open>request_steps\<close>,
  \<open>handler_steps\<close>) and are used with \<open>R\<close> as what the frame contract keeps (a \<open>sublocale\<close>) and as
  runs of atomic operations, with others in between. The lemmas in the other locales follow
  the handlers for what they answer; \<open>sqlite_frame\<close>, \<open>sqlite_contract\<close>,
  \<open>sqlite_disable\<close> and \<open>sqlite_full\<close> interpret them on the SQLite store with the invariant
  \<open>store_inv\<close>, \<open>sqlite_typed\<close> with well-typed rows; \<open>memory\<close> interprets \<open>redis_contract\<close> on the
  in-memory cache.
  \<open>server_simulation\<close> states that one store and cache represent another and proves that the
  whole request handling commutes with the abstraction; it is interpreted on the wrappers
  with metrics (for all clients), and on the chain's part of store and cache (for requests of
  that chain).

  What the theorems show. Safety: well-typed rows in every reachable store; isolation of chains for operations, requests and sequences of HTTP requests, down to
  tokens (\<open>only_key_holder_writes\<close>) and across restarts (\<open>server_history_safe\<close>); requests that
  overlap (\<open>concurrent_as_alone\<close>, \<open>interleaved_request_safe\<close>); optimistic
  concurrency; disabled chains; opening and closing the database. Functional
  behaviour: inserts, updates, queries and paging, commits with their quota, downloads that
  are sound and complete, clearing, the fields of every answer; \<open>committed_entity_downloaded\<close>
  below composes commit, store, interleaving and download. Round trips: tokens of both
  kinds and the conversion of entities. Equivalence and refinement: handler and
  middleware, late and early rolling of periods, wrapped and bare servers. Errors: where
  the code panics, diverges, hides a conflict or lets a token pass that it should not.

  Bounds. Go's \<open>int\<close> and \<open>int64\<close> are \<open>int\<close> with \<open>wrap64\<close> where arithmetic can leave the range.
  No loop uses fuel: all recursion is structural except the device loop, which may run
  forever and is a \<open>partial_function\<close> whose value \<open>None\<close> means that it does. The shutdown is
  bounded by a measure (\<open>shutdown_ends\<close>), also when requests hang, which the device loop can make them do.

  Concurrency. A request of sync-lite runs as a sequence of atomic operations, each a
  transaction on the store or a method of the cache under its mutex. \<open>db_run\<close> is any
  interleaving of single store operations; \<open>concurrent_as_alone\<close> runs a request with operations
  of other chains between any two of its own, and shows that it does not notice them;
  \<open>interleaved_request_safe\<close> does so with operations of any chains, its own too, and with a
  request that stops at any step, and shows that it is a run of operations of its client;
  so overlapping requests and kills are steps of \<open>host_run\<close>
  (lemma \<open>overlapping_requests_in_history\<close>). \<open>ClearServerData\<close> is taken as one step,
  though the code reads the rows it returns before the transaction that deletes them. What two requests of one chain do
  to each other is stated for updates (\<open>no_lost_update\<close>, which history entities are not protected
  from) and for the counters (\<open>overlapping_commits_lose_counts\<close>).

  Not modelled. The methods of \<open>Dynamo\<close> are modelled one by one and are not composed with the
  handlers: no program of the repository does so (only test suites create a \<open>Dynamo\<close>), and
  five of them can panic, which the method table of the interface, as the SQLite store
  needs it, has no value for. A signal before the shutdown goroutine is set up; logging and the
  durations of metrics. Parameters: the protobuf codec,
  gzip, Ed25519, testify, the go-redis client, the AWS SDK with its service and what the mux of
  net/http answers by itself. SQLite is what its statements mean.
\<close>

section \<open>From one device to another\<close>

text \<open>
  The theorem that spans the components: what one device commits, another device of the
  chain downloads, in the form in which the store keeps it.
\<close>

text \<open>The committed entity as it is sent to a device.\<close>

definition downloaded :: "PbSyncEntity \<Rightarrow> SyncEntity \<Rightarrow> PbSyncEntity" where
  "downloaded v e = (served_entity v e)\<lparr>pb_Version := Version e, pb_ParentIdString := ParentID e\<rparr>"

lemma CreatePB_changed:
  "CreatePBSyncEntity E d = Inr pb \<Longrightarrow>
   CreatePBSyncEntity E (d\<lparr>ParentID := p, Version := w\<rparr>) = Inr (pb\<lparr>pb_ParentIdString := p, pb_Version := w\<rparr>)"
  by (auto simp: CreatePBSyncEntity_def Let_def split: option.splits sum.splits)

lemma committed_form:
  assumes "codec_ok E" and "CreateDBSyncEntity E (Some v) g c n = (Return (Inr d), n')"
  shows "CreatePBSyncEntity E (entity_to_commit ids d) = Inr (downloaded v (entity_to_commit ids d))"
proof -
  let ?e = "entity_to_commit ids d"
  have e: "?e = d\<lparr>ParentID := ParentID ?e, Version := Version ?e\<rparr>"
    by (auto simp: entity_to_commit_def resolve_parent_def split: option.splits)
  have "CreatePBSyncEntity E ?e = Inr ((served_entity v d)\<lparr>pb_ParentIdString := ParentID ?e, pb_Version := Version ?e\<rparr>)"
    by (subst e) (rule CreatePB_changed [OF CreatePB_CreateDB [OF assms]])
  also have "(served_entity v d)\<lparr>pb_ParentIdString := ParentID ?e, pb_Version := Version ?e\<rparr> = downloaded v ?e"
    by (subst (3) e) (simp add: downloaded_def served_entity_def)
  finally show ?thesis .
qed

lemma converted_expiry:
  assumes "CreateDBSyncEntity E (Some v) g c n = (Return (Inr d), n')" and "plain_type (DataType d)"
  shows "ExpirationTime d = None"
  by (rule CreateDB_InrE [OF assms(1)]) (use assms(2) in \<open>auto simp: build_SyncEntity_def plain_type_def\<close>)

text \<open>A row of a client survives what other clients do.\<close>

lemma row_survives:
  "db_run cs d d' \<Longrightarrow> c \<notin> set cs \<Longrightarrow> r \<in> set (sync_entities d) \<Longrightarrow> c_client_id r = c \<Longrightarrow>
   r \<in> set (sync_entities d')"
  using interleaved_view [of cs d d' c] by (auto simp: client_view_def filter_eq_iff dest!: arg_cong [where f = set])

text \<open>
  C3: End to end: device one commits a new plain entity within the quota whose ID and
  client tag are free; operations of other chains run in any order; then device two of the
  same chain asks for that data type with a token before the commit, and gets a successful
  answer that is not full and says that nothing remains. The answer contains the entity as
  committed, with the server's ID, times, version and resolved parent.
\<close>

theorem committed_entity_downloaded:
  assumes "no_faults E" and "codec_ok E" and "0 \<le> maxGUBatchSize E" and "store_inv (db s)"
    and "CreateDBSyncEntity E (Some v) g c (seq s) = (Return (Inr d), n)"
    and "pb_Version v = Some 0" and "plain_type (DataType d)"
    and "counted_total q l < quota_limit E q" and "i < length (entry_responses l)"
    and "commit_entry sqlite rc E c q g i (Some v) l s = (Return (l', None), s1)"
    and "keys_free (entity_to_commit (idMap l) d) (db s)"
    and "db_run cs (db s1) (db s2)" and "c \<notin> set cs"
    and "handleGetUpdatesRequest sqlite rc2 E (Some msg) rsp0 c s2 = Some (Return (rsp, rep), s3)"
    and "fst rep = Some SyncEnums_SUCCESS" and "ChangesRemaining rsp = Some 0"
    and "int (length (gur_Entries rsp)) < maxGUBatchSize E"
    and "GetUpdatesOrigin msg \<noteq> Some SyncEnums_PERIODIC" and "GetUpdatesOrigin msg \<noteq> Some SyncEnums_NEW_CLIENT"
    and "FetchFolders msg \<noteq> Some False" and "FromProgressMarker msg = Some ms" and "m \<in> set ms"
    and "DataTypeId m = DataType d" and "fst (varint (start_token m)) < the (Mtime d)"
  shows "downloaded v (entity_to_commit (idMap l) d) \<in> set (gur_Entries rsp)"
proof -
  let ?e = "entity_to_commit (idMap l) d"
  obtain mt t where mt: "Mtime d = Some mt" "DataType d = Some t" using converted_fields [OF assms(5)] by blast
  have c: "ClientID d = c" by (rule converted_fields(4) [OF assms(5)])
  have "row_of_entity ?e \<in> set (sync_entities (db s1))"
    using commit_entry_creates(2) [OF assms(1,5-10)] assms(11) by (simp add: with_entity_def)
  then have "row_of_entity ?e \<in> set (sync_entities (db s2))"
    by (rule row_survives [OF assms(12,13)]) (simp add: row_of_entity_def c)
  moreover have "db s3 = db s2" by (rule sqlite_contract.handleGetUpdates_reads [OF assms(14,19)])
  ultimately have row: "row_of_entity ?e \<in> set (sync_entities (db s3))" by simp
  have "store_inv (db s1)"
    using sqlite_frame.commit_entry_keeps [OF assms(10,9)] assms(4) by (simp add: sqlite_frame.keeps_def)
  then have inv: "store_inv (db s2)" by (rule db_run_inv [OF assms(12)])
  have "ExpirationTime ?e = None"
    using converted_expiry [OF assms(5,7)] by (simp add: entity_to_commit_def resolve_parent_def split: option.split)
  then have "\<exists>f \<in> set (gur_Entries rsp). CreatePBSyncEntity E (scanEntity (row_of_entity ?e)) = Inr f"
    using assms(18,20,22-24) mt c
    by (intro download_complete [OF assms(14,15,21) inv assms(3,16,17) _ _ _ row, of m t mt])
      (simp_all add: row_of_entity_def)
  then show ?thesis using committed_form [OF assms(2,5)] by (simp add: scan_row_of_entity)
qed

text \<open>A bookmark on its way to another device, while another chain is disabled.\<close>

definition committed_store :: "SyncEntity \<Rightarrow> SQLiteStore" where
  "committed_store d = upsert_marker ''other'' 1700000000000
     (with_entity (entity_to_commit Map.empty d) 1700000000001 (initSchema None))"

lemma sample_entity:
  "\<exists>d. CreateDBSyncEntity sample_env (Some sample_bookmark) None ''chain'' 0 = (Return (Inr d), 1) \<and>
     ID d = ''item-1'' \<and> ClientID d = ''chain'' \<and> DataType d = Some 32904 \<and> ClientDefinedUniqueTag d = None \<and>
     Mtime d = Some 1700000000000 \<and> ExpirationTime d = None"
  by (simp add: conversion_run build_SyncEntity_def)

lemma committed_query:
  assumes "ClientID d = ''chain''" and "DataType d = Some 32904" and "Mtime d = Some 1700000000000"
    and "ExpirationTime d = None" and "ClientDefinedUniqueTag d = None"
  shows "sql_GetUpdatesForType sample_env 32904 0 True ''chain'' 500 (committed_store d) n
     = (Inr (False, [entity_to_commit Map.empty d]), committed_store d, n + 3)"
proof -
  have "ExpirationTime (entity_to_commit Map.empty d) = None"
    using assms(4) by (simp add: entity_to_commit_def resolve_parent_def split: option.split)
  moreover have row: "c_client_id (row_of_entity e) = ClientID e" "c_id (row_of_entity e) = ID e"
    "c_data_type (row_of_entity e) = DataType e" "c_mtime (row_of_entity e) = Mtime e"
    "c_expiration_time (row_of_entity e) = ExpirationTime e" for e
    by (simp_all add: row_of_entity_def)
  ultimately show ?thesis
    using assms
    by (simp add: sql_GetUpdatesForType_def select_updates_def committed_store_def upsert_marker_def with_entity_def
        find_row_def entity_key_def initSchema_def is_update_def disabled_marker_def scan_row_of_entity numeral_3_eq_3)
qed

lemma committed_download:
  assumes "CreateDBSyncEntity sample_env (Some sample_bookmark) None ''chain'' 0 = (Return (Inr d), 1)"
    and "ClientID d = ''chain''" and "DataType d = Some 32904" and "Mtime d = Some 1700000000000"
    and "ExpirationTime d = None" and "ClientDefinedUniqueTag d = None"
  shows "\<exists>rsp s'. handleGetUpdatesRequest sqlite memory_redis sample_env (Some (sample_gu [32904]))
      empty_GetUpdatesResponse ''chain'' (sys_of (committed_store d)) = Some (Return (rsp, (Some SyncEnums_SUCCESS, None)), s') \<and>
    length (gur_Entries rsp) = 1 \<and> ChangesRemaining rsp = Some 0"
  using length_put_varint(2) [of 0]
  by (simp add: handleGetUpdatesRequest_def sample_gu_def Let_def gu_marker_def start_marker_def
      nigoriTypeID_def sys_of_def empty_GetUpdatesResponse_def on_db_def committed_query [OF assms(2-6)]
      finish_marker_def committed_form [OF sample_env_ok(1) assms(1)] assms(4) set_marker_token_def
      marker_token_def [of "\<lparr>DataTypeId = _, Token = _, GetUpdateTriggers = _, GcDirective = _\<rparr>"]
      on_kv_def SetTypeMtime_def mem_Set_def cache_ttl_def)

lemma committed_entity_downloaded_witness:
  "\<exists>d rsp s'. handleGetUpdatesRequest sqlite memory_redis sample_env (Some (sample_gu [32904]))
      empty_GetUpdatesResponse ''chain'' (sys_of (committed_store d)) = Some (Return (rsp, (Some SyncEnums_SUCCESS, None)), s') \<and>
    gur_Entries rsp = [downloaded sample_bookmark (entity_to_commit Map.empty d)]"
proof -
  obtain d where d: "CreateDBSyncEntity sample_env (Some sample_bookmark) None ''chain'' (seq (sys_of (initSchema None)))
      = (Return (Inr d), 1)" "ID d = ''item-1''" "ClientID d = ''chain''" "DataType d = Some 32904"
      "ClientDefinedUniqueTag d = None" "Mtime d = Some 1700000000000" "ExpirationTime d = None"
    using sample_entity by (auto simp: sys_of_def)
  obtain l' s1 where run: "commit_entry sqlite memory_redis sample_env ''chain'' sample_quota None 0 (Some sample_bookmark)
      sample_loop (sys_of (initSchema None)) = (Return (l', None), s1)"
    by (simp add: conversion_run commit_run initSchema_def)
  have free: "keys_free (entity_to_commit (idMap sample_loop) d) (db (sys_of (initSchema None)))"
    using d by (simp add: keys_free_def sys_of_def initSchema_def find_row_def client_tag_def)
  have plain: "plain_type (DataType d)" by (simp add: d(4) sample_plain)
  have "db s1 = with_entity (entity_to_commit (idMap sample_loop) d) (unix_milli sample_env (Suc 1)) (initSchema None)"
    using commit_entry_creates(2) [OF sample_no_faults d(1) sample_bookmark_version plain sample_counts
      sample_loop_length run] free by (simp add: sys_of_def)
  then have db1: "db s1 = with_entity (entity_to_commit Map.empty d) 1700000000001 (initSchema None)"
    using d(5) by (simp add: with_entity_def client_tag_def sample_loop_def)
  have "sql_DisableSyncChain sample_env ''other'' (db s1) 0 = (None, committed_store d, Suc (Suc 0))"
    by (simp add: sql_DisableSyncChain_def stmt_def db1 committed_store_def)
  from step_disable [OF this] have between: "db_run [''other''] (db s1) (db (sys_of (committed_store d)))"
    by (simp add: db_run_Cons sys_of_def)
  obtain rsp s' where down: "handleGetUpdatesRequest sqlite memory_redis sample_env (Some (sample_gu [32904]))
      empty_GetUpdatesResponse ''chain'' (sys_of (committed_store d)) = Some (Return (rsp, (Some SyncEnums_SUCCESS, None)), s')"
    and rest: "length (gur_Entries rsp) = 1" "ChangesRemaining rsp = Some 0"
    using committed_download [OF _ d(3,4,6,7,5)] d(1) by (auto simp: sys_of_def)
  have inv: "store_inv (db (sys_of (initSchema None)))" using store_inv_init by (simp add: sys_of_def)
  have "downloaded sample_bookmark (entity_to_commit (idMap sample_loop) d) \<in> set (gur_Entries rsp)"
    by (rule committed_entity_downloaded [OF sample_no_faults sample_env_ok(1) _ inv d(1) sample_bookmark_version plain
          sample_counts sample_loop_length run free between _ down, where ms = "[sample_marker 32904]" and m = "sample_marker 32904"])
      (simp_all add: rest d)
  then have "gur_Entries rsp = [downloaded sample_bookmark (entity_to_commit Map.empty d)]"
    using rest(1) by (auto simp: length_Suc_conv sample_loop_def)
  with down show ?thesis by blast
qed

end
